(* ===== verification/Prelude.thy ===== *)
theory Prelude
  imports Main "HOL-Library.State_Monad" "HOL-Library.Word" "HOL-Library.Sublist"
begin

text \<open>
  Generic material shared by every component: the effect monad and its trace logic, Go's
  byte strings (\<^verbatim>\<open>strings.Contains\<close>, \<^verbatim>\<open>strings.ToLower\<close>, decimal printing), and the
  \<^verbatim>\<open>for ... range\<close> loop that appends errors to a slice.

  Effects. Every call that leaves the program is an event, and the state of the monad is the
  history of events so far. An operation that asks the outside world (an API server, a DNS
  server, the clock) takes the answer from an environment function applied to the history, so
  that nothing is assumed about the answers; the answer is part of the event.
  \<open>emits m Q\<close> is the weakest precondition of the trace logic: from every history, \<open>m\<close>
  only appends events, and its result and the appended events satisfy \<open>Q\<close>.
\<close>

named_theorems emits_intros \<open>weakest-precondition rules of the trace logic\<close>
named_theorems performs_intros \<open>rules for \<open>performs\<close>, which events an operation may append\<close>
named_theorems trace_simps \<open>how the projections of a trace distribute over its events\<close>

section \<open>The trace logic\<close>

definition emits :: "('e list, 'a) state \<Rightarrow> ('a \<Rightarrow> 'e list \<Rightarrow> bool) \<Rightarrow> bool" where
  "emits m Q \<longleftrightarrow> (\<forall>h. \<exists>r es. run_state m h = (r, h @ es) \<and> Q r es)"

definition emit :: "'e \<Rightarrow> ('e list, unit) state" where
  "emit e = State (\<lambda>h. ((), h @ [e]))"

text \<open>Ask the environment, record the question with its answer, return the answer.\<close>

definition ask :: "('e list \<Rightarrow> 'r) \<Rightarrow> ('r \<Rightarrow> 'e) \<Rightarrow> ('e list, 'r) state" where
  "ask oracle ev = State (\<lambda>h. (oracle h, h @ [ev (oracle h)]))"

lemma run_emit [simp]: "run_state (emit e) h = ((), h @ [e])"
  by (simp add: emit_def)

lemma run_ask [simp]: "run_state (ask q ev) h = (q h, h @ [ev (q h)])"
  by (simp add: ask_def)

lemma emits_return [simp]: "emits (State_Monad.return x) Q \<longleftrightarrow> Q x []"
  by (simp add: emits_def)

lemma emits_emit [simp]: "emits (emit e) Q \<longleftrightarrow> Q () [e]"
  by (simp add: emits_def)

lemma emits_ask [emits_intros]: "(\<And>r. Q r [ev r]) \<Longrightarrow> emits (ask q ev) Q"
  by (simp add: emits_def)

lemma emits_bind [emits_intros]:
  assumes "emits m (\<lambda>a es. emits (f a) (\<lambda>b es'. Q b (es @ es')))"
  shows "emits (State_Monad.bind m f) Q"
  unfolding emits_def
proof
  fix h
  from assms obtain a es where "run_state m h = (a, h @ es)"
    and "emits (f a) (\<lambda>b es'. Q b (es @ es'))"
    unfolding emits_def by blast
  moreover from this(2) obtain b es' where "run_state (f a) (h @ es) = (b, (h @ es) @ es')"
    and "Q b (es @ es')"
    unfolding emits_def by blast
  ultimately show "\<exists>r es. run_state (State_Monad.bind m f) h = (r, h @ es) \<and> Q r es"
    by auto
qed

lemma emits_conseq: "emits m P \<Longrightarrow> (\<And>r es. P r es \<Longrightarrow> Q r es) \<Longrightarrow> emits m Q"
  unfolding emits_def by blast

lemma emits_conj: "emits m P \<Longrightarrow> emits m Q \<Longrightarrow> emits m (\<lambda>r es. P r es \<and> Q r es)"
  unfolding emits_def by (metis Pair_inject same_append_eq)

lemma emits_if [emits_intros]:
  "(b \<Longrightarrow> emits m Q) \<Longrightarrow> (\<not> b \<Longrightarrow> emits n Q) \<Longrightarrow> emits (if b then m else n) Q"
  by simp

lemma emits_case_sum [emits_intros]:
  "(\<And>e. x = Inl e \<Longrightarrow> emits (f e) Q) \<Longrightarrow> (\<And>v. x = Inr v \<Longrightarrow> emits (g v) Q)
    \<Longrightarrow> emits (case x of Inl e \<Rightarrow> f e | Inr v \<Rightarrow> g v) Q"
  by (cases x) auto

lemma emits_case_option [emits_intros]:
  "(x = None \<Longrightarrow> emits m Q) \<Longrightarrow> (\<And>v. x = Some v \<Longrightarrow> emits (f v) Q)
    \<Longrightarrow> emits (case x of None \<Rightarrow> m | Some v \<Rightarrow> f v) Q"
  by (cases x) auto

text \<open>What a run does, from a contract: the events it appends and its result.\<close>

definition appended :: "('e list, 'a) state \<Rightarrow> 'e list \<Rightarrow> 'e list" where
  "appended m h = drop (length h) (snd (run_state m h))"

definition outcome :: "('e list, 'a) state \<Rightarrow> 'e list \<Rightarrow> 'a" where
  "outcome m h = fst (run_state m h)"

lemma emits_run: "emits m Q \<Longrightarrow> Q (outcome m h) (appended m h)"
  unfolding emits_def outcome_def appended_def
  by (metis append_eq_conv_conj fst_conv snd_conv)

lemma emits_history: "emits m Q \<Longrightarrow> snd (run_state m h) = h @ appended m h"
  unfolding emits_def appended_def by (metis append_eq_conv_conj snd_conv)

section \<open>The error-collecting loop\<close>

text \<open>
  \<^verbatim>\<open>for _, x := range xs { if err := body(x); err != nil { errs = append(errs, err) } }\<close>
\<close>

primrec for_collect :: "('a \<Rightarrow> ('e list, 'err option) state) \<Rightarrow> 'a list \<Rightarrow> ('e list, 'err list) state" where
  "for_collect body [] = State_Monad.return []"
| "for_collect body (x # xs) = do {
     e \<leftarrow> body x;
     errs \<leftarrow> for_collect body xs;
     State_Monad.return (case e of None \<Rightarrow> errs | Some err \<Rightarrow> err # errs) }"

text \<open>
  The loop runs the body once per element, in order: its events are the bodies' events in
  sequence and its errors the bodies' errors in sequence.
\<close>

lemma emits_for_collect:
  assumes "\<And>x. emits (body x) (R x)"
  shows "emits (for_collect body xs)
    (\<lambda>errs es. \<exists>runs. length runs = length xs
       \<and> list_all2 (\<lambda>x (e, tr). R x e tr) xs runs
       \<and> es = concat (map snd runs) \<and> errs = [err. (Some err, _) \<leftarrow> runs])"
proof (induction xs)
  case Nil
  show ?case by simp
next
  case (Cons x xs)
  show ?case
    unfolding for_collect.simps
  proof (intro emits_bind emits_conseq [OF assms] emits_conseq [OF Cons.IH])
    fix e tr errs es
    assume e: "R x e tr" and "\<exists>runs. length runs = length xs
       \<and> list_all2 (\<lambda>x (e, tr). R x e tr) xs runs
       \<and> es = concat (map snd runs) \<and> errs = [err. (Some err, _) \<leftarrow> runs]"
    then obtain runs where "length runs = length xs"
      "list_all2 (\<lambda>x (e, tr). R x e tr) xs runs" "es = concat (map snd runs)"
      "errs = [err. (Some err, _) \<leftarrow> runs]" by blast
    with e show "emits (State_Monad.return (case e of None \<Rightarrow> errs | Some err \<Rightarrow> err # errs))
      (\<lambda>errs' es'. \<exists>runs. length runs = length (x # xs)
         \<and> list_all2 (\<lambda>x (e, tr). R x e tr) (x # xs) runs
         \<and> tr @ es @ es' = concat (map snd runs) \<and> errs' = [err. (Some err, _) \<leftarrow> runs])"
      by (auto split: option.splits intro!: exI [of _ "(e, tr) # runs"])
  qed
qed

section \<open>The loop with an early return\<close>

text \<open>
  \<^verbatim>\<open>for _, x := range xs { ... return r ... }\<close>: the body answers \<open>Some r\<close> to return \<open>r\<close>
  from the enclosing function, \<open>None\<close> to go on.
\<close>

primrec for_until :: "('a \<Rightarrow> ('e list, 'r option) state) \<Rightarrow> 'a list \<Rightarrow> ('e list, 'r option) state" where
  "for_until body [] = State_Monad.return None"
| "for_until body (x # xs) = do {
     r \<leftarrow> body x;
     case r of None \<Rightarrow> for_until body xs | Some v \<Rightarrow> State_Monad.return (Some v) }"

text \<open>
  \<open>until_run R xs r es\<close>: the bodies ran on a prefix of \<open>xs\<close>, each as \<open>R\<close> says; all of
  \<open>xs\<close> if nothing was returned, up to and including the element that returned otherwise.
\<close>

inductive until_run :: "('a \<Rightarrow> 'r option \<Rightarrow> 'e list \<Rightarrow> bool) \<Rightarrow> 'a list \<Rightarrow> 'r option \<Rightarrow> 'e list \<Rightarrow> bool"
  for R
where
  until_done: "until_run R [] None []"
| until_stop: "R x (Some r) es \<Longrightarrow> until_run R (x # xs) (Some r) es"
| until_step: "R x None es \<Longrightarrow> until_run R xs r es' \<Longrightarrow> until_run R (x # xs) r (es @ es')"

inductive_cases until_run_NilE: "until_run R [] r es"

lemma emits_for_until:
  assumes "\<And>x. emits (body x) (R x)"
  shows "emits (for_until body xs) (until_run R xs)"
proof (induction xs)
  case Nil
  show ?case by (simp add: until_done)
next
  case (Cons x xs)
  show ?case
    unfolding for_until.simps
    by (rule emits_bind, rule emits_conseq [OF assms], rule emits_case_option,
        rule emits_conseq [OF Cons.IH]) (auto intro: until_run.intros)
qed

text \<open>Every body up to the end ran without returning.\<close>

lemma until_run_None: "until_run R xs None es \<Longrightarrow> \<exists>trs. list_all2 (\<lambda>x tr. R x None tr) xs trs \<and> es = concat trs"
proof (induction xs arbitrary: es)
  case Nil
  then show ?case by (auto elim: until_run_NilE)
next
  case (Cons x xs)
  from Cons.prems show ?case
  proof (cases rule: until_run.cases)
    case (until_step tr es')
    with Cons.IH obtain trs where "list_all2 (\<lambda>x tr. R x None tr) xs trs" "es' = concat trs" by blast
    with until_step show ?thesis by (intro exI [of _ "tr # trs"]) simp
  qed
qed

text \<open>The body returned at the first element that made it.\<close>

lemma until_run_Some:
  "until_run R xs (Some r) es \<Longrightarrow> \<exists>ys y zs trs tr. xs = ys @ y # zs
     \<and> list_all2 (\<lambda>x tr. R x None tr) ys trs \<and> R y (Some r) tr \<and> es = concat trs @ tr"
proof (induction xs arbitrary: es)
  case Nil
  then show ?case by (auto elim: until_run_NilE)
next
  case (Cons x xs)
  from Cons.prems show ?case
  proof (cases rule: until_run.cases)
    case until_stop
    then show ?thesis by (intro exI [of _ "[]"]) auto
  next
    case (until_step tr es')
    with Cons.IH obtain ys y zs trs tr' where "xs = ys @ y # zs"
      "list_all2 (\<lambda>x tr. R x None tr) ys trs" "R y (Some r) tr'" "es' = concat trs @ tr'" by blast
    with until_step show ?thesis
      by (intro exI [of _ "x # ys"] exI [of _ y] exI [of _ zs] exI [of _ "tr # trs"] exI [of _ tr']) simp
  qed
qed

section \<open>Which events an operation may append\<close>

definition performs :: "('e \<Rightarrow> bool) \<Rightarrow> ('e list, 'a) state \<Rightarrow> bool" where
  "performs P m \<longleftrightarrow> emits m (\<lambda>_ es. list_all P es)"

lemma performs_return [performs_intros]: "performs P (State_Monad.return x)"
  by (simp add: performs_def)

lemma performs_emit [performs_intros]: "P e \<Longrightarrow> performs P (emit e)"
  by (simp add: performs_def)

lemma performs_ask [performs_intros]: "(\<And>r. P (ev r)) \<Longrightarrow> performs P (ask q ev)"
  by (simp add: performs_def emits_def)

lemma performs_bind [performs_intros]:
  assumes "performs P m" "\<And>x. performs P (f x)"
  shows "performs P (State_Monad.bind m f)"
  unfolding performs_def
  by (rule emits_bind, rule emits_conseq [OF assms(1) [unfolded performs_def]],
      rule emits_conseq [OF assms(2) [unfolded performs_def]]) simp

lemma performs_if [performs_intros]:
  "(b \<Longrightarrow> performs P m) \<Longrightarrow> (\<not> b \<Longrightarrow> performs P n) \<Longrightarrow> performs P (if b then m else n)"
  by simp

lemma performs_case_sum [performs_intros]:
  "(\<And>e. x = Inl e \<Longrightarrow> performs P (f e)) \<Longrightarrow> (\<And>v. x = Inr v \<Longrightarrow> performs P (g v))
    \<Longrightarrow> performs P (case x of Inl e \<Rightarrow> f e | Inr v \<Rightarrow> g v)"
  by (cases x) auto

lemma performs_case_option [performs_intros]:
  "(x = None \<Longrightarrow> performs P m) \<Longrightarrow> (\<And>v. x = Some v \<Longrightarrow> performs P (f v))
    \<Longrightarrow> performs P (case x of None \<Rightarrow> m | Some v \<Rightarrow> f v)"
  by (cases x) auto

lemma performs_case_prod [performs_intros]:
  "(\<And>a b. x = (a, b) \<Longrightarrow> performs P (f a b)) \<Longrightarrow> performs P (case x of (a, b) \<Rightarrow> f a b)"
  by (cases x) auto

lemma performs_for_collect [performs_intros]:
  "(\<And>x. performs P (body x)) \<Longrightarrow> performs P (for_collect body xs)"
  by (induction xs) (auto intro: performs_intros)

lemma performs_for_until [performs_intros]:
  "(\<And>x. performs P (body x)) \<Longrightarrow> performs P (for_until body xs)"
  by (induction xs) (auto intro: performs_intros)

lemma performs_conj: "performs P m \<Longrightarrow> performs Q m \<Longrightarrow> performs (\<lambda>e. P e \<and> Q e) m"
  unfolding performs_def by (drule (1) emits_conj, erule emits_conseq) (auto simp: list_all_iff)

lemma performs_mono: "performs P m \<Longrightarrow> (\<And>e. P e \<Longrightarrow> Q e) \<Longrightarrow> performs Q m"
  unfolding performs_def by (erule emits_conseq) (auto simp: list_all_iff)

lemma emits_performs: "emits m Q \<Longrightarrow> performs P m \<Longrightarrow> emits m (\<lambda>r es. Q r es \<and> list_all P es)"
  unfolding performs_def by (rule emits_conj)

section \<open>Sums and association lists\<close>

lemma map_sum_id_Inr [simp]: "map_sum id f x = Inr y \<longleftrightarrow> (\<exists>v. x = Inr v \<and> y = f v)"
  by (cases x) auto

lemma map_sum_id_Inl [simp]: "map_sum id f x = Inl e \<longleftrightarrow> x = Inl e"
  by (cases x) auto

lemma map_of_rev: "distinct (map fst xs) \<Longrightarrow> map_of (rev xs) = map_of xs"
proof (induction xs)
  case Nil
  show ?case by simp
next
  case (Cons x xs)
  then have "map_of xs (fst x) = None" by (auto simp: map_of_eq_None_iff)
  with Cons show ?case by (auto simp: map_add_def split: option.splits)
qed

section \<open>Byte strings\<close>

text \<open>\<^verbatim>\<open>strings.Contains\<close>: some suffix of \<open>s\<close> starts with \<open>sub\<close>.\<close>

fun contains :: "string \<Rightarrow> string \<Rightarrow> bool" where
  "contains [] sub = (sub = [])"
| "contains (c # s) sub = (prefix sub (c # s) \<or> contains s sub)"

lemma contains_iff_sublist: "contains s sub \<longleftrightarrow> sublist sub s"
  by (induction s) (auto simp: sublist_Cons_right)

text \<open>\<^verbatim>\<open>strings.ToLower\<close> on ASCII text.\<close>

definition lower_char :: "char \<Rightarrow> char" where
  "lower_char c = (let n = of_char c :: nat in if 65 \<le> n \<and> n \<le> 90 then char_of (n + 32) else c)"

definition to_lower :: "string \<Rightarrow> string" where
  "to_lower s = map lower_char s"

lemma to_lower_append [simp]: "to_lower (s @ t) = to_lower s @ to_lower t"
  by (simp add: to_lower_def)

lemma length_to_lower [simp]: "length (to_lower s) = length s"
  by (simp add: to_lower_def)

lemma lower_char_idem [simp]: "lower_char (lower_char c) = lower_char c"
proof -
  have "of_char (char_of (of_char c + 32 :: nat) :: char) = (of_char c + 32 :: nat)"
    if "of_char c \<le> (90::nat)"
    using that by (simp add: of_char_of)
  then show ?thesis by (auto simp: lower_char_def Let_def)
qed

lemma to_lower_idem [simp]: "to_lower (to_lower s) = to_lower s"
  by (simp add: to_lower_def)

text \<open>\<^verbatim>\<open>%d\<close>: decimal digits, most significant first.\<close>

fun dec_of_nat :: "nat \<Rightarrow> string" where
  "dec_of_nat n = (if n < 10 then [char_of (48 + n)] else dec_of_nat (n div 10) @ [char_of (48 + n mod 10)])"

declare dec_of_nat.simps [simp del]

definition dec_of_int :: "int \<Rightarrow> string" where
  "dec_of_int i = (if i < 0 then ''-'' @ dec_of_nat (nat (- i)) else dec_of_nat (nat i))"

text \<open>Reading the digits back, which makes the printer injective.\<close>

definition digit_val :: "char \<Rightarrow> nat" where
  "digit_val c = of_char c - 48"

definition nat_of_dec :: "string \<Rightarrow> nat" where
  "nat_of_dec s = foldl (\<lambda>n c. 10 * n + digit_val c) 0 s"

definition is_digit :: "char \<Rightarrow> bool" where
  "is_digit c \<longleftrightarrow> 48 \<le> (of_char c :: nat) \<and> (of_char c :: nat) \<le> 57"

lemma digit_char:
  assumes "n < 10"
  shows "digit_val (char_of (48 + n)) = n" "is_digit (char_of (48 + n))"
  using assms by (simp_all add: digit_val_def is_digit_def of_char_of)

lemma nat_of_dec_of_nat [simp]: "nat_of_dec (dec_of_nat n) = n"
proof (induction n rule: dec_of_nat.induct)
  case (1 n)
  then show ?case
    by (subst dec_of_nat.simps) (auto simp: nat_of_dec_def digit_char)
qed

lemma dec_of_nat_digits: "list_all is_digit (dec_of_nat n)"
proof (induction n rule: dec_of_nat.induct)
  case (1 n)
  then show ?case by (subst dec_of_nat.simps) (auto simp: digit_char)
qed

lemma dec_of_nat_nonempty [simp]: "dec_of_nat n \<noteq> []"
  by (subst dec_of_nat.simps) simp

lemma dec_of_nat_inj [simp]: "dec_of_nat m = dec_of_nat n \<longleftrightarrow> m = n"
  by (metis nat_of_dec_of_nat)

lemma dec_of_nat_not_minus [simp]: "dec_of_nat m \<noteq> ''-'' @ s" "dec_of_nat m \<noteq> CHR ''-'' # s"
proof -
  show "dec_of_nat m \<noteq> CHR ''-'' # s"
    using dec_of_nat_digits [of m] by (auto simp: is_digit_def)
  then show "dec_of_nat m \<noteq> ''-'' @ s" by simp
qed

lemma dec_of_int_inj [simp]: "dec_of_int i = dec_of_int j \<longleftrightarrow> i = j"
proof -
  have "CHR ''-'' # s \<noteq> dec_of_nat m" for s m
    using dec_of_nat_not_minus(2) [of m s] by metis
  then show ?thesis by (auto simp: dec_of_int_def)
qed

text \<open>The digits after the last minus sign of a text determine the rest of it.\<close>

lemma digits_after_minus:
  assumes "list_all is_digit ds" "list_all is_digit ds'"
  shows "xs @ CHR ''-'' # ds = ys @ CHR ''-'' # ds' \<longleftrightarrow> xs = ys \<and> ds = ds'"
proof
  assume eq: "xs @ CHR ''-'' # ds = ys @ CHR ''-'' # ds'"
  have stop: "takeWhile is_digit (rev (zs @ CHR ''-'' # es)) = rev es" if "list_all is_digit es" for zs es
    using that by (subst rev_append, simp, subst takeWhile_append2) (auto simp: list_all_iff is_digit_def)
  from eq have "rev ds = rev ds'" using stop [OF assms(1), of xs] stop [OF assms(2), of ys] by simp
  with eq show "xs = ys \<and> ds = ds'" by simp
qed simp

lemma dec_of_int_after_word:
  assumes "c \<noteq> CHR ''-''"
  shows "xs @ c # CHR ''-'' # dec_of_int i = ys @ c # CHR ''-'' # dec_of_int j \<longleftrightarrow> xs = ys \<and> i = j"
proof -
  have digits: "list_all is_digit (dec_of_nat n)" for n by (rule dec_of_nat_digits)
  have nat: "zs @ CHR ''-'' # dec_of_nat m = zs' @ CHR ''-'' # dec_of_nat n \<longleftrightarrow> zs = zs' \<and> m = n" for zs zs' m n
    by (simp add: digits_after_minus [OF digits digits])
  have same: "(xs @ [c]) @ CHR ''-'' # dec_of_nat m = (ys @ [c]) @ CHR ''-'' # dec_of_nat n \<longleftrightarrow> xs = ys \<and> m = n"
    "(xs @ [c, CHR ''-'']) @ CHR ''-'' # dec_of_nat m = (ys @ [c, CHR ''-'']) @ CHR ''-'' # dec_of_nat n \<longleftrightarrow> xs = ys \<and> m = n"
    "\<not> (xs @ [c]) @ CHR ''-'' # dec_of_nat m = (ys @ [c, CHR ''-'']) @ CHR ''-'' # dec_of_nat n"
    "\<not> (xs @ [c, CHR ''-'']) @ CHR ''-'' # dec_of_nat m = (ys @ [c]) @ CHR ''-'' # dec_of_nat n" for m n
    unfolding nat using assms by (auto simp: append_eq_append_conv2 Cons_eq_append_conv)
  show ?thesis
    using same [of "nat i" "nat j"] same [of "nat (- i)" "nat (- j)"] same [of "nat i" "nat (- j)"] same [of "nat (- i)" "nat j"]
    by (auto simp: dec_of_int_def)
qed

end
