(* ===== verification/GoTime.thy ===== *)
theory GoTime
  imports Prelude
begin

text \<open>
  Go's time types as the source uses them. A \<^verbatim>\<open>time.Duration\<close> (and an \<^verbatim>\<open>int\<close>) is a 64-bit
  two's complement integer, kept as a word: \<open>+\<close>, \<open>-\<close> and \<open>*\<close> wrap, \<open><s\<close> and
  \<open><=s\<close> compare as signed. A \<^verbatim>\<open>time.Time\<close> is its distance to the Unix epoch in nanoseconds,
  which does not wrap. A context is what the program gives to its calls: here the deadline it
  carries.
\<close>

type_synonym duration = "64 word"
type_synonym go_int = "64 word"
type_synonym time = int

abbreviation Nanosecond :: duration where "Nanosecond \<equiv> 1"
abbreviation Microsecond :: duration where "Microsecond \<equiv> 1000"
abbreviation Millisecond :: duration where "Millisecond \<equiv> 1000000"
abbreviation Second :: duration where "Second \<equiv> 1000000000"
abbreviation Minute :: duration where "Minute \<equiv> 60000000000"
abbreviation Hour :: duration where "Hour \<equiv> 3600000000000"

definition min_duration :: duration where "min_duration = word_of_int (- (2 ^ 63))"
definition max_duration :: duration where "max_duration = word_of_int (2 ^ 63 - 1)"

section \<open>Signed 64-bit arithmetic without overflow\<close>

lemma sint64_range: "- (2 ^ 63) \<le> sint (a :: 64 word)" "sint (a :: 64 word) < 2 ^ 63"
  using sint_range_size [of a] by (simp_all add: word_size)

lemma sint_word_of_int64:
  assumes "- (2 ^ 63) \<le> i" "i < 2 ^ 63"
  shows "sint (word_of_int i :: 64 word) = i"
  using assms by (simp add: signed_of_int signed_take_bit_int_eq_self)

lemma sint_add64:
  assumes "- (2 ^ 63) \<le> sint a + sint b" "sint a + sint b < 2 ^ 63"
  shows "sint (a + b :: 64 word) = sint a + sint b"
  using assms by (simp add: sint_word_add signed_take_bit_int_eq_self)

lemma sint_sub64:
  assumes "- (2 ^ 63) \<le> sint a - sint b" "sint a - sint b < 2 ^ 63"
  shows "sint (a - b :: 64 word) = sint a - sint b"
  using assms by (simp add: sint_word_diff signed_take_bit_int_eq_self)

lemma sint_mult64:
  assumes "- (2 ^ 63) \<le> sint a * sint b" "sint a * sint b < 2 ^ 63"
  shows "sint (a * b :: 64 word) = sint a * sint b"
  using assms by (simp add: sint_word_mult signed_take_bit_int_eq_self)

lemma sint_minus64:
  assumes "sint a \<noteq> - (2 ^ 63)"
  shows "sint (- a :: 64 word) = - sint a"
  using assms sint64_range [of a] by (simp add: sint_word_minus signed_take_bit_int_eq_self)

text \<open>A non-negative signed value reads the same as an unsigned one.\<close>

lemma uint_of_nonneg: "0 \<le> sint (a :: 64 word) \<Longrightarrow> uint a = sint a"
  using sint64_range(2) [of a] by (simp add: uint_sint take_bit_int_eq_self)

lemma uint_double:
  assumes "0 \<le> sint (a :: 64 word)"
  shows "uint (a + a) = 2 * sint a"
  using assms sint64_range(2) [of a]
  by (simp add: uint_word_ariths uint_of_nonneg mod_pos_pos_trivial)

section \<open>Instants, differences and rounding\<close>

text \<open>\<^verbatim>\<open>t.Sub(u)\<close>: the exact difference, saturated at the ends of the int64 range.\<close>

definition clamp64 :: "int \<Rightarrow> duration" where
  "clamp64 i = word_of_int (max (- (2 ^ 63)) (min (2 ^ 63 - 1) i))"

definition time_sub :: "time \<Rightarrow> time \<Rightarrow> duration" where
  "time_sub t u = clamp64 (t - u)"

lemma sint_clamp64: "sint (clamp64 i) = max (- (2 ^ 63)) (min (2 ^ 63 - 1) i)"
  unfolding clamp64_def by (rule sint_word_of_int64) auto

lemma clamp64_gt: "(d <s clamp64 i) \<longleftrightarrow> sint d < i \<and> sint d < 2 ^ 63 - 1"
  using sint64_range [of d] by (auto simp: word_sless_alt sint_clamp64)

text \<open>The truncated remainder \<^verbatim>\<open>a % b\<close> (it has the sign of \<open>a\<close>).\<close>

definition go_rem :: "go_int \<Rightarrow> go_int \<Rightarrow> go_int" where
  "go_rem a b = word_of_int (sgn (sint a) * (\<bar>sint a\<bar> mod \<bar>sint b\<bar>))"

text \<open>\<^verbatim>\<open>lessThanHalf\<close> of package \<^verbatim>\<open>time\<close>: unsigned, so doubling cannot overflow.\<close>

definition less_than_half :: "duration \<Rightarrow> duration \<Rightarrow> bool" where
  "less_than_half x y \<longleftrightarrow> x + x < y"

text \<open>\<^verbatim>\<open>Duration.Round\<close>: to the nearest multiple of \<open>m\<close>, halves away from zero, saturating.\<close>

definition Duration_Round :: "duration \<Rightarrow> duration \<Rightarrow> duration" where
  "Duration_Round d m =
     (if m <=s 0 then d
      else if d <s 0 then
        (let r = - go_rem d m in
         if less_than_half r m then d + r
         else let d1 = d - m + r in if d1 <s d then d1 else min_duration)
      else
        (let r = go_rem d m in
         if less_than_half r m then d - r
         else let d1 = d + m - r in if d <s d1 then d1 else max_duration))"

text \<open>The same rounding on unbounded integers.\<close>

definition round_half_away :: "int \<Rightarrow> int \<Rightarrow> int" where
  "round_half_away d m = sgn d * ((2 * \<bar>d\<bar> + m) div (2 * m) * m)"

lemma round_half_away_split:
  fixes d m :: int
  assumes "0 < m" and "0 \<le> d"
  shows "(2 * d + m) div (2 * m) * m = (if 2 * (d mod m) < m then d - d mod m else d + m - d mod m)"
proof -
  define q r where "q = d div m" and "r = d mod m"
  have d: "d = q * m + r" unfolding q_def r_def by (rule div_mult_mod_eq [symmetric])
  have r: "0 \<le> r" "r < m" using assms by (simp_all add: r_def)
  have num: "2 * d + m = q * (2 * m) + (2 * r + m)" by (simp add: d algebra_simps)
  have "(2 * d + m) div (2 * m) = q + (2 * r + m) div (2 * m)"
    using assms unfolding num by simp
  moreover have "(2 * r + m) div (2 * m) = (if 2 * r < m then 0 else 1)"
  proof (cases "2 * r < m")
    case True
    then show ?thesis using r by (simp add: div_pos_pos_trivial)
  next
    case False
    then have "(2 * r + m) div (2 * m) = (2 * r - m + 2 * m * 1) div (2 * m)" by (simp add: algebra_simps)
    also have "\<dots> = 1" using False r by (subst div_mult_self2) (auto simp: div_pos_pos_trivial)
    finally show ?thesis using False by simp
  qed
  ultimately show ?thesis
    unfolding r_def [symmetric] using d by (auto simp: algebra_simps)
qed

lemma sint_go_rem:
  "0 < sint m \<Longrightarrow> sint (go_rem d m) = sgn (sint d) * (\<bar>sint d\<bar> mod sint m)"
  unfolding go_rem_def
proof (subst sint_word_of_int64)
  assume m: "0 < sint m"
  have "\<bar>sgn (sint d) * (\<bar>sint d\<bar> mod sint m)\<bar> \<le> \<bar>sint d\<bar> mod sint m"
    using m by (simp add: abs_mult abs_sgn_eq)
  also have "\<dots> < sint m" using m by simp
  finally show "- (2 ^ 63) \<le> sgn (sint d) * (\<bar>sint d\<bar> mod \<bar>sint m\<bar>)"
    "sgn (sint d) * (\<bar>sint d\<bar> mod \<bar>sint m\<bar>) < 2 ^ 63"
    using m sint64_range(2) [of m] by auto
qed simp

lemma less_than_half_iff:
  "0 \<le> sint r \<Longrightarrow> 0 \<le> sint m \<Longrightarrow> less_than_half r m \<longleftrightarrow> 2 * sint r < sint m"
  unfolding less_than_half_def word_less_def by (simp only: uint_double uint_of_nonneg)

text \<open>
  As long as the rounded value fits (the distance of \<open>d\<close> to the ends of the range is at
  least \<open>m\<close>), \<^verbatim>\<open>Duration.Round\<close> is rounding to the nearest multiple.
\<close>

lemma sint_Duration_Round:
  assumes m: "0 < sint m" and fits: "\<bar>sint d\<bar> + sint m < 2 ^ 63"
  shows "sint (Duration_Round d m) = round_half_away (sint d) (sint m)"
proof -
  define r where "r = \<bar>sint d\<bar> mod sint m"
  have r: "0 \<le> r" "r < sint m" "r \<le> \<bar>sint d\<bar>"
    using m by (simp_all add: r_def zmod_le_nonneg_dividend)
  note split = round_half_away_split [OF m abs_ge_zero, of "sint d", folded r_def]
  show ?thesis
  proof (cases "sint d < 0")
    case True
    have rem: "sint (go_rem d m) = - r"
      using True sint_go_rem [OF m] by (simp add: r_def)
    have neg: "sint (- go_rem d m) = r"
      using rem r sint64_range(2) [of m] by (subst sint_minus64) auto
    have plus: "sint (d + - go_rem d m) = sint d + r"
      using neg r True sint64_range [of d] by (subst sint_add64) auto
    have dm: "sint (d - m) = sint d - sint m"
      using fits True m by (subst sint_sub64) auto
    have "sint (d - m + - go_rem d m) = sint d - sint m + r"
      using neg dm r fits True by (subst sint_add64) auto
    then show ?thesis
      using True m r neg plus split less_than_half_iff [of "- go_rem d m" m]
      by (auto simp: Duration_Round_def Let_def word_sle_eq word_sless_alt round_half_away_def)
  next
    case False
    have rem: "sint (go_rem d m) = r"
      using False m sint_go_rem [OF m] by (cases "sint d = 0") (auto simp: r_def)
    have minus: "sint (d - go_rem d m) = sint d - r"
      using rem r False sint64_range [of d] by (subst sint_sub64) auto
    have dm: "sint (d + m) = sint d + sint m"
      using fits False m by (subst sint_add64) auto
    have "sint (d + m - go_rem d m) = sint d + sint m - r"
      using rem dm r fits False by (subst sint_sub64) auto
    then show ?thesis
      using False m r rem minus split less_than_half_iff [of "go_rem d m" m]
      by (cases "sint d = 0")
        (auto simp: Duration_Round_def Let_def word_sle_eq word_sless_alt round_half_away_def)
  qed
qed

section \<open>Timestamps\<close>

text \<open>
  \<^verbatim>\<open>t.UnixNano()\<close> and \<^verbatim>\<open>t.Unix()\<close>: an int64 number of nanoseconds, which wraps, or of whole seconds.
\<close>

definition UnixNano :: "time \<Rightarrow> go_int" where
  "UnixNano t = word_of_int t"

definition Unix :: "time \<Rightarrow> go_int" where
  "Unix t = word_of_int (t div 1000000000)"

section \<open>Contexts\<close>

text \<open>
  A context's deadline. \<open>Never\<close> is above every instant, so that the derived context of
  \<^verbatim>\<open>context.WithTimeout\<close>, whose deadline is never later than its parent's, is a minimum.
\<close>

datatype gctx = At time | Never

instantiation gctx :: linorder
begin

fun less_eq_gctx :: "gctx \<Rightarrow> gctx \<Rightarrow> bool" where
  "less_eq_gctx c Never = True"
| "less_eq_gctx Never (At t) = False"
| "less_eq_gctx (At s) (At t) = (s \<le> t)"

definition less_gctx :: "gctx \<Rightarrow> gctx \<Rightarrow> bool" where
  "less_gctx c d \<longleftrightarrow> c \<le> d \<and> \<not> d \<le> c"

instance
proof
  fix x y z :: gctx
  show "x < y \<longleftrightarrow> x \<le> y \<and> \<not> y \<le> x" by (rule less_gctx_def)
  show "x \<le> x" by (cases x) auto
  show "x \<le> y \<Longrightarrow> y \<le> z \<Longrightarrow> x \<le> z" by (cases x; cases y; cases z) auto
  show "x \<le> y \<Longrightarrow> y \<le> x \<Longrightarrow> x = y" by (cases x; cases y) auto
  show "x \<le> y \<or> y \<le> x" by (cases x; cases y) auto
qed

end

text \<open>\<^verbatim>\<open>context.WithTimeout(parent, d)\<close> at instant \<open>t\<close>.\<close>

definition deadline_after :: "gctx \<Rightarrow> time \<Rightarrow> duration \<Rightarrow> gctx" where
  "deadline_after parent t d = min parent (At (t + sint d))"

lemma deadline_after_le [simp]:
  "deadline_after parent t d \<le> parent" "deadline_after parent t d \<le> At (t + sint d)"
  by (simp_all add: deadline_after_def)

lemma deadline_after_Never [simp]: "deadline_after Never t d = At (t + sint d)"
  by (simp add: deadline_after_def min_def)

end
