(* ===== verification/GoErrors.thy ===== *)
theory GoErrors
  imports GoTime
begin

text \<open>
  Go errors as values. A function returning \<^verbatim>\<open>(T, error)\<close> is modelled by a value of
  \<open>gerror + 'a\<close>, one returning \<^verbatim>\<open>error\<close> by a \<open>gerror option\<close> (\<open>None\<close> is
  \<^verbatim>\<open>nil\<close>). Formatting is kept symbolic: an error made by \<^verbatim>\<open>fmt.Errorf\<close> is its format string
  with its arguments, so that nothing depends on how the text is rendered.
\<close>

text \<open>
  An error returned by a library: its text, and what \<^verbatim>\<open>errors.Is(err, context.DeadlineExceeded)\<close>
  and \<^verbatim>\<open>apierrors.IsNotFound(err)\<close> answer on it.
\<close>

record api_error =
  err_text :: string
  err_deadline :: bool
  err_not_found :: bool

text \<open>The package-level error variables that the source compares against or returns.\<close>

datatype sentinel = ErrSkipChecker | ErrServiceNotReady | ErrPodsNotReady | DeadlineExceeded | Canceled

datatype fmt_arg = ArgStr string | ArgInt int | ArgDur duration | ArgApiErr api_error

datatype gerror =
    Sentinel sentinel
  | ApiErr api_error
  | Errorf string "fmt_arg list"              \<comment> \<open>\<^verbatim>\<open>fmt.Errorf\<close> without \<^verbatim>\<open>%w\<close>\<close>
  | Wrapf string "fmt_arg list" gerror        \<comment> \<open>\<^verbatim>\<open>fmt.Errorf\<close> whose last verb is \<^verbatim>\<open>%w\<close>\<close>
  | Joined "gerror list"                      \<comment> \<open>\<^verbatim>\<open>errors.Join\<close> of non-nil errors\<close>

text \<open>\<^verbatim>\<open>errors.Is\<close>: the error itself, or one it wraps, is the target.\<close>

fun errors_is :: "gerror \<Rightarrow> sentinel \<Rightarrow> bool" where
  "errors_is (Sentinel s) t \<longleftrightarrow> s = t"
| "errors_is (ApiErr e) t \<longleftrightarrow> t = DeadlineExceeded \<and> err_deadline e"
| "errors_is (Errorf _ _) t \<longleftrightarrow> False"
| "errors_is (Wrapf _ _ e) t \<longleftrightarrow> errors_is e t"
| "errors_is (Joined es) t \<longleftrightarrow> list_ex (\<lambda>e. errors_is e t) es"

text \<open>\<^verbatim>\<open>errors.Join(errs...)\<close>: nil when there is nothing to join.\<close>

definition errors_join :: "gerror list \<Rightarrow> gerror option" where
  "errors_join errs = (if errs = [] then None else Some (Joined errs))"

lemma errors_join_None [simp]: "errors_join errs = None \<longleftrightarrow> errs = []"
  by (simp add: errors_join_def)

lemma errors_join_Some [simp]: "errors_join errs = Some e \<longleftrightarrow> errs \<noteq> [] \<and> e = Joined errs"
  by (auto simp: errors_join_def)

text \<open>\<^verbatim>\<open>if err != nil { errs = append(errs, fmt.Errorf(format, args..., err)) }\<close>\<close>

definition append_wrapped :: "string \<Rightarrow> fmt_arg list \<Rightarrow> gerror option \<Rightarrow> gerror list" where
  "append_wrapped fmt args err = (case err of None \<Rightarrow> [] | Some e \<Rightarrow> [Wrapf fmt args e])"

text \<open>\<^verbatim>\<open>if cond { errs = append(errs, err) }\<close>\<close>

definition append_if :: "bool \<Rightarrow> gerror \<Rightarrow> gerror list" where
  "append_if c e = (if c then [e] else [])"

lemma append_if_Nil [simp]: "append_if c e = [] \<longleftrightarrow> \<not> c"
  by (simp add: append_if_def)

lemma append_wrapped_Nil [simp]: "append_wrapped f a err = [] \<longleftrightarrow> err = None"
  by (simp add: append_wrapped_def split: option.splits)

text \<open>
  \<^verbatim>\<open>if err != nil && !apierrors.IsNotFound(err)\<close>: the failures of a delete that the source
  reports; an object that is already gone is not one.
\<close>

definition delete_failure :: "api_error option \<Rightarrow> api_error option" where
  "delete_failure res = (case res of None \<Rightarrow> None | Some e \<Rightarrow> if err_not_found e then None else Some e)"

lemma delete_failure_simps [simp]:
  "delete_failure None = None"
  "delete_failure (Some e) = (if err_not_found e then None else Some e)"
  by (simp_all add: delete_failure_def)

end
