(* ===== verification/Kubernetes.thy ===== *)
theory Kubernetes
  imports GoErrors
begin

text \<open>
  The world outside the program: the objects it exchanges with the Kubernetes API (the fields
  the source sets or reads), the events of a history, and the environment, a record of
  functions that answer each call from the history so far. The environment is a parameter of
  every operation. Nothing is assumed about it here: a theorem without a hypothesis on the
  environment holds whatever the API server, the DNS servers and the clock do, and whatever other
  programs do to the cluster.
\<close>

section \<open>Objects\<close>

type_synonym labels = "(string \<times> string) list"

record object_meta =
  om_name :: string
  om_namespace :: string
  om_labels :: labels
  om_created :: time

text \<open>The zero \<^verbatim>\<open>time.Time\<close> (year 1), the creation timestamp of an object not yet created.\<close>

definition zero_time :: time where "zero_time = - 62135596800000000000"

definition new_meta :: "string \<Rightarrow> string \<Rightarrow> labels \<Rightarrow> object_meta" where
  "new_meta n ns ls = \<lparr>om_name = n, om_namespace = ns, om_labels = ls, om_created = zero_time\<rparr>"

lemma new_meta_simps [simp]:
  "om_name (new_meta n ns ls) = n" "om_namespace (new_meta n ns ls) = ns"
  "om_labels (new_meta n ns ls) = ls" "om_created (new_meta n ns ls) = zero_time"
  by (simp_all add: new_meta_def)

record type_meta =
  tm_kind :: string
  tm_api_version :: string

record configmap =
  cm_meta :: object_meta

record volume =
  vol_name :: string
  vol_claim_name :: string

record volume_mount =
  vm_name :: string
  vm_mount_path :: string

record container =
  ctr_name :: string
  ctr_image :: string
  ctr_ports :: "(int \<times> string) list"
  ctr_volume_mounts :: "volume_mount list"

record toleration =
  tol_key :: string
  tol_operator :: string
  tol_effect :: string

record node_selector_requirement =
  nsr_key :: string
  nsr_operator :: string
  nsr_values :: "string list"

record pod_spec =
  ps_containers :: "container list"
  ps_tolerations :: "toleration list"
  ps_node_affinity_terms :: "node_selector_requirement list list"
  ps_volumes :: "volume list"
  ps_node_selector :: labels
  ps_restart_policy :: string

text \<open>A container status: when the container started running, if it is running.\<close>

record container_status =
  cs_running_started_at :: "time option"

record pod_status =
  pst_container_statuses :: "container_status list"
  pst_pod_ip :: string

record pod =
  pod_meta :: object_meta
  pod_spec_of :: pod_spec
  pod_status_of :: pod_status

definition no_status :: pod_status where
  "no_status = \<lparr>pst_container_statuses = [], pst_pod_ip = []\<rparr>"

record persistent_volume_claim =
  pvc_type :: type_meta
  pvc_meta :: object_meta
  pvc_access_modes :: "string list"
  pvc_storage_class :: "string option"
  pvc_storage_request :: string

record storage_class =
  sc_type :: type_meta
  sc_meta :: object_meta
  sc_provisioner :: string
  sc_allow_expansion :: "bool option"
  sc_reclaim_policy :: "string option"
  sc_binding_mode :: "string option"
  sc_mount_options :: "string list"
  sc_parameters :: labels

record service =
  svc_cluster_ip :: string

record endpoint =
  ep_addresses :: "string list"
  ep_ready :: "bool option"
  ep_target_ref_name :: "string option"
  ep_node_name :: "string option"

record endpoint_slice =
  es_endpoints :: "endpoint list"

record k8s_event =
  ev_message :: string

record node_pool =
  np_type :: type_meta
  np_meta :: object_meta
  np_node_class :: "string \<times> string \<times> string"
  np_requirements :: "node_selector_requirement list"

text \<open>
  An \<^verbatim>\<open>unstructured\<close> NodePool of a listing: what \<^verbatim>\<open>unstructured.NestedString\<close> answers for its
  \<^verbatim>\<open>metadata.name\<close>: an error, no such field, or the name.
\<close>

record unstructured =
  un_nested_name :: "api_error + string option"

text \<open>How a list request selects objects.\<close>

datatype list_options =
    SelectorFromSet labels    \<comment> \<open>\<^verbatim>\<open>labels.SelectorFromSet(...).String()\<close> as label selector\<close>
  | LabelSelector string
  | FieldSelector string
  | NoSelector

datatype resource =
    ConfigMaps | Pods | PersistentVolumeClaims | StorageClasses | Services | EndpointSlices
  | Events | NodePools | CustomResourceDefinitions | NodeMetricses

datatype object =
    ConfigMapObj configmap
  | PodObj pod
  | PVCObj persistent_volume_claim
  | StorageClassObj storage_class
  | ServiceObj service
  | EndpointSliceObj endpoint_slice
  | EventObj k8s_event
  | NodePoolObj node_pool
  | UnstructuredObj unstructured

text \<open>The metadata of an object; the source reads none from the last four kinds.\<close>

fun obj_meta :: "object \<Rightarrow> object_meta" where
  "obj_meta (ConfigMapObj ob) = cm_meta ob"
| "obj_meta (PodObj ob) = pod_meta ob"
| "obj_meta (PVCObj ob) = pvc_meta ob"
| "obj_meta (StorageClassObj ob) = sc_meta ob"
| "obj_meta (NodePoolObj ob) = np_meta ob"
| "obj_meta _ = new_meta [] [] []"

abbreviation object_name :: "object \<Rightarrow> string" where
  "object_name ob \<equiv> om_name (obj_meta ob)"

section \<open>Events and the environment\<close>

text \<open>The counters of the metrics package, with the label values of an increment.\<close>

datatype counter = CheckerResultCounter | CoreDNSPodResultCounter

datatype event =
    EvNow time
  | EvList resource gctx string list_options "api_error + object list"
  | EvCreate resource gctx string bool object "api_error + object"    \<comment> \<open>the flag: dry run\<close>
  | EvGet resource gctx string string "api_error + object option"
  | EvDelete resource gctx string string "api_error option"
  | EvLookup gctx string string "api_error + string list"
  | EvDial gctx string string "api_error option"
  | EvPoll gctx duration nat api_error
  | EvAddKnownTypes string string                \<comment> \<open>group and version registered in the global scheme\<close>
  | EvConvert node_pool "api_error option"
  | EvSetup string "api_error option"          \<comment> \<open>client configuration and construction\<close>
  | EvResolvConf string "api_error + string list"
  | EvWarnings "(int \<times> string \<times> string) list"    \<comment> \<open>warning headers of the preceding response\<close>
  | EvInc counter "string list"

type_synonym history = "event list"
type_synonym 'a io = "(event list, 'a) state"

record env =
  env_now :: "history \<Rightarrow> time"
  env_configmap_list :: "history \<Rightarrow> gctx \<Rightarrow> string \<Rightarrow> list_options \<Rightarrow> api_error + configmap list"
  env_configmap_create :: "history \<Rightarrow> gctx \<Rightarrow> string \<Rightarrow> configmap \<Rightarrow> api_error + configmap"
  env_configmap_get :: "history \<Rightarrow> gctx \<Rightarrow> string \<Rightarrow> string \<Rightarrow> api_error + configmap"
  env_delete :: "history \<Rightarrow> resource \<Rightarrow> gctx \<Rightarrow> string \<Rightarrow> string \<Rightarrow> api_error option"
  env_pod_list :: "history \<Rightarrow> gctx \<Rightarrow> string \<Rightarrow> list_options \<Rightarrow> api_error + pod list"
  env_pod_create :: "history \<Rightarrow> gctx \<Rightarrow> string \<Rightarrow> bool \<Rightarrow> pod \<Rightarrow> api_error + pod"
  env_pod_get :: "history \<Rightarrow> gctx \<Rightarrow> string \<Rightarrow> string \<Rightarrow> api_error + pod"
  env_pvc_list :: "history \<Rightarrow> gctx \<Rightarrow> string \<Rightarrow> list_options \<Rightarrow> api_error + persistent_volume_claim list"
  env_pvc_create :: "history \<Rightarrow> gctx \<Rightarrow> string \<Rightarrow> persistent_volume_claim \<Rightarrow> api_error option"
  env_sc_list :: "history \<Rightarrow> gctx \<Rightarrow> list_options \<Rightarrow> api_error + storage_class list"
  env_sc_create :: "history \<Rightarrow> gctx \<Rightarrow> storage_class \<Rightarrow> api_error option"
  env_nodepool_list :: "history \<Rightarrow> gctx \<Rightarrow> list_options \<Rightarrow> api_error + unstructured list"
  env_nodepool_convert :: "history \<Rightarrow> node_pool \<Rightarrow> api_error option"
  env_nodepool_create :: "history \<Rightarrow> gctx \<Rightarrow> node_pool \<Rightarrow> api_error option"
  env_crd_get :: "history \<Rightarrow> gctx \<Rightarrow> string \<Rightarrow> api_error option"
  env_service_get :: "history \<Rightarrow> gctx \<Rightarrow> string \<Rightarrow> string \<Rightarrow> api_error + service"
  env_endpoint_slice_list :: "history \<Rightarrow> gctx \<Rightarrow> string \<Rightarrow> list_options \<Rightarrow> api_error + endpoint_slice list"
  env_event_list :: "history \<Rightarrow> gctx \<Rightarrow> string \<Rightarrow> list_options \<Rightarrow> api_error + k8s_event list"
  env_node_metrics_list :: "history \<Rightarrow> gctx \<Rightarrow> api_error option"
  env_lookup :: "history \<Rightarrow> gctx \<Rightarrow> string \<Rightarrow> string \<Rightarrow> api_error + string list"
  env_dial :: "history \<Rightarrow> gctx \<Rightarrow> string \<Rightarrow> string \<Rightarrow> api_error option"
  env_poll :: "history \<Rightarrow> gctx \<Rightarrow> duration \<Rightarrow> nat \<times> api_error"
  env_setup :: "history \<Rightarrow> string \<Rightarrow> api_error option"
  env_resolv_conf :: "history \<Rightarrow> string \<Rightarrow> api_error + string list"
  env_warnings :: "history \<Rightarrow> (int \<times> string \<times> string) list"

end
