(* ===== verification/Client.thy ===== *)
theory Client
  imports Kubernetes
begin

text \<open>
  The calls the program makes, one operation each: it asks the environment and appends the
  event with the answer. Their rules in \<open>emits_intros\<close> say just that. The section after them
  defines the projections of a trace that the properties speak about.
\<close>

section \<open>Calls\<close>

text \<open>Creations and reads of which the program uses only whether they failed.\<close>

definition created_as :: "object \<Rightarrow> api_error option \<Rightarrow> api_error + object" where
  "created_as o' r = (case r of None \<Rightarrow> Inr o' | Some e \<Rightarrow> Inl e)"

definition got_nothing :: "api_error option \<Rightarrow> api_error + object option" where
  "got_nothing r = (case r of None \<Rightarrow> Inr None | Some e \<Rightarrow> Inl e)"

definition time_now :: "env \<Rightarrow> time io" where
  "time_now env = ask (\<lambda>h. env_now env h) (\<lambda>r. EvNow r)"

lemma emits_time_now [emits_intros]:
  "(\<And>r. Q r [EvNow r]) \<Longrightarrow> emits (time_now env) Q"
  unfolding time_now_def by (rule emits_ask)

lemma performs_time_now [performs_intros]:
  "(\<And>r. P (EvNow r)) \<Longrightarrow> performs P (time_now env)"
  unfolding performs_def by (rule emits_time_now) simp

definition configmap_list :: "env \<Rightarrow> gctx \<Rightarrow> string \<Rightarrow> list_options \<Rightarrow> (api_error + configmap list) io" where
  "configmap_list env ctx ns opts = ask (\<lambda>h. env_configmap_list env h ctx ns opts) (\<lambda>r. EvList ConfigMaps ctx ns opts (map_sum id (map ConfigMapObj) r))"

lemma emits_configmap_list [emits_intros]:
  "(\<And>r. Q r [EvList ConfigMaps ctx ns opts (map_sum id (map ConfigMapObj) r)]) \<Longrightarrow> emits (configmap_list env ctx ns opts) Q"
  unfolding configmap_list_def by (rule emits_ask)

lemma performs_configmap_list [performs_intros]:
  "(\<And>r. P (EvList ConfigMaps ctx ns opts (map_sum id (map ConfigMapObj) r))) \<Longrightarrow> performs P (configmap_list env ctx ns opts)"
  unfolding performs_def by (rule emits_configmap_list) simp

definition configmap_create :: "env \<Rightarrow> gctx \<Rightarrow> string \<Rightarrow> configmap \<Rightarrow> (api_error + configmap) io" where
  "configmap_create env ctx ns cm = ask (\<lambda>h. env_configmap_create env h ctx ns cm) (\<lambda>r. EvCreate ConfigMaps ctx ns False (ConfigMapObj cm) (map_sum id ConfigMapObj r))"

lemma emits_configmap_create [emits_intros]:
  "(\<And>r. Q r [EvCreate ConfigMaps ctx ns False (ConfigMapObj cm) (map_sum id ConfigMapObj r)]) \<Longrightarrow> emits (configmap_create env ctx ns cm) Q"
  unfolding configmap_create_def by (rule emits_ask)

lemma performs_configmap_create [performs_intros]:
  "(\<And>r. P (EvCreate ConfigMaps ctx ns False (ConfigMapObj cm) (map_sum id ConfigMapObj r))) \<Longrightarrow> performs P (configmap_create env ctx ns cm)"
  unfolding performs_def by (rule emits_configmap_create) simp

definition configmap_get :: "env \<Rightarrow> gctx \<Rightarrow> string \<Rightarrow> string \<Rightarrow> (api_error + configmap) io" where
  "configmap_get env ctx ns nm = ask (\<lambda>h. env_configmap_get env h ctx ns nm) (\<lambda>r. EvGet ConfigMaps ctx ns nm (map_sum id (Some \<circ> ConfigMapObj) r))"

lemma emits_configmap_get [emits_intros]:
  "(\<And>r. Q r [EvGet ConfigMaps ctx ns nm (map_sum id (Some \<circ> ConfigMapObj) r)]) \<Longrightarrow> emits (configmap_get env ctx ns nm) Q"
  unfolding configmap_get_def by (rule emits_ask)

lemma performs_configmap_get [performs_intros]:
  "(\<And>r. P (EvGet ConfigMaps ctx ns nm (map_sum id (Some \<circ> ConfigMapObj) r))) \<Longrightarrow> performs P (configmap_get env ctx ns nm)"
  unfolding performs_def by (rule emits_configmap_get) simp

definition delete_object :: "env \<Rightarrow> resource \<Rightarrow> gctx \<Rightarrow> string \<Rightarrow> string \<Rightarrow> (api_error option) io" where
  "delete_object env res ctx ns nm = ask (\<lambda>h. env_delete env h res ctx ns nm) (\<lambda>r. EvDelete res ctx ns nm r)"

lemma emits_delete_object [emits_intros]:
  "(\<And>r. Q r [EvDelete res ctx ns nm r]) \<Longrightarrow> emits (delete_object env res ctx ns nm) Q"
  unfolding delete_object_def by (rule emits_ask)

lemma performs_delete_object [performs_intros]:
  "(\<And>r. P (EvDelete res ctx ns nm r)) \<Longrightarrow> performs P (delete_object env res ctx ns nm)"
  unfolding performs_def by (rule emits_delete_object) simp

definition pod_list :: "env \<Rightarrow> gctx \<Rightarrow> string \<Rightarrow> list_options \<Rightarrow> (api_error + pod list) io" where
  "pod_list env ctx ns opts = ask (\<lambda>h. env_pod_list env h ctx ns opts) (\<lambda>r. EvList Pods ctx ns opts (map_sum id (map PodObj) r))"

lemma emits_pod_list [emits_intros]:
  "(\<And>r. Q r [EvList Pods ctx ns opts (map_sum id (map PodObj) r)]) \<Longrightarrow> emits (pod_list env ctx ns opts) Q"
  unfolding pod_list_def by (rule emits_ask)

lemma performs_pod_list [performs_intros]:
  "(\<And>r. P (EvList Pods ctx ns opts (map_sum id (map PodObj) r))) \<Longrightarrow> performs P (pod_list env ctx ns opts)"
  unfolding performs_def by (rule emits_pod_list) simp

definition pod_create :: "env \<Rightarrow> gctx \<Rightarrow> string \<Rightarrow> bool \<Rightarrow> pod \<Rightarrow> (api_error + pod) io" where
  "pod_create env ctx ns dry_run p = ask (\<lambda>h. env_pod_create env h ctx ns dry_run p) (\<lambda>r. EvCreate Pods ctx ns dry_run (PodObj p) (map_sum id PodObj r))"

lemma emits_pod_create [emits_intros]:
  "(\<And>r. Q r [EvCreate Pods ctx ns dry_run (PodObj p) (map_sum id PodObj r)]) \<Longrightarrow> emits (pod_create env ctx ns dry_run p) Q"
  unfolding pod_create_def by (rule emits_ask)

lemma performs_pod_create [performs_intros]:
  "(\<And>r. P (EvCreate Pods ctx ns dry_run (PodObj p) (map_sum id PodObj r))) \<Longrightarrow> performs P (pod_create env ctx ns dry_run p)"
  unfolding performs_def by (rule emits_pod_create) simp

definition pod_get :: "env \<Rightarrow> gctx \<Rightarrow> string \<Rightarrow> string \<Rightarrow> (api_error + pod) io" where
  "pod_get env ctx ns nm = ask (\<lambda>h. env_pod_get env h ctx ns nm) (\<lambda>r. EvGet Pods ctx ns nm (map_sum id (Some \<circ> PodObj) r))"

lemma emits_pod_get [emits_intros]:
  "(\<And>r. Q r [EvGet Pods ctx ns nm (map_sum id (Some \<circ> PodObj) r)]) \<Longrightarrow> emits (pod_get env ctx ns nm) Q"
  unfolding pod_get_def by (rule emits_ask)

lemma performs_pod_get [performs_intros]:
  "(\<And>r. P (EvGet Pods ctx ns nm (map_sum id (Some \<circ> PodObj) r))) \<Longrightarrow> performs P (pod_get env ctx ns nm)"
  unfolding performs_def by (rule emits_pod_get) simp

definition pvc_list :: "env \<Rightarrow> gctx \<Rightarrow> string \<Rightarrow> list_options \<Rightarrow> (api_error + persistent_volume_claim list) io" where
  "pvc_list env ctx ns opts = ask (\<lambda>h. env_pvc_list env h ctx ns opts) (\<lambda>r. EvList PersistentVolumeClaims ctx ns opts (map_sum id (map PVCObj) r))"

lemma emits_pvc_list [emits_intros]:
  "(\<And>r. Q r [EvList PersistentVolumeClaims ctx ns opts (map_sum id (map PVCObj) r)]) \<Longrightarrow> emits (pvc_list env ctx ns opts) Q"
  unfolding pvc_list_def by (rule emits_ask)

lemma performs_pvc_list [performs_intros]:
  "(\<And>r. P (EvList PersistentVolumeClaims ctx ns opts (map_sum id (map PVCObj) r))) \<Longrightarrow> performs P (pvc_list env ctx ns opts)"
  unfolding performs_def by (rule emits_pvc_list) simp

definition pvc_create :: "env \<Rightarrow> gctx \<Rightarrow> string \<Rightarrow> persistent_volume_claim \<Rightarrow> (api_error option) io" where
  "pvc_create env ctx ns pvc = ask (\<lambda>h. env_pvc_create env h ctx ns pvc) (\<lambda>r. EvCreate PersistentVolumeClaims ctx ns False (PVCObj pvc) (created_as (PVCObj pvc) r))"

lemma emits_pvc_create [emits_intros]:
  "(\<And>r. Q r [EvCreate PersistentVolumeClaims ctx ns False (PVCObj pvc) (created_as (PVCObj pvc) r)]) \<Longrightarrow> emits (pvc_create env ctx ns pvc) Q"
  unfolding pvc_create_def by (rule emits_ask)

lemma performs_pvc_create [performs_intros]:
  "(\<And>r. P (EvCreate PersistentVolumeClaims ctx ns False (PVCObj pvc) (created_as (PVCObj pvc) r))) \<Longrightarrow> performs P (pvc_create env ctx ns pvc)"
  unfolding performs_def by (rule emits_pvc_create) simp

definition sc_list :: "env \<Rightarrow> gctx \<Rightarrow> list_options \<Rightarrow> (api_error + storage_class list) io" where
  "sc_list env ctx opts = ask (\<lambda>h. env_sc_list env h ctx opts) (\<lambda>r. EvList StorageClasses ctx [] opts (map_sum id (map StorageClassObj) r))"

lemma emits_sc_list [emits_intros]:
  "(\<And>r. Q r [EvList StorageClasses ctx [] opts (map_sum id (map StorageClassObj) r)]) \<Longrightarrow> emits (sc_list env ctx opts) Q"
  unfolding sc_list_def by (rule emits_ask)

lemma performs_sc_list [performs_intros]:
  "(\<And>r. P (EvList StorageClasses ctx [] opts (map_sum id (map StorageClassObj) r))) \<Longrightarrow> performs P (sc_list env ctx opts)"
  unfolding performs_def by (rule emits_sc_list) simp

definition sc_create :: "env \<Rightarrow> gctx \<Rightarrow> storage_class \<Rightarrow> (api_error option) io" where
  "sc_create env ctx sc = ask (\<lambda>h. env_sc_create env h ctx sc) (\<lambda>r. EvCreate StorageClasses ctx [] False (StorageClassObj sc) (created_as (StorageClassObj sc) r))"

lemma emits_sc_create [emits_intros]:
  "(\<And>r. Q r [EvCreate StorageClasses ctx [] False (StorageClassObj sc) (created_as (StorageClassObj sc) r)]) \<Longrightarrow> emits (sc_create env ctx sc) Q"
  unfolding sc_create_def by (rule emits_ask)

lemma performs_sc_create [performs_intros]:
  "(\<And>r. P (EvCreate StorageClasses ctx [] False (StorageClassObj sc) (created_as (StorageClassObj sc) r))) \<Longrightarrow> performs P (sc_create env ctx sc)"
  unfolding performs_def by (rule emits_sc_create) simp

definition nodepool_list :: "env \<Rightarrow> gctx \<Rightarrow> list_options \<Rightarrow> (api_error + unstructured list) io" where
  "nodepool_list env ctx opts = ask (\<lambda>h. env_nodepool_list env h ctx opts) (\<lambda>r. EvList NodePools ctx [] opts (map_sum id (map UnstructuredObj) r))"

lemma emits_nodepool_list [emits_intros]:
  "(\<And>r. Q r [EvList NodePools ctx [] opts (map_sum id (map UnstructuredObj) r)]) \<Longrightarrow> emits (nodepool_list env ctx opts) Q"
  unfolding nodepool_list_def by (rule emits_ask)

lemma performs_nodepool_list [performs_intros]:
  "(\<And>r. P (EvList NodePools ctx [] opts (map_sum id (map UnstructuredObj) r))) \<Longrightarrow> performs P (nodepool_list env ctx opts)"
  unfolding performs_def by (rule emits_nodepool_list) simp

definition nodepool_convert :: "env \<Rightarrow> node_pool \<Rightarrow> (api_error option) io" where
  "nodepool_convert env np = ask (\<lambda>h. env_nodepool_convert env h np) (\<lambda>r. EvConvert np r)"

lemma emits_nodepool_convert [emits_intros]:
  "(\<And>r. Q r [EvConvert np r]) \<Longrightarrow> emits (nodepool_convert env np) Q"
  unfolding nodepool_convert_def by (rule emits_ask)

lemma performs_nodepool_convert [performs_intros]:
  "(\<And>r. P (EvConvert np r)) \<Longrightarrow> performs P (nodepool_convert env np)"
  unfolding performs_def by (rule emits_nodepool_convert) simp

text \<open>\<^verbatim>\<open>scheme.Scheme.AddKnownTypes\<close> writes to the global scheme and answers nothing.\<close>

definition add_known_types :: "string \<Rightarrow> string \<Rightarrow> unit io" where
  "add_known_types grp ver = emit (EvAddKnownTypes grp ver)"

lemma emits_add_known_types [emits_intros]:
  "Q () [EvAddKnownTypes grp ver] \<Longrightarrow> emits (add_known_types grp ver) Q"
  by (simp add: add_known_types_def)

lemma performs_add_known_types [performs_intros]:
  "P (EvAddKnownTypes grp ver) \<Longrightarrow> performs P (add_known_types grp ver)"
  unfolding performs_def by (rule emits_add_known_types) simp

definition nodepool_create :: "env \<Rightarrow> gctx \<Rightarrow> node_pool \<Rightarrow> (api_error option) io" where
  "nodepool_create env ctx np = ask (\<lambda>h. env_nodepool_create env h ctx np) (\<lambda>r. EvCreate NodePools ctx [] False (NodePoolObj np) (created_as (NodePoolObj np) r))"

lemma emits_nodepool_create [emits_intros]:
  "(\<And>r. Q r [EvCreate NodePools ctx [] False (NodePoolObj np) (created_as (NodePoolObj np) r)]) \<Longrightarrow> emits (nodepool_create env ctx np) Q"
  unfolding nodepool_create_def by (rule emits_ask)

lemma performs_nodepool_create [performs_intros]:
  "(\<And>r. P (EvCreate NodePools ctx [] False (NodePoolObj np) (created_as (NodePoolObj np) r))) \<Longrightarrow> performs P (nodepool_create env ctx np)"
  unfolding performs_def by (rule emits_nodepool_create) simp

definition crd_get :: "env \<Rightarrow> gctx \<Rightarrow> string \<Rightarrow> (api_error option) io" where
  "crd_get env ctx nm = ask (\<lambda>h. env_crd_get env h ctx nm) (\<lambda>r. EvGet CustomResourceDefinitions ctx [] nm (got_nothing r))"

lemma emits_crd_get [emits_intros]:
  "(\<And>r. Q r [EvGet CustomResourceDefinitions ctx [] nm (got_nothing r)]) \<Longrightarrow> emits (crd_get env ctx nm) Q"
  unfolding crd_get_def by (rule emits_ask)

lemma performs_crd_get [performs_intros]:
  "(\<And>r. P (EvGet CustomResourceDefinitions ctx [] nm (got_nothing r))) \<Longrightarrow> performs P (crd_get env ctx nm)"
  unfolding performs_def by (rule emits_crd_get) simp

definition service_get :: "env \<Rightarrow> gctx \<Rightarrow> string \<Rightarrow> string \<Rightarrow> (api_error + service) io" where
  "service_get env ctx ns nm = ask (\<lambda>h. env_service_get env h ctx ns nm) (\<lambda>r. EvGet Services ctx ns nm (map_sum id (Some \<circ> ServiceObj) r))"

lemma emits_service_get [emits_intros]:
  "(\<And>r. Q r [EvGet Services ctx ns nm (map_sum id (Some \<circ> ServiceObj) r)]) \<Longrightarrow> emits (service_get env ctx ns nm) Q"
  unfolding service_get_def by (rule emits_ask)

lemma performs_service_get [performs_intros]:
  "(\<And>r. P (EvGet Services ctx ns nm (map_sum id (Some \<circ> ServiceObj) r))) \<Longrightarrow> performs P (service_get env ctx ns nm)"
  unfolding performs_def by (rule emits_service_get) simp

definition endpoint_slice_list :: "env \<Rightarrow> gctx \<Rightarrow> string \<Rightarrow> list_options \<Rightarrow> (api_error + endpoint_slice list) io" where
  "endpoint_slice_list env ctx ns opts = ask (\<lambda>h. env_endpoint_slice_list env h ctx ns opts) (\<lambda>r. EvList EndpointSlices ctx ns opts (map_sum id (map EndpointSliceObj) r))"

lemma emits_endpoint_slice_list [emits_intros]:
  "(\<And>r. Q r [EvList EndpointSlices ctx ns opts (map_sum id (map EndpointSliceObj) r)]) \<Longrightarrow> emits (endpoint_slice_list env ctx ns opts) Q"
  unfolding endpoint_slice_list_def by (rule emits_ask)

lemma performs_endpoint_slice_list [performs_intros]:
  "(\<And>r. P (EvList EndpointSlices ctx ns opts (map_sum id (map EndpointSliceObj) r))) \<Longrightarrow> performs P (endpoint_slice_list env ctx ns opts)"
  unfolding performs_def by (rule emits_endpoint_slice_list) simp

definition event_list :: "env \<Rightarrow> gctx \<Rightarrow> string \<Rightarrow> list_options \<Rightarrow> (api_error + k8s_event list) io" where
  "event_list env ctx ns opts = ask (\<lambda>h. env_event_list env h ctx ns opts) (\<lambda>r. EvList Events ctx ns opts (map_sum id (map EventObj) r))"

lemma emits_event_list [emits_intros]:
  "(\<And>r. Q r [EvList Events ctx ns opts (map_sum id (map EventObj) r)]) \<Longrightarrow> emits (event_list env ctx ns opts) Q"
  unfolding event_list_def by (rule emits_ask)

lemma performs_event_list [performs_intros]:
  "(\<And>r. P (EvList Events ctx ns opts (map_sum id (map EventObj) r))) \<Longrightarrow> performs P (event_list env ctx ns opts)"
  unfolding performs_def by (rule emits_event_list) simp

definition node_metrics_list :: "env \<Rightarrow> gctx \<Rightarrow> (api_error option) io" where
  "node_metrics_list env ctx = ask (\<lambda>h. env_node_metrics_list env h ctx) (\<lambda>r. EvList NodeMetricses ctx [] NoSelector (case r of None \<Rightarrow> Inr [] | Some e \<Rightarrow> Inl e))"

lemma emits_node_metrics_list [emits_intros]:
  "(\<And>r. Q r [EvList NodeMetricses ctx [] NoSelector (case r of None \<Rightarrow> Inr [] | Some e \<Rightarrow> Inl e)]) \<Longrightarrow> emits (node_metrics_list env ctx) Q"
  unfolding node_metrics_list_def by (rule emits_ask)

lemma performs_node_metrics_list [performs_intros]:
  "(\<And>r. P (EvList NodeMetricses ctx [] NoSelector (case r of None \<Rightarrow> Inr [] | Some e \<Rightarrow> Inl e))) \<Longrightarrow> performs P (node_metrics_list env ctx)"
  unfolding performs_def by (rule emits_node_metrics_list) simp

definition lookup :: "env \<Rightarrow> gctx \<Rightarrow> string \<Rightarrow> string \<Rightarrow> (api_error + string list) io" where
  "lookup env ctx server domain = ask (\<lambda>h. env_lookup env h ctx server domain) (\<lambda>r. EvLookup ctx server domain r)"

lemma emits_lookup [emits_intros]:
  "(\<And>r. Q r [EvLookup ctx server domain r]) \<Longrightarrow> emits (lookup env ctx server domain) Q"
  unfolding lookup_def by (rule emits_ask)

lemma performs_lookup [performs_intros]:
  "(\<And>r. P (EvLookup ctx server domain r)) \<Longrightarrow> performs P (lookup env ctx server domain)"
  unfolding performs_def by (rule emits_lookup) simp

definition dial :: "env \<Rightarrow> gctx \<Rightarrow> string \<Rightarrow> string \<Rightarrow> (api_error option) io" where
  "dial env ctx network address = ask (\<lambda>h. env_dial env h ctx network address) (\<lambda>r. EvDial ctx network address r)"

lemma emits_dial [emits_intros]:
  "(\<And>r. Q r [EvDial ctx network address r]) \<Longrightarrow> emits (dial env ctx network address) Q"
  unfolding dial_def by (rule emits_ask)

lemma performs_dial [performs_intros]:
  "(\<And>r. P (EvDial ctx network address r)) \<Longrightarrow> performs P (dial env ctx network address)"
  unfolding performs_def by (rule emits_dial) simp

definition poll_budget :: "env \<Rightarrow> gctx \<Rightarrow> duration \<Rightarrow> (nat \<times> api_error) io" where
  "poll_budget env ctx interval = ask (\<lambda>h. env_poll env h ctx interval) (\<lambda>r. EvPoll ctx interval (fst r) (snd r))"

lemma emits_poll_budget [emits_intros]:
  "(\<And>r. Q r [EvPoll ctx interval (fst r) (snd r)]) \<Longrightarrow> emits (poll_budget env ctx interval) Q"
  unfolding poll_budget_def by (rule emits_ask)

lemma performs_poll_budget [performs_intros]:
  "(\<And>r. P (EvPoll ctx interval (fst r) (snd r))) \<Longrightarrow> performs P (poll_budget env ctx interval)"
  unfolding performs_def by (rule emits_poll_budget) simp

definition setup_client :: "env \<Rightarrow> string \<Rightarrow> (api_error option) io" where
  "setup_client env what = ask (\<lambda>h. env_setup env h what) (\<lambda>r. EvSetup what r)"

lemma emits_setup_client [emits_intros]:
  "(\<And>r. Q r [EvSetup what r]) \<Longrightarrow> emits (setup_client env what) Q"
  unfolding setup_client_def by (rule emits_ask)

lemma performs_setup_client [performs_intros]:
  "(\<And>r. P (EvSetup what r)) \<Longrightarrow> performs P (setup_client env what)"
  unfolding performs_def by (rule emits_setup_client) simp

definition read_resolv_conf :: "env \<Rightarrow> string \<Rightarrow> (api_error + string list) io" where
  "read_resolv_conf env path = ask (\<lambda>h. env_resolv_conf env h path) (\<lambda>r. EvResolvConf path r)"

lemma emits_read_resolv_conf [emits_intros]:
  "(\<And>r. Q r [EvResolvConf path r]) \<Longrightarrow> emits (read_resolv_conf env path) Q"
  unfolding read_resolv_conf_def by (rule emits_ask)

lemma performs_read_resolv_conf [performs_intros]:
  "(\<And>r. P (EvResolvConf path r)) \<Longrightarrow> performs P (read_resolv_conf env path)"
  unfolding performs_def by (rule emits_read_resolv_conf) simp

definition response_warnings :: "env \<Rightarrow> ((int \<times> string \<times> string) list) io" where
  "response_warnings env = ask (\<lambda>h. env_warnings env h) (\<lambda>r. EvWarnings r)"

lemma emits_response_warnings [emits_intros]:
  "(\<And>r. Q r [EvWarnings r]) \<Longrightarrow> emits (response_warnings env) Q"
  unfolding response_warnings_def by (rule emits_ask)

lemma performs_response_warnings [performs_intros]:
  "(\<And>r. P (EvWarnings r)) \<Longrightarrow> performs P (response_warnings env)"
  unfolding performs_def by (rule emits_response_warnings) simp

lemmas client_defs =
  time_now_def
  configmap_list_def
  configmap_create_def
  configmap_get_def
  delete_object_def
  pod_list_def
  pod_create_def
  pod_get_def
  pvc_list_def
  pvc_create_def
  sc_list_def
  sc_create_def
  nodepool_list_def
  nodepool_convert_def
  nodepool_create_def
  crd_get_def
  service_get_def
  endpoint_slice_list_def
  event_list_def
  node_metrics_list_def
  lookup_def
  dial_def
  poll_budget_def
  setup_client_def
  read_resolv_conf_def
  response_warnings_def

text \<open>\<^verbatim>\<open>context.WithTimeout(ctx, d)\<close> reads the clock.\<close>

definition with_timeout :: "env \<Rightarrow> gctx \<Rightarrow> duration \<Rightarrow> gctx io" where
  "with_timeout env ctx d = do {
     t \<leftarrow> time_now env;
     State_Monad.return (deadline_after ctx t d) }"

lemma emits_with_timeout [emits_intros]:
  "(\<And>t. Q (deadline_after ctx t d) [EvNow t]) \<Longrightarrow> emits (with_timeout env ctx d) Q"
  unfolding with_timeout_def by (intro emits_intros) simp

lemma performs_with_timeout [performs_intros]:
  "(\<And>t. P (EvNow t)) \<Longrightarrow> performs P (with_timeout env ctx d)"
  unfolding performs_def by (rule emits_with_timeout) simp

text \<open>
  \<^verbatim>\<open>wait.PollUntilContextCancel(ctx, interval, immediate = true, condition)\<close> is a library call that takes
  a callback. What is relied on is its documentation: it calls the condition at once, then again at every
  interval, until the condition answers \<open>Some\<close> value or the context has ended, and in the latter case it
  returns the context's error. How many calls it makes, and that error, are the environment's answer
  \<open>env_poll\<close>, for which any number is possible.
\<close>

primrec repeat_condition :: "'r option io \<Rightarrow> nat \<Rightarrow> 'r option io" where
  "repeat_condition condition 0 = condition"
| "repeat_condition condition (Suc n) = do {
     r \<leftarrow> condition;
     case r of Some d \<Rightarrow> State_Monad.return (Some d) | None \<Rightarrow> repeat_condition condition n }"

definition poll_until_context_cancel :: "env \<Rightarrow> gctx \<Rightarrow> duration \<Rightarrow> 'r option io \<Rightarrow> (api_error + 'r) io" where
  "poll_until_context_cancel env ctx interval condition = do {
     budget \<leftarrow> poll_budget env ctx interval;
     r \<leftarrow> repeat_condition condition (fst budget);
     State_Monad.return (case r of Some d \<Rightarrow> Inr d | None \<Rightarrow> Inl (snd budget)) }"

lemma performs_repeat_condition [performs_intros]:
  "performs P condition \<Longrightarrow> performs P (repeat_condition condition n)"
  by (induction n) (auto intro!: performs_intros)

lemma performs_poll_until_context_cancel [performs_intros]:
  "(\<And>k e. P (EvPoll ctx interval k e)) \<Longrightarrow> performs P condition \<Longrightarrow>
    performs P (poll_until_context_cancel env ctx interval condition)"
  unfolding poll_until_context_cancel_def by (intro performs_intros)

section \<open>Projections of a trace\<close>

text \<open>The clock readings, the increments, and per resource the deletions and creations.\<close>

fun clock_of :: "event \<Rightarrow> time list" where
  "clock_of (EvNow t) = [t]"
| "clock_of _ = []"

fun inc_of :: "event \<Rightarrow> (counter \<times> string list) list" where
  "inc_of (EvInc c ls) = [(c, ls)]"
| "inc_of _ = []"

fun deleted_of :: "resource \<Rightarrow> event \<Rightarrow> string list" where
  "deleted_of r (EvDelete r' _ _ n _) = (if r' = r then [n] else [])"
| "deleted_of _ _ = []"

text \<open>Objects sent for creation (not as a dry run).\<close>

fun sent_of :: "resource \<Rightarrow> event \<Rightarrow> object list" where
  "sent_of r (EvCreate r' _ _ dry ob _) = (if r' = r \<and> \<not> dry then [ob] else [])"
| "sent_of _ _ = []"

text \<open>Names of the objects the server reported as created.\<close>

fun created_of :: "resource \<Rightarrow> event \<Rightarrow> string list" where
  "created_of r (EvCreate r' _ _ dry _ res) =
     (case res of Inr ob \<Rightarrow> if r' = r \<and> \<not> dry then [object_name ob] else [] | Inl _ \<Rightarrow> [])"
| "created_of _ _ = []"

text \<open>Contexts given to calls.\<close>

fun ctx_of :: "event \<Rightarrow> gctx list" where
  "ctx_of (EvList _ c _ _ _) = [c]"
| "ctx_of (EvCreate _ c _ _ _ _) = [c]"
| "ctx_of (EvGet _ c _ _ _) = [c]"
| "ctx_of (EvDelete _ c _ _ _) = [c]"
| "ctx_of (EvLookup c _ _ _) = [c]"
| "ctx_of (EvDial c _ _ _) = [c]"
| "ctx_of (EvPoll c _ _ _) = [c]"
| "ctx_of _ = []"

definition clock_reads :: "history \<Rightarrow> time list" where
  "clock_reads es = concat (map clock_of es)"

definition increments :: "history \<Rightarrow> (counter \<times> string list) list" where
  "increments es = concat (map inc_of es)"

definition deleted :: "resource \<Rightarrow> history \<Rightarrow> string list" where
  "deleted r es = concat (map (deleted_of r) es)"

definition sent :: "resource \<Rightarrow> history \<Rightarrow> object list" where
  "sent r es = concat (map (sent_of r) es)"

definition created :: "resource \<Rightarrow> history \<Rightarrow> string list" where
  "created r es = concat (map (created_of r) es)"

definition contexts :: "history \<Rightarrow> gctx list" where
  "contexts es = concat (map ctx_of es)"

lemma clock_reads_simps [simp, trace_simps]:
  "clock_reads [] = []" "clock_reads (e # es) = clock_of e @ clock_reads es" "clock_reads (es @ es') = clock_reads es @ clock_reads es'"
  by (simp_all add: clock_reads_def)

lemma increments_simps [simp, trace_simps]:
  "increments [] = []" "increments (e # es) = inc_of e @ increments es" "increments (es @ es') = increments es @ increments es'"
  by (simp_all add: increments_def)

lemma deleted_simps [simp, trace_simps]:
  "deleted r [] = []" "deleted r (e # es) = deleted_of r e @ deleted r es" "deleted r (es @ es') = deleted r es @ deleted r es'"
  by (simp_all add: deleted_def)

lemma sent_simps [simp, trace_simps]:
  "sent r [] = []" "sent r (e # es) = sent_of r e @ sent r es" "sent r (es @ es') = sent r es @ sent r es'"
  by (simp_all add: sent_def)

lemma created_simps [simp, trace_simps]:
  "created r [] = []" "created r (e # es) = created_of r e @ created r es" "created r (es @ es') = created r es @ created r es'"
  by (simp_all add: created_def)

lemma contexts_simps [simp, trace_simps]:
  "contexts [] = []" "contexts (e # es) = ctx_of e @ contexts es" "contexts (es @ es') = contexts es @ contexts es'"
  by (simp_all add: contexts_def)

end
