(* ===== verification/GarbageCollection.thy ===== *)
theory GarbageCollection
  imports Client
begin

text \<open>
  The garbage collectors of the checkers. Four of them (\<^verbatim>\<open>garbageCollect\<close> of the API server
  checker, and the pod, PVC and storage class collectors of the pod startup checker) have the same
  loop: every listed object older than the checker's timeout is deleted, an object that is already
  gone is no error, and all other failures are joined. \<open>delete_if_older\<close> is the body of that
  loop. The locale \<open>expiry_collector\<close> is their contract; each collector interprets it in its
  own theory.
\<close>

definition delete_if_older ::
    "env \<Rightarrow> resource \<Rightarrow> gctx \<Rightarrow> duration \<Rightarrow> string \<Rightarrow> (object_meta \<Rightarrow> string) \<Rightarrow> object_meta \<Rightarrow> gerror option io" where
  "delete_if_older env res ctx timeout fmt ns m = do {
     now \<leftarrow> time_now env;
     if timeout <s time_sub now (om_created m) then do {
       err \<leftarrow> delete_object env res ctx (ns m) (om_name m);
       State_Monad.return
         (case delete_failure err of
            Some e \<Rightarrow> Some (Wrapf fmt [ArgStr (om_name m)] (ApiErr e))
          | None \<Rightarrow> None) }
     else State_Monad.return None }"

section \<open>The contract\<close>

text \<open>Expired: older than the timeout at the instant the clock was read for it.\<close>

definition expired :: "duration \<Rightarrow> time \<Rightarrow> object \<Rightarrow> bool" where
  "expired timeout t ob \<longleftrightarrow> timeout <s time_sub t (om_created (obj_meta ob))"

text \<open>The expired objects of a listing, given the clock reading made for each.\<close>

definition expired_objects :: "duration \<Rightarrow> object list \<Rightarrow> time list \<Rightarrow> object list" where
  "expired_objects timeout obs ts = [ob. (ob, t) \<leftarrow> zip obs ts, expired timeout t ob]"

lemma expired_objects_simps [simp]:
  "expired_objects timeout [] ts = []"
  "expired_objects timeout (ob # obs) (t # ts)
     = (if expired timeout t ob then [ob] else []) @ expired_objects timeout obs ts"
  by (simp_all add: expired_objects_def)

text \<open>The deletions of a resource: context, namespace and name of each request.\<close>

fun delete_request_of :: "resource \<Rightarrow> event \<Rightarrow> (gctx \<times> string \<times> string) list" where
  "delete_request_of r (EvDelete r' c ns n _) = (if r' = r then [(c, ns, n)] else [])"
| "delete_request_of _ _ = []"

definition delete_requests :: "resource \<Rightarrow> history \<Rightarrow> (gctx \<times> string \<times> string) list" where
  "delete_requests r es = concat (map (delete_request_of r) es)"

lemma delete_requests_simps [simp, trace_simps]:
  "delete_requests r [] = []" "delete_requests r (e # es) = delete_request_of r e @ delete_requests r es"
  "delete_requests r (es @ es') = delete_requests r es @ delete_requests r es'"
  by (simp_all add: delete_requests_def)

lemma deleted_requests: "deleted r es = map (\<lambda>(c, ns, n). n) (delete_requests r es)"
proof -
  have "deleted_of r e = map (\<lambda>(c, ns, n). n) (delete_request_of r e)" for e by (cases e) auto
  then show ?thesis by (induction es) simp_all
qed

text \<open>The objects of the first listing of a resource; none if it failed.\<close>

fun listing_of :: "resource \<Rightarrow> event \<Rightarrow> object list option option" where
  "listing_of r (EvList r' _ _ _ res) =
     (if r' = r then Some (case res of Inl _ \<Rightarrow> None | Inr obs \<Rightarrow> Some obs) else None)"
| "listing_of _ _ = None"

primrec listing :: "resource \<Rightarrow> history \<Rightarrow> object list option" where
  "listing r [] = None"
| "listing r (e # es) = (case listing_of r e of None \<Rightarrow> listing r es | Some l \<Rightarrow> l)"

text \<open>The deletions of a trace that failed for another reason than a missing object.\<close>

fun delete_failure_of :: "resource \<Rightarrow> event \<Rightarrow> (string \<times> api_error) list" where
  "delete_failure_of r (EvDelete r' _ _ n res) =
     (if r' = r then (case delete_failure res of None \<Rightarrow> [] | Some e \<Rightarrow> [(n, e)]) else [])"
| "delete_failure_of _ _ = []"

definition delete_failures :: "resource \<Rightarrow> history \<Rightarrow> (string \<times> api_error) list" where
  "delete_failures r es = concat (map (delete_failure_of r) es)"

lemma delete_failures_simps [simp, trace_simps]:
  "delete_failures r [] = []" "delete_failures r (e # es) = delete_failure_of r e @ delete_failures r es"
  "delete_failures r (es @ es') = delete_failures r es @ delete_failures r es'"
  by (simp_all add: delete_failures_def)

text \<open>Events that change no cluster object other than by deleting one of resource \<open>r\<close>.\<close>

fun only_deletes :: "resource \<Rightarrow> event \<Rightarrow> bool" where
  "only_deletes r (EvDelete r' _ _ _ _) \<longleftrightarrow> r' = r"
| "only_deletes r (EvCreate _ _ _ _ _ _) \<longleftrightarrow> False"
| "only_deletes r (EvInc _ _) \<longleftrightarrow> False"
| "only_deletes r (EvAddKnownTypes _ _) \<longleftrightarrow> False"
| "only_deletes r _ \<longleftrightarrow> True"

text \<open>
  What a collection reports: it makes one list request, with the given context, namespace and
  selection. If that fails, nothing else happens and the error is wrapped. Otherwise one deletion is
  requested for each expired object, with the same context and in the namespace \<open>dns\<close> of its metadata,
  and the failures are joined in order.
\<close>

definition collector_report ::
    "resource \<Rightarrow> gctx \<Rightarrow> string \<Rightarrow> list_options \<Rightarrow> (object_meta \<Rightarrow> string) \<Rightarrow> duration \<Rightarrow> string \<Rightarrow> string
     \<Rightarrow> gerror option \<Rightarrow> history \<Rightarrow> bool" where
  "collector_report r ctx ns opts dns timeout list_fmt fmt err es \<longleftrightarrow>
     (\<exists>answer rest. es = EvList r ctx ns opts answer # rest \<and>
        (case answer of
           Inl e \<Rightarrow> rest = [] \<and> err = Some (Wrapf list_fmt [] (ApiErr e))
         | Inr obs \<Rightarrow>
             length (clock_reads rest) = length obs
             \<and> delete_requests r rest = map (\<lambda>ob. (ctx, dns (obj_meta ob), object_name ob))
                 (expired_objects timeout obs (clock_reads rest))
             \<and> err = errors_join (map (\<lambda>(n, e). Wrapf fmt [ArgStr n] (ApiErr e)) (delete_failures r rest))))"

lemma emits_delete_if_older:
  "emits (delete_if_older env r ctx timeout fmt dns (obj_meta ob))
     (\<lambda>err es. \<exists>t. clock_reads es = [t]
        \<and> delete_requests r es = (if expired timeout t ob then [(ctx, dns (obj_meta ob), object_name ob)] else [])
        \<and> (case err of None \<Rightarrow> [] | Some e \<Rightarrow> [e]) = map (\<lambda>(n, e). Wrapf fmt [ArgStr n] (ApiErr e)) (delete_failures r es))"
  unfolding delete_if_older_def
  by (intro emits_intros) (auto simp: expired_def split: option.splits)

lemma emits_delete_loop:
  "emits (for_collect (\<lambda>ob. delete_if_older env r ctx timeout fmt dns (obj_meta ob)) obs)
     (\<lambda>errs es. length (clock_reads es) = length obs
        \<and> delete_requests r es = map (\<lambda>ob. (ctx, dns (obj_meta ob), object_name ob))
            (expired_objects timeout obs (clock_reads es))
        \<and> errs = map (\<lambda>(n, e). Wrapf fmt [ArgStr n] (ApiErr e)) (delete_failures r es))"
proof (induction obs)
  case Nil
  show ?case by simp
next
  case (Cons ob obs)
  show ?case
    unfolding for_collect.simps
    by (rule emits_bind, rule emits_conseq [OF emits_delete_if_older], rule emits_bind,
        rule emits_conseq [OF Cons.IH]) (auto split: option.splits)
qed

lemma for_collect_map: "for_collect body (map f xs) = for_collect (\<lambda>x. body (f x)) xs"
  by (induction xs) simp_all

text \<open>The part of a collector after its listing, for items of any type with metadata.\<close>

lemma emits_collector:
  assumes "\<And>x. obj_meta (mk x) = meta x"
  shows "emits (do { errs \<leftarrow> for_collect (\<lambda>x. delete_if_older env r ctx timeout fmt dns (meta x)) xs;
                     State_Monad.return (errors_join errs) })
    (\<lambda>err es. collector_report r ctx ns opts dns timeout list_fmt fmt err (EvList r ctx ns opts (Inr (map mk xs)) # es))"
proof -
  have loop: "for_collect (\<lambda>x. delete_if_older env r ctx timeout fmt dns (meta x)) xs
      = for_collect (\<lambda>ob. delete_if_older env r ctx timeout fmt dns (obj_meta ob)) (map mk xs)"
    by (simp add: for_collect_map assms)
  show ?thesis
    unfolding loop
    by (rule emits_bind, rule emits_conseq [OF emits_delete_loop]) (simp add: collector_report_def)
qed

lemma performs_delete_if_older [performs_intros]:
  "performs (only_deletes r) (delete_if_older env r ctx timeout fmt dns m)"
  unfolding delete_if_older_def by (intro performs_intros) simp_all

locale expiry_collector =
  fixes collect :: "gerror option io"
    and r :: resource
    and ctx :: gctx
    and ns :: string
    and opts :: list_options
    and dns :: "object_meta \<Rightarrow> string"
    and timeout :: duration
    and list_fmt fmt :: string
  assumes report: "emits collect (collector_report r ctx ns opts dns timeout list_fmt fmt)"
    and restrained: "performs (only_deletes r) collect"
begin

lemma full_report:
  "emits collect (\<lambda>err es. collector_report r ctx ns opts dns timeout list_fmt fmt err es \<and> list_all (only_deletes r) es)"
  by (rule emits_performs [OF report restrained])

text \<open>Whatever is deleted was listed by this run and had expired.\<close>

lemma deletes_listed_expired:
  "emits collect (\<lambda>_ es. \<forall>n \<in> set (deleted r es). \<exists>obs ob t. listing r es = Some obs
      \<and> ob \<in> set obs \<and> n = object_name ob \<and> t \<in> set (clock_reads es) \<and> expired timeout t ob)"
proof (rule emits_conseq [OF report], unfold collector_report_def, elim exE conjE)
  fix err es answer rest
  assume es: "es = EvList r ctx ns opts answer # rest"
    and answer: "case answer of
           Inl e \<Rightarrow> rest = [] \<and> err = Some (Wrapf list_fmt [] (ApiErr e))
         | Inr obs \<Rightarrow>
             length (clock_reads rest) = length obs
             \<and> delete_requests r rest = map (\<lambda>ob. (ctx, dns (obj_meta ob), object_name ob))
                 (expired_objects timeout obs (clock_reads rest))
             \<and> err = errors_join (map (\<lambda>(n, e). Wrapf fmt [ArgStr n] (ApiErr e)) (delete_failures r rest))"
  show "\<forall>n \<in> set (deleted r es). \<exists>obs ob t. listing r es = Some obs
      \<and> ob \<in> set obs \<and> n = object_name ob \<and> t \<in> set (clock_reads es) \<and> expired timeout t ob"
  proof (cases answer)
    case (Inr obs)
    then have "deleted r es = map object_name (expired_objects timeout obs (clock_reads rest))"
      using answer by (simp add: es deleted_requests comp_def)
    then show ?thesis
      by (auto simp: es Inr expired_objects_def dest: set_zip_leftD set_zip_rightD)
  qed (use answer es in simp)
qed

text \<open>Nothing is created, and nothing of another resource is deleted.\<close>

lemma leaves_the_rest:
  "emits collect (\<lambda>_ es. sent r' es = [] \<and> increments es = [] \<and> (r' \<noteq> r \<longrightarrow> deleted r' es = []))"
proof (rule emits_conseq [OF restrained [unfolded performs_def]])
  fix err es
  assume *: "list_all (only_deletes r) es"
  have "sent_of r' e = [] \<and> inc_of e = [] \<and> (r' \<noteq> r \<longrightarrow> deleted_of r' e = [])" if "only_deletes r e" for e
    using that by (cases e) auto
  with * show "sent r' es = [] \<and> increments es = [] \<and> (r' \<noteq> r \<longrightarrow> deleted r' es = [])"
    by (auto simp: sent_def increments_def deleted_def list_all_iff)
qed

text \<open>It reports success exactly when it could list and every deletion succeeded or found nothing.\<close>

lemma succeeds_iff:
  "emits collect (\<lambda>err es. err = None \<longleftrightarrow> listing r es \<noteq> None \<and> delete_failures r es = [])"
proof (rule emits_conseq [OF report], unfold collector_report_def, elim exE conjE)
  fix err es answer rest
  assume "es = EvList r ctx ns opts answer # rest"
    and "case answer of
           Inl e \<Rightarrow> rest = [] \<and> err = Some (Wrapf list_fmt [] (ApiErr e))
         | Inr obs \<Rightarrow>
             length (clock_reads rest) = length obs
             \<and> delete_requests r rest = map (\<lambda>ob. (ctx, dns (obj_meta ob), object_name ob))
                 (expired_objects timeout obs (clock_reads rest))
             \<and> err = errors_join (map (\<lambda>(n, e). Wrapf fmt [ArgStr n] (ApiErr e)) (delete_failures r rest))"
  then show "err = None \<longleftrightarrow> listing r es \<noteq> None \<and> delete_failures r es = []"
    by (cases answer) auto
qed

end

text \<open>
  A collector written in the common shape meets the contract. The listing call is any call that
  appends its list event; \<open>mk\<close> injects the typed items into objects.
\<close>

lemma expiry_collectorI:
  assumes mk: "\<And>x. obj_meta (mk x) = meta x"
    and lists: "\<And>Q. (\<And>x. Q x [EvList r ctx ns opts (map_sum id (map mk) x)]) \<Longrightarrow> emits list_call Q"
  shows "expiry_collector (do {
      l \<leftarrow> list_call;
      case l of
        Inl err \<Rightarrow> State_Monad.return (Some (Wrapf list_fmt [] (ApiErr err)))
      | Inr items \<Rightarrow> do {
          errs \<leftarrow> for_collect (\<lambda>x. delete_if_older env r ctx timeout fmt dns (meta x)) items;
          State_Monad.return (errors_join errs) } }) r ctx ns opts dns timeout list_fmt fmt"
    (is "expiry_collector (State_Monad.bind _ ?k) _ _ _ _ _ _ _ _")
proof
  have k: "emits (?k x) (\<lambda>err es. collector_report r ctx ns opts dns timeout list_fmt fmt err
      (EvList r ctx ns opts (map_sum id (map mk) x) # es))" for x
  proof (cases x)
    case (Inl e)
    then show ?thesis by (simp add: collector_report_def)
  next
    case (Inr items)
    then show ?thesis using emits_collector [where mk = mk, OF mk] by simp
  qed
  show "emits (State_Monad.bind list_call ?k) (collector_report r ctx ns opts dns timeout list_fmt fmt)"
    by (rule emits_bind, rule lists) (simp add: k)
  have "performs (only_deletes r) list_call"
    unfolding performs_def by (rule lists) simp
  then show "performs (only_deletes r) (State_Monad.bind list_call ?k)"
    by (intro performs_intros)
qed

end
