(* ===== verification/Metrics.thy ===== *)
theory Metrics
  imports Client
begin

text \<open>
  Package \<^verbatim>\<open>metrics\<close> (\<^verbatim>\<open>pkg/metrics\<close>): the label values of the two Prometheus counters and the
  metrics server's two operations. A counter's value is the number of increments with its label
  values in the history.
\<close>

definition HealthyStatus :: string where "HealthyStatus = ''Healthy''"
definition UnhealthyStatus :: string where "UnhealthyStatus = ''Unhealthy''"
definition UnknownStatus :: string where "UnknownStatus = ''Unknown''"
definition HealthyCode :: string where "HealthyCode = HealthyStatus"
definition UnknownCode :: string where "UnknownCode = UnknownStatus"

lemmas metric_labels = HealthyStatus_def UnhealthyStatus_def UnknownStatus_def HealthyCode_def UnknownCode_def

text \<open>The label names each counter vector is created with.\<close>

fun counter_label_names :: "counter \<Rightarrow> string list" where
  "counter_label_names CheckerResultCounter = [''checker_type'', ''checker_name'', ''status'', ''error_code'']"
| "counter_label_names CoreDNSPodResultCounter =
     [''checker_type'', ''checker_name'', ''pod_name'', ''status'', ''error_code'']"

definition counter_value :: "history \<Rightarrow> counter \<Rightarrow> string list \<Rightarrow> nat" where
  "counter_value h c ls = count_list (increments h) (c, ls)"

lemma counter_value_append [simp]: "counter_value (h @ es) c ls = counter_value h c ls + counter_value es c ls"
  by (simp add: counter_value_def)

section \<open>server.go\<close>

record metrics_server =
  ms_registered :: "counter list"
  ms_port :: int

text \<open>\<^verbatim>\<open>NewServer\<close>: \<open>register\<close> is the Prometheus registry's answer to \<^verbatim>\<open>Register\<close>.\<close>

definition NewServer :: "(counter \<Rightarrow> api_error option) \<Rightarrow> int \<Rightarrow> gerror + metrics_server" where
  "NewServer register port =
     (case register CheckerResultCounter of
        Some err \<Rightarrow> Inl (ApiErr err)
      | None \<Rightarrow>
          (case register CoreDNSPodResultCounter of
             Some err \<Rightarrow> Inl (ApiErr err)
           | None \<Rightarrow> Inr \<lparr>ms_registered = [CheckerResultCounter, CoreDNSPodResultCounter], ms_port = port\<rparr>))"

text \<open>
  \<^verbatim>\<open>Server.Run\<close> waits for the first of two events: the context ends, or \<^verbatim>\<open>ListenAndServe\<close>
  returns. On the first it shuts the HTTP server down, which may fail.
\<close>

datatype server_wakeup = CtxDone sentinel "api_error option" | ServeReturned api_error

definition Server_addr :: "metrics_server \<Rightarrow> string" where
  "Server_addr m = ''0.0.0.0:'' @ dec_of_int (ms_port m)"

fun Server_Run :: "server_wakeup \<Rightarrow> gerror option" where
  "Server_Run (CtxDone ctxErr shutdownErr) =
     (case shutdownErr of Some e \<Rightarrow> Some (ApiErr e) | None \<Rightarrow> Some (Sentinel ctxErr))"
| "Server_Run (ServeReturned err) = Some (ApiErr err)"

end
