(* ===== verification/Config.thy ===== *)
theory Config
  imports GoErrors
begin

text \<open>
  Package \<^verbatim>\<open>config\<close> (\<^verbatim>\<open>pkg/config\<close>): the configuration types, the validation of every part,
  and reading a configuration from a file. Pointers to sub-configurations are options. The two
  Kubernetes name validators, the YAML decoder and the file system are parameters. The abstract
  specification of validation is \<open>valid_config\<close>, a predicate; the validator returns no error
  exactly on the configurations that satisfy it.
\<close>

section \<open>config.go\<close>

type_synonym checker_type = string
type_synonym dns_check_target = string
type_synonym csi_type = string

definition CheckTypeDNS :: checker_type where "CheckTypeDNS = ''DNS''"
definition CheckTypePodStartup :: checker_type where "CheckTypePodStartup = ''PodStartup''"
definition CheckTypeAPIServer :: checker_type where "CheckTypeAPIServer = ''APIServer''"
definition CheckTypeMetricsServer :: checker_type where "CheckTypeMetricsServer = ''MetricsServer''"
definition CheckTypeAzurePolicy :: checker_type where "CheckTypeAzurePolicy = ''AzurePolicy''"

lemmas checker_types = CheckTypeDNS_def CheckTypePodStartup_def CheckTypeAPIServer_def
  CheckTypeMetricsServer_def CheckTypeAzurePolicy_def

definition DNSCheckTargetCoreDNS :: dns_check_target where "DNSCheckTargetCoreDNS = ''CoreDNS''"
definition DNSCheckTargetCoreDNSPerPod :: dns_check_target where "DNSCheckTargetCoreDNSPerPod = ''CoreDNSPerPod''"
definition DNSCheckTargetLocalDNS :: dns_check_target where "DNSCheckTargetLocalDNS = ''LocalDNS''"

lemmas dns_targets = DNSCheckTargetCoreDNS_def DNSCheckTargetCoreDNSPerPod_def DNSCheckTargetLocalDNS_def

definition CSITypeAzureFile :: csi_type where "CSITypeAzureFile = ''azureFile''"
definition CSITypeAzureDisk :: csi_type where "CSITypeAzureDisk = ''azureDisk''"
definition CSITypeAzureBlob :: csi_type where "CSITypeAzureBlob = ''azureBlob''"

lemmas csi_types = CSITypeAzureFile_def CSITypeAzureDisk_def CSITypeAzureBlob_def

record dns_config =
  dns_domain :: string
  dns_query_timeout :: duration
  dns_target :: dns_check_target

record pod_startup_config =
  psc_namespace :: string
  psc_label_key :: string
  psc_startup_timeout :: duration
  psc_max_pods :: go_int
  psc_tcp_timeout :: duration
  psc_node_provisioning :: bool
  psc_enabled_csis :: "csi_type list"

record api_server_config =
  api_namespace :: string
  api_label_key :: string
  api_mutate_timeout :: duration
  api_read_timeout :: duration
  api_max_objects :: go_int

record checker_config =
  chk_name :: string
  chk_type :: checker_type
  chk_interval :: duration
  chk_timeout :: duration
  chk_dns :: "dns_config option"
  chk_pod_startup :: "pod_startup_config option"
  chk_api_server :: "api_server_config option"

record config =
  cfg_checkers :: "checker_config list"

section \<open>validation.go\<close>

text \<open>
  \<^verbatim>\<open>ValidateNamespaceName(name, prefix)\<close> and \<^verbatim>\<open>IsQualifiedName(value)\<close> of apimachinery return the
  list of what is wrong with a name.
\<close>

record validators =
  validate_namespace_name :: "string \<Rightarrow> bool \<Rightarrow> string list"
  is_qualified_name :: "string \<Rightarrow> string list"

text \<open>The closing quote of a format such as \<^verbatim>\<open>value='%s'\<close>.\<close>

abbreviation apos :: string where "apos \<equiv> [CHR 0x27]"

text \<open>\<^verbatim>\<open>(c *DNSConfig) validate\<close>\<close>

definition DNSConfig_validate :: "dns_config option \<Rightarrow> duration \<Rightarrow> gerror option" where
  "DNSConfig_validate cfg checkerConfigTimeout =
     (case cfg of
        None \<Rightarrow> Some (Errorf ''dnsConfig is required for DNSChecker'' [])
      | Some c \<Rightarrow> errors_join
          (append_if (dns_domain c = []) (Errorf ''domain is required for DNSChecker'' [])
           @ append_if (dns_query_timeout c <=s 0) (Errorf ''queryTimeout must be greater than 0'' [])
           @ (if dns_target c = DNSCheckTargetCoreDNS \<or> dns_target c = DNSCheckTargetLocalDNS
                \<or> dns_target c = DNSCheckTargetCoreDNSPerPod then []
              else if dns_target c = [] then [Errorf ''target is required for DNSChecker'' []]
              else [Errorf ''target %s is not valid for DNSChecker'' [ArgStr (dns_target c)]])
           @ append_if (checkerConfigTimeout <=s dns_query_timeout c)
               (Errorf (''checker timeout must be greater than DNS query timeout: checker timeout='%s', DNS query timeout='%s'' @ apos)
                  [ArgDur checkerConfigTimeout, ArgDur (dns_query_timeout c)])))"

text \<open>\<^verbatim>\<open>(c *PodStartupConfig) validate\<close>. The sum of the two timeouts wraps like Go's.\<close>

definition PodStartupConfig_validate ::
    "validators \<Rightarrow> pod_startup_config option \<Rightarrow> duration \<Rightarrow> gerror option" where
  "PodStartupConfig_validate V cfg checkerConfigTimeout =
     (case cfg of
        None \<Rightarrow> Some (Errorf ''pod startup checker config is required'' [])
      | Some c \<Rightarrow> errors_join
          (map (\<lambda>nsErr. Errorf (''invalid synthetic pod namespace: value='%s', error='%s'' @ apos)
                  [ArgStr (psc_namespace c), ArgStr nsErr])
             (validate_namespace_name V (psc_namespace c) False)
           @ map (\<lambda>labelErr. Errorf (''invalid synthetic pod label key: value='%s', error='%s'' @ apos)
                  [ArgStr (psc_label_key c), ArgStr labelErr])
             (is_qualified_name V (psc_label_key c))
           @ append_if (checkerConfigTimeout <=s psc_startup_timeout c + psc_tcp_timeout c)
               (Errorf (''checker timeout must be greater than the combined synthetic pod startup timeout and TCP timeout: checker timeout='%s', synthetic pod startup timeout='%s', TCP timeout='%s'' @ apos)
                  [ArgDur checkerConfigTimeout, ArgDur (psc_startup_timeout c), ArgDur (psc_tcp_timeout c)])
           @ append_if (psc_startup_timeout c <=s 0)
               (Errorf (''synthetic pod startup timeout must be greater than 0: value='%s'' @ apos)
                  [ArgDur (psc_startup_timeout c)])
           @ append_if (psc_tcp_timeout c <=s 0)
               (Errorf (''TCP timeout must be greater than 0: value='%s'' @ apos) [ArgDur (psc_tcp_timeout c)])
           @ append_if (psc_max_pods c <=s 0)
               (Errorf ''invalid max synthetic pods: value=%d, must be greater than 0'' [ArgInt (sint (psc_max_pods c))])))"

text \<open>\<^verbatim>\<open>(c *APIServerConfig) validate\<close>\<close>

definition APIServerConfig_validate ::
    "validators \<Rightarrow> api_server_config option \<Rightarrow> duration \<Rightarrow> gerror option" where
  "APIServerConfig_validate V cfg checkerConfigTimeout =
     (case cfg of
        None \<Rightarrow> Some (Errorf ''API server checker config is required'' [])
      | Some c \<Rightarrow> errors_join
          (map (\<lambda>nsErr. Errorf (''invalid namespace: value='%s', error='%s'' @ apos)
                  [ArgStr (api_namespace c), ArgStr nsErr])
             (validate_namespace_name V (api_namespace c) False)
           @ map (\<lambda>labelErr. Errorf (''invalid label key: value='%s', error='%s'' @ apos)
                  [ArgStr (api_label_key c), ArgStr labelErr])
             (is_qualified_name V (api_label_key c))
           @ append_if (checkerConfigTimeout <=s api_mutate_timeout c)
               (Errorf (''checker timeout must be greater than mutate timeout: checker timeout='%s', mutate timeout='%s'' @ apos)
                  [ArgDur checkerConfigTimeout, ArgDur (api_mutate_timeout c)])
           @ append_if (checkerConfigTimeout <=s api_read_timeout c)
               (Errorf (''checker timeout must be greater than read timeout: checker timeout='%s', read timeout='%s'' @ apos)
                  [ArgDur checkerConfigTimeout, ArgDur (api_read_timeout c)])
           @ append_if (api_max_objects c <=s 0)
               (Errorf ''invalid max objects: value=%d, must be greater than 0'' [ArgInt (sint (api_max_objects c))])))"

text \<open>\<^verbatim>\<open>(c *CheckerConfig) validate\<close>: the common fields, then the part the type asks for.\<close>

definition CheckerConfig_validate :: "validators \<Rightarrow> checker_config \<Rightarrow> gerror option" where
  "CheckerConfig_validate V c = errors_join
     (append_if (chk_name c = []) (Errorf (''checker config missing 'name'' @ apos) [])
      @ append_if (chk_type c = []) (Errorf (''checker config missing 'type'' @ apos) [])
      @ append_if (chk_interval c <=s 0)
          (Errorf ''checker config invalid 'interval': %s'' [ArgDur (chk_interval c)])
      @ append_if (chk_timeout c <=s 0)
          (Errorf ''checker config invalid 'timeout': %s'' [ArgDur (chk_timeout c)])
      @ (if chk_type c = CheckTypeDNS then
           append_wrapped ''checker config %q DNSConfig validation failed: %w'' [ArgStr (chk_name c)]
             (DNSConfig_validate (chk_dns c) (chk_timeout c))
         else if chk_type c = CheckTypePodStartup then
           append_wrapped ''checker config %q PodStartupConfig validation failed: %w'' [ArgStr (chk_name c)]
             (PodStartupConfig_validate V (chk_pod_startup c) (chk_timeout c))
         else if chk_type c = CheckTypeAPIServer then
           append_wrapped ''checker config %q APIServerConfig validation failed: %w'' [ArgStr (chk_name c)]
             (APIServerConfig_validate V (chk_api_server c) (chk_timeout c))
         else if chk_type c = CheckTypeAzurePolicy then []
         else if chk_type c = CheckTypeMetricsServer then []
         else [Errorf ''checker config %q has unsupported type: %s'' [ArgStr (chk_name c), ArgStr (chk_type c)]]))"

text \<open>
  \<^verbatim>\<open>(c *Config) validate\<close>: every checker is validated and all errors are collected; \<open>nameSet\<close>
  holds the names seen so far.
\<close>

primrec validate_checkers :: "validators \<Rightarrow> string set \<Rightarrow> checker_config list \<Rightarrow> gerror list" where
  "validate_checkers V nameSet [] = []"
| "validate_checkers V nameSet (chk # chks) =
     append_wrapped ''checker %q: %w'' [ArgStr (chk_name chk)] (CheckerConfig_validate V chk)
     @ append_if (chk_name chk \<in> nameSet) (Errorf ''duplicate checker name: %q'' [ArgStr (chk_name chk)])
     @ validate_checkers V (insert (chk_name chk) nameSet) chks"

definition Config_validate :: "validators \<Rightarrow> config option \<Rightarrow> gerror option" where
  "Config_validate V cfg =
     (case cfg of
        None \<Rightarrow> Some (Errorf ''config is required'' [])
      | Some c \<Rightarrow>
          if cfg_checkers c = [] then Some (Errorf ''at least one checker is required'' [])
          else errors_join (validate_checkers V {} (cfg_checkers c)))"

section \<open>parser.go\<close>

text \<open>\<^verbatim>\<open>os.ReadFile\<close> and \<^verbatim>\<open>yaml.Unmarshal\<close> are the arguments \<open>read_file\<close> and \<open>unmarshal\<close>.\<close>

definition ParseFromYAML :: "validators \<Rightarrow> (string \<Rightarrow> api_error + config) \<Rightarrow> string \<Rightarrow> gerror + config" where
  "ParseFromYAML V unmarshal cfgData =
     (case unmarshal cfgData of
        Inl err \<Rightarrow> Inl (Wrapf ''failed to unmarshal yaml: %w'' [] (ApiErr err))
      | Inr cfg \<Rightarrow>
          (case Config_validate V (Some cfg) of
             Some err \<Rightarrow> Inl (Wrapf ''config validation failed: %w'' [] err)
           | None \<Rightarrow> Inr cfg))"

definition ParseFromFile ::
    "validators \<Rightarrow> (string \<Rightarrow> api_error + string) \<Rightarrow> (string \<Rightarrow> api_error + config) \<Rightarrow> string
     \<Rightarrow> gerror + config" where
  "ParseFromFile V read_file unmarshal path =
     (case read_file path of
        Inl err \<Rightarrow> Inl (Wrapf ''failed to read config file %q: %w'' [ArgStr path] (ApiErr err))
      | Inr data \<Rightarrow> ParseFromYAML V unmarshal data)"

section \<open>The abstract specification\<close>

definition valid_dns_config :: "dns_config option \<Rightarrow> duration \<Rightarrow> bool" where
  "valid_dns_config cfg t = (case cfg of None \<Rightarrow> False | Some c \<Rightarrow>
     dns_domain c \<noteq> [] \<and> 0 < sint (dns_query_timeout c) \<and> sint (dns_query_timeout c) < sint t
     \<and> dns_target c \<in> {DNSCheckTargetCoreDNS, DNSCheckTargetLocalDNS, DNSCheckTargetCoreDNSPerPod})"

definition valid_pod_startup_config :: "validators \<Rightarrow> pod_startup_config option \<Rightarrow> duration \<Rightarrow> bool" where
  "valid_pod_startup_config V cfg t = (case cfg of None \<Rightarrow> False | Some c \<Rightarrow>
     validate_namespace_name V (psc_namespace c) False = [] \<and> is_qualified_name V (psc_label_key c) = []
     \<and> 0 < sint (psc_startup_timeout c) \<and> 0 < sint (psc_tcp_timeout c) \<and> 0 < sint (psc_max_pods c)
     \<and> sint (psc_startup_timeout c + psc_tcp_timeout c) < sint t)"

definition valid_api_server_config :: "validators \<Rightarrow> api_server_config option \<Rightarrow> duration \<Rightarrow> bool" where
  "valid_api_server_config V cfg t = (case cfg of None \<Rightarrow> False | Some c \<Rightarrow>
     validate_namespace_name V (api_namespace c) False = [] \<and> is_qualified_name V (api_label_key c) = []
     \<and> sint (api_mutate_timeout c) < sint t \<and> sint (api_read_timeout c) < sint t
     \<and> 0 < sint (api_max_objects c))"

definition valid_checker_config :: "validators \<Rightarrow> checker_config \<Rightarrow> bool" where
  "valid_checker_config V c \<longleftrightarrow>
     chk_name c \<noteq> [] \<and> 0 < sint (chk_interval c) \<and> 0 < sint (chk_timeout c)
     \<and> (chk_type c = CheckTypeDNS \<and> valid_dns_config (chk_dns c) (chk_timeout c)
        \<or> chk_type c = CheckTypePodStartup \<and> valid_pod_startup_config V (chk_pod_startup c) (chk_timeout c)
        \<or> chk_type c = CheckTypeAPIServer \<and> valid_api_server_config V (chk_api_server c) (chk_timeout c)
        \<or> chk_type c = CheckTypeAzurePolicy \<or> chk_type c = CheckTypeMetricsServer)"

definition valid_config :: "validators \<Rightarrow> config \<Rightarrow> bool" where
  "valid_config V cfg \<longleftrightarrow> cfg_checkers cfg \<noteq> [] \<and> distinct (map chk_name (cfg_checkers cfg))
     \<and> list_all (valid_checker_config V) (cfg_checkers cfg)"

section \<open>Validation implements the specification\<close>

lemma DNSConfig_validate_None [simp]: "DNSConfig_validate cfg t = None \<longleftrightarrow> valid_dns_config cfg t"
  by (auto simp: DNSConfig_validate_def valid_dns_config_def word_sle_eq split: option.splits)

lemma PodStartupConfig_validate_None [simp]:
  "PodStartupConfig_validate V cfg t = None \<longleftrightarrow> valid_pod_startup_config V cfg t"
  by (auto simp: PodStartupConfig_validate_def valid_pod_startup_config_def word_sle_eq split: option.splits)

lemma APIServerConfig_validate_None [simp]:
  "APIServerConfig_validate V cfg t = None \<longleftrightarrow> valid_api_server_config V cfg t"
  by (auto simp: APIServerConfig_validate_def valid_api_server_config_def word_sle_eq split: option.splits)

lemma CheckerConfig_validate_None [simp]: "CheckerConfig_validate V c = None \<longleftrightarrow> valid_checker_config V c"
  by (auto simp: CheckerConfig_validate_def valid_checker_config_def word_sle_eq checker_types)

text \<open>
  One error per invalid checker and one per repetition of a name: nothing is reported twice and
  nothing is dropped.
\<close>

definition repetitions :: "string set \<Rightarrow> string list \<Rightarrow> nat" where
  "repetitions seen names = length names - card (set names - seen)"

lemma validate_checkers_length:
  "length (validate_checkers V seen chks)
     = length (filter (\<lambda>c. \<not> valid_checker_config V c) chks) + repetitions seen (map chk_name chks)"
proof (induction chks arbitrary: seen)
  case Nil
  show ?case by (simp add: repetitions_def)
next
  case (Cons c cs)
  let ?n = "chk_name c" and ?ns = "map chk_name cs"
  have "repetitions seen (?n # ?ns) = (if ?n \<in> seen then 1 else 0) + repetitions (insert ?n seen) ?ns"
  proof -
    have le: "card (set ?ns - insert ?n seen) \<le> length ?ns"
      by (rule le_trans [OF card_mono [OF _ Diff_subset] card_length]) simp
    have "set (?n # ?ns) - seen =
      (if ?n \<in> seen then set ?ns - insert ?n seen else insert ?n (set ?ns - insert ?n seen))"
      by auto
    then have "card (set (?n # ?ns) - seen) = (if ?n \<in> seen then 0 else 1) + card (set ?ns - insert ?n seen)"
      by simp
    with le show ?thesis by (simp add: repetitions_def)
  qed
  moreover have "length (append_wrapped f a (CheckerConfig_validate V c)) = (if valid_checker_config V c then 0 else 1)" for f a
    by (cases "CheckerConfig_validate V c") (auto simp: append_wrapped_def simp flip: CheckerConfig_validate_None)
  ultimately show ?case
    using Cons.IH by (simp add: append_if_def)
qed

lemma repetitions_zero: "repetitions {} names = 0 \<longleftrightarrow> distinct names"
  by (metis Diff_empty card_distinct card_length diff_is_0_eq distinct_card le_antisym
      order_refl repetitions_def)

lemma Config_validate_errors:
  "Config_validate V (Some cfg) = None \<longleftrightarrow> valid_config V cfg"
proof -
  have "validate_checkers V {} (cfg_checkers cfg) = [] \<longleftrightarrow>
      distinct (map chk_name (cfg_checkers cfg)) \<and> list_all (valid_checker_config V) (cfg_checkers cfg)"
    unfolding length_0_conv [symmetric] validate_checkers_length
    by (auto simp: repetitions_zero filter_empty_conv list_all_iff)
  then show ?thesis by (simp add: Config_validate_def valid_config_def)
qed

lemma accepted_timeouts:
  "PodStartupConfig_validate V (Some c) t = None \<Longrightarrow> sint (psc_startup_timeout c) + sint (psc_tcp_timeout c) < 2 ^ 63 \<Longrightarrow>
    0 < sint (psc_startup_timeout c) \<and> 0 < sint (psc_tcp_timeout c)
    \<and> sint (psc_startup_timeout c) + sint (psc_tcp_timeout c) < sint t"
  using sint_add64 [of "psc_startup_timeout c" "psc_tcp_timeout c"] by (simp add: valid_pod_startup_config_def)

section \<open>Properties\<close>

text \<open>
  C8: Reading a configuration file succeeds exactly when the file can be read, decodes to the
  configuration returned, and that configuration is valid: at least one checker, distinct names, and
  every checker named, with positive interval and timeout, a known type and a valid part for it.
\<close>

theorem ParseFromFile_accepts:
  "ParseFromFile V read_file unmarshal path = Inr cfg \<longleftrightarrow>
     (\<exists>data. read_file path = Inr data \<and> unmarshal data = Inr cfg \<and> valid_config V cfg)"
  by (auto simp: ParseFromFile_def ParseFromYAML_def Config_validate_errors split: sum.splits option.splits
      simp flip: Config_validate_errors)

text \<open>
  C39: Validation goes through all checkers and collects one error for each invalid checker and one
  for each checker whose name occurred before it: nothing is dropped after the first error.
\<close>

theorem validation_collects:
  "length (validate_checkers V {} (cfg_checkers cfg))
     = length (filter (\<lambda>c. CheckerConfig_validate V c \<noteq> None) (cfg_checkers cfg))
       + (length (cfg_checkers cfg) - card (set (map chk_name (cfg_checkers cfg))))"
  by (simp add: validate_checkers_length repetitions_def del: not_None_eq)

text \<open>
  C40: In an accepted pod startup configuration whose two timeouts do not overflow when added, both
  are positive and the timeout of the checker leaves room for one after the other.
\<close>

theorem accepted_timeouts_fit:
  assumes "PodStartupConfig_validate V (Some c) t = None"
    and "sint (psc_startup_timeout c) + sint (psc_tcp_timeout c) < 2 ^ 63"
  shows "0 < sint (psc_startup_timeout c) \<and> 0 < sint (psc_tcp_timeout c)
    \<and> sint (psc_startup_timeout c) + sint (psc_tcp_timeout c) < sint t"
  by (rule accepted_timeouts [OF assms])

definition sample_validators :: validators where
  "sample_validators = \<lparr>validate_namespace_name = (\<lambda>n prefix. if n = [] then [''empty''] else []),
     is_qualified_name = (\<lambda>n. if n = [] then [''empty''] else [])\<rparr>"

definition sample_startup_config :: "duration \<Rightarrow> duration \<Rightarrow> pod_startup_config" where
  "sample_startup_config startup tcp = \<lparr>psc_namespace = ''kube-system'', psc_label_key = ''checker'',
     psc_startup_timeout = startup, psc_max_pods = 10, psc_tcp_timeout = tcp, psc_node_provisioning = False, psc_enabled_csis = []\<rparr>"

lemma sample_startup_config_accepted:
  "PodStartupConfig_validate sample_validators (Some (sample_startup_config 5000000000 1000000000)) 10000000000 = None"
  by (simp add: valid_pod_startup_config_def sample_startup_config_def sample_validators_def)

theorem accepted_timeouts_fit_witness:
  "\<exists>c. PodStartupConfig_validate sample_validators (Some c) 10000000000 = None
     \<and> psc_startup_timeout c = 5000000000 \<and> psc_tcp_timeout c = 1000000000
     \<and> 0 < sint (psc_startup_timeout c) \<and> 0 < sint (psc_tcp_timeout c)
     \<and> sint (psc_startup_timeout c) + sint (psc_tcp_timeout c) < sint (10000000000 :: duration)"
proof (intro exI conjI)
  let ?c = "sample_startup_config 5000000000 1000000000"
  show "PodStartupConfig_validate sample_validators (Some ?c) 10000000000 = None" by (rule sample_startup_config_accepted)
  show times: "psc_startup_timeout ?c = 5000000000" "psc_tcp_timeout ?c = 1000000000" by (simp_all add: sample_startup_config_def)
  have "sint (psc_startup_timeout ?c) + sint (psc_tcp_timeout ?c) < 2 ^ 63" by (simp add: times)
  from accepted_timeouts_fit [OF sample_startup_config_accepted this]
  show "0 < sint (psc_startup_timeout ?c)" "0 < sint (psc_tcp_timeout ?c)"
    "sint (psc_startup_timeout ?c) + sint (psc_tcp_timeout ?c) < sint (10000000000 :: duration)" by blast+
qed

text \<open>Without that bound the sum wraps: each timeout alone may exceed the timeout of the checker.\<close>

lemma timeout_sum_wraps:
  "PodStartupConfig_validate sample_validators (Some (sample_startup_config max_duration max_duration)) Second = None"
  by (simp add: valid_pod_startup_config_def sample_startup_config_def sample_validators_def max_duration_def)

end
