(* ===== verification/Checker.thy ===== *)
theory Checker
  imports Metrics Config
begin

text \<open>
  Package \<^verbatim>\<open>checker\<close> (\<^verbatim>\<open>pkg/checker\<close>): results, the recording of a result in the counters, the
  registry of builders, and the \<^verbatim>\<open>Checker\<close> interface. The interface is the locale
  \<open>checker_iface\<close>: what a run may do to the counters. Every checker interprets it.
\<close>

section \<open>result.go\<close>

datatype status = StatusHealthy | StatusUnhealthy | StatusSkipped

text \<open>A message: a literal, or \<^verbatim>\<open>fmt.Sprintf\<close> of a format with an error.\<close>

datatype message = Msg string | MsgErr string gerror

record detail =
  det_code :: string
  det_message :: message
  det_pod :: string

record result =
  res_status :: status
  res_detail :: detail

definition Healthy :: result where
  "Healthy = \<lparr>res_status = StatusHealthy, res_detail = \<lparr>det_code = [], det_message = Msg [], det_pod = []\<rparr>\<rparr>"

definition Unhealthy :: "string \<Rightarrow> message \<Rightarrow> result" where
  "Unhealthy code msg =
     \<lparr>res_status = StatusUnhealthy, res_detail = \<lparr>det_code = code, det_message = msg, det_pod = []\<rparr>\<rparr>"

definition Skipped :: "message \<Rightarrow> result" where
  "Skipped msg = \<lparr>res_status = StatusSkipped, res_detail = \<lparr>det_code = [], det_message = msg, det_pod = []\<rparr>\<rparr>"

definition WithPod :: "result \<Rightarrow> string \<Rightarrow> result" where
  "WithPod r p = r\<lparr>res_detail := (res_detail r)\<lparr>det_pod := p\<rparr>\<rparr>"

lemma result_simps [simp]:
  "res_status Healthy = StatusHealthy" "res_status (Unhealthy c m) = StatusUnhealthy"
  "res_status (Skipped m) = StatusSkipped" "det_code (res_detail (Unhealthy c m)) = c"
  "det_code (res_detail Healthy) = []" "det_code (res_detail (Skipped m)) = []"
  by (simp_all add: Healthy_def Unhealthy_def Skipped_def)

lemma result_distinct [simp]:
  "Healthy \<noteq> Unhealthy c m" "Healthy \<noteq> Skipped m" "Unhealthy c m \<noteq> Skipped m'"
  "Unhealthy c m \<noteq> Healthy" "Skipped m \<noteq> Healthy" "Skipped m' \<noteq> Unhealthy c m"
  "Unhealthy c m = Unhealthy c' m' \<longleftrightarrow> c = c' \<and> m = m'"
  by (auto simp: Healthy_def Unhealthy_def Skipped_def)

section \<open>Recording a result\<close>

text \<open>
  The status and error code labels of a result. The \<^verbatim>\<open>switch\<close> has no case for a skipped
  result, so both labels stay empty strings.
\<close>

definition status_labels :: "result \<Rightarrow> string \<times> string" where
  "status_labels r = (case res_status r of
       StatusHealthy \<Rightarrow> (HealthyStatus, HealthyCode)
     | StatusUnhealthy \<Rightarrow> (UnhealthyStatus, det_code (res_detail r))
     | StatusSkipped \<Rightarrow> ([], []))"

definition RecordResult :: "checker_type \<Rightarrow> string \<Rightarrow> gerror + result \<Rightarrow> unit io" where
  "RecordResult checkerType checkerName r =
     (case r of
        Inl err \<Rightarrow> emit (EvInc CheckerResultCounter [checkerType, checkerName, UnknownStatus, UnknownCode])
      | Inr result \<Rightarrow>
          (case status_labels result of (status, errorCode) \<Rightarrow>
             emit (EvInc CheckerResultCounter [checkerType, checkerName, status, errorCode])))"

definition RecordCoreDNSPodResult :: "checker_type \<Rightarrow> string \<Rightarrow> string \<Rightarrow> gerror + result \<Rightarrow> unit io" where
  "RecordCoreDNSPodResult checkerType checkerName podName r =
     (case r of
        Inl err \<Rightarrow> emit (EvInc CoreDNSPodResultCounter [checkerType, checkerName, podName, UnknownStatus, UnknownCode])
      | Inr result \<Rightarrow>
          (case status_labels result of (status, errorCode) \<Rightarrow>
             emit (EvInc CoreDNSPodResultCounter [checkerType, checkerName, podName, status, errorCode])))"

text \<open>The labels a result or an error is recorded with.\<close>

definition recorded_labels :: "gerror + result \<Rightarrow> string list" where
  "recorded_labels r = (case r of
       Inl _ \<Rightarrow> [UnknownStatus, UnknownCode]
     | Inr res \<Rightarrow> [fst (status_labels res), snd (status_labels res)])"

lemma RecordResult_eq:
  "RecordResult ty nm r = emit (EvInc CheckerResultCounter (ty # nm # recorded_labels r))"
  by (simp add: RecordResult_def recorded_labels_def split: sum.splits prod.splits)

lemma RecordCoreDNSPodResult_eq:
  "RecordCoreDNSPodResult ty nm p r = emit (EvInc CoreDNSPodResultCounter (ty # nm # p # recorded_labels r))"
  by (simp add: RecordCoreDNSPodResult_def recorded_labels_def split: sum.splits prod.splits)

lemma emits_RecordResult [emits_intros]:
  "Q () [EvInc CheckerResultCounter (ty # nm # recorded_labels r)] \<Longrightarrow> emits (RecordResult ty nm r) Q"
  by (simp add: RecordResult_eq)

lemma emits_RecordCoreDNSPodResult [emits_intros]:
  "Q () [EvInc CoreDNSPodResultCounter (ty # nm # p # recorded_labels r)]
    \<Longrightarrow> emits (RecordCoreDNSPodResult ty nm p r) Q"
  by (simp add: RecordCoreDNSPodResult_eq)

lemma recorded_labels_simps [simp]:
  "recorded_labels (Inl e) = [UnknownStatus, UnknownCode]"
  "recorded_labels (Inr Healthy) = [HealthyStatus, HealthyCode]"
  "recorded_labels (Inr (Unhealthy c m)) = [UnhealthyStatus, c]"
  "recorded_labels (Inr (Skipped m)) = [[], []]"
  by (simp_all add: recorded_labels_def status_labels_def)

text \<open>A skipped run is counted with an empty status and an empty error code.\<close>

lemma skipped_result_labels:
  "RecordResult ty nm (Inr (Skipped m)) = emit (EvInc CheckerResultCounter [ty, nm, [], []])"
  by (simp add: RecordResult_eq)

section \<open>The registry\<close>

text \<open>
  A nil dereference panics. \<open>may_panic\<close> is the outcome of the operations where the source can
  do so: building a checker, and running one.
\<close>

datatype 'a may_panic = Returned 'a | Panicked

text \<open>A nil \<^verbatim>\<open>kubernetes.Interface\<close> is \<open>None\<close>.\<close>

type_synonym 'c builder = "checker_config \<Rightarrow> env \<Rightarrow> (gerror + 'c) may_panic io"
type_synonym 'c registry = "checker_type \<rightharpoonup> 'c builder"

definition RegisterChecker :: "checker_type \<Rightarrow> 'c builder \<Rightarrow> 'c registry \<Rightarrow> 'c registry" where
  "RegisterChecker t b registry = registry(t \<mapsto> b)"

definition Build :: "'c registry \<Rightarrow> checker_config \<Rightarrow> env option \<Rightarrow> (gerror + 'c) may_panic io" where
  "Build registry cfg kubeClient =
     (case kubeClient of
        None \<Rightarrow> State_Monad.return (Returned (Inl (Errorf ''kubernetes client cannot be nil'' [])))
      | Some env \<Rightarrow>
          (case registry (chk_type cfg) of
             None \<Rightarrow> State_Monad.return (Returned (Inl (Errorf ''unrecognized checker type: %q'' [ArgStr (chk_type cfg)])))
           | Some b \<Rightarrow> b cfg env))"

text \<open>The registry as an interface: what a lookup returns after registrations.\<close>

locale checker_registry =
  fixes empty :: "'r"
    and register :: "checker_type \<Rightarrow> 'b \<Rightarrow> 'r \<Rightarrow> 'r"
    and find_builder :: "'r \<Rightarrow> checker_type \<Rightarrow> 'b option"
  assumes find_empty: "find_builder empty t = None"
    and find_register: "find_builder (register t b reg) t' = (if t' = t then Some b else find_builder reg t')"
begin

lemma find_register_list:
  "find_builder (fold (\<lambda>(t, b). register t b) bs reg) t
     = (case map_of (rev bs) t of None \<Rightarrow> find_builder reg t | Some b \<Rightarrow> Some b)"
proof (induction bs arbitrary: reg)
  case Nil
  show ?case by simp
next
  case (Cons tb bs)
  obtain t' b where "tb = (t', b)" by (cases tb)
  then show ?case
    by (simp add: Cons.IH find_register map_add_def split: option.splits)
qed

lemma find_distinct:
  assumes "distinct (map fst bs)"
  shows "find_builder (fold (\<lambda>(t, b). register t b) bs empty) t = map_of bs t"
  using assms by (simp add: find_register_list find_empty map_of_rev split: option.splits)

end

interpretation builders: checker_registry Map.empty "RegisterChecker :: checker_type \<Rightarrow> 'c builder \<Rightarrow> _"
  "\<lambda>registry t. registry t"
  by unfold_locales (auto simp: RegisterChecker_def)

section \<open>The Checker interface\<close>

text \<open>An increment that carries the checker's own type and name as its first two labels.\<close>

definition owned :: "checker_type \<Rightarrow> string \<Rightarrow> counter \<times> string list \<Rightarrow> bool" where
  "owned ty nm inc \<longleftrightarrow> take 2 (snd inc) = [ty, nm] \<and> length (snd inc) = length (counter_label_names (fst inc))"

lemma owned_simps [simp]:
  "owned ty nm (CheckerResultCounter, ty' # nm' # recorded_labels r) \<longleftrightarrow> ty' = ty \<and> nm' = nm"
  "owned ty nm (CoreDNSPodResultCounter, ty' # nm' # p # recorded_labels r) \<longleftrightarrow> ty' = ty \<and> nm' = nm"
  by (auto simp: owned_def recorded_labels_def split: sum.splits)

text \<open>Successive runs, each with its own context: what the scheduler does with a checker.\<close>

primrec run_all :: "('x \<Rightarrow> unit io) \<Rightarrow> 'x list \<Rightarrow> unit io" where
  "run_all run [] = State_Monad.return ()"
| "run_all run (x # xs) = do { _ \<leftarrow> run x; run_all run xs }"

locale checker_iface =
  fixes Name :: string and Type :: checker_type and Run :: "gctx \<Rightarrow> unit io"
  assumes run_owned: "emits (Run ctx) (\<lambda>_ es. list_all (owned Type Name) (increments es))"
begin

lemma runs_owned: "emits (run_all Run ctxs) (\<lambda>_ es. list_all (owned Type Name) (increments es))"
proof (induction ctxs)
  case Nil
  show ?case by simp
next
  case (Cons c cs)
  show ?case
    unfolding run_all.simps
    by (rule emits_bind, rule emits_conseq [OF run_owned], rule emits_conseq [OF Cons.IH]) simp
qed

text \<open>No other checker's counters move.\<close>

lemma runs_leave_others:
  assumes "(ty, nm) \<noteq> (Type, Name)"
  shows "emits (run_all Run ctxs) (\<lambda>_ es. counter_value es c (ty # nm # ls) = 0)"
proof (rule emits_conseq [OF runs_owned])
  fix r es
  assume "list_all (owned Type Name) (increments es)"
  then have "(c, ty # nm # ls) \<notin> set (increments es)"
    using assms by (auto simp: list_all_iff owned_def)
  then show "counter_value es c (ty # nm # ls) = 0"
    by (simp add: counter_value_def)
qed

end

text \<open>A checker that records exactly one result per run.\<close>

locale recording_checker = checker_iface +
  assumes run_records: "emits (Run ctx) (\<lambda>_ es. map fst (increments es) = [CheckerResultCounter])"
begin

lemma runs_record: "emits (run_all Run ctxs)
  (\<lambda>_ es. map fst (increments es) = replicate (length ctxs) CheckerResultCounter)"
proof (induction ctxs)
  case Nil
  show ?case by simp
next
  case (Cons c cs)
  show ?case
    unfolding run_all.simps
    by (rule emits_bind, rule emits_conseq [OF run_records], rule emits_conseq [OF Cons.IH]) simp
qed

end

text \<open>The shape of most checkers: compute a result with calls that touch no counter, record it.\<close>

definition silent :: "'a io \<Rightarrow> bool" where
  "silent m \<longleftrightarrow> performs (\<lambda>e. inc_of e = []) m"

lemma silent_increments: "silent m \<Longrightarrow> emits m (\<lambda>_ es. increments es = [])"
  unfolding silent_def performs_def
  by (erule emits_conseq) (auto simp: increments_def list_all_iff)

definition check_and_record :: "checker_type \<Rightarrow> string \<Rightarrow> (gerror + result) io \<Rightarrow> unit io" where
  "check_and_record ty nm check = do { r \<leftarrow> check; RecordResult ty nm r }"

lemma check_and_record_increments:
  assumes "emits check (\<lambda>r es. increments es = [] \<and> Q r)"
  shows "emits (check_and_record ty nm check)
    (\<lambda>_ es. \<exists>r. increments es = [(CheckerResultCounter, ty # nm # recorded_labels r)] \<and> Q r)"
  unfolding check_and_record_def
  by (rule emits_bind, rule emits_conseq [OF assms], rule emits_RecordResult) auto

lemma recording_checker_check_and_record:
  assumes "\<And>ctx. silent (check ctx)"
  shows "recording_checker nm ty (\<lambda>ctx. check_and_record ty nm (check ctx))"
proof -
  have "emits (check_and_record ty nm (check ctx))
    (\<lambda>_ es. \<exists>r. increments es = [(CheckerResultCounter, ty # nm # recorded_labels r)] \<and> True)" for ctx
    using silent_increments [OF assms] by (intro check_and_record_increments) simp
  note recorded = emits_conseq [OF this]
  show ?thesis
    by unfold_locales (rule recorded; force)+
qed

end
