(* ===== verification/Quota.thy ===== *)
theory Quota
  imports Checker
begin

text \<open>
  Object limits. The API server checker and the pod startup checker both list the objects they
  own, stop if there are too many, and create one. The locale \<open>limited_creator\<close> is that
  contract, stated on traces; its lemma turns it into an invariant of the cluster: with listings
  that show at least the checker's own live objects, their number never exceeds the limit.
\<close>

section \<open>Live objects\<close>

text \<open>
  The names of the objects of a resource in a namespace, carrying the labels \<open>ls\<close>, that the
  history shows created and not deleted.
\<close>

fun live_step :: "resource \<Rightarrow> string \<Rightarrow> labels \<Rightarrow> string list \<Rightarrow> event \<Rightarrow> string list" where
  "live_step r ns ls names (EvCreate r' _ ns' dry _ res) =
     (case res of
        Inl _ \<Rightarrow> names
      | Inr ob \<Rightarrow> if r' = r \<and> ns' = ns \<and> \<not> dry \<and> set ls \<subseteq> set (om_labels (obj_meta ob))
                 then List.insert (object_name ob) names else names)"
| "live_step r ns ls names (EvDelete r' _ ns' n res) =
     (if r' = r \<and> ns' = ns \<and> res = None then filter (\<lambda>m. m \<noteq> n) names else names)"
| "live_step r ns ls names _ = names"

definition live :: "resource \<Rightarrow> string \<Rightarrow> labels \<Rightarrow> history \<Rightarrow> string list" where
  "live r ns ls h = foldl (live_step r ns ls) [] h"

lemma live_append [simp]: "live r ns ls (h @ es) = foldl (live_step r ns ls) (live r ns ls h) es"
  by (simp add: live_def)

lemma live_Nil [simp]: "live r ns ls [] = []"
  by (simp add: live_def)

lemma length_live_step_create:
  "length (live_step r ns ls names e) \<le> Suc (length names)"
  by (cases e) (auto split: sum.splits simp: List.insert_def le_Suc_eq intro: le_SucI)

lemma length_live_step:
  "sent_of r e = [] \<Longrightarrow> length (live_step r ns ls names e) \<le> length names"
  by (cases e) (auto split: sum.splits if_splits)

lemma length_live_fold:
  "sent r es = [] \<Longrightarrow> length (foldl (live_step r ns ls) names es) \<le> length names"
proof (induction es arbitrary: names)
  case Nil
  show ?case by simp
next
  case (Cons e es)
  then show ?case
    using length_live_step [of r e ns ls names] by (fastforce intro: le_trans)
qed

section \<open>Traces that the environment may answer\<close>

text \<open>
  \<open>admits A m\<close>: from every history, each event that \<open>m\<close> appends satisfies \<open>A\<close> of
  the history before it. It carries an assumption about the environment's answers into a trace.
\<close>

primrec trace_ok :: "(history \<Rightarrow> event \<Rightarrow> bool) \<Rightarrow> history \<Rightarrow> history \<Rightarrow> bool" where
  "trace_ok A h [] = True"
| "trace_ok A h (e # es) = (A h e \<and> trace_ok A (h @ [e]) es)"

lemma trace_ok_append [simp]: "trace_ok A h (es @ es') \<longleftrightarrow> trace_ok A h es \<and> trace_ok A (h @ es) es'"
  by (induction es arbitrary: h) auto

definition admits :: "(history \<Rightarrow> event \<Rightarrow> bool) \<Rightarrow> 'a io \<Rightarrow> bool" where
  "admits A m \<longleftrightarrow> (\<forall>h. \<exists>r es. run_state m h = (r, h @ es) \<and> trace_ok A h es)"

named_theorems admits_intros \<open>rules for \<open>admits\<close>\<close>

lemma admits_performs: "performs (\<lambda>e. \<forall>h. A h e) m \<Longrightarrow> admits A m"
  unfolding admits_def
proof
  fix h
  assume "performs (\<lambda>e. \<forall>h. A h e) m"
  then obtain r es where "run_state m h = (r, h @ es)" "list_all (\<lambda>e. \<forall>h. A h e) es"
    unfolding performs_def emits_def by blast
  moreover from this(2) have "trace_ok A h' es" for h'
    by (induction es arbitrary: h') auto
  ultimately show "\<exists>r es. run_state m h = (r, h @ es) \<and> trace_ok A h es" by blast
qed

lemma admits_ask: "(\<And>h. A h (ev (q h))) \<Longrightarrow> admits A (ask q ev)"
  by (simp add: admits_def)

lemma admits_return [admits_intros]: "admits A (State_Monad.return x)"
  by (simp add: admits_def)

lemma admits_bind [admits_intros]:
  assumes "admits A m" "\<And>x. admits A (f x)"
  shows "admits A (State_Monad.bind m f)"
  unfolding admits_def
proof
  fix h
  obtain a es where "run_state m h = (a, h @ es)" "trace_ok A h es"
    using assms(1) unfolding admits_def by blast
  moreover obtain b es' where "run_state (f a) (h @ es) = (b, (h @ es) @ es')" "trace_ok A (h @ es) es'"
    using assms(2) unfolding admits_def by blast
  ultimately show "\<exists>r es. run_state (State_Monad.bind m f) h = (r, h @ es) \<and> trace_ok A h es"
    by (intro exI [of _ b] exI [of _ "es @ es'"]) simp
qed

lemma admits_if [admits_intros]:
  "(b \<Longrightarrow> admits A m) \<Longrightarrow> (\<not> b \<Longrightarrow> admits A n) \<Longrightarrow> admits A (if b then m else n)"
  by simp

lemma admits_case_sum [admits_intros]:
  "(\<And>e. x = Inl e \<Longrightarrow> admits A (f e)) \<Longrightarrow> (\<And>v. x = Inr v \<Longrightarrow> admits A (g v))
    \<Longrightarrow> admits A (case x of Inl e \<Rightarrow> f e | Inr v \<Rightarrow> g v)"
  by (cases x) auto

lemma admits_case_option [admits_intros]:
  "(x = None \<Longrightarrow> admits A m) \<Longrightarrow> (\<And>v. x = Some v \<Longrightarrow> admits A (f v))
    \<Longrightarrow> admits A (case x of None \<Rightarrow> m | Some v \<Rightarrow> f v)"
  by (cases x) auto

lemma admits_run:
  "emits m Q \<Longrightarrow> admits A m \<Longrightarrow> \<exists>es. snd (run_state m h) = h @ es \<and> Q (outcome m h) es \<and> trace_ok A h es"
  unfolding admits_def emits_def outcome_def
  by (metis Pair_inject prod.collapse same_append_eq)

section \<open>Faithful listings\<close>

text \<open>
  What the limit rests on: a successful listing by the checker's own labels shows at least as
  many objects as the history has live. (A consistent list request of the Kubernetes API returns
  every object that matches; other programs may add objects with the same labels but do not delete
  the checker's.)
\<close>

definition faithful_listing ::
    "resource \<Rightarrow> string \<Rightarrow> labels \<Rightarrow> (history \<Rightarrow> gctx \<Rightarrow> string \<Rightarrow> list_options \<Rightarrow> api_error + 'o list) \<Rightarrow> bool" where
  "faithful_listing r ns ls answer \<longleftrightarrow>
     (\<forall>h ctx obs. answer h ctx ns (SelectorFromSet ls) = Inr obs \<longrightarrow> length (live r ns ls h) \<le> length obs)"

fun shows_live :: "resource \<Rightarrow> string \<Rightarrow> labels \<Rightarrow> history \<Rightarrow> event \<Rightarrow> bool" where
  "shows_live r ns ls h (EvList r' _ ns' opts res) =
     (case res of
        Inl _ \<Rightarrow> True
      | Inr obs \<Rightarrow> r' = r \<and> ns' = ns \<and> opts = SelectorFromSet ls \<longrightarrow> length (live r ns ls h) \<le> length obs)"
| "shows_live r ns ls h _ = True"

lemma admits_configmap_list:
  "faithful_listing ConfigMaps ns ls (env_configmap_list env)
    \<Longrightarrow> admits (shows_live ConfigMaps ns ls) (configmap_list env ctx ns' opts)"
  unfolding configmap_list_def
  by (rule admits_ask) (auto simp: faithful_listing_def split: sum.splits)

lemma admits_pod_list:
  "faithful_listing Pods ns ls (env_pod_list env)
    \<Longrightarrow> admits (shows_live Pods ns ls) (pod_list env ctx ns' opts)"
  unfolding pod_list_def
  by (rule admits_ask) (auto simp: faithful_listing_def split: sum.splits)

lemma admits_for_collect [admits_intros]:
  "(\<And>x. admits A (body x)) \<Longrightarrow> admits A (for_collect body xs)"
  by (induction xs) (auto intro: admits_intros)

text \<open>Calls that are no listing.\<close>

lemma admits_other_calls [admits_intros]:
  "admits (shows_live r ns ls) (time_now env)"
  "admits (shows_live r ns ls) (with_timeout env ctx d)"
  "admits (shows_live r ns ls) (delete_object env r' ctx ns' nm)"
  "admits (shows_live r ns ls) (configmap_create env ctx ns' cm)"
  "admits (shows_live r ns ls) (configmap_get env ctx ns' nm)"
  "admits (shows_live r ns ls) (pod_create env ctx ns' dry p)"
  "admits (shows_live r ns ls) (pod_get env ctx ns' nm)"
  "admits (shows_live r ns ls) (RecordResult ty cn res)"
  by (rule admits_performs; (intro performs_intros)?; simp add: RecordResult_eq performs_def)+

lemma admits_poll_until_context_cancel [admits_intros]:
  assumes "admits (shows_live r ns ls) condition"
  shows "admits (shows_live r ns ls) (poll_until_context_cancel env ctx interval condition)"
proof -
  have "admits (shows_live r ns ls) (repeat_condition condition n)" for n
    by (induction n) (auto intro!: admits_intros assms)
  moreover have "admits (shows_live r ns ls) (poll_budget env ctx interval)"
    by (rule admits_performs, intro performs_intros) simp
  ultimately show ?thesis
    unfolding poll_until_context_cancel_def by (intro admits_intros)
qed

section \<open>The contract of a limited creator\<close>

text \<open>
  At most one object of the resource is sent for creation, and right after a listing with fewer
  objects than the limit (no other creation and no other listing of it comes in between).
\<close>

definition guarded :: "resource \<Rightarrow> string \<Rightarrow> labels \<Rightarrow> int \<Rightarrow> history \<Rightarrow> bool" where
  "guarded r ns ls limit es \<longleftrightarrow> sent r es = [] \<or>
     (\<exists>pre c obs mid create post. es = pre @ EvList r c ns (SelectorFromSet ls) (Inr obs) # mid @ create # post
        \<and> int (length obs) < limit \<and> sent r pre = [] \<and> sent r mid = [] \<and> sent r post = [])"

lemma guardedI:
  "es = pre @ EvList r c ns (SelectorFromSet ls) (Inr obs) # mid @ create # post \<Longrightarrow>
    int (length obs) < limit \<Longrightarrow> sent r pre = [] \<Longrightarrow> sent r mid = [] \<Longrightarrow> sent r post = [] \<Longrightarrow>
    guarded r ns ls limit es"
  unfolding guarded_def by blast

lemma guarded_live:
  assumes g: "guarded r ns ls limit es" and ok: "trace_ok (shows_live r ns ls) h es"
    and bound: "int (length (live r ns ls h)) \<le> limit"
  shows "int (length (live r ns ls (h @ es))) \<le> limit"
proof (cases "sent r es = []")
  case True
  with bound show ?thesis using length_live_fold [OF True, of ns ls "live r ns ls h"] by simp
next
  case False
  let ?l = "live r ns ls" and ?step = "foldl (live_step r ns ls)"
  from False g obtain pre c obs mid create post
    where es: "es = pre @ EvList r c ns (SelectorFromSet ls) (Inr obs) # mid @ create # post"
      and lt: "int (length obs) < limit"
      and none: "sent r pre = []" "sent r mid = []" "sent r post = []"
    unfolding guarded_def by blast
  from ok es have "length (?l (h @ pre)) \<le> length obs" by simp
  moreover have "length (?step (?l (h @ pre)) mid) \<le> length (?l (h @ pre))"
    by (rule length_live_fold [OF none(2)])
  moreover have "length (?step (live_step r ns ls (?step (?l (h @ pre)) mid) create) post)
      \<le> Suc (length (?step (?l (h @ pre)) mid))"
    by (rule le_trans [OF length_live_fold [OF none(3)] length_live_step_create])
  ultimately show ?thesis using lt by (simp add: es)
qed

locale limited_creator =
  fixes attempt :: "'x \<Rightarrow> unit io" and r :: resource and ns :: string and ls :: labels and limit :: int
  assumes guards: "emits (attempt x) (\<lambda>_ es. guarded r ns ls limit es)"
begin

lemma live_within_limit:
  assumes "admits (shows_live r ns ls) (attempt x)" and "int (length (live r ns ls h)) \<le> limit"
  shows "int (length (live r ns ls (snd (run_state (attempt x) h)))) \<le> limit"
proof -
  obtain es where "snd (run_state (attempt x) h) = h @ es" "guarded r ns ls limit es"
    "trace_ok (shows_live r ns ls) h es"
    using admits_run [OF guards assms(1)] by blast
  then show ?thesis using guarded_live [OF _ _ assms(2)] by simp
qed

text \<open>The limit is an invariant of any sequence of runs.\<close>

lemma runs_within_limit:
  assumes "\<And>x. admits (shows_live r ns ls) (attempt x)" and "int (length (live r ns ls h)) \<le> limit"
  shows "int (length (live r ns ls (snd (run_state (run_all attempt xs) h)))) \<le> limit"
  using assms(2)
proof (induction xs arbitrary: h)
  case Nil
  then show ?case by simp
next
  case (Cons x xs)
  show ?case
    using Cons.IH [OF live_within_limit [OF assms(1) Cons.prems]] by (simp add: split_beta)
qed

lemma at_most_one_creation: "emits (attempt x) (\<lambda>_ es. length (sent r es) \<le> 1)"
proof (rule emits_conseq [OF guards])
  fix y es
  have one: "length (sent_of r e) \<le> 1" for e by (cases e) auto
  assume "guarded r ns ls limit es"
  then show "length (sent r es) \<le> 1"
    using one by (auto simp: guarded_def)
qed

end

end
