(* ===== verification/Samples.thy ===== *)
theory Samples
  imports Quota
begin

text \<open>
  One concrete environment, for evaluating the model and for showing that the hypotheses of the
  object limits can hold: a cluster that answers every request from the history alone. It stores what
  was created, lists and reads the live objects, deletes on request, answers a deletion of a missing
  object with a not-found error, and its clock counts the events of the history, in nanoseconds. The
  containers of its pods run at once, every lookup and every connection succeeds.
\<close>

definition not_found_error :: api_error where
  "not_found_error = \<lparr>err_text = ''not found'', err_deadline = False, err_not_found = True\<rparr>"

definition deadline_error :: api_error where
  "deadline_error = \<lparr>err_text = ''context deadline exceeded'', err_deadline = True, err_not_found = False\<rparr>"

fun selected_labels :: "list_options \<Rightarrow> labels" where
  "selected_labels (SelectorFromSet ls) = ls"
| "selected_labels _ = []"

definition sample_clock :: "history \<Rightarrow> time" where
  "sample_clock h = int (length h)"

definition sample_meta :: "string \<Rightarrow> labels \<Rightarrow> string \<Rightarrow> object_meta" where
  "sample_meta ns ls n = \<lparr>om_name = n, om_namespace = ns, om_labels = ls, om_created = 0\<rparr>"

definition sample_pod :: "string \<Rightarrow> labels \<Rightarrow> string \<Rightarrow> pod" where
  "sample_pod ns ls n = \<lparr>pod_meta = sample_meta ns ls n,
     pod_spec_of = \<lparr>ps_containers = [], ps_tolerations = [], ps_node_affinity_terms = [], ps_volumes = [],
       ps_node_selector = [], ps_restart_policy = []\<rparr>,
     pod_status_of = \<lparr>pst_container_statuses = [\<lparr>cs_running_started_at = Some 0\<rparr>], pst_pod_ip = ''10.0.0.7''\<rparr>\<rparr>"

definition sample_cluster :: env where
  "sample_cluster = \<lparr>
     env_now = sample_clock,
     env_configmap_list = (\<lambda>h ctx ns opts. Inr (map (\<lambda>n. \<lparr>cm_meta = sample_meta ns (selected_labels opts) n\<rparr>)
       (live ConfigMaps ns (selected_labels opts) h))),
     env_configmap_create = (\<lambda>h ctx ns cm. Inr cm),
     env_configmap_get = (\<lambda>h ctx ns n. if n \<in> set (live ConfigMaps ns [] h)
       then Inr \<lparr>cm_meta = sample_meta ns [] n\<rparr> else Inl not_found_error),
     env_delete = (\<lambda>h r ctx ns n. if n \<in> set (live r ns [] h) then None else Some not_found_error),
     env_pod_list = (\<lambda>h ctx ns opts. Inr (map (sample_pod ns (selected_labels opts)) (live Pods ns (selected_labels opts) h))),
     env_pod_create = (\<lambda>h ctx ns dry p. Inr p),
     env_pod_get = (\<lambda>h ctx ns n. if n \<in> set (live Pods ns [] h) then Inr (sample_pod ns [] n) else Inl not_found_error),
     env_pvc_list = (\<lambda>h ctx ns opts. Inr []),
     env_pvc_create = (\<lambda>h ctx ns pvc. None),
     env_sc_list = (\<lambda>h ctx opts. Inr []),
     env_sc_create = (\<lambda>h ctx sc. None),
     env_nodepool_list = (\<lambda>h ctx opts. Inr []),
     env_nodepool_convert = (\<lambda>h np. None),
     env_nodepool_create = (\<lambda>h ctx np. None),
     env_crd_get = (\<lambda>h ctx n. None),
     env_service_get = (\<lambda>h ctx ns n. Inr \<lparr>svc_cluster_ip = ''10.0.0.10''\<rparr>),
     env_endpoint_slice_list = (\<lambda>h ctx ns opts. Inr []),
     env_event_list = (\<lambda>h ctx ns opts. Inr [\<lparr>ev_message = ''Container image already present on machine''\<rparr>]),
     env_node_metrics_list = (\<lambda>h ctx. None),
     env_lookup = (\<lambda>h ctx server domain. Inr [''10.0.0.1'']),
     env_dial = (\<lambda>h ctx network address. None),
     env_poll = (\<lambda>h ctx interval. (2, deadline_error)),
     env_setup = (\<lambda>h what. None),
     env_resolv_conf = (\<lambda>h path. Inr []),
     env_warnings = (\<lambda>h. []) \<rparr>"

lemma sample_cluster_lists_live:
  "faithful_listing ConfigMaps ns ls (env_configmap_list sample_cluster)"
  "faithful_listing Pods ns ls (env_pod_list sample_cluster)"
  by (simp_all add: faithful_listing_def sample_cluster_def)

end
