(* ===== verification/APIServer.thy ===== *)
theory APIServer
  imports GarbageCollection Samples
begin

text \<open>
  The API server checker (\<^verbatim>\<open>pkg/checker/apiserver\<close>): each run collects old ConfigMaps, refuses
  to go on at the object limit, then creates, reads and deletes one ConfigMap. A deferred
  deletion follows every path after the creation.
\<close>

section \<open>errors.go\<close>

definition ErrCodeAPIServerCreateError :: string where "ErrCodeAPIServerCreateError = ''APIServerCreateError''"
definition ErrCodeAPIServerCreateTimeout :: string where "ErrCodeAPIServerCreateTimeout = ''APIServerCreateTimeout''"
definition ErrCodeAPIServerGetError :: string where "ErrCodeAPIServerGetError = ''APIServerGetError''"
definition ErrCodeAPIServerGetTimeout :: string where "ErrCodeAPIServerGetTimeout = ''APIServerGetTimeout''"
definition ErrCodeAPIServerDeleteError :: string where "ErrCodeAPIServerDeleteError = ''APIServerDeleteError''"
definition ErrCodeAPIServerDeleteTimeout :: string where "ErrCodeAPIServerDeleteTimeout = ''APIServerDeleteTimeout''"

lemmas apiserver_codes = ErrCodeAPIServerCreateError_def ErrCodeAPIServerCreateTimeout_def
  ErrCodeAPIServerGetError_def ErrCodeAPIServerGetTimeout_def
  ErrCodeAPIServerDeleteError_def ErrCodeAPIServerDeleteTimeout_def

section \<open>api_server.go\<close>

text \<open>
  The struct holds a pointer to its configuration; its methods are given the configuration
  \<open>cfg\<close> it points to. \<open>APIServerChecker_Run\<close> makes the dereference.
\<close>

record api_server_checker =
  as_name :: string
  as_config :: "api_server_config option"
  as_timeout :: duration

definition buildAPIServerChecker :: "checker_config \<Rightarrow> api_server_checker" where
  "buildAPIServerChecker config =
     \<lparr>as_name = chk_name config, as_config = chk_api_server config, as_timeout = chk_timeout config\<rparr>"

definition configMapLabels :: "api_server_checker \<Rightarrow> api_server_config \<Rightarrow> labels" where
  "configMapLabels c cfg = [(api_label_key cfg, as_name c)]"

text \<open>\<^verbatim>\<open>generateConfigMap\<close>, at the instant \<open>now\<close> that \<^verbatim>\<open>time.Now()\<close> returns.\<close>

definition generateConfigMap :: "api_server_checker \<Rightarrow> api_server_config \<Rightarrow> time \<Rightarrow> configmap" where
  "generateConfigMap c cfg now =
     \<lparr>cm_meta = new_meta (to_lower (as_name c) @ ''-empty-configmap-'' @ dec_of_int (sint (UnixNano now)))
        (api_namespace cfg) (configMapLabels c cfg)\<rparr>"

definition APIServer_garbageCollect :: "env \<Rightarrow> api_server_checker \<Rightarrow> api_server_config \<Rightarrow> gctx \<Rightarrow> gerror option io" where
  "APIServer_garbageCollect env c cfg ctx = do {
     configMapList \<leftarrow> configmap_list env ctx (api_namespace cfg) (SelectorFromSet (configMapLabels c cfg));
     case configMapList of
       Inl err \<Rightarrow> State_Monad.return (Some (Wrapf ''failed to list ConfigMaps for garbage collection: %w'' [] (ApiErr err)))
     | Inr items \<Rightarrow> do {
         errs \<leftarrow> for_collect (\<lambda>cm. delete_if_older env ConfigMaps ctx (as_timeout c)
                   ''failed to delete old empty ConfigMap %s: %w'' om_namespace (cm_meta cm)) items;
         State_Monad.return (errors_join errs) } }"

text \<open>\<^verbatim>\<open>check\<close> after the creation, up to its return; the deferred deletion is in \<open>APIServer_check\<close>.\<close>

definition APIServer_check_created ::
    "env \<Rightarrow> api_server_config \<Rightarrow> gctx \<Rightarrow> configmap \<Rightarrow> (gerror + result) io" where
  "APIServer_check_created env cfg ctx createdConfigMap = do {
     getCtx \<leftarrow> with_timeout env ctx (api_read_timeout cfg);
     got \<leftarrow> configmap_get env getCtx (api_namespace cfg) (om_name (cm_meta createdConfigMap));
     case got of
       Inl err \<Rightarrow>
         if err_deadline err
         then State_Monad.return (Inr (Unhealthy ErrCodeAPIServerGetTimeout (Msg ''timed out while getting ConfigMap'')))
         else State_Monad.return (Inr (Unhealthy ErrCodeAPIServerGetError (MsgErr ''failed to get ConfigMap: %v'' (ApiErr err))))
     | Inr _ \<Rightarrow> do {
         deleteCtx \<leftarrow> with_timeout env ctx (api_mutate_timeout cfg);
         del \<leftarrow> delete_object env ConfigMaps deleteCtx (api_namespace cfg) (om_name (cm_meta createdConfigMap));
         case del of
           Some err \<Rightarrow>
             if err_deadline err
             then State_Monad.return (Inr (Unhealthy ErrCodeAPIServerDeleteTimeout (Msg ''timed out while deleting ConfigMap'')))
             else State_Monad.return (Inr (Unhealthy ErrCodeAPIServerDeleteError (MsgErr ''failed to delete ConfigMap: %v'' (ApiErr err))))
         | None \<Rightarrow> State_Monad.return (Inr Healthy) } }"

text \<open>An error of the collector is logged and dropped; so is one of the deferred deletion.\<close>

definition APIServer_check :: "env \<Rightarrow> api_server_checker \<Rightarrow> api_server_config \<Rightarrow> gctx \<Rightarrow> (gerror + result) io" where
  "APIServer_check env c cfg ctx = do {
     _ \<leftarrow> APIServer_garbageCollect env c cfg ctx;
     configMapList \<leftarrow> configmap_list env ctx (api_namespace cfg) (SelectorFromSet (configMapLabels c cfg));
     case configMapList of
       Inl err \<Rightarrow> State_Monad.return (Inl (Wrapf ''failed to list ConfigMaps: %w'' [] (ApiErr err)))
     | Inr items \<Rightarrow>
         if sint (api_max_objects cfg) \<le> int (length items)
         then State_Monad.return (Inl (Errorf
           ''maximum number of ConfigMaps reached, current: %d, max allowed: %d, delete some ConfigMaps before running the checker again''
           [ArgInt (int (length items)), ArgInt (sint (api_max_objects cfg))]))
         else do {
           createCtx \<leftarrow> with_timeout env ctx (api_mutate_timeout cfg);
           now \<leftarrow> time_now env;
           created \<leftarrow> configmap_create env createCtx (api_namespace cfg) (generateConfigMap c cfg now);
           case created of
             Inl err \<Rightarrow>
               if err_deadline err
               then State_Monad.return (Inr (Unhealthy ErrCodeAPIServerCreateTimeout (Msg ''timed out while creating ConfigMap'')))
               else State_Monad.return (Inr (Unhealthy ErrCodeAPIServerCreateError (MsgErr ''failed to create ConfigMap: %v'' (ApiErr err))))
           | Inr createdConfigMap \<Rightarrow> do {
               r \<leftarrow> APIServer_check_created env cfg ctx createdConfigMap;
               _ \<leftarrow> delete_object env ConfigMaps ctx (api_namespace cfg) (om_name (cm_meta createdConfigMap));
               State_Monad.return r } } }"

definition APIServerChecker_run :: "env \<Rightarrow> api_server_checker \<Rightarrow> api_server_config \<Rightarrow> gctx \<Rightarrow> unit io" where
  "APIServerChecker_run env c cfg ctx = check_and_record CheckTypeAPIServer (as_name c) (APIServer_check env c cfg ctx)"

text \<open>\<^verbatim>\<open>Run\<close>: a nil configuration panics at its first use, before any call.\<close>

definition APIServerChecker_Run :: "env \<Rightarrow> api_server_checker \<Rightarrow> gctx \<Rightarrow> unit may_panic io" where
  "APIServerChecker_Run env c ctx =
     (case as_config c of
        None \<Rightarrow> State_Monad.return Panicked
      | Some cfg \<Rightarrow> do { _ \<leftarrow> APIServerChecker_run env c cfg ctx; State_Monad.return (Returned ()) })"

section \<open>The collector meets its contract\<close>

interpretation api_gc: expiry_collector "APIServer_garbageCollect env c cfg ctx" ConfigMaps ctx
  "api_namespace cfg" "SelectorFromSet (configMapLabels c cfg)" om_namespace "as_timeout c"
  "''failed to list ConfigMaps for garbage collection: %w''" "''failed to delete old empty ConfigMap %s: %w''"
  for env c cfg ctx
  unfolding APIServer_garbageCollect_def
  by (rule expiry_collectorI [where mk = ConfigMapObj]) (simp, erule emits_configmap_list)

section \<open>The protocol of a run\<close>

text \<open>
  The abstract specification of a check: after the collection, a run takes one of six paths.
  Each rule gives the result, the calls made with their answers, and the contexts they carry.
  After a successful creation (\<open>api_created_path\<close>) every path ends in the deferred deletion.
\<close>

inductive api_created_path :: "api_server_config \<Rightarrow> gctx \<Rightarrow> string \<Rightarrow> result \<Rightarrow> history \<Rightarrow> bool"
  for cfg ctx n
where
  get_failed:
    "api_created_path cfg ctx n
       (if err_deadline e
        then Unhealthy ErrCodeAPIServerGetTimeout (Msg ''timed out while getting ConfigMap'')
        else Unhealthy ErrCodeAPIServerGetError (MsgErr ''failed to get ConfigMap: %v'' (ApiErr e)))
       [EvNow t, EvGet ConfigMaps (deadline_after ctx t (api_read_timeout cfg)) (api_namespace cfg) n (Inl e)]"
| delete_failed:
    "api_created_path cfg ctx n
       (if err_deadline e
        then Unhealthy ErrCodeAPIServerDeleteTimeout (Msg ''timed out while deleting ConfigMap'')
        else Unhealthy ErrCodeAPIServerDeleteError (MsgErr ''failed to delete ConfigMap: %v'' (ApiErr e)))
       [EvNow t, EvGet ConfigMaps (deadline_after ctx t (api_read_timeout cfg)) (api_namespace cfg) n (Inr ob),
        EvNow t', EvDelete ConfigMaps (deadline_after ctx t' (api_mutate_timeout cfg)) (api_namespace cfg) n (Some e)]"
| all_succeeded:
    "api_created_path cfg ctx n Healthy
       [EvNow t, EvGet ConfigMaps (deadline_after ctx t (api_read_timeout cfg)) (api_namespace cfg) n (Inr ob),
        EvNow t', EvDelete ConfigMaps (deadline_after ctx t' (api_mutate_timeout cfg)) (api_namespace cfg) n None]"

inductive api_path :: "api_server_checker \<Rightarrow> api_server_config \<Rightarrow> gctx \<Rightarrow> gerror + result \<Rightarrow> history \<Rightarrow> bool"
  for c cfg ctx
where
  list_failed:
    "api_path c cfg ctx (Inl (Wrapf ''failed to list ConfigMaps: %w'' [] (ApiErr e)))
       [EvList ConfigMaps ctx (api_namespace cfg) (SelectorFromSet (configMapLabels c cfg)) (Inl e)]"
| limit_reached:
    "sint (api_max_objects cfg) \<le> int (length obs) \<Longrightarrow>
     api_path c cfg ctx (Inl (Errorf
         ''maximum number of ConfigMaps reached, current: %d, max allowed: %d, delete some ConfigMaps before running the checker again''
         [ArgInt (int (length obs)), ArgInt (sint (api_max_objects cfg))]))
       [EvList ConfigMaps ctx (api_namespace cfg) (SelectorFromSet (configMapLabels c cfg)) (Inr obs)]"
| create_failed:
    "int (length obs) < sint (api_max_objects cfg) \<Longrightarrow>
     api_path c cfg ctx
       (Inr (if err_deadline e
             then Unhealthy ErrCodeAPIServerCreateTimeout (Msg ''timed out while creating ConfigMap'')
             else Unhealthy ErrCodeAPIServerCreateError (MsgErr ''failed to create ConfigMap: %v'' (ApiErr e))))
       [EvList ConfigMaps ctx (api_namespace cfg) (SelectorFromSet (configMapLabels c cfg)) (Inr obs),
        EvNow t, EvNow t',
        EvCreate ConfigMaps (deadline_after ctx t (api_mutate_timeout cfg)) (api_namespace cfg) False
          (ConfigMapObj (generateConfigMap c cfg t')) (Inl e)]"
| created:
    "int (length obs) < sint (api_max_objects cfg) \<Longrightarrow>
     api_created_path cfg ctx (om_name (cm_meta cm)) r es \<Longrightarrow>
     api_path c cfg ctx (Inr r)
       (EvList ConfigMaps ctx (api_namespace cfg) (SelectorFromSet (configMapLabels c cfg)) (Inr obs) #
        EvNow t # EvNow t' #
        EvCreate ConfigMaps (deadline_after ctx t (api_mutate_timeout cfg)) (api_namespace cfg) False
          (ConfigMapObj (generateConfigMap c cfg t')) (Inr (ConfigMapObj cm)) #
        es @ [EvDelete ConfigMaps ctx (api_namespace cfg) (om_name (cm_meta cm)) d])"

lemma emits_check_created [emits_intros]:
  assumes "\<And>res es. api_created_path cfg ctx (om_name (cm_meta cm)) res es \<Longrightarrow> Q (Inr res) es"
  shows "emits (APIServer_check_created env cfg ctx cm) Q"
  unfolding APIServer_check_created_def
proof (intro emits_intros, goal_cases)
  case (1 t r e)
  then show ?case using assms get_failed [of cfg ctx _ e t] by (simp; metis)
next
  case (2 t r e)
  then show ?case using assms get_failed [of cfg ctx _ e t] by (simp; metis)
next
  case (3 t r v t' d)
  then show ?case using assms all_succeeded [of cfg ctx _ t _ t'] by simp
next
  case (4 t r v t' d e)
  then show ?case using assms delete_failed [of cfg ctx _ e t _ t'] by (simp; metis)
next
  case (5 t r v t' d e)
  then show ?case using assms delete_failed [of cfg ctx _ e t _ t'] by (simp; metis)
qed

text \<open>Refinement: a check is a collection followed by one of the paths.\<close>

lemma emits_APIServer_check:
  "emits (APIServer_check env c cfg ctx)
     (\<lambda>r es. \<exists>gc err path. es = gc @ path \<and> list_all (only_deletes ConfigMaps) gc
        \<and> collector_report ConfigMaps ctx (api_namespace cfg) (SelectorFromSet (configMapLabels c cfg)) om_namespace (as_timeout c)
            ''failed to list ConfigMaps for garbage collection: %w'' ''failed to delete old empty ConfigMap %s: %w'' err gc
        \<and> api_path c cfg ctx r path)"
  unfolding APIServer_check_def
proof (rule emits_bind, rule emits_conseq [OF api_gc.full_report], rule emits_conseq [where P = "api_path c cfg ctx"],
    intro emits_intros, goal_cases)
  case 1
  then show ?case by (simp add: list_failed)
next
  case (2 _ _ _ items)
  then show ?case using limit_reached [of cfg "map ConfigMapObj items" c ctx] by simp
next
  case (3 _ _ _ _ _ _ _ e)
  then show ?case using create_failed [where e = e] by simp
next
  case (4 _ _ _ _ _ _ _ e)
  then show ?case using create_failed [where e = e] by simp
next
  case (5 _ _ _ items)
  then show ?case using created [of "map ConfigMapObj items" cfg] by simp
next
  case 6
  then show ?case by blast
qed

section \<open>The checker meets its interfaces\<close>

lemma silent_APIServer_check: "silent (APIServer_check env c cfg ctx)"
  unfolding silent_def APIServer_check_def APIServer_check_created_def APIServer_garbageCollect_def delete_if_older_def
  by (intro performs_intros) simp_all

interpretation api_checker: recording_checker "as_name c" CheckTypeAPIServer "APIServerChecker_run env c cfg"
  for env c cfg
  unfolding APIServerChecker_run_def
  by (rule recording_checker_check_and_record) (rule silent_APIServer_check)

lemma only_deletes_quiet:
  assumes "list_all (only_deletes r) es"
  shows "sent r' es = []" "created r' es = []" "increments es = []" "r' \<noteq> r \<Longrightarrow> deleted r' es = []"
proof -
  have "sent_of r' e = [] \<and> created_of r' e = [] \<and> inc_of e = [] \<and> (r' \<noteq> r \<longrightarrow> deleted_of r' e = [])"
    if "only_deletes r e" for e
    using that by (cases e) auto
  with assms show "sent r' es = []" "created r' es = []" "increments es = []" "r' \<noteq> r \<Longrightarrow> deleted r' es = []"
    by (auto simp: sent_def created_def increments_def deleted_def list_all_iff)
qed

lemma api_created_path_quiet: "api_created_path cfg ctx n r es \<Longrightarrow> sent r' es = [] \<and> created r' es = []"
  by (induction rule: api_created_path.induct) auto

lemma api_path_guarded:
  assumes "api_path c cfg ctx r path" "sent ConfigMaps gc = []"
  shows "guarded ConfigMaps (api_namespace cfg) (configMapLabels c cfg) (sint (api_max_objects cfg)) (gc @ path)"
  using assms
proof (induction rule: api_path.induct)
  case (create_failed obs e t t')
  then show ?case by (intro guardedI [where pre = gc and mid = "[EvNow t, EvNow t']" and post = "[]"]) simp_all
next
  case (created obs cm r es t t' d)
  then show ?case
    by (intro guardedI [where pre = gc and mid = "[EvNow t, EvNow t']"
          and post = "es @ [EvDelete ConfigMaps ctx (api_namespace cfg) (om_name (cm_meta cm)) d]"])
      (simp_all add: api_created_path_quiet)
qed (simp_all add: guarded_def)

lemma guarded_append:
  "guarded r ns ls limit es \<Longrightarrow> sent r es' = [] \<Longrightarrow> guarded r ns ls limit (es @ es')"
  unfolding guarded_def by (elim disjE exE conjE) (simp, rule disjI2, force)

lemma emits_guarded_APIServer_check:
  "emits (APIServer_check env c cfg ctx)
    (\<lambda>_ es. guarded ConfigMaps (api_namespace cfg) (configMapLabels c cfg) (sint (api_max_objects cfg)) es)"
proof (rule emits_conseq [OF emits_APIServer_check], elim exE conjE)
  fix r es gc err path
  assume "es = gc @ path" "list_all (only_deletes ConfigMaps) gc" "api_path c cfg ctx r path"
  then show "guarded ConfigMaps (api_namespace cfg) (configMapLabels c cfg) (sint (api_max_objects cfg)) es"
    by (simp add: api_path_guarded only_deletes_quiet)
qed

interpretation api_creator: limited_creator "APIServerChecker_run env c cfg" ConfigMaps "api_namespace cfg"
  "configMapLabels c cfg" "sint (api_max_objects cfg)" for env c cfg
  unfolding APIServerChecker_run_def check_and_record_def
  by (unfold_locales, rule emits_bind, rule emits_conseq [OF emits_guarded_APIServer_check], rule emits_RecordResult)
    (rule guarded_append; simp)

lemma admits_APIServerChecker_run:
  assumes "faithful_listing ConfigMaps (api_namespace cfg) (configMapLabels c cfg) (env_configmap_list env)"
  shows "admits (shows_live ConfigMaps (api_namespace cfg) (configMapLabels c cfg)) (APIServerChecker_run env c cfg ctx)"
  unfolding APIServerChecker_run_def check_and_record_def APIServer_check_def APIServer_check_created_def
    APIServer_garbageCollect_def delete_if_older_def
  by (intro admits_intros admits_configmap_list assms)


section \<open>Properties\<close>

text \<open>
  C10: A check first collects (listing, then deleting exactly the expired ConfigMaps it listed) and
  then follows one of the six paths of its protocol, with the result, the API calls, the order of
  the calls and the contexts that the path prescribes, whatever the API server answers.
\<close>

theorem api_check_protocol:
  "emits (APIServer_check env c cfg ctx)
     (\<lambda>r es. \<exists>gc err path. es = gc @ path \<and> list_all (only_deletes ConfigMaps) gc
        \<and> collector_report ConfigMaps ctx (api_namespace cfg) (SelectorFromSet (configMapLabels c cfg)) om_namespace (as_timeout c)
            ''failed to list ConfigMaps for garbage collection: %w'' ''failed to delete old empty ConfigMap %s: %w'' err gc
        \<and> api_path c cfg ctx r path)"
  by (rule emits_APIServer_check)

lemma api_path_cleanup:
  "api_path c cfg ctx r path \<Longrightarrow> created ConfigMaps path = [] \<or>
     (\<exists>n pre d. created ConfigMaps path = [n] \<and> path = pre @ [EvDelete ConfigMaps ctx (api_namespace cfg) n d])"
proof (induction rule: api_path.induct)
  case (created obs cm r es t t' d)
  then show ?case by (auto simp: api_created_path_quiet simp flip: append_Cons)
qed simp_all

text \<open>
  C12: A check creates at most one ConfigMap, and if it created one, its last call deletes that
  ConfigMap in the configured namespace with the context of the run, on every path, the failed reads
  and deletions included.
\<close>

theorem api_check_cleans_up:
  "emits (APIServer_check env c cfg ctx)
     (\<lambda>_ es. created ConfigMaps es = [] \<or>
        (\<exists>n pre d. created ConfigMaps es = [n] \<and> es = pre @ [EvDelete ConfigMaps ctx (api_namespace cfg) n d]))"
proof (rule emits_conseq [OF emits_APIServer_check], elim exE conjE)
  fix r es gc err path
  assume "es = gc @ path" "list_all (only_deletes ConfigMaps) gc" "api_path c cfg ctx r path"
  then show "created ConfigMaps es = [] \<or>
        (\<exists>n pre d. created ConfigMaps es = [n] \<and> es = pre @ [EvDelete ConfigMaps ctx (api_namespace cfg) n d])"
    using api_path_cleanup by (fastforce simp: only_deletes_quiet)
qed

lemma api_created_path_healthy:
  "api_created_path cfg ctx n r es \<Longrightarrow>
     r = Healthy \<longleftrightarrow> (\<exists>c1 c2 ob t1 t2. es =
       [EvNow t1, EvGet ConfigMaps c1 (api_namespace cfg) n (Inr ob), EvNow t2, EvDelete ConfigMaps c2 (api_namespace cfg) n None])"
  by (induction rule: api_created_path.induct) auto

lemma api_created_path_deletes_last:
  "api_created_path cfg ctx n r es \<Longrightarrow> r \<noteq> Healthy \<Longrightarrow> last es \<noteq> EvDelete ConfigMaps c ns m None"
  by (induction rule: api_created_path.induct) auto

lemma api_path_healthy_only:
  assumes "api_path c cfg ctx r path" "r \<noteq> Inr Healthy"
  shows "path \<noteq> []" "gc @ path \<noteq> pre @ [EvDelete ConfigMaps c' ns m None, EvDelete ConfigMaps c'' ns' m' d]"
proof -
  show ne: "path \<noteq> []" using assms(1) by (cases rule: api_path.cases) auto
  have "(\<exists>d c'' ns' m'. last path = EvDelete ConfigMaps c'' ns' m' d) \<longrightarrow>
      butlast path \<noteq> [] \<and> last (butlast path) \<noteq> EvDelete ConfigMaps c' ns m None"
    using assms
  proof (cases rule: api_path.cases)
    case (created obs cm res es t t' d)
    moreover have "es \<noteq> []" using created(4) by (cases rule: api_created_path.cases) auto
    ultimately show ?thesis
      using assms(2) api_created_path_deletes_last [OF created(4), of c' ns m]
      by (auto simp: butlast_append)
  qed auto
  moreover have "last (gc @ path) = last path" using ne by simp
  moreover have "butlast path \<noteq> [] \<Longrightarrow> last (butlast (gc @ path)) = last (butlast path)"
    using ne by (simp add: butlast_append)
  moreover have "last (pre @ [EvDelete ConfigMaps c' ns m None, EvDelete ConfigMaps c'' ns' m' d]) = EvDelete ConfigMaps c'' ns' m' d"
    "last (butlast (pre @ [EvDelete ConfigMaps c' ns m None, EvDelete ConfigMaps c'' ns' m' d])) = EvDelete ConfigMaps c' ns m None"
    by (simp_all add: butlast_append)
  ultimately show "gc @ path \<noteq> pre @ [EvDelete ConfigMaps c' ns m None, EvDelete ConfigMaps c'' ns' m' d]"
    by metis
qed

text \<open>
  C2: The result is healthy exactly when the trace ends with a successful creation, a successful
  read of the created ConfigMap and a successful deletion of it, followed by the deferred deletion.
\<close>

theorem api_check_healthy_iff:
  "emits (APIServer_check env c cfg ctx)
     (\<lambda>r es. r = Inr Healthy \<longleftrightarrow>
        (\<exists>pre c0 c1 c2 sent_cm cm got t1 t2 d. es = pre @
           [EvCreate ConfigMaps c0 (api_namespace cfg) False sent_cm (Inr (ConfigMapObj cm)),
            EvNow t1, EvGet ConfigMaps c1 (api_namespace cfg) (om_name (cm_meta cm)) (Inr got),
            EvNow t2, EvDelete ConfigMaps c2 (api_namespace cfg) (om_name (cm_meta cm)) None,
            EvDelete ConfigMaps ctx (api_namespace cfg) (om_name (cm_meta cm)) d]))"
proof (rule emits_conseq [OF emits_APIServer_check], elim exE conjE, rule iffI)
  fix r es gc err path
  assume es: "es = gc @ path" and path: "api_path c cfg ctx r path"
  {
    assume "r = Inr Healthy"
    with path show "\<exists>pre c0 c1 c2 sent_cm cm got t1 t2 d. es = pre @
           [EvCreate ConfigMaps c0 (api_namespace cfg) False sent_cm (Inr (ConfigMapObj cm)),
            EvNow t1, EvGet ConfigMaps c1 (api_namespace cfg) (om_name (cm_meta cm)) (Inr got),
            EvNow t2, EvDelete ConfigMaps c2 (api_namespace cfg) (om_name (cm_meta cm)) None,
            EvDelete ConfigMaps ctx (api_namespace cfg) (om_name (cm_meta cm)) d]"
    proof (cases rule: api_path.cases)
      case (created obs cm res es' t t' d)
      with \<open>r = Inr Healthy\<close> api_created_path_healthy [OF created(4)] show ?thesis
        by (auto simp: es intro!: exI [of _ "gc @ [EvList ConfigMaps ctx (api_namespace cfg)
          (SelectorFromSet (configMapLabels c cfg)) (Inr obs), EvNow t, EvNow t']"])
    qed (auto split: if_splits)
  }
  assume "\<exists>pre c0 c1 c2 sent_cm cm got t1 t2 d. es = pre @
           [EvCreate ConfigMaps c0 (api_namespace cfg) False sent_cm (Inr (ConfigMapObj cm)),
            EvNow t1, EvGet ConfigMaps c1 (api_namespace cfg) (om_name (cm_meta cm)) (Inr got),
            EvNow t2, EvDelete ConfigMaps c2 (api_namespace cfg) (om_name (cm_meta cm)) None,
            EvDelete ConfigMaps ctx (api_namespace cfg) (om_name (cm_meta cm)) d]"
  then show "r = Inr Healthy"
    using api_path_healthy_only(2) [OF path, of gc] unfolding es
    by (elim exE) (rule ccontr, simp, metis append.assoc append_Cons append_Nil)
qed


lemma api_created_path_deadlines:
  "api_created_path cfg ctx n r es \<Longrightarrow> list_all (\<lambda>x. x \<le> ctx) (contexts es)"
  by (induction rule: api_created_path.induct) auto

lemma api_path_deadlines: "api_path c cfg ctx r es \<Longrightarrow> list_all (\<lambda>x. x \<le> ctx) (contexts es)"
  by (induction rule: api_path.induct) (simp_all add: api_created_path_deadlines)

lemma contexts_performs: "list_all (\<lambda>e. list_all P (ctx_of e)) es \<longleftrightarrow> list_all P (contexts es)"
  by (induction es) auto

lemma emits_contexts: "performs (\<lambda>e. list_all P (ctx_of e)) m \<Longrightarrow> emits m (\<lambda>_ es. list_all P (contexts es))"
  unfolding performs_def contexts_performs .

lemma api_gc_contexts: "emits (APIServer_garbageCollect env c cfg ctx) (\<lambda>_ es. list_all (\<lambda>x. x = ctx) (contexts es))"
  unfolding APIServer_garbageCollect_def delete_if_older_def
  by (rule emits_contexts) (intro performs_intros; simp)

text \<open>
  C38: The collector lists the checker's ConfigMaps once and requests the deletion of exactly the listed
  ones that are older than the checker's timeout at the clock reading made for each, in their namespaces;
  it deletes no other kind of object, creates nothing and counts nothing, and it reports success exactly
  when the listing and every deletion succeeded or found the object already gone.
\<close>

theorem api_garbage_collection:
  "emits (APIServer_garbageCollect env c cfg ctx)
     (\<lambda>err es. collector_report ConfigMaps ctx (api_namespace cfg) (SelectorFromSet (configMapLabels c cfg)) om_namespace (as_timeout c)
          ''failed to list ConfigMaps for garbage collection: %w'' ''failed to delete old empty ConfigMap %s: %w'' err es
        \<and> list_all (only_deletes ConfigMaps) es \<and> (err = None \<longleftrightarrow> listing ConfigMaps es \<noteq> None \<and> delete_failures ConfigMaps es = []))"
  by (rule emits_conseq [OF emits_conj [OF api_gc.full_report api_gc.succeeds_iff]]) blast

text \<open>
  C6: However many times the checker runs, the number of its live ConfigMaps never exceeds the
  configured maximum, when a listing by its labels shows at least the ConfigMaps that the history
  has created and not deleted.
\<close>

theorem api_object_limit:
  assumes "faithful_listing ConfigMaps (api_namespace cfg) (configMapLabels c cfg) (env_configmap_list env)"
    and "int (length (live ConfigMaps (api_namespace cfg) (configMapLabels c cfg) h)) \<le> sint (api_max_objects cfg)"
  shows "int (length (live ConfigMaps (api_namespace cfg) (configMapLabels c cfg)
           (snd (run_state (run_all (APIServerChecker_run env c cfg) ctxs) h)))) \<le> sint (api_max_objects cfg)"
  by (rule api_creator.runs_within_limit [OF admits_APIServerChecker_run [OF assms(1)] assms(2)])

definition sample_api_config :: api_server_config where
  "sample_api_config = \<lparr>api_namespace = ''kube-system'', api_label_key = ''checker'', api_mutate_timeout = 2000000000,
     api_read_timeout = 1000000000, api_max_objects = 1\<rparr>"

definition sample_api_checker :: api_server_checker where
  "sample_api_checker = \<lparr>as_name = ''APIServer'', as_config = Some sample_api_config, as_timeout = 60000000000\<rparr>"

theorem api_object_limit_witness:
  "int (length (live ConfigMaps ''kube-system'' (configMapLabels sample_api_checker sample_api_config)
     (snd (run_state (run_all (APIServerChecker_run sample_cluster sample_api_checker sample_api_config) [Never, At 5000000000]) [])))) \<le> 1"
  using api_object_limit [of sample_api_config sample_api_checker sample_cluster "[]" "[Never, At 5000000000]",
      OF sample_cluster_lists_live(1)]
  by (simp add: sample_api_config_def)

text \<open>The same checker evaluated on that cluster: it is healthy and leaves nothing behind.\<close>

lemma sample_api_run:
  "outcome (APIServer_check sample_cluster sample_api_checker sample_api_config Never) [] = Inr Healthy
   \<and> created ConfigMaps (snd (run_state (APIServer_check sample_cluster sample_api_checker sample_api_config Never) []))
       = [''apiserver-empty-configmap-3'']
   \<and> live ConfigMaps ''kube-system'' (configMapLabels sample_api_checker sample_api_config)
       (snd (run_state (APIServer_check sample_cluster sample_api_checker sample_api_config Never) [])) = []"
  by code_simp

end
