(* ===== verification/DNSCheck.thy ===== *)
theory DNSCheck
  imports Checker
begin

text \<open>
  The DNS checker (\<^verbatim>\<open>pkg/checker/dnscheck\<close>): resolve a domain through the CoreDNS service and
  through every ready CoreDNS pod (target CoreDNS), per pod with a result for each (target
  CoreDNSPerPod), or through the node-local server (target LocalDNS).
\<close>

section \<open>errors.go\<close>

definition ErrCodeServiceNotReady :: string where "ErrCodeServiceNotReady = ''ServiceNotReady''"
definition ErrCodePodsNotReady :: string where "ErrCodePodsNotReady = ''PodsNotReady''"
definition ErrCodeServiceTimeout :: string where "ErrCodeServiceTimeout = ''ServiceTimeout''"
definition ErrCodePodTimeout :: string where "ErrCodePodTimeout = ''PodTimeout''"
definition ErrCodeServiceError :: string where "ErrCodeServiceError = ''ServiceError''"
definition ErrCodePodError :: string where "ErrCodePodError = ''PodError''"
definition ErrCodeLocalDNSTimeout :: string where "ErrCodeLocalDNSTimeout = ''LocalDNSTimeout''"
definition ErrCodeLocalDNSError :: string where "ErrCodeLocalDNSError = ''LocalDNSError''"

section \<open>resolver.go\<close>

text \<open>\<^verbatim>\<open>net.JoinHostPort\<close> brackets a host with a colon.\<close>

definition JoinHostPort :: "string \<Rightarrow> string \<Rightarrow> string" where
  "JoinHostPort host port =
     (if contains host '':'' then ''['' @ host @ '']:'' @ port else host @ '':'' @ port)"

text \<open>
  \<^verbatim>\<open>lookupHost\<close>: the resolver dials only the given server, within the query timeout. What the
  resolver answers is the environment's.
\<close>

definition lookupHost ::
    "env \<Rightarrow> gctx \<Rightarrow> string \<Rightarrow> string \<Rightarrow> duration \<Rightarrow> (api_error + string list) io" where
  "lookupHost env ctx dnsIP domain queryTimeout = do {
     ctx' \<leftarrow> with_timeout env ctx queryTimeout;
     lookup env ctx' (JoinHostPort dnsIP ''53'') domain }"

section \<open>dns\_checker.go\<close>

definition coreDNSNamespace :: string where "coreDNSNamespace = ''kube-system''"
definition coreDNSServiceName :: string where "coreDNSServiceName = ''kube-dns''"
definition resolvConfPath :: string where "resolvConfPath = ''/etc/resolv.conf''"
definition localDNSIP :: string where "localDNSIP = ''169.254.10.11''"
definition LabelServiceName :: string where "LabelServiceName = ''kubernetes.io/service-name''"

text \<open>As for the other checkers, the methods are given the configuration the pointer leads to.\<close>

record dns_checker =
  dc_name :: string
  dc_config :: "dns_config option"

definition getCoreDNSSvcIP :: "env \<Rightarrow> gctx \<Rightarrow> (gerror + string) io" where
  "getCoreDNSSvcIP env ctx = do {
     svc \<leftarrow> service_get env ctx coreDNSNamespace coreDNSServiceName;
     State_Monad.return (case svc of
       Inl err \<Rightarrow> if err_not_found err then Inl (Sentinel ErrServiceNotReady)
                  else Inl (Wrapf ''failed to get CoreDNS service: %w'' [] (ApiErr err))
     | Inr svc \<Rightarrow> if svc_cluster_ip svc = [] \<or> svc_cluster_ip svc = ''None''
                  then Inl (Sentinel ErrServiceNotReady) else Inr (svc_cluster_ip svc)) }"

text \<open>The two nested loops that collect the endpoints that are not explicitly unready.\<close>

primrec ready_endpoints_of :: "endpoint list \<Rightarrow> endpoint list" where
  "ready_endpoints_of [] = []"
| "ready_endpoints_of (ep # eps) =
     (if ep_ready ep = Some False then ready_endpoints_of eps else ep # ready_endpoints_of eps)"

primrec ready_endpoints :: "endpoint_slice list \<Rightarrow> endpoint list" where
  "ready_endpoints [] = []"
| "ready_endpoints (s # slices) = ready_endpoints_of (es_endpoints s) @ ready_endpoints slices"

definition endpointsOptions :: list_options where
  "endpointsOptions = LabelSelector (LabelServiceName @ ''='' @ coreDNSServiceName)"

definition getCoreDNSEndpoints :: "env \<Rightarrow> gctx \<Rightarrow> (gerror + endpoint list) io" where
  "getCoreDNSEndpoints env ctx = do {
     endpointSliceList \<leftarrow> endpoint_slice_list env ctx coreDNSNamespace endpointsOptions;
     State_Monad.return (case endpointSliceList of
       Inl err \<Rightarrow> if err_not_found err then Inl (Sentinel ErrPodsNotReady)
                  else Inl (Wrapf ''failed to get CoreDNS pod IPs: %w'' [] (ApiErr err))
     | Inr items \<Rightarrow> if ready_endpoints items = [] then Inl (Sentinel ErrPodsNotReady)
                    else Inr (ready_endpoints items)) }"

text \<open>\<^verbatim>\<open>isLocalDNSEnabled\<close>: parsing the file is the DNS library's.\<close>

definition isLocalDNSEnabled :: "env \<Rightarrow> (gerror + bool) io" where
  "isLocalDNSEnabled env = do {
     config \<leftarrow> read_resolv_conf env resolvConfPath;
     State_Monad.return (case config of
       Inl err \<Rightarrow> Inl (Wrapf ''failed to parse %s: %w'' [ArgStr resolvConfPath] (ApiErr err))
     | Inr servers \<Rightarrow> Inr (list_ex (\<lambda>server. server = localDNSIP) servers)) }"

definition BuildDNSChecker :: "dns_checker builder" where
  "BuildDNSChecker checkerConfig env =
     (case chk_dns checkerConfig of
        None \<Rightarrow> State_Monad.return Panicked
      | Some cfg \<Rightarrow>
          if dns_target cfg = DNSCheckTargetLocalDNS then do {
            enabled \<leftarrow> isLocalDNSEnabled env;
            State_Monad.return (Returned (case enabled of
              Inl err \<Rightarrow> Inl (Wrapf ''failed to create LocalDNS checker: %w'' [] err)
            | Inr enabled \<Rightarrow>
                if \<not> enabled then Inl (Sentinel ErrSkipChecker)
                else Inr \<lparr>dc_name = chk_name checkerConfig, dc_config = chk_dns checkerConfig\<rparr>)) }
          else State_Monad.return (Returned (Inr
            \<lparr>dc_name = chk_name checkerConfig, dc_config = chk_dns checkerConfig\<rparr>)))"

text \<open>One query of a CoreDNS pod: the result to return early with, if it failed.\<close>

definition query_coredns_pod :: "env \<Rightarrow> dns_config \<Rightarrow> gctx \<Rightarrow> string \<Rightarrow> result option io" where
  "query_coredns_pod env cfg ctx ip = do {
     r \<leftarrow> lookupHost env ctx ip (dns_domain cfg) (dns_query_timeout cfg);
     State_Monad.return (case r of
       Inl err \<Rightarrow>
         if err_deadline err then Some (Unhealthy ErrCodePodTimeout (Msg ''CoreDNS pod query timed out''))
         else Some (Unhealthy ErrCodePodError (MsgErr ''CoreDNS pod query error: %s'' (ApiErr err)))
     | Inr _ \<Rightarrow> None) }"

definition checkCoreDNS :: "env \<Rightarrow> dns_config \<Rightarrow> gctx \<Rightarrow> (gerror + result) io" where
  "checkCoreDNS env cfg ctx = do {
     svc \<leftarrow> getCoreDNSSvcIP env ctx;
     case svc of
       Inl err \<Rightarrow>
         if errors_is err ErrServiceNotReady
         then State_Monad.return (Inr (Unhealthy ErrCodeServiceNotReady (Msg ''CoreDNS service is not ready'')))
         else State_Monad.return (Inl err)
     | Inr svcIP \<Rightarrow> do {
         r \<leftarrow> lookupHost env ctx svcIP (dns_domain cfg) (dns_query_timeout cfg);
         case r of
           Inl err \<Rightarrow>
             if err_deadline err
             then State_Monad.return (Inr (Unhealthy ErrCodeServiceTimeout (Msg ''CoreDNS service query timed out'')))
             else State_Monad.return (Inr (Unhealthy ErrCodeServiceError
               (MsgErr ''CoreDNS service query error: %s'' (ApiErr err))))
         | Inr _ \<Rightarrow> do {
             dnsEndpoints \<leftarrow> getCoreDNSEndpoints env ctx;
             case dnsEndpoints of
               Inl err \<Rightarrow>
                 if errors_is err ErrPodsNotReady
                 then State_Monad.return (Inr (Unhealthy ErrCodePodsNotReady (Msg ''CoreDNS Pods are not ready'')))
                 else State_Monad.return (Inl err)
             | Inr endpoints \<Rightarrow> do {
                 early \<leftarrow> for_until (\<lambda>ep. for_until (query_coredns_pod env cfg ctx) (ep_addresses ep)) endpoints;
                 State_Monad.return (case early of Some res \<Rightarrow> Inr res | None \<Rightarrow> Inr Healthy) } } } }"

definition checkLocalDNS :: "env \<Rightarrow> dns_config \<Rightarrow> gctx \<Rightarrow> (gerror + result) io" where
  "checkLocalDNS env cfg ctx = do {
     r \<leftarrow> lookupHost env ctx localDNSIP (dns_domain cfg) (dns_query_timeout cfg);
     State_Monad.return (case r of
       Inl err \<Rightarrow>
         if err_deadline err then Inr (Unhealthy ErrCodeLocalDNSTimeout (Msg ''LocalDNS query timed out''))
         else Inr (Unhealthy ErrCodeLocalDNSError (MsgErr ''LocalDNS query error: %s'' (ApiErr err)))
     | Inr _ \<Rightarrow> Inr Healthy) }"

definition queryEndpoint :: "env \<Rightarrow> dns_config \<Rightarrow> gctx \<Rightarrow> endpoint \<Rightarrow> api_error option io" where
  "queryEndpoint env cfg ctx endpoint = for_until (\<lambda>ip. do {
     r \<leftarrow> lookupHost env ctx ip (dns_domain cfg) (dns_query_timeout cfg);
     State_Monad.return (case r of Inl err \<Rightarrow> Some err | Inr _ \<Rightarrow> None) }) (ep_addresses endpoint)"

text \<open>The result recorded for a pod from the error of its queries.\<close>

definition per_pod_result :: "api_error option \<Rightarrow> gerror + result" where
  "per_pod_result err = (case err of
       Some e \<Rightarrow> if err_deadline e
                then Inr (Unhealthy ErrCodePodTimeout (Msg ''CoreDNS pod query timed out''))
                else Inl (ApiErr e)
     | None \<Rightarrow> Inr Healthy)"

text \<open>The name of the pod behind an endpoint; an absent or an empty name counts as missing.\<close>

definition endpoint_pod :: "endpoint \<Rightarrow> string option" where
  "endpoint_pod ep = (case ep_target_ref_name ep of
       None \<Rightarrow> None | Some n \<Rightarrow> if length n = 0 then None else Some n)"

primrec record_per_pod :: "env \<Rightarrow> string \<Rightarrow> dns_config \<Rightarrow> gctx \<Rightarrow> endpoint list \<Rightarrow> unit io" where
  "record_per_pod env nm cfg ctx [] = State_Monad.return ()"
| "record_per_pod env nm cfg ctx (ep # eps) =
     (case endpoint_pod ep of
        None \<Rightarrow> record_per_pod env nm cfg ctx eps
      | Some podname \<Rightarrow> do {
          err \<leftarrow> queryEndpoint env cfg ctx ep;
          _ \<leftarrow> RecordCoreDNSPodResult CheckTypeDNS nm podname (per_pod_result err);
          record_per_pod env nm cfg ctx eps })"

definition checkCoreDNSPerPod :: "env \<Rightarrow> string \<Rightarrow> dns_config \<Rightarrow> gctx \<Rightarrow> unit io" where
  "checkCoreDNSPerPod env nm cfg ctx = do {
     endpoints \<leftarrow> getCoreDNSEndpoints env ctx;
     case endpoints of
       Inl err \<Rightarrow> State_Monad.return ()
     | Inr eps \<Rightarrow> record_per_pod env nm cfg ctx eps }"

definition DNSChecker_run :: "env \<Rightarrow> dns_checker \<Rightarrow> dns_config \<Rightarrow> gctx \<Rightarrow> unit io" where
  "DNSChecker_run env c cfg ctx =
     (if dns_target cfg = DNSCheckTargetCoreDNS
      then check_and_record CheckTypeDNS (dc_name c) (checkCoreDNS env cfg ctx)
      else if dns_target cfg = DNSCheckTargetLocalDNS
      then check_and_record CheckTypeDNS (dc_name c) (checkLocalDNS env cfg ctx)
      else if dns_target cfg = DNSCheckTargetCoreDNSPerPod
      then checkCoreDNSPerPod env (dc_name c) cfg ctx
      else State_Monad.return ())"

definition DNSChecker_Run :: "env \<Rightarrow> dns_checker \<Rightarrow> gctx \<Rightarrow> unit may_panic io" where
  "DNSChecker_Run env c ctx =
     (case dc_config c of
        None \<Rightarrow> State_Monad.return Panicked
      | Some cfg \<Rightarrow> do { _ \<leftarrow> DNSChecker_run env c cfg ctx; State_Monad.return (Returned ()) })"

section \<open>The protocol of the CoreDNS check\<close>

text \<open>One query of a server, and the successful queries of a list of servers, in order.\<close>

definition asks :: "dns_config \<Rightarrow> gctx \<Rightarrow> string \<Rightarrow> api_error + string list \<Rightarrow> history \<Rightarrow> bool" where
  "asks cfg ctx ip answer es \<longleftrightarrow> (\<exists>t. es = [EvNow t,
     EvLookup (deadline_after ctx t (dns_query_timeout cfg)) (JoinHostPort ip ''53'') (dns_domain cfg) answer])"

inductive asks_all :: "dns_config \<Rightarrow> gctx \<Rightarrow> string list \<Rightarrow> history \<Rightarrow> bool" for cfg ctx where
  asks_none: "asks_all cfg ctx [] []"
| asks_more: "asks cfg ctx ip (Inr v) es \<Longrightarrow> asks_all cfg ctx ips es' \<Longrightarrow> asks_all cfg ctx (ip # ips) (es @ es')"

text \<open>
  The queries of a list of servers up to the first failure: \<open>None\<close> when all answered, what \<open>f\<close>
  makes of the error otherwise.
\<close>

definition asks_until ::
    "dns_config \<Rightarrow> gctx \<Rightarrow> (api_error \<Rightarrow> 'r) \<Rightarrow> string list \<Rightarrow> 'r option \<Rightarrow> history \<Rightarrow> bool" where
  "asks_until cfg ctx f ips r es \<longleftrightarrow> (r = None \<and> asks_all cfg ctx ips es) \<or>
     (\<exists>pre ip rest es1 es2 e. ips = pre @ ip # rest \<and> asks_all cfg ctx pre es1 \<and> asks cfg ctx ip (Inl e) es2
        \<and> es = es1 @ es2 \<and> r = Some (f e))"

lemma asks_untilE:
  assumes "asks_until cfg ctx f ips r es"
  obtains "r = None" "asks_all cfg ctx ips es"
  | pre ip rest es1 es2 e where "ips = pre @ ip # rest" "asks_all cfg ctx pre es1" "asks cfg ctx ip (Inl e) es2"
      "es = es1 @ es2" "r = Some (f e)"
  using assms unfolding asks_until_def by blast

abbreviation get_service :: "gctx \<Rightarrow> api_error + object option \<Rightarrow> event" where
  "get_service ctx \<equiv> EvGet Services ctx coreDNSNamespace coreDNSServiceName"

abbreviation list_slices :: "gctx \<Rightarrow> api_error + object list \<Rightarrow> event" where
  "list_slices ctx \<equiv> EvList EndpointSlices ctx coreDNSNamespace endpointsOptions"

abbreviation has_ip :: "service \<Rightarrow> bool" where
  "has_ip svc \<equiv> svc_cluster_ip svc \<noteq> [] \<and> svc_cluster_ip svc \<noteq> ''None''"

abbreviation pod_ips :: "endpoint_slice list \<Rightarrow> string list" where
  "pod_ips slices \<equiv> concat (map ep_addresses (ready_endpoints slices))"

text \<open>The checks of the service, up to its successful query or a verdict.\<close>

inductive core_service_path :: "dns_config \<Rightarrow> gctx \<Rightarrow> gerror + result \<Rightarrow> history \<Rightarrow> bool" for cfg ctx where
  service_missing: "err_not_found e \<Longrightarrow>
    core_service_path cfg ctx (Inr (Unhealthy ErrCodeServiceNotReady (Msg ''CoreDNS service is not ready'')))
      [get_service ctx (Inl e)]"
| service_error: "\<not> err_not_found e \<Longrightarrow>
    core_service_path cfg ctx (Inl (Wrapf ''failed to get CoreDNS service: %w'' [] (ApiErr e))) [get_service ctx (Inl e)]"
| service_without_ip: "\<not> has_ip svc \<Longrightarrow>
    core_service_path cfg ctx (Inr (Unhealthy ErrCodeServiceNotReady (Msg ''CoreDNS service is not ready'')))
      [get_service ctx (Inr (Some (ServiceObj svc)))]"
| service_query_failed: "has_ip svc \<Longrightarrow> asks cfg ctx (svc_cluster_ip svc) (Inl e) es \<Longrightarrow>
    core_service_path cfg ctx
      (Inr (if err_deadline e then Unhealthy ErrCodeServiceTimeout (Msg ''CoreDNS service query timed out'')
            else Unhealthy ErrCodeServiceError (MsgErr ''CoreDNS service query error: %s'' (ApiErr e))))
      (get_service ctx (Inr (Some (ServiceObj svc))) # es)"

definition pod_query_verdict :: "api_error \<Rightarrow> result" where
  "pod_query_verdict e = (if err_deadline e
     then Unhealthy ErrCodePodTimeout (Msg ''CoreDNS pod query timed out'')
     else Unhealthy ErrCodePodError (MsgErr ''CoreDNS pod query error: %s'' (ApiErr e)))"

text \<open>The checks of the pods, after that.\<close>

inductive core_pods_path :: "dns_config \<Rightarrow> gctx \<Rightarrow> gerror + result \<Rightarrow> history \<Rightarrow> bool" for cfg ctx where
  pods_missing: "err_not_found e \<Longrightarrow>
    core_pods_path cfg ctx (Inr (Unhealthy ErrCodePodsNotReady (Msg ''CoreDNS Pods are not ready''))) [list_slices ctx (Inl e)]"
| pods_error: "\<not> err_not_found e \<Longrightarrow>
    core_pods_path cfg ctx (Inl (Wrapf ''failed to get CoreDNS pod IPs: %w'' [] (ApiErr e))) [list_slices ctx (Inl e)]"
| no_pod_ready: "ready_endpoints slices = [] \<Longrightarrow>
    core_pods_path cfg ctx (Inr (Unhealthy ErrCodePodsNotReady (Msg ''CoreDNS Pods are not ready'')))
      [list_slices ctx (Inr (map EndpointSliceObj slices))]"
| pod_query_failed: "ready_endpoints slices \<noteq> [] \<Longrightarrow> pod_ips slices = ips @ ip # rest \<Longrightarrow>
    asks_all cfg ctx ips es \<Longrightarrow> asks cfg ctx ip (Inl e) es' \<Longrightarrow>
    core_pods_path cfg ctx
      (Inr (pod_query_verdict e))
      (list_slices ctx (Inr (map EndpointSliceObj slices)) # es @ es')"
| pods_healthy: "ready_endpoints slices \<noteq> [] \<Longrightarrow> asks_all cfg ctx (pod_ips slices) es \<Longrightarrow>
    core_pods_path cfg ctx (Inr Healthy) (list_slices ctx (Inr (map EndpointSliceObj slices)) # es)"

definition core_dns_path :: "dns_config \<Rightarrow> gctx \<Rightarrow> gerror + result \<Rightarrow> history \<Rightarrow> bool" where
  "core_dns_path cfg ctx r es \<longleftrightarrow> core_service_path cfg ctx r es \<or>
     (\<exists>svc v es1 es2. has_ip svc \<and> asks cfg ctx (svc_cluster_ip svc) (Inr v) es1 \<and> core_pods_path cfg ctx r es2
        \<and> es = get_service ctx (Inr (Some (ServiceObj svc))) # es1 @ es2)"

section \<open>The code follows the protocol\<close>

lemma emits_lookupHost [emits_intros]:
  assumes "\<And>r es. asks cfg ctx ip r es \<Longrightarrow> Q r es"
  shows "emits (lookupHost env ctx ip (dns_domain cfg) (dns_query_timeout cfg)) Q"
  unfolding lookupHost_def by (intro emits_intros assms) (auto simp: asks_def)

lemma performs_lookupHost [performs_intros]:
  assumes "\<And>t. P (EvNow t)" "\<And>c r. P (EvLookup c (JoinHostPort ip ''53'') d r)"
  shows "performs P (lookupHost env ctx ip d t)"
  unfolding lookupHost_def by (intro performs_intros assms)

lemma for_until_append:
  "for_until body (xs @ ys) = do {
     r \<leftarrow> for_until body xs;
     case r of None \<Rightarrow> for_until body ys | Some v \<Rightarrow> State_Monad.return (Some v) }"
proof (induction xs)
  case Nil
  show ?case by (simp add: State_Monad.bind_def State_Monad.return_def)
next
  case (Cons x xs)
  show ?case
    by (auto simp: Cons.IH State_Monad.bind_def State_Monad.return_def split: prod.splits option.splits intro!: ext)
qed

lemma for_until_nested: "for_until (\<lambda>x. for_until body (f x)) xs = for_until body (concat (map f xs))"
  by (induction xs) (simp_all add: for_until_append cong: option.case_cong)

text \<open>The loops over addresses: all answered, or stopped at the first that failed.\<close>

lemma until_asks:
  assumes "until_run (\<lambda>ip r es. \<exists>a. asks cfg ctx ip a es \<and> r = (case a of Inl e \<Rightarrow> Some (f e) | Inr _ \<Rightarrow> None)) ips r es"
  shows "asks_until cfg ctx f ips r es"
  using assms unfolding asks_until_def
proof (induction rule: until_run.induct)
  case until_done
  show ?case by (simp add: asks_none)
next
  case (until_stop ip r es rest)
  then obtain a where "asks cfg ctx ip a es" "Some r = (case a of Inl e \<Rightarrow> Some (f e) | Inr _ \<Rightarrow> None)" by blast
  then obtain e where "asks cfg ctx ip (Inl e) es" "r = f e" by (cases a) auto
  then show ?case using asks_none by (metis append_Nil)
next
  case (until_step ip es ips r es')
  then obtain a where "asks cfg ctx ip a es" "None = (case a of Inl e \<Rightarrow> Some (f e) | Inr _ \<Rightarrow> None)" by blast
  then obtain v where v: "asks cfg ctx ip (Inr v) es" by (cases a) auto
  from until_step.IH show ?case
  proof (elim disjE exE conjE)
    fix pre ip' rest es1 es2 e
    assume "ips = pre @ ip' # rest" "asks_all cfg ctx pre es1" "asks cfg ctx ip' (Inl e) es2" "es' = es1 @ es2" "r = Some (f e)"
    with asks_more [OF v] show ?thesis by (metis append.assoc append_Cons)
  qed (simp add: asks_more [OF v])
qed

lemma emits_pod_queries:
  "emits (for_until (query_coredns_pod env cfg ctx) ips) (asks_until cfg ctx pod_query_verdict ips)"
proof (rule emits_conseq [OF emits_for_until])
  show "emits (query_coredns_pod env cfg ctx ip) (\<lambda>r es. \<exists>a. asks cfg ctx ip a es
     \<and> r = (case a of Inl e \<Rightarrow> Some (pod_query_verdict e) | Inr _ \<Rightarrow> None))" for ip
    unfolding query_coredns_pod_def by (intro emits_intros) (auto simp: pod_query_verdict_def split: sum.splits)
qed (rule until_asks)

lemma emits_getCoreDNSSvcIP [emits_intros]:
  assumes "\<And>e. err_not_found e \<Longrightarrow> Q (Inl (Sentinel ErrServiceNotReady)) [get_service ctx (Inl e)]"
    and "\<And>e. \<not> err_not_found e \<Longrightarrow>
      Q (Inl (Wrapf ''failed to get CoreDNS service: %w'' [] (ApiErr e))) [get_service ctx (Inl e)]"
    and "\<And>svc. \<not> has_ip svc \<Longrightarrow> Q (Inl (Sentinel ErrServiceNotReady)) [get_service ctx (Inr (Some (ServiceObj svc)))]"
    and "\<And>svc. has_ip svc \<Longrightarrow> Q (Inr (svc_cluster_ip svc)) [get_service ctx (Inr (Some (ServiceObj svc)))]"
  shows "emits (getCoreDNSSvcIP env ctx) Q"
  unfolding getCoreDNSSvcIP_def using assms by (intro emits_intros) (auto split: sum.splits)

lemma emits_getCoreDNSEndpoints [emits_intros]:
  assumes "\<And>e. err_not_found e \<Longrightarrow> Q (Inl (Sentinel ErrPodsNotReady)) [list_slices ctx (Inl e)]"
    and "\<And>e. \<not> err_not_found e \<Longrightarrow>
      Q (Inl (Wrapf ''failed to get CoreDNS pod IPs: %w'' [] (ApiErr e))) [list_slices ctx (Inl e)]"
    and "\<And>slices. ready_endpoints slices = [] \<Longrightarrow>
      Q (Inl (Sentinel ErrPodsNotReady)) [list_slices ctx (Inr (map EndpointSliceObj slices))]"
    and "\<And>slices. ready_endpoints slices \<noteq> [] \<Longrightarrow>
      Q (Inr (ready_endpoints slices)) [list_slices ctx (Inr (map EndpointSliceObj slices))]"
  shows "emits (getCoreDNSEndpoints env ctx) Q"
  unfolding getCoreDNSEndpoints_def using assms by (intro emits_intros) (auto split: sum.splits)

lemma emits_core_pods:
  "emits (do {
     dnsEndpoints \<leftarrow> getCoreDNSEndpoints env ctx;
     case dnsEndpoints of
       Inl err \<Rightarrow>
         if errors_is err ErrPodsNotReady
         then State_Monad.return (Inr (Unhealthy ErrCodePodsNotReady (Msg ''CoreDNS Pods are not ready'')))
         else State_Monad.return (Inl err)
     | Inr endpoints \<Rightarrow> do {
         early \<leftarrow> for_until (\<lambda>ep. for_until (query_coredns_pod env cfg ctx) (ep_addresses ep)) endpoints;
         State_Monad.return (case early of Some res \<Rightarrow> Inr res | None \<Rightarrow> Inr Healthy) } })
    (core_pods_path cfg ctx)"
  unfolding for_until_nested
proof (rule emits_bind, rule emits_getCoreDNSEndpoints, goal_cases)
  case (4 slices)
  show ?case
    by simp (rule emits_bind, rule emits_conseq [OF emits_pod_queries], erule asks_untilE,
      simp_all add: pods_healthy [OF 4] pod_query_failed [OF 4])
qed (simp_all add: pods_missing pods_error no_pod_ready)

lemma emits_checkCoreDNS: "emits (checkCoreDNS env cfg ctx) (core_dns_path cfg ctx)"
  unfolding checkCoreDNS_def
proof (rule emits_bind, rule emits_getCoreDNSSvcIP, goal_cases)
  case (4 svc)
  show ?case
  proof (simp, rule emits_bind, rule emits_lookupHost)
    fix r es
    assume asked: "asks cfg ctx (svc_cluster_ip svc) r es"
    show "emits (case r of
         Inl err \<Rightarrow>
           if err_deadline err
           then State_Monad.return (Inr (Unhealthy ErrCodeServiceTimeout (Msg ''CoreDNS service query timed out'')))
           else State_Monad.return (Inr (Unhealthy ErrCodeServiceError (MsgErr ''CoreDNS service query error: %s'' (ApiErr err))))
       | Inr _ \<Rightarrow> do {
           dnsEndpoints \<leftarrow> getCoreDNSEndpoints env ctx;
           case dnsEndpoints of
             Inl err \<Rightarrow>
               if errors_is err ErrPodsNotReady
               then State_Monad.return (Inr (Unhealthy ErrCodePodsNotReady (Msg ''CoreDNS Pods are not ready'')))
               else State_Monad.return (Inl err)
           | Inr endpoints \<Rightarrow> do {
               early \<leftarrow> for_until (\<lambda>ep. for_until (query_coredns_pod env cfg ctx) (ep_addresses ep)) endpoints;
               State_Monad.return (case early of Some res \<Rightarrow> Inr res | None \<Rightarrow> Inr Healthy) } })
      (\<lambda>b es'. core_dns_path cfg ctx b (get_service ctx (Inr (Some (ServiceObj svc))) # es @ es'))"
    proof (cases r)
      case (Inl e)
      with asked service_query_failed [OF 4, of cfg ctx e es] show ?thesis by (auto simp: core_dns_path_def)
    next
      case (Inr v)
      with asked 4 show ?thesis
        by simp (rule emits_conseq [OF emits_core_pods], auto simp: core_dns_path_def)
    qed
  qed
qed (simp_all add: core_dns_path_def service_missing service_error service_without_ip)

section \<open>The per-pod check\<close>

text \<open>
  The run over the ready endpoints: one increment per endpoint with a pod name, after its queries.
\<close>

inductive per_pod_path :: "string \<Rightarrow> dns_config \<Rightarrow> gctx \<Rightarrow> endpoint list \<Rightarrow> history \<Rightarrow> bool" for nm cfg ctx where
  no_endpoint: "per_pod_path nm cfg ctx [] []"
| unnamed: "endpoint_pod ep = None \<Longrightarrow> per_pod_path nm cfg ctx eps es \<Longrightarrow> per_pod_path nm cfg ctx (ep # eps) es"
| pod_answered: "endpoint_pod ep = Some p \<Longrightarrow> asks_all cfg ctx (ep_addresses ep) es \<Longrightarrow>
    per_pod_path nm cfg ctx eps es' \<Longrightarrow>
    per_pod_path nm cfg ctx (ep # eps)
      (es @ EvInc CoreDNSPodResultCounter [CheckTypeDNS, nm, p, HealthyStatus, HealthyCode] # es')"
| pod_failed: "endpoint_pod ep = Some p \<Longrightarrow> ep_addresses ep = ips @ ip # rest \<Longrightarrow> asks_all cfg ctx ips es1 \<Longrightarrow>
    asks cfg ctx ip (Inl e) es2 \<Longrightarrow> per_pod_path nm cfg ctx eps es' \<Longrightarrow>
    per_pod_path nm cfg ctx (ep # eps)
      (es1 @ es2 @ EvInc CoreDNSPodResultCounter (CheckTypeDNS # nm # p #
         (if err_deadline e then [UnhealthyStatus, ErrCodePodTimeout] else [UnknownStatus, UnknownCode])) # es')"

lemma emits_queryEndpoint:
  "emits (queryEndpoint env cfg ctx ep) (asks_until cfg ctx id (ep_addresses ep))"
  unfolding queryEndpoint_def
proof (rule emits_conseq [OF emits_for_until])
  show "emits (do { r \<leftarrow> lookupHost env ctx ip (dns_domain cfg) (dns_query_timeout cfg);
      State_Monad.return (case r of Inl err \<Rightarrow> Some err | Inr _ \<Rightarrow> None) })
    (\<lambda>r es. \<exists>a. asks cfg ctx ip a es \<and> r = (case a of Inl e \<Rightarrow> Some (id e) | Inr _ \<Rightarrow> None))" for ip
    by (intro emits_intros) (auto split: sum.splits)
qed (rule until_asks)

lemma per_pod_path_step:
  assumes "asks_until cfg ctx id (ep_addresses ep) r es" "endpoint_pod ep = Some p" "per_pod_path nm cfg ctx eps es'"
  shows "per_pod_path nm cfg ctx (ep # eps) (es @
    EvInc CoreDNSPodResultCounter (CheckTypeDNS # nm # p # recorded_labels (per_pod_result r)) # es')"
  using assms(1)
proof (cases rule: asks_untilE)
  case 1
  then show ?thesis using pod_answered [OF assms(2) _ assms(3)] by (simp add: per_pod_result_def)
next
  case (2 pre ip rest es1 es2 e)
  show ?thesis
    using pod_failed [OF assms(2) 2(1-3) assms(3)] 2(4,5)
    by (cases "err_deadline e") (simp_all add: per_pod_result_def)
qed

lemma emits_record_per_pod: "emits (record_per_pod env nm cfg ctx eps) (\<lambda>_. per_pod_path nm cfg ctx eps)"
proof (induction eps)
  case Nil
  show ?case by (simp add: no_endpoint)
next
  case (Cons ep eps)
  show ?case
  proof (cases "endpoint_pod ep")
    case None
    then show ?thesis by simp (rule emits_conseq [OF Cons.IH], rule unnamed)
  next
    case (Some p)
    then show ?thesis
      by simp (rule emits_bind, rule emits_conseq [OF emits_queryEndpoint], rule emits_bind,
        rule emits_RecordCoreDNSPodResult, rule emits_conseq [OF Cons.IH], simp add: per_pod_path_step)
  qed
qed

lemma asks_increments: "asks cfg ctx ip a es \<Longrightarrow> increments es = []"
  by (auto simp: asks_def)

lemma asks_all_increments: "asks_all cfg ctx ips es \<Longrightarrow> increments es = []"
  by (induction rule: asks_all.induct) (auto simp: asks_increments)


lemma emits_checkCoreDNSPerPod:
  "emits (checkCoreDNSPerPod env nm cfg ctx)
    (\<lambda>_ es. (\<exists>e. es = [list_slices ctx (Inl e)]) \<or>
      (\<exists>slices path. es = list_slices ctx (Inr (map EndpointSliceObj slices)) # path
         \<and> per_pod_path nm cfg ctx (ready_endpoints slices) path))"
  unfolding checkCoreDNSPerPod_def
proof (rule emits_bind, rule emits_getCoreDNSEndpoints, goal_cases)
  case (3 slices)
  then show ?case using no_endpoint [of nm cfg ctx] by auto
next
  case (4 slices)
  show ?case by simp (rule emits_conseq [OF emits_record_per_pod], auto)
qed auto

section \<open>The checker meets its interface\<close>

lemma silent_checkCoreDNS: "silent (checkCoreDNS env cfg ctx)"
  unfolding silent_def checkCoreDNS_def getCoreDNSSvcIP_def getCoreDNSEndpoints_def query_coredns_pod_def lookupHost_def
  by (intro performs_intros) simp_all

lemma silent_checkLocalDNS: "silent (checkLocalDNS env cfg ctx)"
  unfolding silent_def checkLocalDNS_def lookupHost_def by (intro performs_intros) simp_all

lemma emits_per_pod_owned:
  "emits (checkCoreDNSPerPod env nm cfg ctx) (\<lambda>_ es. list_all (owned CheckTypeDNS nm) (increments es))"
proof (rule emits_conseq [OF emits_checkCoreDNSPerPod], elim disjE exE conjE)
  fix slices path and es :: history
  assume es: "es = list_slices ctx (Inr (map EndpointSliceObj slices)) # path"
    and path: "per_pod_path nm cfg ctx (ready_endpoints slices) path"
  have "list_all (owned CheckTypeDNS nm) (increments path)"
    using path by (induction rule: per_pod_path.induct)
      (auto simp: owned_def asks_increments asks_all_increments)
  then show "list_all (owned CheckTypeDNS nm) (increments es)" by (simp add: es)
qed simp

lemma recording_dns:
  "recording_checker nm CheckTypeDNS (\<lambda>ctx. check_and_record CheckTypeDNS nm (checkCoreDNS env cfg ctx))"
  "recording_checker nm CheckTypeDNS (\<lambda>ctx. check_and_record CheckTypeDNS nm (checkLocalDNS env cfg ctx))"
  by (rule recording_checker_check_and_record, rule silent_checkCoreDNS silent_checkLocalDNS)+

interpretation dns_checker: checker_iface "dc_name c" CheckTypeDNS "DNSChecker_run env c cfg" for env c cfg
proof
  show "emits (DNSChecker_run env c cfg ctx) (\<lambda>_ es. list_all (owned CheckTypeDNS (dc_name c)) (increments es))" for ctx
    using recording_dns [THEN recording_checker.axioms(1), THEN checker_iface.run_owned] emits_per_pod_owned
    by (simp add: DNSChecker_run_def)
qed

section \<open>Queries of a trace\<close>

text \<open>The queries made: server, domain, and whether it answered.\<close>

fun query_of :: "event \<Rightarrow> (string \<times> string \<times> bool) list" where
  "query_of (EvLookup _ server domain r) = [(server, domain, \<not> isl r)]"
| "query_of _ = []"

definition queries :: "history \<Rightarrow> (string \<times> string \<times> bool) list" where
  "queries es = concat (map query_of es)"

lemma queries_simps [simp, trace_simps]:
  "queries [] = []" "queries (e # es) = query_of e @ queries es" "queries (es @ es') = queries es @ queries es'"
  by (simp_all add: queries_def)

definition answered_by :: "dns_config \<Rightarrow> string \<Rightarrow> string \<times> string \<times> bool" where
  "answered_by cfg ip = (JoinHostPort ip ''53'', dns_domain cfg, True)"

lemma asks_trace:
  assumes "asks cfg ctx ip a es"
  shows "queries es = [(JoinHostPort ip ''53'', dns_domain cfg, \<not> isl a)]"
    "EvGet r c ns n x \<notin> set es" "EvList r c ns opts y \<notin> set es"
  using assms by (auto simp: asks_def)

lemma asks_all_trace:
  assumes "asks_all cfg ctx ips es"
  shows "queries es = map (answered_by cfg) ips" "EvGet r c ns n x \<notin> set es" "EvList r c ns opts y \<notin> set es"
  using assms by (induction rule: asks_all.induct) (auto simp: asks_trace answered_by_def)

lemma map_EndpointSliceObj [simp]: "map EndpointSliceObj xs = map EndpointSliceObj ys \<longleftrightarrow> xs = ys"
  by (rule inj_map_eq_map) (simp add: inj_def)

section \<open>Properties\<close>

text \<open>
  C16: The CoreDNS check follows its protocol: the service is read and queried first, then the
  endpoints are listed and the ready pods queried one after another up to the first failure; the
  result, the queried servers, the order and the deadline of each query are those of the path, for
  any answers of the API server and of the DNS servers.
\<close>

theorem dns_core_protocol: "emits (checkCoreDNS env cfg ctx) (core_dns_path cfg ctx)"
  by (rule emits_checkCoreDNS)

lemma core_pods_healthy:
  assumes "core_pods_path cfg ctx r es"
  shows "r = Inr Healthy \<longleftrightarrow> (\<exists>slices. list_slices ctx (Inr (map EndpointSliceObj slices)) \<in> set es
     \<and> ready_endpoints slices \<noteq> [] \<and> queries es = map (answered_by cfg) (pod_ips slices))"
    "EvGet r' c ns n x \<notin> set es"
  using assms
proof (induction rule: core_pods_path.induct)
  case (pod_query_failed slices ips ip rest es e es')
  {
    case 1
    from pod_query_failed show ?case
      by (auto simp: asks_all_trace asks_trace answered_by_def pod_query_verdict_def append_eq_append_conv2
          append_eq_Cons_conv Cons_eq_append_conv split: if_splits)
  next
    case 2
    from pod_query_failed show ?case by (auto simp: asks_all_trace asks_trace)
  }
qed (auto simp: asks_all_trace)

text \<open>
  C7: The CoreDNS check is healthy exactly when the service has a usable address, some endpoint is
  ready, and the queries made are the service's address followed by every address of every ready
  endpoint, each once, in order, all answered.
\<close>

theorem dns_core_healthy_iff:
  "emits (checkCoreDNS env cfg ctx)
     (\<lambda>r es. r = Inr Healthy \<longleftrightarrow>
        (\<exists>svc slices. get_service ctx (Inr (Some (ServiceObj svc))) \<in> set es \<and> has_ip svc
           \<and> list_slices ctx (Inr (map EndpointSliceObj slices)) \<in> set es \<and> ready_endpoints slices \<noteq> []
           \<and> queries es = map (answered_by cfg) (svc_cluster_ip svc # pod_ips slices)))"
proof (rule emits_conseq [OF emits_checkCoreDNS])
  fix r es
  assume "core_dns_path cfg ctx r es"
  then consider "core_service_path cfg ctx r es"
    | svc v es1 es2 where "has_ip svc" "asks cfg ctx (svc_cluster_ip svc) (Inr v) es1" "core_pods_path cfg ctx r es2"
        "es = get_service ctx (Inr (Some (ServiceObj svc))) # es1 @ es2"
    unfolding core_dns_path_def by blast
  then show "r = Inr Healthy \<longleftrightarrow>
        (\<exists>svc slices. get_service ctx (Inr (Some (ServiceObj svc))) \<in> set es \<and> has_ip svc
           \<and> list_slices ctx (Inr (map EndpointSliceObj slices)) \<in> set es \<and> ready_endpoints slices \<noteq> []
           \<and> queries es = map (answered_by cfg) (svc_cluster_ip svc # pod_ips slices))"
  proof cases
    case 1
    then show ?thesis by cases (auto simp: asks_trace split: if_splits)
  next
    case 2
    then show ?thesis
      using core_pods_healthy [OF 2(3)] by (auto simp: asks_trace answered_by_def)
  qed
qed

text \<open>
  C17: The per-pod check lists the endpoints once and then goes through the ready ones: it queries
  the addresses of every endpoint that names its pod, up to the first failure, and records one result
  under the pod's name: healthy if all answered, a timeout, or an unknown error.
\<close>

theorem dns_per_pod_protocol:
  "emits (checkCoreDNSPerPod env nm cfg ctx)
    (\<lambda>_ es. (\<exists>e. es = [list_slices ctx (Inl e)]) \<or>
      (\<exists>slices path. es = list_slices ctx (Inr (map EndpointSliceObj slices)) # path
         \<and> per_pod_path nm cfg ctx (ready_endpoints slices) path))"
  by (rule emits_checkCoreDNSPerPod)


lemma ready_endpoints_filter:
  "ready_endpoints slices = [ep \<leftarrow> concat (map es_endpoints slices). ep_ready ep \<noteq> Some False]"
proof -
  have "ready_endpoints_of eps = [ep \<leftarrow> eps. ep_ready ep \<noteq> Some False]" for eps
    by (induction eps) simp_all
  then show ?thesis by (induction slices) simp_all
qed

text \<open>
  C34: The endpoints used are those of all slices that are not explicitly unready, in order (an unset
  readiness counts as ready); none at all, or a missing list, is the error that the pods are not
  ready, and only that error is it.
\<close>

theorem dns_endpoints:
  "emits (getCoreDNSEndpoints env ctx)
     (\<lambda>r es. \<exists>answer. es = [list_slices ctx (map_sum id (map EndpointSliceObj) answer)] \<and>
        (case answer of
           Inl e \<Rightarrow> (if err_not_found e then r = Inl (Sentinel ErrPodsNotReady)
                     else r = Inl (Wrapf ''failed to get CoreDNS pod IPs: %w'' [] (ApiErr e)))
         | Inr slices \<Rightarrow>
             (let eps = [ep \<leftarrow> concat (map es_endpoints slices). ep_ready ep \<noteq> Some False] in
              r = (if eps = [] then Inl (Sentinel ErrPodsNotReady) else Inr eps))))"
  unfolding ready_endpoints_filter [symmetric] Let_def
proof (rule emits_getCoreDNSEndpoints, goal_cases)
  case (1 e)
  then show ?case by (intro exI [of _ "Inl e"]) simp
next
  case (2 e)
  then show ?case by (intro exI [of _ "Inl e"]) simp
next
  case (3 slices)
  then show ?case by (intro exI [of _ "Inr slices"]) simp
next
  case (4 slices)
  then show ?case by (intro exI [of _ "Inr slices"]) simp
qed

text \<open>
  C35: Building a DNS checker panics exactly when the DNS configuration is missing, and is skipped
  exactly when the target is LocalDNS and the node's resolver configuration, read once, does not
  list the LocalDNS address.
\<close>

theorem dns_build:
  "emits (BuildDNSChecker config env)
     (\<lambda>r es. (r = Panicked \<longleftrightarrow> chk_dns config = None)
        \<and> (r = Returned (Inl (Sentinel ErrSkipChecker)) \<longleftrightarrow>
             (\<exists>cfg servers. chk_dns config = Some cfg \<and> dns_target cfg = DNSCheckTargetLocalDNS
                \<and> es = [EvResolvConf resolvConfPath (Inr servers)] \<and> localDNSIP \<notin> set servers))
        \<and> ((\<exists>c. r = Returned (Inr c)) \<longleftrightarrow>
             (\<exists>cfg. chk_dns config = Some cfg \<and> (dns_target cfg = DNSCheckTargetLocalDNS \<and>
                 (\<exists>servers. es = [EvResolvConf resolvConfPath (Inr servers)] \<and> localDNSIP \<in> set servers)
               \<or> dns_target cfg \<noteq> DNSCheckTargetLocalDNS \<and> es = []))))"
proof (cases "chk_dns config")
  case None
  then show ?thesis by (simp add: BuildDNSChecker_def)
next
  case (Some cfg)
  then show ?thesis
    by (simp add: BuildDNSChecker_def isLocalDNSEnabled_def)
      (intro conjI impI emits_intros; auto simp: list_ex_iff split: sum.splits)
qed

end
