(* ===== verification/MetricsServer.thy ===== *)
theory MetricsServer
  imports Checker
begin

text \<open>
  The metrics server checker (\<^verbatim>\<open>pkg/checker/metricsserver\<close>): one list request to the metrics API.
\<close>

definition ErrCodeMetricsServerUnavailable :: string where
  "ErrCodeMetricsServerUnavailable = ''MetricsServerUnavailable''"
definition ErrCodeMetricsServerTimeout :: string where
  "ErrCodeMetricsServerTimeout = ''MetricsServerTimeout''"

record metrics_server_checker =
  msc_name :: string
  msc_timeout :: duration

definition BuildMetricsServerChecker :: "metrics_server_checker builder" where
  "BuildMetricsServerChecker config env = do {
     k8sConfig \<leftarrow> setup_client env ''in-cluster config'';
     case k8sConfig of
       Some err \<Rightarrow> State_Monad.return (Returned (Inl (Wrapf ''failed to get in-cluster config: %w'' [] (ApiErr err))))
     | None \<Rightarrow> do {
         metricsClient \<leftarrow> setup_client env ''metrics client'';
         State_Monad.return (Returned (case metricsClient of
           Some err \<Rightarrow> Inl (Wrapf ''failed to create metrics client: %w'' [] (ApiErr err))
         | None \<Rightarrow> Inr \<lparr>msc_name = chk_name config, msc_timeout = chk_timeout config\<rparr>)) } }"

definition checkMetricsServerAPI :: "env \<Rightarrow> gctx \<Rightarrow> gerror option io" where
  "checkMetricsServerAPI env ctx = do {
     r \<leftarrow> node_metrics_list env ctx;
     State_Monad.return (case r of
       Some err \<Rightarrow> Some (Wrapf ''metrics server API call failed: %w'' [] (ApiErr err))
     | None \<Rightarrow> None) }"

definition MetricsServer_check :: "env \<Rightarrow> gctx \<Rightarrow> (gerror + result) io" where
  "MetricsServer_check env ctx = do {
     r \<leftarrow> checkMetricsServerAPI env ctx;
     State_Monad.return (case r of
       Some err \<Rightarrow>
         if errors_is err DeadlineExceeded
         then Inr (Unhealthy ErrCodeMetricsServerTimeout (Msg ''timed out while calling metrics server API''))
         else Inr (Unhealthy ErrCodeMetricsServerUnavailable (MsgErr ''metrics server API unavailable: %v'' err))
     | None \<Rightarrow> Inr Healthy) }"

definition MetricsServerChecker_Run :: "env \<Rightarrow> metrics_server_checker \<Rightarrow> gctx \<Rightarrow> unit io" where
  "MetricsServerChecker_Run env c ctx = check_and_record CheckTypeMetricsServer (msc_name c) (MetricsServer_check env ctx)"

section \<open>The checker meets its interface\<close>

lemma silent_MetricsServer_check: "silent (MetricsServer_check env ctx)"
  unfolding silent_def MetricsServer_check_def checkMetricsServerAPI_def by (intro performs_intros) simp

interpretation metrics_server_checker: recording_checker "msc_name c" CheckTypeMetricsServer "MetricsServerChecker_Run env c"
  for env c
  unfolding MetricsServerChecker_Run_def
  by (rule recording_checker_check_and_record) (rule silent_MetricsServer_check)

section \<open>Properties\<close>

text \<open>
  C36: A run makes one list request with the context of the run and records one result: healthy if the
  request succeeded, else unhealthy with the timeout code exactly when the deadline was exceeded.
\<close>

theorem metrics_server_run:
  "emits (MetricsServerChecker_Run env c ctx)
     (\<lambda>_ es. \<exists>answer. es =
        [EvList NodeMetricses ctx [] NoSelector answer,
         EvInc CheckerResultCounter (CheckTypeMetricsServer # msc_name c #
           (case answer of
              Inr _ \<Rightarrow> [HealthyStatus, HealthyCode]
            | Inl e \<Rightarrow> [UnhealthyStatus, if err_deadline e then ErrCodeMetricsServerTimeout
                        else ErrCodeMetricsServerUnavailable]))])"
  unfolding MetricsServerChecker_Run_def check_and_record_def MetricsServer_check_def checkMetricsServerAPI_def
  by (intro emits_intros) (auto simp: RecordResult_eq split: option.splits)

end
