(* ===== verification/AzurePolicy.thy ===== *)
theory AzurePolicy
  imports Checker
begin

text \<open>
  The Azure Policy checker (\<^verbatim>\<open>pkg/checker/azurepolicy\<close>): create, as a dry run, a pod that violates
  the default policies, and look for the violation in the error and in the warning headers of the
  response. The handler that captures the headers is a list of texts; its mutex has no counterpart.
\<close>

definition ErrCodeAzurePolicyEnforcementMissing :: string where
  "ErrCodeAzurePolicyEnforcementMissing = ''AzurePolicyEnforcementMissing''"

section \<open>The warning handler\<close>

type_synonym warning_capturing_handler = "string list"

definition HandleWarningHeader :: "int \<Rightarrow> string \<Rightarrow> string \<Rightarrow> warning_capturing_handler \<Rightarrow> warning_capturing_handler" where
  "HandleWarningHeader code agent text w = w @ [text]"

definition GetWarnings :: "warning_capturing_handler \<Rightarrow> string list" where
  "GetWarnings w = w"

text \<open>The client calls the handler for each header of a response, in order.\<close>

definition deliver_warnings ::
    "(int \<times> string \<times> string) list \<Rightarrow> warning_capturing_handler \<Rightarrow> warning_capturing_handler" where
  "deliver_warnings headers w = fold (\<lambda>(code, agent, text). HandleWarningHeader code agent text) headers w"

section \<open>The checker\<close>

record azure_policy_checker =
  ap_name :: string
  ap_timeout :: duration

definition buildAzurePolicyChecker :: "azure_policy_checker builder" where
  "buildAzurePolicyChecker config env = do {
     restConfig \<leftarrow> setup_client env ''in-cluster config'';
     State_Monad.return (Returned (case restConfig of
       Some err \<Rightarrow> Inl (Wrapf ''failed to get in-cluster config: %w'' [] (ApiErr err))
     | None \<Rightarrow> Inr \<lparr>ap_name = chk_name config, ap_timeout = chk_timeout config\<rparr>)) }"

text \<open>\<^verbatim>\<open>createTestPod\<close> at the instant \<open>now\<close>; \<^verbatim>\<open>Unix()\<close> counts whole seconds.\<close>

definition createTestPod :: "azure_policy_checker \<Rightarrow> time \<Rightarrow> pod" where
  "createTestPod c now =
     \<lparr>pod_meta = new_meta (to_lower (ap_name c) @ ''-test-pod-'' @ dec_of_int (sint (Unix now)))
        ''default'' [(''kubernetes.azure.com'', ''restricted'')],
      pod_spec_of =
        \<lparr>ps_containers =
           [\<lparr>ctr_name = ''synthetic'', ctr_image = ''mcr.microsoft.com/azurelinux/base/nginx:1.25.4-4-azl3.0.20250702'',
             ctr_ports = [], ctr_volume_mounts = []\<rparr>],
         ps_tolerations = [], ps_node_affinity_terms = [], ps_volumes = [], ps_node_selector = [],
         ps_restart_policy = ''Never''\<rparr>,
      pod_status_of = no_status\<rparr>"

definition hasAzurePolicyViolation :: "string \<Rightarrow> bool" where
  "hasAzurePolicyViolation message =
     list_ex (\<lambda>matcher. contains message ''azurepolicy'' \<and> contains message matcher)
       [''has no <livenessProbe>'', ''has no <readinessProbe>'', ''is reserved for AKS use only'']"

definition CreateClientWithWarningCapture :: "env \<Rightarrow> (api_error + warning_capturing_handler) io" where
  "CreateClientWithWarningCapture env = do {
     r \<leftarrow> setup_client env ''warning capturing client'';
     State_Monad.return (case r of Some err \<Rightarrow> Inl err | None \<Rightarrow> Inr []) }"

definition AzurePolicy_check :: "env \<Rightarrow> azure_policy_checker \<Rightarrow> gctx \<Rightarrow> (gerror + result) io" where
  "AzurePolicy_check env c ctx = do {
     client \<leftarrow> CreateClientWithWarningCapture env;
     case client of
       Inl err \<Rightarrow> State_Monad.return (Inl (Wrapf ''failed to create Kubernetes client: %w'' [] (ApiErr err)))
     | Inr handler \<Rightarrow> do {
         timeoutCtx \<leftarrow> with_timeout env ctx (ap_timeout c);
         now \<leftarrow> time_now env;
         res \<leftarrow> pod_create env timeoutCtx ''default'' True (createTestPod c now);
         headers \<leftarrow> response_warnings env;
         let warnings = GetWarnings (deliver_warnings headers handler);
         let checkWarnings = (if list_ex hasAzurePolicyViolation warnings then Inr Healthy
           else Inr (Unhealthy ErrCodeAzurePolicyEnforcementMissing (Msg ''no Azure Policy violations detected'')));
         State_Monad.return (case res of
           Inl err \<Rightarrow>
             if err_deadline err
             then Inl (Wrapf ''dry run request to create pod timed out: %w'' [] (ApiErr err))
             else if hasAzurePolicyViolation (err_text err) then Inr Healthy
             else checkWarnings
         | Inr _ \<Rightarrow> checkWarnings) } }"

definition AzurePolicyChecker_Run :: "env \<Rightarrow> azure_policy_checker \<Rightarrow> gctx \<Rightarrow> unit io" where
  "AzurePolicyChecker_Run env c ctx = check_and_record CheckTypeAzurePolicy (ap_name c) (AzurePolicy_check env c ctx)"

section \<open>Helper lemmas\<close>

lemma deliver_warnings_append: "deliver_warnings headers w = w @ map (\<lambda>(_, _, text). text) headers"
  by (induction headers arbitrary: w) (auto simp: deliver_warnings_def HandleWarningHeader_def)

text \<open>What counts as a violation: the substring specification.\<close>

definition names_violation :: "string \<Rightarrow> bool" where
  "names_violation message \<longleftrightarrow> sublist ''azurepolicy'' message \<and>
     (sublist ''has no <livenessProbe>'' message \<or> sublist ''has no <readinessProbe>'' message
      \<or> sublist ''is reserved for AKS use only'' message)"

lemma hasAzurePolicyViolation_iff: "hasAzurePolicyViolation message \<longleftrightarrow> names_violation message"
  by (auto simp: hasAzurePolicyViolation_def names_violation_def contains_iff_sublist)

text \<open>The verdict on an answer to the dry run and its warning texts.\<close>

definition policy_verdict :: "api_error + pod \<Rightarrow> string list \<Rightarrow> gerror + result" where
  "policy_verdict answer warnings =
     (let texts = (case answer of Inl e \<Rightarrow> [err_text e] | Inr _ \<Rightarrow> []) @ warnings in
      if \<exists>e. answer = Inl e \<and> err_deadline e
      then Inl (Wrapf ''dry run request to create pod timed out: %w'' [] (ApiErr (projl answer)))
      else if list_ex names_violation texts then Inr Healthy
      else Inr (Unhealthy ErrCodeAzurePolicyEnforcementMissing (Msg ''no Azure Policy violations detected'')))"

inductive azure_policy_path :: "azure_policy_checker \<Rightarrow> gctx \<Rightarrow> gerror + result \<Rightarrow> history \<Rightarrow> bool" for c ctx where
  no_client: "azure_policy_path c ctx (Inl (Wrapf ''failed to create Kubernetes client: %w'' [] (ApiErr e)))
    [EvSetup ''warning capturing client'' (Some e)]"
| dry_run: "azure_policy_path c ctx (policy_verdict answer (map (\<lambda>(_, _, text). text) headers))
    [EvSetup ''warning capturing client'' None, EvNow t, EvNow t',
     EvCreate Pods (deadline_after ctx t (ap_timeout c)) ''default'' True (PodObj (createTestPod c t'))
       (map_sum id PodObj answer), EvWarnings headers]"

lemma emits_AzurePolicy_check: "emits (AzurePolicy_check env c ctx) (azure_policy_path c ctx)"
  unfolding AzurePolicy_check_def CreateClientWithWarningCapture_def Let_def
proof (rule emits_bind, rule emits_bind, rule emits_setup_client, goal_cases)
  case (1 r)
  show ?case
  proof (cases r)
    case None
    have "(case res of
         Inl err \<Rightarrow>
           if err_deadline err
           then Inl (Wrapf ''dry run request to create pod timed out: %w'' [] (ApiErr err))
           else if hasAzurePolicyViolation (err_text err) then Inr Healthy
           else if list_ex hasAzurePolicyViolation (GetWarnings (deliver_warnings headers [])) then Inr Healthy
           else Inr (Unhealthy ErrCodeAzurePolicyEnforcementMissing (Msg ''no Azure Policy violations detected''))
       | Inr _ \<Rightarrow> if list_ex hasAzurePolicyViolation (GetWarnings (deliver_warnings headers [])) then Inr Healthy
           else Inr (Unhealthy ErrCodeAzurePolicyEnforcementMissing (Msg ''no Azure Policy violations detected'')))
      = policy_verdict res (map (\<lambda>(_, _, text). text) headers)" for res headers
      by (auto simp: policy_verdict_def GetWarnings_def deliver_warnings_append list_ex_iff
          hasAzurePolicyViolation_iff split: sum.splits)
    with None show ?thesis by simp (intro emits_intros; simp add: dry_run)
  next
    case (Some e)
    then show ?thesis by (simp add: no_client)
  qed
qed

lemma silent_AzurePolicy_check: "silent (AzurePolicy_check env c ctx)"
  unfolding silent_def AzurePolicy_check_def CreateClientWithWarningCapture_def Let_def
  by (intro performs_intros) simp_all

interpretation azure_policy_checker: recording_checker "ap_name c" CheckTypeAzurePolicy "AzurePolicyChecker_Run env c"
  for env c
  unfolding AzurePolicyChecker_Run_def
  by (rule recording_checker_check_and_record) (rule silent_AzurePolicy_check)

section \<open>Properties\<close>

text \<open>
  C37: The check makes at most one call to the API server, a dry run in the namespace default under
  the checker's own timeout. It is an error if that call exceeded its deadline, healthy exactly when the
  error text or one of the response's warnings is a violation, and unhealthy otherwise; the test pod
  being accepted without a warning is unhealthy.
\<close>

theorem azure_check_protocol: "emits (AzurePolicy_check env c ctx) (azure_policy_path c ctx)"
  by (rule emits_AzurePolicy_check)

text \<open>
  A run of the Azure Policy checker changes nothing in the cluster: every creation is a dry run
  and nothing is deleted.
\<close>

lemma azure_changes_nothing:
  "emits (AzurePolicyChecker_Run env c ctx) (\<lambda>_ es. sent r es = [] \<and> created r es = [] \<and> deleted r es = [])"
  unfolding AzurePolicyChecker_Run_def check_and_record_def
  by (rule emits_bind, rule emits_conseq [OF emits_AzurePolicy_check], rule emits_RecordResult)
    (erule azure_policy_path.cases; auto split: sum.splits)

end
