(* ===== verification/Storage.thy ===== *)
theory Storage
  imports GarbageCollection Checker
begin

text \<open>
  The storage part of the pod startup checker (\<^verbatim>\<open>pkg/checker/podstartup/storage.go\<close>): persistent
  volume claims and a storage class for each enabled CSI driver, their creation before a run,
  deletion after it, limits and garbage collection. The checker's record and its labels are here
  because every other part needs them.
\<close>

section \<open>The checker and its labels\<close>

record pod_startup_checker =
  psk_name :: string
  psk_config :: "pod_startup_config option"
  psk_timeout :: duration
  psk_dialer_timeout :: duration

text \<open>The methods are given the configuration \<open>cfg\<close> that the checker's pointer leads to.\<close>

definition syntheticPodLabels :: "pod_startup_checker \<Rightarrow> pod_startup_config \<Rightarrow> labels" where
  "syntheticPodLabels c cfg = [(psc_label_key cfg, psk_name c)]"

section \<open>Claims and the storage class\<close>

definition azureDiskPVCNamePrefix :: string where "azureDiskPVCNamePrefix = ''clusterhealthmonitor-azuredisk-pvc''"
definition azureFilePVCNamePrefix :: string where "azureFilePVCNamePrefix = ''clusterhealthmonitor-azurefile-pvc''"
definition azureBlobPVCNamePrefix :: string where "azureBlobPVCNamePrefix = ''clusterhealthmonitor-azureblob-pvc''"
definition azureDiskStorageClassName :: string where "azureDiskStorageClassName = ''managed-csi''"
definition azureFileStorageClassNamePrefix :: string where
  "azureFileStorageClassNamePrefix = ''clusterhealthmonitor-azurefile-sc''"
definition azureBlobStorageClassName :: string where "azureBlobStorageClassName = ''azureblob-nfs-premium''"

definition azureDiskPVC :: "pod_startup_checker \<Rightarrow> pod_startup_config \<Rightarrow> string \<Rightarrow> persistent_volume_claim" where
  "azureDiskPVC c cfg timestampStr =
     \<lparr>pvc_type = \<lparr>tm_kind = ''PersistentVolumeClaim'', tm_api_version = ''v1''\<rparr>,
      pvc_meta = new_meta (azureDiskPVCNamePrefix @ ''-'' @ timestampStr) (psc_namespace cfg) (syntheticPodLabels c cfg),
      pvc_access_modes = [''ReadWriteOnce''],
      pvc_storage_class = Some azureDiskStorageClassName,
      pvc_storage_request = ''5Gi''\<rparr>"

definition azureFileStorageClass :: "pod_startup_checker \<Rightarrow> pod_startup_config \<Rightarrow> string \<Rightarrow> storage_class" where
  "azureFileStorageClass c cfg timestampStr =
     \<lparr>sc_type = \<lparr>tm_kind = ''StorageClass'', tm_api_version = ''storage.k8s.io/v1''\<rparr>,
      sc_meta = new_meta (azureFileStorageClassNamePrefix @ ''-'' @ timestampStr) [] (syntheticPodLabels c cfg),
      sc_provisioner = ''file.csi.azure.com'',
      sc_allow_expansion = Some True,
      sc_reclaim_policy = Some ''Delete'',
      sc_binding_mode = Some ''Immediate'',
      sc_mount_options = [''dir_mode=0777'', ''file_mode=0777'', ''mfsymlinks'', ''cache=strict'', ''nosharesock'',
        ''actimeo=30'', ''nobrl''],
      sc_parameters = [(''skuName'', ''Premium_LRS'')]\<rparr>"

definition azureFilePVC :: "pod_startup_checker \<Rightarrow> pod_startup_config \<Rightarrow> string \<Rightarrow> persistent_volume_claim" where
  "azureFilePVC c cfg timestampStr =
     \<lparr>pvc_type = \<lparr>tm_kind = ''PersistentVolumeClaim'', tm_api_version = ''v1''\<rparr>,
      pvc_meta = new_meta (azureFilePVCNamePrefix @ ''-'' @ timestampStr) (psc_namespace cfg) (syntheticPodLabels c cfg),
      pvc_access_modes = [''ReadWriteMany''],
      pvc_storage_class = Some (om_name (sc_meta (azureFileStorageClass c cfg timestampStr))),
      pvc_storage_request = ''5Gi''\<rparr>"

definition azureBlobPVC :: "pod_startup_checker \<Rightarrow> pod_startup_config \<Rightarrow> string \<Rightarrow> persistent_volume_claim" where
  "azureBlobPVC c cfg timestampStr =
     \<lparr>pvc_type = \<lparr>tm_kind = ''PersistentVolumeClaim'', tm_api_version = ''v1''\<rparr>,
      pvc_meta = new_meta (azureBlobPVCNamePrefix @ ''-'' @ timestampStr) (psc_namespace cfg) (syntheticPodLabels c cfg),
      pvc_access_modes = [''ReadWriteMany''],
      pvc_storage_class = Some azureBlobStorageClassName,
      pvc_storage_request = ''5Gi''\<rparr>"

lemmas csi_object_defs = azureDiskPVC_def azureFilePVC_def azureBlobPVC_def azureFileStorageClass_def

section \<open>Creation and deletion\<close>

text \<open>\<^verbatim>\<open>if err != nil { return fmt.Errorf(format, err) }\<close>\<close>

definition wrap_error :: "string \<Rightarrow> api_error option \<Rightarrow> gerror option" where
  "wrap_error fmt err = map_option (\<lambda>e. Wrapf fmt [] (ApiErr e)) err"

lemma wrap_error_None [simp]: "wrap_error fmt err = None \<longleftrightarrow> err = None"
  by (simp add: wrap_error_def)

lemma wrap_error_eq_Some [simp]: "wrap_error fmt err = Some x \<longleftrightarrow> (\<exists>e. err = Some e \<and> x = Wrapf fmt [] (ApiErr e))"
  by (auto simp: wrap_error_def)

text \<open>The body of the loop of \<^verbatim>\<open>createCSIResources\<close>: \<open>Some\<close> error returns from the function.\<close>

definition create_csi ::
    "env \<Rightarrow> pod_startup_checker \<Rightarrow> pod_startup_config \<Rightarrow> gctx \<Rightarrow> string \<Rightarrow> csi_type \<Rightarrow> gerror option io" where
  "create_csi env c cfg ctx timestampStr csiType =
     (if csiType = CSITypeAzureDisk then do {
        err \<leftarrow> pvc_create env ctx (psc_namespace cfg) (azureDiskPVC c cfg timestampStr);
        State_Monad.return (wrap_error ''failed to create Azure Disk PVC: %w'' err) }
      else if csiType = CSITypeAzureFile then do {
        err \<leftarrow> sc_create env ctx (azureFileStorageClass c cfg timestampStr);
        case err of
          Some e \<Rightarrow> State_Monad.return (Some (Wrapf ''failed to create azurefile-csi storage class: %w'' [] (ApiErr e)))
        | None \<Rightarrow> do {
            err \<leftarrow> pvc_create env ctx (psc_namespace cfg) (azureFilePVC c cfg timestampStr);
            State_Monad.return (wrap_error ''failed to create Azure File PVC: %w'' err) } }
      else if csiType = CSITypeAzureBlob then do {
        err \<leftarrow> pvc_create env ctx (psc_namespace cfg) (azureBlobPVC c cfg timestampStr);
        State_Monad.return (wrap_error ''failed to create Azure Blob PVC: %w'' err) }
      else State_Monad.return (Some (Errorf ''failed to create resources for unsupported CSI type: %s'' [ArgStr csiType])))"

definition createCSIResources ::
    "env \<Rightarrow> pod_startup_checker \<Rightarrow> pod_startup_config \<Rightarrow> gctx \<Rightarrow> string \<Rightarrow> gerror option io" where
  "createCSIResources env c cfg ctx timestampStr = for_until (create_csi env c cfg ctx timestampStr) (psc_enabled_csis cfg)"

definition delete_csi ::
    "env \<Rightarrow> pod_startup_checker \<Rightarrow> pod_startup_config \<Rightarrow> gctx \<Rightarrow> string \<Rightarrow> csi_type \<Rightarrow> gerror option io" where
  "delete_csi env c cfg ctx timestampStr csiType =
     (if csiType = CSITypeAzureDisk then do {
        err \<leftarrow> delete_object env PersistentVolumeClaims ctx (psc_namespace cfg) (om_name (pvc_meta (azureDiskPVC c cfg timestampStr)));
        State_Monad.return (wrap_error ''failed to delete Azure Disk PVC: %w'' (delete_failure err)) }
      else if csiType = CSITypeAzureFile then do {
        err \<leftarrow> delete_object env StorageClasses ctx [] (om_name (sc_meta (azureFileStorageClass c cfg timestampStr)));
        case delete_failure err of
          Some e \<Rightarrow> State_Monad.return (Some (Wrapf ''failed to delete Azure File Storage Class: %w'' [] (ApiErr e)))
        | None \<Rightarrow> do {
            err \<leftarrow> delete_object env PersistentVolumeClaims ctx (psc_namespace cfg) (om_name (pvc_meta (azureFilePVC c cfg timestampStr)));
            State_Monad.return (wrap_error ''failed to delete Azure File PVC: %w'' (delete_failure err)) } }
      else if csiType = CSITypeAzureBlob then do {
        err \<leftarrow> delete_object env PersistentVolumeClaims ctx (psc_namespace cfg) (om_name (pvc_meta (azureBlobPVC c cfg timestampStr)));
        State_Monad.return (wrap_error ''failed to delete Azure Blob PVC: %w'' (delete_failure err)) }
      else State_Monad.return (Some (Errorf ''failed to delete resources for unsupported CSI type: %s'' [ArgStr csiType])))"

definition deleteCSIResources ::
    "env \<Rightarrow> pod_startup_checker \<Rightarrow> pod_startup_config \<Rightarrow> gctx \<Rightarrow> string \<Rightarrow> gerror option io" where
  "deleteCSIResources env c cfg ctx timestampStr = for_until (delete_csi env c cfg ctx timestampStr) (psc_enabled_csis cfg)"

section \<open>Garbage collection\<close>

definition persistentVolumeClaimGarbageCollection ::
    "env \<Rightarrow> pod_startup_checker \<Rightarrow> pod_startup_config \<Rightarrow> gctx \<Rightarrow> gerror option io" where
  "persistentVolumeClaimGarbageCollection env c cfg ctx = do {
     pvcs \<leftarrow> pvc_list env ctx (psc_namespace cfg) (SelectorFromSet (syntheticPodLabels c cfg));
     case pvcs of
       Inl err \<Rightarrow> State_Monad.return (Some (Wrapf ''failed to list persistent volume claims: %w'' [] (ApiErr err)))
     | Inr items \<Rightarrow> do {
         errs \<leftarrow> for_collect (\<lambda>pvc. delete_if_older env PersistentVolumeClaims ctx (psk_timeout c)
                   ''failed to delete outdated persistent volume claim %s: %w'' (\<lambda>_. psc_namespace cfg) (pvc_meta pvc)) items;
         State_Monad.return (errors_join errs) } }"

definition storageClassGarbageCollection ::
    "env \<Rightarrow> pod_startup_checker \<Rightarrow> pod_startup_config \<Rightarrow> gctx \<Rightarrow> gerror option io" where
  "storageClassGarbageCollection env c cfg ctx = do {
     scs \<leftarrow> sc_list env ctx (SelectorFromSet (syntheticPodLabels c cfg));
     case scs of
       Inl err \<Rightarrow> State_Monad.return (Some (Wrapf ''failed to list storage classes: %w'' [] (ApiErr err)))
     | Inr items \<Rightarrow> do {
         errs \<leftarrow> for_collect (\<lambda>sc. delete_if_older env StorageClasses ctx (psk_timeout c)
                   ''failed to delete outdated storage class %s: %w'' (\<lambda>_. []) (sc_meta sc)) items;
         State_Monad.return (errors_join errs) } }"

interpretation pvc_gc: expiry_collector "persistentVolumeClaimGarbageCollection env c cfg ctx" PersistentVolumeClaims ctx
  "psc_namespace cfg" "SelectorFromSet (syntheticPodLabels c cfg)" "\<lambda>_. psc_namespace cfg" "psk_timeout c" "''failed to list persistent volume claims: %w''"
  "''failed to delete outdated persistent volume claim %s: %w''" for env c cfg ctx
  unfolding persistentVolumeClaimGarbageCollection_def
  by (rule expiry_collectorI [where mk = PVCObj]) (simp, erule emits_pvc_list)

interpretation sc_gc: expiry_collector "storageClassGarbageCollection env c cfg ctx" StorageClasses ctx
  "[]" "SelectorFromSet (syntheticPodLabels c cfg)" "\<lambda>_. []" "psk_timeout c" "''failed to list storage classes: %w''" "''failed to delete outdated storage class %s: %w''"
  for env c cfg ctx
  unfolding storageClassGarbageCollection_def
  by (rule expiry_collectorI [where mk = StorageClassObj]) (simp, erule emits_sc_list)

section \<open>Limits\<close>

text \<open>The product of the limit and the number of drivers is a Go \<^verbatim>\<open>int\<close> and wraps like it.\<close>

definition max_pvcs :: "pod_startup_config \<Rightarrow> go_int" where
  "max_pvcs cfg = psc_max_pods cfg * of_nat (length (psc_enabled_csis cfg))"

definition check_sc_limit :: "env \<Rightarrow> pod_startup_checker \<Rightarrow> pod_startup_config \<Rightarrow> gctx \<Rightarrow> csi_type \<Rightarrow> gerror option io" where
  "check_sc_limit env c cfg ctx csiType =
     (if csiType = CSITypeAzureFile then do {
        scs \<leftarrow> sc_list env ctx (SelectorFromSet (syntheticPodLabels c cfg));
        State_Monad.return (case scs of
          Inl err \<Rightarrow> Some (ApiErr err)
        | Inr items \<Rightarrow>
            if sint (psc_max_pods cfg) \<le> int (length items)
            then Some (Errorf
              ''maximum number of storage classes reached, current: %d, max allowed: %d, delete some storage classes before running the checker again''
              [ArgInt (int (length items)), ArgInt (sint (psc_max_pods cfg))])
            else None) }
      else State_Monad.return None)"

definition checkCSIResourceLimit ::
    "env \<Rightarrow> pod_startup_checker \<Rightarrow> pod_startup_config \<Rightarrow> gctx \<Rightarrow> gerror option io" where
  "checkCSIResourceLimit env c cfg ctx =
     (if length (psc_enabled_csis cfg) = 0 then State_Monad.return None
      else do {
        pvcs \<leftarrow> pvc_list env ctx (psc_namespace cfg) (SelectorFromSet (syntheticPodLabels c cfg));
        case pvcs of
          Inl err \<Rightarrow> State_Monad.return (Some (ApiErr err))
        | Inr items \<Rightarrow>
            if sint (max_pvcs cfg) \<le> int (length items)
            then State_Monad.return (Some (Errorf
              ''maximum number of PVCs reached, current: %d, max allowed: %d, delete some PVCs before running the checker again''
              [ArgInt (int (length items)), ArgInt (sint (max_pvcs cfg))]))
            else for_until (check_sc_limit env c cfg ctx) (psc_enabled_csis cfg) })"

text \<open>
  The protocol of the limit check: nothing without drivers; otherwise the claims are listed, and if they
  are below their limit the storage classes are listed once per Azure File entry, until a listing fails or
  reaches the limit. Each request carries the run's context and the checker's labels.
\<close>

inductive sc_limit_path ::
    "pod_startup_checker \<Rightarrow> pod_startup_config \<Rightarrow> gctx \<Rightarrow> csi_type \<Rightarrow> gerror option \<Rightarrow> history \<Rightarrow> bool" for c cfg ctx where
  no_class_needed: "t \<noteq> CSITypeAzureFile \<Longrightarrow> sc_limit_path c cfg ctx t None []"
| classes_unlisted: "sc_limit_path c cfg ctx CSITypeAzureFile (Some (ApiErr e))
    [EvList StorageClasses ctx [] (SelectorFromSet (syntheticPodLabels c cfg)) (Inl e)]"
| too_many_classes: "sint (psc_max_pods cfg) \<le> int (length obs) \<Longrightarrow>
    sc_limit_path c cfg ctx CSITypeAzureFile (Some (Errorf
        ''maximum number of storage classes reached, current: %d, max allowed: %d, delete some storage classes before running the checker again''
        [ArgInt (int (length obs)), ArgInt (sint (psc_max_pods cfg))]))
      [EvList StorageClasses ctx [] (SelectorFromSet (syntheticPodLabels c cfg)) (Inr obs)]"
| classes_below_limit: "int (length obs) < sint (psc_max_pods cfg) \<Longrightarrow>
    sc_limit_path c cfg ctx CSITypeAzureFile None
      [EvList StorageClasses ctx [] (SelectorFromSet (syntheticPodLabels c cfg)) (Inr obs)]"

inductive csi_limit_path ::
    "pod_startup_checker \<Rightarrow> pod_startup_config \<Rightarrow> gctx \<Rightarrow> gerror option \<Rightarrow> history \<Rightarrow> bool" for c cfg ctx where
  no_drivers: "psc_enabled_csis cfg = [] \<Longrightarrow> csi_limit_path c cfg ctx None []"
| claims_unlisted: "psc_enabled_csis cfg \<noteq> [] \<Longrightarrow> csi_limit_path c cfg ctx (Some (ApiErr e))
    [EvList PersistentVolumeClaims ctx (psc_namespace cfg) (SelectorFromSet (syntheticPodLabels c cfg)) (Inl e)]"
| too_many_claims: "psc_enabled_csis cfg \<noteq> [] \<Longrightarrow> sint (max_pvcs cfg) \<le> int (length obs) \<Longrightarrow>
    csi_limit_path c cfg ctx (Some (Errorf
        ''maximum number of PVCs reached, current: %d, max allowed: %d, delete some PVCs before running the checker again''
        [ArgInt (int (length obs)), ArgInt (sint (max_pvcs cfg))]))
      [EvList PersistentVolumeClaims ctx (psc_namespace cfg) (SelectorFromSet (syntheticPodLabels c cfg)) (Inr obs)]"
| claims_below_limit: "psc_enabled_csis cfg \<noteq> [] \<Longrightarrow> int (length obs) < sint (max_pvcs cfg) \<Longrightarrow>
    until_run (sc_limit_path c cfg ctx) (psc_enabled_csis cfg) err es \<Longrightarrow>
    csi_limit_path c cfg ctx err
      (EvList PersistentVolumeClaims ctx (psc_namespace cfg) (SelectorFromSet (syntheticPodLabels c cfg)) (Inr obs) # es)"

lemma emits_check_sc_limit: "emits (check_sc_limit env c cfg ctx t) (sc_limit_path c cfg ctx t)"
  unfolding check_sc_limit_def
proof (rule emits_if, rule emits_bind, rule emits_sc_list, goal_cases)
  case (1 answer)
  then show ?case
    using classes_unlisted [where c = c and cfg = cfg and ctx = ctx] too_many_classes [where obs = "map StorageClassObj (projr answer)" and c = c and cfg = cfg and ctx = ctx]
      classes_below_limit [where obs = "map StorageClassObj (projr answer)" and c = c and cfg = cfg and ctx = ctx]
    by (cases answer) (auto simp: not_le)
qed (simp add: no_class_needed)

lemma emits_checkCSIResourceLimit: "emits (checkCSIResourceLimit env c cfg ctx) (csi_limit_path c cfg ctx)"
  unfolding checkCSIResourceLimit_def
proof (rule emits_if)
  assume "length (psc_enabled_csis cfg) \<noteq> 0"
  then have csis: "psc_enabled_csis cfg \<noteq> []" by simp
  show "emits (do {
        pvcs \<leftarrow> pvc_list env ctx (psc_namespace cfg) (SelectorFromSet (syntheticPodLabels c cfg));
        case pvcs of
          Inl err \<Rightarrow> State_Monad.return (Some (ApiErr err))
        | Inr items \<Rightarrow>
            if sint (max_pvcs cfg) \<le> int (length items)
            then State_Monad.return (Some (Errorf
              ''maximum number of PVCs reached, current: %d, max allowed: %d, delete some PVCs before running the checker again''
              [ArgInt (int (length items)), ArgInt (sint (max_pvcs cfg))]))
            else for_until (check_sc_limit env c cfg ctx) (psc_enabled_csis cfg) }) (csi_limit_path c cfg ctx)"
  proof (rule emits_bind, rule emits_pvc_list, goal_cases)
    case (1 answer)
    show ?case
    proof (cases answer)
      case (Inr items)
      show ?thesis
      proof (cases "sint (max_pvcs cfg) \<le> int (length items)")
        case True
        then show ?thesis using too_many_claims [OF csis, where obs = "map PVCObj items" and c = c and ctx = ctx] by (simp add: Inr)
      next
        case False
        then show ?thesis
          using claims_below_limit [OF csis, where obs = "map PVCObj items" and c = c and ctx = ctx]
          by (simp add: Inr) (rule emits_conseq [OF emits_for_until [OF emits_check_sc_limit]], simp)
      qed
    qed (simp add: claims_unlisted [OF csis])
  qed
qed (simp add: no_drivers)

section \<open>The plan of the resources\<close>

text \<open>
  What is created and deleted for a CSI type, in order; \<open>None\<close> stands for a type that is not
  supported, where the code gives up.
\<close>

definition csi_plan :: "string \<Rightarrow> csi_type \<Rightarrow> (resource \<times> string) option list" where
  "csi_plan ts t =
     (if t = CSITypeAzureDisk then [Some (PersistentVolumeClaims, azureDiskPVCNamePrefix @ ''-'' @ ts)]
      else if t = CSITypeAzureFile then
        [Some (StorageClasses, azureFileStorageClassNamePrefix @ ''-'' @ ts),
         Some (PersistentVolumeClaims, azureFilePVCNamePrefix @ ''-'' @ ts)]
      else if t = CSITypeAzureBlob then [Some (PersistentVolumeClaims, azureBlobPVCNamePrefix @ ''-'' @ ts)]
      else [None])"

text \<open>
  Working through a plan: without an error everything was done and succeeded; with an error the plan
  was followed up to the first step that failed (or is not supported), and no further.
\<close>

definition progress :: "'a option list \<Rightarrow> ('a \<times> bool) list \<Rightarrow> 'e option \<Rightarrow> bool" where
  "progress plan done err \<longleftrightarrow>
     (\<exists>pre rest. plan = map Some pre @ rest \<and>
       (case err of
          None \<Rightarrow> rest = [] \<and> done = map (\<lambda>x. (x, True)) pre
        | Some _ \<Rightarrow> (\<exists>x rest'. rest = x # rest' \<and>
            done = map (\<lambda>x. (x, True)) pre @ (case x of None \<Rightarrow> [] | Some y \<Rightarrow> [(y, False)]))))"

lemma progress_NoneE: "progress plan done None \<Longrightarrow> (\<And>pre. plan = map Some pre \<Longrightarrow> done = map (\<lambda>x. (x, True)) pre \<Longrightarrow> P) \<Longrightarrow> P"
  by (auto simp: progress_def)

lemma progress_all: "progress (map Some pre) (map (\<lambda>x. (x, True)) pre) None"
  by (auto simp: progress_def)

lemma progress_fail: "progress (map Some pre @ Some y # rest) (map (\<lambda>x. (x, True)) pre @ [(y, False)]) (Some e)"
  unfolding progress_def by (rule exI [of _ pre]) auto

lemma progress_unsupported: "progress (map Some pre @ None # rest) (map (\<lambda>x. (x, True)) pre) (Some e)"
  unfolding progress_def by (rule exI [of _ pre]) auto

lemma progress_append:
  assumes "progress plan done None" "progress plan' done' err"
  shows "progress (plan @ plan') (done @ done') err"
proof -
  from assms(1) obtain pre where "plan = map Some pre" "done = map (\<lambda>x. (x, True)) pre" by (rule progress_NoneE)
  moreover from assms(2) obtain pre' rest where "plan' = map Some pre' @ rest"
    "case err of None \<Rightarrow> rest = [] \<and> done' = map (\<lambda>x. (x, True)) pre'
       | Some _ \<Rightarrow> (\<exists>x rest'. rest = x # rest' \<and>
           done' = map (\<lambda>x. (x, True)) pre' @ (case x of None \<Rightarrow> [] | Some y \<Rightarrow> [(y, False)]))"
    unfolding progress_def by blast
  ultimately show ?thesis
    unfolding progress_def by (intro exI [of _ "pre @ pre'"] exI [of _ rest]) (cases err; auto)
qed

lemma progress_stop:
  assumes "progress plan done (Some e)"
  shows "progress (plan @ plan') done (Some e)"
proof -
  from assms obtain pre x rest where "plan = map Some pre @ x # rest"
    "done = map (\<lambda>x. (x, True)) pre @ (case x of None \<Rightarrow> [] | Some y \<Rightarrow> [(y, False)])"
    unfolding progress_def by auto
  then show ?thesis unfolding progress_def by (intro exI [of _ pre] exI [of _ "x # rest @ plan'"]) auto
qed

lemma emits_progress_loop:
  assumes body: "\<And>x. emits (body x) (\<lambda>err es. progress (plan x) (proj es) err)"
    and proj: "proj [] = []" "\<And>es es'. proj (es @ es') = proj es @ proj es'"
  shows "emits (for_until body xs) (\<lambda>err es. progress (concat (map plan xs)) (proj es) err)"
proof (rule emits_conseq [OF emits_for_until [OF body]])
  fix err es
  assume "until_run (\<lambda>x err es. progress (plan x) (proj es) err) xs err es"
  then show "progress (concat (map plan xs)) (proj es) err"
  proof (induction rule: until_run.induct)
    case until_done
    show ?case by (simp add: progress_def proj)
  qed (simp_all add: proj progress_stop progress_append)
qed

text \<open>The creations and deletions of a trace with their success; an object already gone is a success.\<close>

fun creation_of :: "event \<Rightarrow> ((resource \<times> string) \<times> bool) list" where
  "creation_of (EvCreate r _ _ dry ob res) = (if dry then [] else [((r, object_name ob), \<not> isl res)])"
| "creation_of _ = []"

fun deletion_of :: "event \<Rightarrow> ((resource \<times> string) \<times> bool) list" where
  "deletion_of (EvDelete r _ _ n res) = [((r, n), delete_failure res = None)]"
| "deletion_of _ = []"

definition creations :: "history \<Rightarrow> ((resource \<times> string) \<times> bool) list" where
  "creations es = concat (map creation_of es)"

definition deletions :: "history \<Rightarrow> ((resource \<times> string) \<times> bool) list" where
  "deletions es = concat (map deletion_of es)"

lemma creations_simps [simp, trace_simps]:
  "creations [] = []" "creations (e # es) = creation_of e @ creations es" "creations (es @ es') = creations es @ creations es'"
  by (simp_all add: creations_def)

lemma deletions_simps [simp, trace_simps]:
  "deletions [] = []" "deletions (e # es) = deletion_of e @ deletions es" "deletions (es @ es') = deletions es @ deletions es'"
  by (simp_all add: deletions_def)

lemma progress_simps:
  "progress [Some x] [(y, b)] err \<longleftrightarrow> x = y \<and> (b \<longleftrightarrow> err = None)"
  "progress [None] [] (Some e)"
  "progress (Some x # p) [(x, False)] (Some e)"
  "progress [Some x, Some x'] [(x, True), (x', b)] err \<longleftrightarrow> (b \<longleftrightarrow> err = None)"
proof -
  show "progress [Some x] [(y, b)] err \<longleftrightarrow> x = y \<and> (b \<longleftrightarrow> err = None)"
    using progress_all [of "[x]"] progress_fail [of "[]" x "[]"]
    by (cases err; cases b) (auto simp: progress_def Cons_eq_append_conv append_eq_Cons_conv Cons_eq_map_conv map_eq_Cons_conv split: option.splits)
  show "progress [None] [] (Some e)" using progress_unsupported [of "[]" "[]" e] by simp
  show "progress (Some x # p) [(x, False)] (Some e)" using progress_fail [of "[]" x p e] by simp
  show "progress [Some x, Some x'] [(x, True), (x', b)] err \<longleftrightarrow> (b \<longleftrightarrow> err = None)"
    using progress_all [of "[x, x']"] progress_fail [of "[x]" x' "[]"]
    by (cases err; cases b) (auto simp: progress_def Cons_eq_append_conv append_eq_Cons_conv Cons_eq_map_conv map_eq_Cons_conv split: option.splits)
qed

text \<open>The bodies of the two loops follow the plan.\<close>

lemma created_as_isl [simp]: "isl (created_as ob r) \<longleftrightarrow> r \<noteq> None"
  by (simp add: created_as_def split: option.splits)

lemma emits_create_csi:
  "emits (create_csi env c cfg ctx ts t) (\<lambda>err es. progress (csi_plan ts t) (creations es) err)"
  unfolding create_csi_def csi_plan_def
  by (intro emits_intros) (auto simp: progress_simps csi_types csi_object_defs)

lemma emits_delete_csi:
  "emits (delete_csi env c cfg ctx ts t) (\<lambda>err es. progress (csi_plan ts t) (deletions es) err)"
  unfolding delete_csi_def csi_plan_def
  by (intro emits_intros) (auto simp: progress_simps csi_types csi_object_defs)

definition csi_plans :: "string \<Rightarrow> pod_startup_config \<Rightarrow> (resource \<times> string) option list" where
  "csi_plans ts cfg = concat (map (csi_plan ts) (psc_enabled_csis cfg))"

lemma emits_createCSIResources:
  "emits (createCSIResources env c cfg ctx ts) (\<lambda>err es. progress (csi_plans ts cfg) (creations es) err)"
  unfolding createCSIResources_def csi_plans_def by (rule emits_progress_loop [OF emits_create_csi]) simp_all

lemma emits_deleteCSIResources:
  "emits (deleteCSIResources env c cfg ctx ts) (\<lambda>err es. progress (csi_plans ts cfg) (deletions es) err)"
  unfolding deleteCSIResources_def csi_plans_def by (rule emits_progress_loop [OF emits_delete_csi]) simp_all

text \<open>Neither does anything else.\<close>

fun only_creates :: "event \<Rightarrow> bool" where
  "only_creates (EvDelete _ _ _ _ _) \<longleftrightarrow> False"
| "only_creates (EvInc _ _) \<longleftrightarrow> False"
| "only_creates _ \<longleftrightarrow> True"

lemma performs_createCSIResources [performs_intros]:
  assumes "\<And>res. P (EvCreate PersistentVolumeClaims ctx (psc_namespace cfg) False (PVCObj (azureDiskPVC c cfg ts)) res)"
    and "\<And>res. P (EvCreate PersistentVolumeClaims ctx (psc_namespace cfg) False (PVCObj (azureFilePVC c cfg ts)) res)"
    and "\<And>res. P (EvCreate PersistentVolumeClaims ctx (psc_namespace cfg) False (PVCObj (azureBlobPVC c cfg ts)) res)"
    and "\<And>res. P (EvCreate StorageClasses ctx [] False (StorageClassObj (azureFileStorageClass c cfg ts)) res)"
  shows "performs P (createCSIResources env c cfg ctx ts)"
  unfolding createCSIResources_def create_csi_def by (intro performs_intros assms)

lemma performs_deleteCSIResources [performs_intros]:
  assumes "\<And>n res. P (EvDelete PersistentVolumeClaims ctx (psc_namespace cfg) n res)"
    and "\<And>n res. P (EvDelete StorageClasses ctx [] n res)"
  shows "performs P (deleteCSIResources env c cfg ctx ts)"
  unfolding deleteCSIResources_def delete_csi_def by (intro performs_intros assms)

lemma performs_checkCSIResourceLimit [performs_intros]:
  assumes "\<And>res. P (EvList PersistentVolumeClaims ctx (psc_namespace cfg) (SelectorFromSet (syntheticPodLabels c cfg)) res)"
    and "\<And>res. P (EvList StorageClasses ctx [] (SelectorFromSet (syntheticPodLabels c cfg)) res)"
  shows "performs P (checkCSIResourceLimit env c cfg ctx)"
  unfolding checkCSIResourceLimit_def check_sc_limit_def by (intro performs_intros assms)

section \<open>Properties\<close>

text \<open>
  C20: The CSI resources are created in the order of the configured drivers (for Azure File the storage
  class before the claim that uses it), with the run's timestamp in every name, up to the first
  creation that fails or the first driver that is not supported; there is no error exactly when all
  were created.
\<close>

theorem csi_creation:
  "emits (createCSIResources env c cfg ctx ts) (\<lambda>err es. progress (csi_plans ts cfg) (creations es) err \<and> deletions es = [])"
proof -
  have "performs only_creates (createCSIResources env c cfg ctx ts)"
    by (intro performs_intros) simp_all
  moreover have "list_all only_creates es \<Longrightarrow> deletions es = []" for es
  proof -
    have "only_creates e \<Longrightarrow> deletion_of e = []" for e by (cases e) auto
    then show "list_all only_creates es \<Longrightarrow> deletions es = []" by (auto simp: deletions_def list_all_iff)
  qed
  ultimately show ?thesis
    by (intro emits_conj emits_createCSIResources) (auto simp: performs_def elim: emits_conseq)
qed

text \<open>
  C21: The deletion after a run works through the same names as the creation with that timestamp, in
  the same order, treating an object that is already gone as deleted, but stops at the first that
  cannot be deleted.
\<close>

theorem csi_deletion:
  "emits (deleteCSIResources env c cfg ctx ts)
     (\<lambda>err es. progress (csi_plans ts cfg) (deletions es) err \<and> creations es = [])"
proof -
  have "performs (\<lambda>e. creation_of e = []) (deleteCSIResources env c cfg ctx ts)"
    by (intro performs_intros) simp_all
  moreover have "list_all (\<lambda>e. creation_of e = []) es \<Longrightarrow> creations es = []" for es
    by (auto simp: creations_def list_all_iff)
  ultimately show ?thesis
    by (intro emits_conj emits_deleteCSIResources) (auto simp: performs_def elim: emits_conseq)
qed

text \<open>The list requests of a trace with their answers.\<close>

fun listed_of :: "event \<Rightarrow> (resource \<times> (api_error + object list)) list" where
  "listed_of (EvList r _ _ _ res) = [(r, res)]"
| "listed_of _ = []"

definition listings :: "history \<Rightarrow> (resource \<times> (api_error + object list)) list" where
  "listings es = concat (map listed_of es)"

lemma listings_simps [simp, trace_simps]:
  "listings [] = []" "listings (e # es) = listed_of e @ listings es" "listings (es @ es') = listings es @ listings es'"
  by (simp_all add: listings_def)




end
