(* ===== verification/SyntheticPod.thy ===== *)
theory SyntheticPod
  imports Storage
begin

text \<open>
  The synthetic pod (\<^verbatim>\<open>pkg/checker/podstartup/pods.go\<close>): its name, labels, volumes and node
  constraints, reading its address, and the collection of old pods.
\<close>

definition syntheticPodImage :: string where
  "syntheticPodImage = ''mcr.microsoft.com/azurelinux/base/nginx:1.25.4-4-azl3.0.20250702''"

definition syntheticPodPort :: int where "syntheticPodPort = 80"

definition syntheticPodNamePrefix :: "pod_startup_checker \<Rightarrow> string" where
  "syntheticPodNamePrefix c = to_lower (psk_name c @ ''-synthetic-'')"

text \<open>The loop over the enabled drivers: a volume and its mount for each supported one.\<close>

primrec csi_volumes ::
    "pod_startup_checker \<Rightarrow> pod_startup_config \<Rightarrow> string \<Rightarrow> csi_type list \<Rightarrow> (volume \<times> volume_mount) list" where
  "csi_volumes c cfg timestampStr [] = []"
| "csi_volumes c cfg timestampStr (csiType # csis) =
     (if csiType = CSITypeAzureFile then
        [(\<lparr>vol_name = ''azurefile-volume'', vol_claim_name = om_name (pvc_meta (azureFilePVC c cfg timestampStr))\<rparr>,
          \<lparr>vm_name = ''azurefile-volume'', vm_mount_path = ''/mnt/azurefile''\<rparr>)]
      else if csiType = CSITypeAzureDisk then
        [(\<lparr>vol_name = ''azuredisk-volume'', vol_claim_name = om_name (pvc_meta (azureDiskPVC c cfg timestampStr))\<rparr>,
          \<lparr>vm_name = ''azuredisk-volume'', vm_mount_path = ''/mnt/azuredisk''\<rparr>)]
      else if csiType = CSITypeAzureBlob then
        [(\<lparr>vol_name = ''azureblob-volume'', vol_claim_name = om_name (pvc_meta (azureBlobPVC c cfg timestampStr))\<rparr>,
          \<lparr>vm_name = ''azureblob-volume'', vm_mount_path = ''/mnt/azureblob''\<rparr>)]
      else []) @ csi_volumes c cfg timestampStr csis"

definition generateSyntheticPod :: "pod_startup_checker \<Rightarrow> pod_startup_config \<Rightarrow> string \<Rightarrow> pod" where
  "generateSyntheticPod c cfg timestampStr =
     (let vols = csi_volumes c cfg timestampStr (psc_enabled_csis cfg) in
      \<lparr>pod_meta = new_meta (syntheticPodNamePrefix c @ timestampStr) [] (syntheticPodLabels c cfg),
       pod_spec_of =
         \<lparr>ps_containers =
            [\<lparr>ctr_name = ''synthetic'', ctr_image = syntheticPodImage, ctr_ports = [(syntheticPodPort, ''TCP'')],
              ctr_volume_mounts = map snd vols\<rparr>],
          ps_tolerations =
            [\<lparr>tol_key = ''node-role.kubernetes.io/master'', tol_operator = [], tol_effect = ''NoSchedule''\<rparr>,
             \<lparr>tol_key = ''CriticalAddonsOnly'', tol_operator = ''Exists'', tol_effect = []\<rparr>],
          ps_node_affinity_terms =
            [[\<lparr>nsr_key = ''kubernetes.azure.com/cluster'', nsr_operator = ''Exists'', nsr_values = []\<rparr>,
              \<lparr>nsr_key = ''type'', nsr_operator = ''NotIn'', nsr_values = [''virtual-kubelet'']\<rparr>,
              \<lparr>nsr_key = ''kubernetes.io/os'', nsr_operator = ''In'', nsr_values = [''linux'']\<rparr>,
              \<lparr>nsr_key = ''kubernetes.azure.com/mode'', nsr_operator = ''In'', nsr_values = [''system'']\<rparr>]],
          ps_volumes = map fst vols,
          ps_node_selector = (if psc_node_provisioning cfg then [(psc_label_key cfg, timestampStr)] else []),
          ps_restart_policy = []\<rparr>,
       pod_status_of = no_status\<rparr>)"

definition getSyntheticPodIP ::
    "env \<Rightarrow> pod_startup_checker \<Rightarrow> pod_startup_config \<Rightarrow> gctx \<Rightarrow> string \<Rightarrow> (gerror + string) io" where
  "getSyntheticPodIP env c cfg ctx podName = do {
     pod \<leftarrow> pod_get env ctx (psc_namespace cfg) podName;
     State_Monad.return (case pod of
       Inl err \<Rightarrow> Inl (Wrapf ''error getting pod %s: %w'' [ArgStr podName] (ApiErr err))
     | Inr p \<Rightarrow> if pst_pod_ip (pod_status_of p) = [] then Inl (Errorf ''pod IP is empty'' [])
                else Inr (pst_pod_ip (pod_status_of p))) }"

definition syntheticPodGarbageCollection ::
    "env \<Rightarrow> pod_startup_checker \<Rightarrow> pod_startup_config \<Rightarrow> gctx \<Rightarrow> gerror option io" where
  "syntheticPodGarbageCollection env c cfg ctx = do {
     podList \<leftarrow> pod_list env ctx (psc_namespace cfg) (SelectorFromSet (syntheticPodLabels c cfg));
     case podList of
       Inl err \<Rightarrow> State_Monad.return (Some (Wrapf ''failed to list pods for garbage collection: %w'' [] (ApiErr err)))
     | Inr items \<Rightarrow> do {
         errs \<leftarrow> for_collect (\<lambda>pod. delete_if_older env Pods ctx (psk_timeout c)
                   ''failed to delete old synthetic pod %s: %w'' (\<lambda>_. psc_namespace cfg) (pod_meta pod)) items;
         State_Monad.return (errors_join errs) } }"

interpretation pod_gc: expiry_collector "syntheticPodGarbageCollection env c cfg ctx" Pods ctx
  "psc_namespace cfg" "SelectorFromSet (syntheticPodLabels c cfg)" "\<lambda>_. psc_namespace cfg" "psk_timeout c"
  "''failed to list pods for garbage collection: %w''" "''failed to delete old synthetic pod %s: %w''" for env c cfg ctx
  unfolding syntheticPodGarbageCollection_def
  by (rule expiry_collectorI [where mk = PodObj]) (simp, erule emits_pod_list)

section \<open>Helper lemmas\<close>

definition plan_claims :: "(resource \<times> string) option list \<Rightarrow> string list" where
  "plan_claims plan = [n. Some (PersistentVolumeClaims, n) \<leftarrow> plan]"

lemma plan_claims_append [simp]: "plan_claims (p @ q) = plan_claims p @ plan_claims q"
  by (simp add: plan_claims_def)

lemma csi_volumes_claims:
  "map (vol_claim_name \<circ> fst) (csi_volumes c cfg ts csis) = plan_claims (concat (map (csi_plan ts) csis))"
  by (induction csis) (auto simp: csi_plan_def csi_types csi_object_defs plan_claims_def)

lemma csi_volumes_mounts: "list_all (\<lambda>(v, m). vm_name m = vol_name v) (csi_volumes c cfg ts csis)"
  by (induction csis) auto

lemma generateSyntheticPod_simps [simp]:
  "om_name (pod_meta (generateSyntheticPod c cfg ts)) = syntheticPodNamePrefix c @ ts"
  "om_labels (pod_meta (generateSyntheticPod c cfg ts)) = syntheticPodLabels c cfg"
  by (simp_all add: generateSyntheticPod_def Let_def)

section \<open>Properties\<close>

text \<open>
  C26: The volumes of the synthetic pod claim exactly the persistent volume claims that the run
  creates with its timestamp, in the same order, and each mount of the container names the volume at
  its position.
\<close>

theorem pod_uses_created_claims:
  "map vol_claim_name (ps_volumes (pod_spec_of (generateSyntheticPod c cfg ts))) = plan_claims (csi_plans ts cfg)
   \<and> map vm_name (concat (map ctr_volume_mounts (ps_containers (pod_spec_of (generateSyntheticPod c cfg ts)))))
     = map vol_name (ps_volumes (pod_spec_of (generateSyntheticPod c cfg ts)))"
proof -
  have "map (vm_name \<circ> snd) (csi_volumes c cfg ts csis) = map (vol_name \<circ> fst) (csi_volumes c cfg ts csis)" for csis
    using csi_volumes_mounts [of c cfg ts csis] by (auto simp: list_all_iff)
  then show ?thesis
    by (simp add: generateSyntheticPod_def Let_def csi_volumes_claims csi_plans_def comp_def [symmetric])
qed

text \<open>
  C27: The names of two generated pods, each with a 64-bit timestamp in nanoseconds, are equal exactly
  when the timestamps are and the names of the two checkers agree in lower case: a checker never reuses
  a name at another instant, and checkers whose names differ in more than case never share one.
\<close>

theorem pod_names_distinct:
  "om_name (pod_meta (generateSyntheticPod c cfg (dec_of_int (sint (t :: go_int)))))
     = om_name (pod_meta (generateSyntheticPod c' cfg' (dec_of_int (sint (t' :: go_int)))))
   \<longleftrightarrow> to_lower (psk_name c) = to_lower (psk_name c') \<and> t = t'"
proof -
  have low: "to_lower ''-synthetic-'' = ''-syntheti'' @ CHR ''c'' # CHR ''-'' # []"
    by (simp add: to_lower_def lower_char_def)
  have "sint t = sint t' \<longleftrightarrow> t = t'"
    by (auto intro: signed_word_eqI)
  then show ?thesis
    using dec_of_int_after_word [of "CHR ''c''" "to_lower (psk_name c) @ ''-syntheti''" "sint t"
        "to_lower (psk_name c') @ ''-syntheti''" "sint t'"]
    by (simp add: syntheticPodNamePrefix_def low)
qed

end
