(* ===== verification/NodePools.thy ===== *)
theory NodePools
  imports Storage
begin

text \<open>
  The Karpenter node pools of the pod startup checker (\<^verbatim>\<open>pkg/checker/podstartup/nodepools.go\<close>).
\<close>

definition nodePoolCRDName :: string where "nodePoolCRDName = ''nodepools.karpenter.sh''"

definition isKarpenterNodePoolCRDPresent :: "env \<Rightarrow> gctx \<Rightarrow> (api_error + bool) io" where
  "isKarpenterNodePoolCRDPresent env ctx = do {
     err \<leftarrow> crd_get env ctx nodePoolCRDName;
     State_Monad.return (case err of
       Some e \<Rightarrow> if err_not_found e then Inr False else Inl e
     | None \<Rightarrow> Inr True) }"

definition createKarpenterNodePool :: "env \<Rightarrow> gctx \<Rightarrow> node_pool \<Rightarrow> api_error option io" where
  "createKarpenterNodePool env ctx nodePool = do {
     _ \<leftarrow> add_known_types ''karpenter.sh'' ''v1'';
     err \<leftarrow> nodepool_convert env nodePool;
     case err of
       Some e \<Rightarrow> State_Monad.return (Some e)
     | None \<Rightarrow> nodepool_create env ctx nodePool }"

definition deleteKarpenterNodePool :: "env \<Rightarrow> gctx \<Rightarrow> string \<Rightarrow> api_error option io" where
  "deleteKarpenterNodePool env ctx nodePoolName = do {
     err \<leftarrow> delete_object env NodePools ctx [] nodePoolName;
     State_Monad.return (delete_failure err) }"

text \<open>The body of the loop of \<^verbatim>\<open>deleteAllKarpenterNodePools\<close>.\<close>

definition delete_listed_node_pool :: "env \<Rightarrow> gctx \<Rightarrow> unstructured \<Rightarrow> gerror option io" where
  "delete_listed_node_pool env ctx nodePool =
     (case un_nested_name nodePool of
        Inl err \<Rightarrow> State_Monad.return (Some (Wrapf ''failed to parse Karpenter Node Pool name: %w'' [] (ApiErr err)))
      | Inr nameFound \<Rightarrow>
          (case nameFound of
             None \<Rightarrow> State_Monad.return (Some (Errorf ''got Karpenter NodePool with no name field in metadata'' []))
           | Some nodePoolName \<Rightarrow> do {
               err \<leftarrow> deleteKarpenterNodePool env ctx nodePoolName;
               State_Monad.return (map_option (\<lambda>e. Wrapf ''failed to delete old Karpenter Node Pool %s: %w''
                 [ArgStr nodePoolName] (ApiErr e)) err) }))"

definition deleteAllKarpenterNodePools :: "env \<Rightarrow> pod_startup_config \<Rightarrow> gctx \<Rightarrow> gerror option io" where
  "deleteAllKarpenterNodePools env cfg ctx = do {
     nodePools \<leftarrow> nodepool_list env ctx (LabelSelector (psc_label_key cfg));
     case nodePools of
       Inl err \<Rightarrow> State_Monad.return (Some (ApiErr err))
     | Inr items \<Rightarrow> do {
         errs \<leftarrow> for_collect (delete_listed_node_pool env ctx) items;
         State_Monad.return (errors_join errs) } }"

definition karpenterNodePool :: "pod_startup_config \<Rightarrow> string \<Rightarrow> string \<Rightarrow> node_pool" where
  "karpenterNodePool cfg nodePoolName timestampStr =
     \<lparr>np_type = \<lparr>tm_kind = ''NodePool'', tm_api_version = ''karpenter.sh/v1''\<rparr>,
      np_meta = new_meta nodePoolName [] [(psc_label_key cfg, timestampStr)],
      np_node_class = (''karpenter.azure.com'', ''AKSNodeClass'', ''default''),
      np_requirements = [\<lparr>nsr_key = psc_label_key cfg, nsr_operator = ''In'', nsr_values = [timestampStr]\<rparr>]\<rparr>"

section \<open>Helper lemmas\<close>

lemma emits_createKarpenterNodePool [emits_intros]:
  assumes "\<And>e. Q (Some e) [EvAddKnownTypes ''karpenter.sh'' ''v1'', EvConvert np (Some e)]"
    and "\<And>err. Q err [EvAddKnownTypes ''karpenter.sh'' ''v1'', EvConvert np None, EvCreate NodePools ctx [] False (NodePoolObj np) (created_as (NodePoolObj np) err)]"
  shows "emits (createKarpenterNodePool env ctx np) Q"
  unfolding createKarpenterNodePool_def by (intro emits_intros) (simp_all add: assms)

lemma emits_deleteKarpenterNodePool [emits_intros]:
  assumes "\<And>res. Q (delete_failure res) [EvDelete NodePools ctx [] n res]"
  shows "emits (deleteKarpenterNodePool env ctx n) Q"
  unfolding deleteKarpenterNodePool_def by (intro emits_intros) (simp add: assms)

lemma performs_node_pools [performs_intros]:
  "(\<And>res. P (EvGet CustomResourceDefinitions ctx [] nodePoolCRDName res)) \<Longrightarrow>
     performs P (isKarpenterNodePoolCRDPresent env ctx)"
  "P (EvAddKnownTypes ''karpenter.sh'' ''v1'') \<Longrightarrow> (\<And>r. P (EvConvert np r)) \<Longrightarrow> (\<And>res. P (EvCreate NodePools ctx [] False (NodePoolObj np) res)) \<Longrightarrow>
     performs P (createKarpenterNodePool env ctx np)"
  "(\<And>res. P (EvDelete NodePools ctx [] n res)) \<Longrightarrow> performs P (deleteKarpenterNodePool env ctx n)"
  unfolding isKarpenterNodePoolCRDPresent_def createKarpenterNodePool_def deleteKarpenterNodePool_def
  by (intro performs_intros; assumption | simp)+

lemma performs_deleteAllKarpenterNodePools [performs_intros]:
  assumes "\<And>res. P (EvList NodePools ctx [] (LabelSelector (psc_label_key cfg)) res)"
    and "\<And>n res. P (EvDelete NodePools ctx [] n res)"
  shows "performs P (deleteAllKarpenterNodePools env cfg ctx)"
  unfolding deleteAllKarpenterNodePools_def delete_listed_node_pool_def by (intro performs_intros assms)

text \<open>The error reported for a listed pool, given the answers to the deletions in order.\<close>

primrec node_pool_errors :: "unstructured list \<Rightarrow> (string \<times> api_error option) list \<Rightarrow> gerror list" where
  "node_pool_errors [] answers = []"
| "node_pool_errors (p # ps) answers =
     (case un_nested_name p of
        Inl err \<Rightarrow> Wrapf ''failed to parse Karpenter Node Pool name: %w'' [] (ApiErr err) # node_pool_errors ps answers
      | Inr None \<Rightarrow> Errorf ''got Karpenter NodePool with no name field in metadata'' [] # node_pool_errors ps answers
      | Inr (Some n) \<Rightarrow>
          (case delete_failure (snd (hd answers)) of
             None \<Rightarrow> []
           | Some e \<Rightarrow> [Wrapf ''failed to delete old Karpenter Node Pool %s: %w'' [ArgStr n] (ApiErr e)])
          @ node_pool_errors ps (tl answers))"

definition named_pools :: "unstructured list \<Rightarrow> string list" where
  "named_pools ps = [n. Inr (Some n) \<leftarrow> map un_nested_name ps]"

fun node_pool_delete_of :: "event \<Rightarrow> (string \<times> api_error option) list" where
  "node_pool_delete_of (EvDelete r _ _ n res) = (if r = NodePools then [(n, res)] else [])"
| "node_pool_delete_of _ = []"

definition node_pool_deletes :: "history \<Rightarrow> (string \<times> api_error option) list" where
  "node_pool_deletes es = concat (map node_pool_delete_of es)"

lemma node_pool_deletes_simps [simp, trace_simps]:
  "node_pool_deletes [] = []" "node_pool_deletes (e # es) = node_pool_delete_of e @ node_pool_deletes es"
  "node_pool_deletes (es @ es') = node_pool_deletes es @ node_pool_deletes es'"
  by (simp_all add: node_pool_deletes_def)

text \<open>The deletions of listed pools: the request and its answer.\<close>

abbreviation delete_pool :: "gctx \<Rightarrow> string \<times> api_error option \<Rightarrow> event" where
  "delete_pool ctx x \<equiv> EvDelete NodePools ctx [] (fst x) (snd x)"

lemma node_pool_deletes_map [simp]: "node_pool_deletes (map (delete_pool ctx) answers) = answers"
  by (induction answers) simp_all

lemma emits_delete_pools:
  "emits (for_collect (delete_listed_node_pool env ctx) ps)
    (\<lambda>errs es. \<exists>answers. es = map (delete_pool ctx) answers
       \<and> map fst answers = named_pools ps \<and> errs = node_pool_errors ps answers)"
proof (induction ps)
  case Nil
  show ?case by (simp add: named_pools_def)
next
  case (Cons p ps)
  have body: "emits (delete_listed_node_pool env ctx p)
    (\<lambda>err es. case un_nested_name p of
        Inl e \<Rightarrow> es = [] \<and> err = Some (Wrapf ''failed to parse Karpenter Node Pool name: %w'' [] (ApiErr e))
      | Inr None \<Rightarrow> es = [] \<and> err = Some (Errorf ''got Karpenter NodePool with no name field in metadata'' [])
      | Inr (Some n) \<Rightarrow> \<exists>res. es = [delete_pool ctx (n, res)] \<and> err = map_option (\<lambda>e.
          Wrapf ''failed to delete old Karpenter Node Pool %s: %w'' [ArgStr n] (ApiErr e)) (delete_failure res))"
    unfolding delete_listed_node_pool_def by (intro emits_intros) auto
  show ?case
    unfolding for_collect.simps
  proof (rule emits_bind, rule emits_conseq [OF body], rule emits_bind, rule emits_conseq [OF Cons.IH], elim exE conjE, goal_cases)
    case (1 err es errs es' answers)
    show ?case
    proof (cases "\<exists>n. un_nested_name p = Inr (Some n)")
      case False
      with 1 show ?thesis
        by (auto simp: named_pools_def split: sum.splits option.splits)
    next
      case True
      with 1 obtain n res where "un_nested_name p = Inr (Some n)" "es = [delete_pool ctx (n, res)]"
        "err = map_option (\<lambda>e. Wrapf ''failed to delete old Karpenter Node Pool %s: %w'' [ArgStr n] (ApiErr e)) (delete_failure res)"
        by auto
      with 1 show ?thesis
        by (intro emits_return [THEN iffD2] exI [of _ "(n, res) # answers"]) (simp add: named_pools_def split: option.splits)
    qed
  qed
qed

text \<open>
  What a collection of node pools does: one listing by the label key; if it fails nothing else, otherwise
  one deletion per listed pool that has a name, in order, and the failures joined.
\<close>

definition node_pool_report :: "pod_startup_config \<Rightarrow> gctx \<Rightarrow> gerror option \<Rightarrow> history \<Rightarrow> bool" where
  "node_pool_report cfg ctx err es \<longleftrightarrow>
     (\<exists>e. es = [EvList NodePools ctx [] (LabelSelector (psc_label_key cfg)) (Inl e)] \<and> err = Some (ApiErr e)) \<or>
     (\<exists>pools answers. es = EvList NodePools ctx [] (LabelSelector (psc_label_key cfg)) (Inr (map UnstructuredObj pools))
            # map (delete_pool ctx) answers
        \<and> map fst answers = named_pools pools \<and> err = errors_join (node_pool_errors pools answers))"

lemma emits_deleteAllKarpenterNodePools: "emits (deleteAllKarpenterNodePools env cfg ctx) (node_pool_report cfg ctx)"
  unfolding deleteAllKarpenterNodePools_def
proof (rule emits_bind, rule emits_nodepool_list, goal_cases)
  case (1 r)
  show ?case
  proof (cases r)
    case (Inr pools)
    show ?thesis
      by (simp add: Inr, rule emits_bind, rule emits_conseq [OF emits_delete_pools]) (auto simp: node_pool_report_def)
  qed (simp add: node_pool_report_def)
qed

section \<open>Properties\<close>

text \<open>
  C24: The node pool collection deletes every listed pool that has a name, whatever its age, and
  reports every pool without a readable name and every deletion that failed, in the order of the
  listing; pools already gone are no error.
\<close>

theorem node_pool_collection:
  "emits (deleteAllKarpenterNodePools env cfg ctx)
     (\<lambda>err es. (\<exists>e. es = [EvList NodePools ctx [] (LabelSelector (psc_label_key cfg)) (Inl e)] \<and> err = Some (ApiErr e)) \<or>
       (\<exists>pools rest. es = EvList NodePools ctx [] (LabelSelector (psc_label_key cfg)) (Inr (map UnstructuredObj pools)) # rest
          \<and> map fst (node_pool_deletes rest) = named_pools pools
          \<and> err = errors_join (node_pool_errors pools (node_pool_deletes rest))))"
  by (rule emits_conseq [OF emits_deleteAllKarpenterNodePools], unfold node_pool_report_def, elim disjE exE conjE) auto

end
