(* ===== verification/ParseDuration.thy ===== *)
theory ParseDuration
  imports GoErrors
begin

text \<open>
  Go's \<^verbatim>\<open>time.ParseDuration\<close> and the regular expression of the pod startup checker that finds
  the image pull duration in an event message. \<^verbatim>\<open>uint64\<close> values are naturals with their overflow
  checks and the wrap-around written out. A fraction goes through \<^verbatim>\<open>float64\<close>, as in Go: a
  nonnegative double is a pair \<open>(m, e)\<close>, the value \<open>m * 2 ^ e\<close>, and every operation rounds to
  53 bits, ties to even.
\<close>

section \<open>Nonnegative doubles\<close>

type_synonym float64 = "nat \<times> int"

fun bit_len :: "nat \<Rightarrow> nat" where
  "bit_len n = (if n = 0 then 0 else Suc (bit_len (n div 2)))"

declare bit_len.simps [simp del]

text \<open>\<open>n / d\<close> to the nearest integer, ties to even.\<close>

definition round_div_even :: "nat \<Rightarrow> nat \<Rightarrow> nat" where
  "round_div_even n d = (let q = n div d; r = n mod d in
     if 2 * r < d then q else if 2 * r > d then q + 1 else if even q then q else q + 1)"

text \<open>The double nearest to \<open>n / d\<close>: the exponent puts the quotient between \<open>2 ^ 52\<close> and \<open>2 ^ 53\<close>.\<close>

definition float64_exponent :: "nat \<Rightarrow> nat \<Rightarrow> int" where
  "float64_exponent n d =
     (let e = int (bit_len n) - int (bit_len d) - 53 in
      if n * 2 ^ nat (- e) < d * 2 ^ nat e * 2 ^ 53 then e else e + 1)"

definition float64_of_frac :: "nat \<Rightarrow> nat \<Rightarrow> float64" where
  "float64_of_frac n d =
     (if n = 0 then (0, 0)
      else let e = float64_exponent n d in (round_div_even (n * 2 ^ nat (- e)) (d * 2 ^ nat e), e))"

definition float64_mul :: "float64 \<Rightarrow> float64 \<Rightarrow> float64" where
  "float64_mul x y = (let e = snd x + snd y in float64_of_frac (fst x * fst y * 2 ^ nat e) (2 ^ nat (- e)))"

definition uint64_of_float64 :: "float64 \<Rightarrow> nat" where
  "uint64_of_float64 x = (fst x * 2 ^ nat (snd x)) div 2 ^ nat (- snd x)"

lemma bit_len_le: "n < 2 ^ k \<Longrightarrow> bit_len n \<le> k"
proof (induction n arbitrary: k rule: bit_len.induct)
  case (1 n)
  show ?case
  proof (cases "n = 0")
    case False
    then obtain j where k: "k = Suc j" using 1(2) by (cases k) auto
    have "n div 2 < 2 ^ j" using 1(2) k by simp
    with 1(1) [OF False] k False show ?thesis by (subst bit_len.simps) simp
  qed (simp add: bit_len.simps)
qed

lemma less_bit_len: "n < 2 ^ bit_len n"
proof (induction n rule: bit_len.induct)
  case (1 n)
  then show ?case by (subst bit_len.simps) (auto simp: div_less_iff_less_mult)
qed

lemma bit_len_mult: "bit_len (k * d) \<le> bit_len k + bit_len d"
proof (rule bit_len_le)
  show "k * d < 2 ^ (bit_len k + bit_len d)"
    using mult_strict_mono [OF less_bit_len [of k] less_bit_len [of d]] by (simp add: power_add)
qed

text \<open>A whole number below \<open>2 ^ 53\<close> is represented exactly.\<close>

lemma float64_exact:
  assumes "0 < d" "k < 2 ^ 53"
  shows "\<exists>a. float64_of_frac (k * d) d = (k * 2 ^ a, - int a)"
proof (cases "k = 0")
  case True
  then show ?thesis by (intro exI [of _ 0]) (simp add: float64_of_frac_def)
next
  case False
  define e where "e = float64_exponent (k * d) d"
  have "bit_len k \<le> 53" by (rule bit_len_le [OF assms(2)])
  then have "int (bit_len (k * d)) - int (bit_len d) - 53 \<le> 0" using bit_len_mult [of k d] by simp
  moreover have "k * d < d * 2 ^ 53" using assms by (simp add: mult.commute)
  ultimately have "e \<le> 0"
    by (cases "int (bit_len (k * d)) - int (bit_len d) - 53 = 0") (auto simp: e_def float64_exponent_def Let_def)
  then have "float64_of_frac (k * d) d = (round_div_even (k * 2 ^ nat (- e) * d) d, e)"
    using False assms(1) unfolding float64_of_frac_def e_def [symmetric] Let_def by (simp add: mult_ac)
  also have "round_div_even (k * 2 ^ nat (- e) * d) d = k * 2 ^ nat (- e)"
    using assms(1) by (simp add: round_div_even_def)
  finally show ?thesis using \<open>e \<le> 0\<close> by (intro exI [of _ "nat (- e)"]) simp
qed

lemma uint64_of_mul_exact:
  assumes "j * k < 2 ^ 53" "0 < d" "0 < d'" "j < 2 ^ 53" "k < 2 ^ 53"
  shows "uint64_of_float64 (float64_mul (float64_of_frac (j * d) d) (float64_of_frac (k * d') d')) = j * k"
proof -
  obtain a b where "float64_of_frac (j * d) d = (j * 2 ^ a, - int a)" "float64_of_frac (k * d') d' = (k * 2 ^ b, - int b)"
    using float64_exact [OF assms(2,4)] float64_exact [OF assms(3,5)] by blast
  moreover have "nat (- (- int a - int b)) = a + b" by simp
  ultimately have "float64_mul (float64_of_frac (j * d) d) (float64_of_frac (k * d') d')
      = float64_of_frac (j * k * 2 ^ (a + b)) (2 ^ (a + b))"
    by (simp add: float64_mul_def power_add mult_ac)
  moreover obtain c where "float64_of_frac (j * k * 2 ^ (a + b)) (2 ^ (a + b)) = (j * k * 2 ^ c, - int c)"
    using float64_exact [OF _ assms(1), of "2 ^ (a + b)"] by auto
  ultimately show ?thesis by (simp add: uint64_of_float64_def)
qed

section \<open>time.ParseDuration\<close>

text \<open>\<^verbatim>\<open>leadingInt\<close>: the value, unless it exceeds \<open>2 ^ 63\<close>, and the rest.\<close>

fun leadingInt_loop :: "nat \<Rightarrow> string \<Rightarrow> (nat \<times> string) option" where
  "leadingInt_loop x [] = Some (x, [])"
| "leadingInt_loop x (c # s) =
     (if \<not> is_digit c then Some (x, c # s)
      else if x > 2 ^ 63 div 10 then None
      else let x' = x * 10 + digit_val c in
           if x' > 2 ^ 63 then None else leadingInt_loop x' s)"

definition leadingInt :: "string \<Rightarrow> (nat \<times> string) option" where
  "leadingInt s = leadingInt_loop 0 s"

text \<open>\<^verbatim>\<open>leadingFraction\<close>: value, scale and rest; digits beyond \<open>2 ^ 63\<close> are dropped.\<close>

fun leadingFraction_loop :: "nat \<Rightarrow> nat \<Rightarrow> bool \<Rightarrow> string \<Rightarrow> nat \<times> nat \<times> string" where
  "leadingFraction_loop x scale overflow [] = (x, scale, [])"
| "leadingFraction_loop x scale overflow (c # s) =
     (if \<not> is_digit c then (x, scale, c # s)
      else if overflow then leadingFraction_loop x scale True s
      else if x > (2 ^ 63 - 1) div 10 then leadingFraction_loop x scale True s
      else let y = x * 10 + digit_val c in
           if y > 2 ^ 63 then leadingFraction_loop x scale True s
           else leadingFraction_loop y (scale * 10) False s)"

definition leadingFraction :: "string \<Rightarrow> nat \<times> nat \<times> string" where
  "leadingFraction s = leadingFraction_loop 0 1 False s"

text \<open>\<^verbatim>\<open>unitMap\<close>; the micro sign and the Greek mu in UTF-8.\<close>

definition unitMap :: "string \<Rightarrow> nat option" where
  "unitMap = map_of
     [(''ns'', 1), (''us'', 1000), ([CHR 0xC2, CHR 0xB5, CHR ''s''], 1000), ([CHR 0xCE, CHR 0xBC, CHR ''s''], 1000),
      (''ms'', 1000000), (''s'', 1000000000), (''m'', 60000000000), (''h'', 3600000000000)]"

definition ends_unit :: "char \<Rightarrow> bool" where
  "ends_unit c \<longleftrightarrow> c = CHR ''.'' \<or> is_digit c"

datatype parse_error = InvalidDuration | MissingUnit | UnknownUnit string

text \<open>
  One round of the loop: a number, its optional fraction, a unit. The result is the nanoseconds
  and the rest of the text, or one of the three errors.
\<close>

definition parse_term :: "string \<Rightarrow> parse_error + nat \<times> string" where
  "parse_term s =
     (if \<not> (s \<noteq> [] \<and> ends_unit (hd s)) then Inl InvalidDuration
      else case leadingInt s of
        None \<Rightarrow> Inl InvalidDuration
      | Some (v, s1) \<Rightarrow>
          (let pre = length s \<noteq> length s1;
               dot = s1 \<noteq> [] \<and> hd s1 = CHR ''.'';
               (f, scale, s2) = (if dot then leadingFraction (tl s1) else (0, 1, s1));
               post = dot \<and> length (tl s1) \<noteq> length s2;
               u = takeWhile (\<lambda>c. \<not> ends_unit c) s2;
               s3 = dropWhile (\<lambda>c. \<not> ends_unit c) s2
           in if \<not> pre \<and> \<not> post then Inl InvalidDuration
              else if u = [] then Inl MissingUnit
              else case unitMap u of
                None \<Rightarrow> Inl (UnknownUnit u)
              | Some unit \<Rightarrow>
                  if v > 2 ^ 63 div unit then Inl InvalidDuration
                  else let v' = (if f > 0
                         then (v * unit + uint64_of_float64 (float64_mul (float64_of_frac f 1) (float64_of_frac unit scale))) mod 2 ^ 64
                         else v * unit)
                       in if v' > 2 ^ 63 then Inl InvalidDuration else Inr (v', s3)))"

lemma leadingInt_loop_rest: "leadingInt_loop x s = Some (v, s') \<Longrightarrow> length s' \<le> length s"
  by (induction x s rule: leadingInt_loop.induct) (auto simp: Let_def split: if_splits)

lemma leadingFraction_loop_rest: "leadingFraction_loop x sc ov s = (v, sc', s') \<Longrightarrow> length s' \<le> length s"
  by (induction x sc ov s rule: leadingFraction_loop.induct) (auto simp: Let_def split: if_splits)

lemma length_dropWhile_less: "takeWhile P s \<noteq> [] \<Longrightarrow> length (dropWhile P s) < length s"
  by (cases s) (auto simp: le_imp_less_Suc length_dropWhile_le split: if_splits)

lemma parse_term_rest: "parse_term s = Inr (v, s') \<Longrightarrow> length s' < length s"
proof -
  assume *: "parse_term s = Inr (v, s')"
  then obtain v1 s1 where s1: "leadingInt s = Some (v1, s1)"
    by (auto simp: parse_term_def split: if_splits option.splits)
  define dot where "dot \<longleftrightarrow> s1 \<noteq> [] \<and> hd s1 = CHR ''.''"
  obtain f scale s2 where s2: "(if dot then leadingFraction (tl s1) else (0, 1, s1)) = (f, scale, s2)"
    by (metis prod_cases3)
  have "length s1 \<le> length s" using s1 by (auto simp: leadingInt_def dest: leadingInt_loop_rest)
  moreover have "length s2 \<le> length s1"
    using s2 by (auto simp: leadingFraction_def split: if_splits dest!: leadingFraction_loop_rest)
  moreover have "takeWhile (\<lambda>c. \<not> ends_unit c) s2 \<noteq> [] \<and> s' = dropWhile (\<lambda>c. \<not> ends_unit c) s2"
    using * s1 s2 by (auto simp: parse_term_def Let_def dot_def [symmetric] split: if_splits option.splits)
  ultimately show ?thesis using length_dropWhile_less by fastforce
qed

text \<open>The loop; the sum is a \<^verbatim>\<open>uint64\<close> and can wrap to zero before its overflow check.\<close>

function parse_terms :: "nat \<Rightarrow> string \<Rightarrow> parse_error + nat" where
  "parse_terms d s =
     (if s = [] then Inr d
      else case parse_term s of
        Inl err \<Rightarrow> Inl err
      | Inr (v, s') \<Rightarrow>
          let d' = (d + v) mod 2 ^ 64 in
          if d' > 2 ^ 63 then Inl InvalidDuration else parse_terms d' s')"
  by pat_completeness auto
termination by (relation "measure (\<lambda>(d, s). length s)") (auto dest: parse_term_rest)

declare parse_terms.simps [simp del]

definition duration_error :: "string \<Rightarrow> parse_error \<Rightarrow> gerror" where
  "duration_error orig err = (case err of
       InvalidDuration \<Rightarrow> Errorf ''time: invalid duration %q'' [ArgStr orig]
     | MissingUnit \<Rightarrow> Errorf ''time: missing unit in duration %q'' [ArgStr orig]
     | UnknownUnit u \<Rightarrow> Errorf ''time: unknown unit %q in duration %q'' [ArgStr u, ArgStr orig])"

definition ParseDuration :: "string \<Rightarrow> gerror + duration" where
  "ParseDuration orig =
     (let signed = orig \<noteq> [] \<and> (hd orig = CHR ''-'' \<or> hd orig = CHR ''+'');
          neg = signed \<and> hd orig = CHR ''-'';
          s = (if signed then tl orig else orig)
      in if s = ''0'' then Inr 0
         else if s = [] then Inl (duration_error orig InvalidDuration)
         else case parse_terms 0 s of
           Inl err \<Rightarrow> Inl (duration_error orig err)
         | Inr d \<Rightarrow> if neg then Inr (- of_nat d)
                    else if d > 2 ^ 63 - 1 then Inl (duration_error orig InvalidDuration)
                    else Inr (of_nat d))"

section \<open>The regular expression\<close>

text \<open>
  \<^verbatim>\<open>\(([a-zA-Z0-9\.]+) including waiting\)\<close>, leftmost match: the class does not contain the space
  that follows it, so the group is the longest run of class characters.
\<close>

definition pull_class :: "char \<Rightarrow> bool" where
  "pull_class c \<longleftrightarrow> (let n = of_char c :: nat in
     (97 \<le> n \<and> n \<le> 122) \<or> (65 \<le> n \<and> n \<le> 90) \<or> (48 \<le> n \<and> n \<le> 57) \<or> n = 46)"

fun find_pull_duration :: "string \<Rightarrow> string option" where
  "find_pull_duration [] = None"
| "find_pull_duration (c # s) =
     (if c = CHR ''('' \<and> takeWhile pull_class s \<noteq> [] \<and> prefix '' including waiting)'' (dropWhile pull_class s)
      then Some (takeWhile pull_class s)
      else find_pull_duration s)"

definition parseImagePullDuration :: "string \<Rightarrow> gerror + duration" where
  "parseImagePullDuration message =
     (case find_pull_duration message of
        None \<Rightarrow> Inl (Errorf ''failed to extract image pull duration from event message: message in unexpected format: %s''
                  [ArgStr message])
      | Some d \<Rightarrow> ParseDuration d)"

section \<open>What is parsed\<close>

text \<open>
  A term of a printed duration: whole part, digits after the point (none: no point), unit. It is
  exact when its fraction is a whole number of nanoseconds, as in every duration that Go prints.
\<close>

type_synonym duration_term = "nat \<times> string \<times> string"

definition show_term :: "duration_term \<Rightarrow> string" where
  "show_term = (\<lambda>(n, fs, u). dec_of_nat n @ (if fs = [] then [] else ''.'' @ fs) @ u)"

definition term_ns :: "duration_term \<Rightarrow> nat" where
  "term_ns = (\<lambda>(n, fs, u). case unitMap u of None \<Rightarrow> 0 | Some w \<Rightarrow> n * w + nat_of_dec fs * (w div 10 ^ length fs))"

definition exact_term :: "duration_term \<Rightarrow> bool" where
  "exact_term = (\<lambda>(n, fs, u). list_all is_digit fs \<and> (case unitMap u of None \<Rightarrow> False | Some w \<Rightarrow> 10 ^ length fs dvd w))"

abbreviation dec_step :: "nat \<Rightarrow> char \<Rightarrow> nat" where
  "dec_step n c \<equiv> 10 * n + digit_val c"

lemma digit_literals:
  "char_of (48 :: nat) = CHR ''0''" "char_of (49 :: nat) = CHR ''1''" "char_of (50 :: nat) = CHR ''2''"
  "char_of (51 :: nat) = CHR ''3''" "char_of (52 :: nat) = CHR ''4''" "char_of (53 :: nat) = CHR ''5''"
  "char_of (54 :: nat) = CHR ''6''" "char_of (55 :: nat) = CHR ''7''" "char_of (56 :: nat) = CHR ''8''"
  "char_of (57 :: nat) = CHR ''9''"
  by (simp_all add: char_of_def bit_0)

lemma digit_val_le: "is_digit c \<Longrightarrow> digit_val c \<le> 9"
  unfolding is_digit_def digit_val_def by linarith

lemma foldl_dec_ge: "x \<le> foldl dec_step x ds"
proof (induction ds arbitrary: x)
  case (Cons c ds)
  from Cons [of "dec_step x c"] show ?case by simp
qed simp

lemma foldl_dec_less:
  "list_all is_digit ds \<Longrightarrow> foldl dec_step x ds < (x + 1) * 10 ^ length ds"
proof (induction ds arbitrary: x)
  case (Cons c ds)
  then have "digit_val c \<le> 9" by (simp add: digit_val_le)
  then have "(dec_step x c + 1) * 10 ^ length ds \<le> (10 * x + 10) * 10 ^ length ds"
    by (intro mult_right_mono) auto
  also have "\<dots> = (x + 1) * 10 ^ length (c # ds)" by (simp add: algebra_simps)
  finally have "(dec_step x c + 1) * 10 ^ length ds \<le> (x + 1) * 10 ^ length (c # ds)" .
  moreover have "foldl dec_step (dec_step x c) ds < (dec_step x c + 1) * 10 ^ length ds"
    using Cons.IH Cons.prems by simp
  ultimately show ?case by (simp only: foldl_Cons order.strict_trans2)
qed simp

lemma leadingInt_loop_digits:
  assumes "list_all is_digit ds" "rest = [] \<or> \<not> is_digit (hd rest)" "foldl dec_step x ds \<le> 2 ^ 63"
  shows "leadingInt_loop x (ds @ rest) = Some (foldl dec_step x ds, rest)"
  using assms
proof (induction ds arbitrary: x)
  case Nil
  then show ?case by (cases rest) auto
next
  case (Cons c ds)
  have "dec_step x c \<le> 2 ^ 63" using Cons.prems(3) foldl_dec_ge [of "dec_step x c" ds] by simp
  with Cons show ?case by (auto simp: Let_def mult.commute)
qed

lemma leadingFraction_loop_digits:
  assumes "list_all is_digit ds" "rest = [] \<or> \<not> is_digit (hd rest)" "foldl dec_step x ds < 2 ^ 63"
  shows "leadingFraction_loop x sc False (ds @ rest) = (foldl dec_step x ds, sc * 10 ^ length ds, rest)"
  using assms
proof (induction ds arbitrary: x sc)
  case Nil
  then show ?case by (cases rest) auto
next
  case (Cons c ds)
  have "dec_step x c < 2 ^ 63" using Cons.prems(3) foldl_dec_ge [of "dec_step x c" ds] by simp
  with Cons show ?case by (auto simp: Let_def mult.commute)
qed

lemma unitMap_Some:
  assumes "unitMap u = Some w"
  shows "u \<noteq> []" "list_all (\<lambda>c. \<not> ends_unit c) u" "0 < w" "w \<le> 3600000000000"
  using assms by (auto simp: unitMap_def ends_unit_def is_digit_def split: if_splits)

lemma span_unit:
  assumes "list_all (\<lambda>c. \<not> ends_unit c) u" "rest = [] \<or> ends_unit (hd rest)"
  shows "takeWhile (\<lambda>c. \<not> ends_unit c) (u @ rest) = u" "dropWhile (\<lambda>c. \<not> ends_unit c) (u @ rest) = rest"
proof -
  have all: "\<And>c. c \<in> set u \<Longrightarrow> \<not> ends_unit c" using assms(1) by (auto simp: list_all_iff)
  have "takeWhile (\<lambda>c. \<not> ends_unit c) rest = []" "dropWhile (\<lambda>c. \<not> ends_unit c) rest = rest"
    using assms(2) by (cases rest; auto)+
  then show "takeWhile (\<lambda>c. \<not> ends_unit c) (u @ rest) = u" "dropWhile (\<lambda>c. \<not> ends_unit c) (u @ rest) = rest"
    using all by simp_all
qed

lemma exact_fraction:
  assumes "list_all is_digit fs" "10 ^ length fs dvd w" "0 < w" "w \<le> 3600000000000"
  shows "uint64_of_float64 (float64_mul (float64_of_frac (nat_of_dec fs) 1) (float64_of_frac w (10 ^ length fs)))
      = nat_of_dec fs * (w div 10 ^ length fs)" "nat_of_dec fs < 3600000000000"
proof -
  let ?p = "10 ^ length fs :: nat" and ?k = "w div 10 ^ length fs"
  have f: "nat_of_dec fs < ?p" using foldl_dec_less [OF assms(1), of 0] by (simp add: nat_of_dec_def)
  have w: "?k * ?p = w" using assms(2) by simp
  then have "?p \<le> w" "?k \<le> w" using assms(3) by (metis dvd_imp_le assms(2), metis div_le_dividend)
  moreover have "nat_of_dec fs * ?k \<le> w" using w mult_le_mono1 [of "nat_of_dec fs" ?p ?k] f by (simp add: mult.commute)
  moreover have small: "x < 2 ^ 53" if "x \<le> w" for x :: nat
    using that assms(4) by simp
  ultimately have "nat_of_dec fs * ?k < 2 ^ 53" "nat_of_dec fs < 2 ^ 53" "?k < 2 ^ 53"
    using f by (blast intro: small less_imp_le le_trans)+
  then have "uint64_of_float64 (float64_mul (float64_of_frac (nat_of_dec fs * 1) 1) (float64_of_frac (?k * ?p) ?p)) = nat_of_dec fs * ?k"
    by (intro uint64_of_mul_exact) simp_all
  then show "uint64_of_float64 (float64_mul (float64_of_frac (nat_of_dec fs) 1) (float64_of_frac w ?p)) = nat_of_dec fs * ?k"
    by (simp only: w mult_1_right)
  show "nat_of_dec fs < 3600000000000"
    by (rule less_le_trans [OF f]) (rule le_trans [OF \<open>?p \<le> w\<close> assms(4)])
qed

lemma parse_term_exact:
  assumes "exact_term t" "rest = [] \<or> ends_unit (hd rest)" "term_ns t \<le> 2 ^ 63"
  shows "parse_term (show_term t @ rest) = Inr (term_ns t, rest)"
proof -
  obtain n fs u where t: "t = (n, fs, u)" by (metis prod_cases3)
  then obtain w where w: "unitMap u = Some w" and digits: "list_all is_digit fs" and dvd: "10 ^ length fs dvd w"
    using assms(1) by (auto simp: exact_term_def split: option.splits)
  note unit = unitMap_Some [OF w]
  have n: "n * w + nat_of_dec fs * (w div 10 ^ length fs) \<le> 2 ^ 63" using assms(3) by (simp add: t term_ns_def w)
  then have nw: "n * w \<le> 2 ^ 63" by simp
  then have "n \<le> 2 ^ 63 div w" using unit(3) by (simp add: less_eq_div_iff_mult_less_eq)
  moreover have "n \<le> 2 ^ 63" using nw unit(3) by (metis le_trans mult.right_neutral mult_le_mono2 Suc_leI One_nat_def)
  moreover obtain c ds where dec: "dec_of_nat n = c # ds" by (cases "dec_of_nat n") auto
  have c: "ends_unit c" using dec_of_nat_digits [of n] by (simp add: dec ends_unit_def)
  have u: "\<not> is_digit (hd (u @ rest))" "hd (u @ rest) \<noteq> CHR ''.''"
    using unit(1,2) by (cases u; simp add: ends_unit_def)+
  have int: "leadingInt (dec_of_nat n @ s) = Some (n, s)" if "s \<noteq> []" "\<not> is_digit (hd s)" for s
    using leadingInt_loop_digits [OF dec_of_nat_digits, of s 0 n] that \<open>n \<le> 2 ^ 63\<close>
      nat_of_dec_of_nat [of n] by (simp add: leadingInt_def nat_of_dec_def)
  show ?thesis
  proof (cases "fs = []")
    case True
    have s: "show_term t @ rest = c # ds @ u @ rest" by (simp add: t show_term_def True dec)
    have "leadingInt (c # ds @ u @ rest) = Some (n, u @ rest)" using int [of "u @ rest"] u(1) unit(1) dec by simp
    moreover have "term_ns t = n * w" by (simp add: t term_ns_def w True nat_of_dec_def)
    ultimately show ?thesis
      unfolding s using c u(2) unit(1) w \<open>n \<le> 2 ^ 63 div w\<close> nw
      by (simp add: parse_term_def span_unit [OF unit(2) assms(2)])
  next
    case False
    have s: "show_term t @ rest = c # ds @ CHR ''.'' # fs @ u @ rest" by (simp add: t show_term_def False dec)
    have "leadingInt (c # ds @ CHR ''.'' # fs @ u @ rest) = Some (n, CHR ''.'' # fs @ u @ rest)"
      using int [of "CHR ''.'' # fs @ u @ rest"] dec by (simp add: is_digit_def)
    moreover have "leadingFraction (fs @ u @ rest) = (nat_of_dec fs, 10 ^ length fs, u @ rest)"
      using leadingFraction_loop_digits [OF digits, of "u @ rest" 0 1] u(1) exact_fraction(2) [OF digits dvd unit(3,4)]
      by (simp add: leadingFraction_def nat_of_dec_def)
    moreover have "term_ns t = n * w + nat_of_dec fs * (w div 10 ^ length fs)" by (simp add: t term_ns_def w)
    moreover have "(n * w + nat_of_dec fs * (w div 10 ^ length fs)) mod 2 ^ 64 = n * w + nat_of_dec fs * (w div 10 ^ length fs)"
      using n by simp
    ultimately show ?thesis
      unfolding s using c unit(1) w \<open>n \<le> 2 ^ 63 div w\<close> n False
      by (simp add: parse_term_def Let_def span_unit [OF unit(2) assms(2)] exact_fraction [OF digits dvd unit(3,4)] del: One_nat_def)
  qed
qed

lemma show_term_hd: "show_term t \<noteq> []" "ends_unit (hd (show_term t))" "hd (show_term t) \<noteq> CHR ''-''" "hd (show_term t) \<noteq> CHR ''+''"
proof -
  obtain n fs u where t: "t = (n, fs, u)" by (metis prod_cases3)
  obtain c ds where dec: "dec_of_nat n = c # ds" by (cases "dec_of_nat n") auto
  then have "is_digit c" using dec_of_nat_digits [of n] by simp
  then show "show_term t \<noteq> []" "ends_unit (hd (show_term t))" "hd (show_term t) \<noteq> CHR ''-''" "hd (show_term t) \<noteq> CHR ''+''"
    by (auto simp: t show_term_def dec ends_unit_def is_digit_def)
qed

lemma parse_terms_exact:
  assumes "list_all exact_term ts" "d + sum_list (map term_ns ts) < 2 ^ 63"
  shows "parse_terms d (concat (map show_term ts)) = Inr (d + sum_list (map term_ns ts))"
  using assms
proof (induction ts arbitrary: d)
  case Nil
  then show ?case by (simp add: parse_terms.simps)
next
  case (Cons t ts)
  have "concat (map show_term ts) = [] \<or> ends_unit (hd (concat (map show_term ts)))"
    by (cases ts) (simp_all add: show_term_hd)
  then have "parse_term (show_term t @ concat (map show_term ts)) = Inr (term_ns t, concat (map show_term ts))"
    using Cons.prems by (intro parse_term_exact) simp_all
  moreover have "(d + term_ns t) mod 2 ^ 64 = d + term_ns t" using Cons.prems(2) by simp
  ultimately show ?case
    using Cons.IH [of "d + term_ns t"] Cons.prems
    by (subst parse_terms.simps) (simp add: show_term_hd add.assoc)
qed

lemma unit_not_zero_text: "exact_term t \<Longrightarrow> show_term t @ s \<noteq> ''0''"
proof -
  assume "exact_term t"
  obtain n fs u where t: "t = (n, fs, u)" by (metis prod_cases3)
  with \<open>exact_term t\<close> obtain w where "unitMap u = Some w" by (auto simp: exact_term_def split: option.splits)
  then have "u \<noteq> []" by (rule unitMap_Some)
  obtain c ds where "dec_of_nat n = c # ds" by (cases "dec_of_nat n") auto
  with \<open>u \<noteq> []\<close> show ?thesis by (auto simp: t show_term_def)
qed

lemma ParseDuration_exact:
  assumes "ts \<noteq> []" "list_all exact_term ts" "sum_list (map term_ns ts) < 2 ^ 63"
  shows "ParseDuration (concat (map show_term ts)) = Inr (of_nat (sum_list (map term_ns ts)))"
proof -
  obtain t ts' where ts: "ts = t # ts'" using assms(1) by (cases ts) auto
  define s where "s = concat (map show_term ts)"
  have "s \<noteq> []" "hd s \<noteq> CHR ''-''" "hd s \<noteq> CHR ''+''" by (simp_all add: s_def ts show_term_hd)
  moreover have "s \<noteq> ''0''" using assms(2) by (simp add: s_def ts unit_not_zero_text)
  moreover have "parse_terms 0 s = Inr (sum_list (map term_ns ts))"
    using parse_terms_exact [OF assms(2), of 0] assms(3) by (simp add: s_def)
  ultimately show ?thesis
    using assms(3) by (simp add: ParseDuration_def s_def [symmetric])
qed

text \<open>The match: the first parenthesised run that is followed by the literal text.\<close>

lemma find_pull_duration_first:
  assumes "CHR ''('' \<notin> set pre" "list_all pull_class d" "d \<noteq> []"
  shows "find_pull_duration (pre @ ''('' @ d @ '' including waiting)'' @ post) = Some d"
  using assms(1)
proof (induction pre)
  case Nil
  have "takeWhile pull_class (d @ '' including waiting)'' @ post) = d"
    "dropWhile pull_class (d @ '' including waiting)'' @ post) = '' including waiting)'' @ post"
    using assms(2) by (simp_all add: list_all_iff pull_class_def Let_def takeWhile_append2 dropWhile_append2)
  then show ?case using assms(3) by simp
qed auto

lemma digits_pull_class: "list_all is_digit s \<Longrightarrow> list_all pull_class s"
  by (auto simp: list_all_iff is_digit_def pull_class_def Let_def)

definition ascii_term :: "duration_term \<Rightarrow> bool" where
  "ascii_term t \<longleftrightarrow> exact_term t \<and> list_all pull_class (snd (snd t))"

lemma show_term_pull_class: "ascii_term t \<Longrightarrow> list_all pull_class (show_term t)"
  using digits_pull_class [OF dec_of_nat_digits]
  by (auto simp: ascii_term_def exact_term_def show_term_def digits_pull_class pull_class_def [of "CHR ''.''"] split: option.splits)

section \<open>Properties\<close>

text \<open>
  C14: In an event message of the documented form, the duration in the parentheses is found and read
  exactly: the text before the parentheses may be anything without an opening parenthesis, the text
  after them anything.
\<close>

theorem image_pull_duration_read:
  assumes "CHR ''('' \<notin> set pre" and "ts \<noteq> []" and "list_all ascii_term ts" and "sum_list (map term_ns ts) < 2 ^ 63"
  shows "parseImagePullDuration (pre @ ''('' @ concat (map show_term ts) @ '' including waiting)'' @ post)
    = Inr (of_nat (sum_list (map term_ns ts)))"
proof -
  have "list_all pull_class (show_term t)" "exact_term t" if "t \<in> set ts" for t
  proof -
    from assms(3) that have "ascii_term t" by (simp add: list_all_iff)
    then show "list_all pull_class (show_term t)" "exact_term t"
      by (rule show_term_pull_class) (simp add: \<open>ascii_term t\<close> [unfolded ascii_term_def])
  qed
  then have "list_all pull_class (concat (map show_term ts))" "list_all exact_term ts"
    by (auto simp: list_all_iff)
  moreover have "concat (map show_term ts) \<noteq> []" using assms(2) by (cases ts) (simp_all add: show_term_hd)
  ultimately show ?thesis
    unfolding parseImagePullDuration_def
    by (subst find_pull_duration_first [OF assms(1)]) (simp_all add: ParseDuration_exact [OF assms(2) _ assms(4)])
qed

theorem image_pull_duration_read_witness:
  "parseImagePullDuration ''Successfully pulled image in 426ms (1s34ms including waiting). Image size: 299513 bytes.''
    = Inr 1034000000"
  using image_pull_duration_read [of "''Successfully pulled image in 426ms ''" "[(1, [], ''s''), (34, [], ''ms'')]"
      "''. Image size: 299513 bytes.''"]
  by (simp add: ascii_term_def exact_term_def term_ns_def show_term_def unitMap_def nat_of_dec_def
      pull_class_def dec_of_nat.simps digit_literals)

text \<open>
  The sum of the terms is kept in 64 unsigned bits and checked only after each addition, so two
  terms of \<open>2 ^ 63\<close> nanoseconds wrap to a duration of zero instead of being refused.
\<close>

lemma ParseDuration_wraps:
  "ParseDuration (show_term (2 ^ 63, [], ''ns'') @ show_term (2 ^ 63, [], ''ns'')) = Inr 0"
proof -
  let ?t = "(2 ^ 63, [], ''ns'') :: duration_term"
  have "exact_term ?t" "term_ns ?t = 2 ^ 63" by (simp_all add: exact_term_def term_ns_def unitMap_def nat_of_dec_def)
  then have "parse_term (show_term ?t @ show_term ?t) = Inr (2 ^ 63, show_term ?t)"
    "parse_term (show_term ?t) = Inr (2 ^ 63, [])"
    using parse_term_exact [of ?t "show_term ?t"] parse_term_exact [of ?t "[]"] by (simp_all add: show_term_hd)
  then have "parse_terms 0 (show_term ?t @ show_term ?t) = Inr 0"
    using show_term_hd(1) [of ?t] by (subst parse_terms.simps, simp, subst parse_terms.simps, simp, simp add: parse_terms.simps)
  then show ?thesis
    using show_term_hd [of ?t] unit_not_zero_text [OF \<open>exact_term ?t\<close>] by (simp add: ParseDuration_def)
qed

end
