(* ===== verification/PodStartup.thy ===== *)
theory PodStartup
  imports SyntheticPod NodePools ParseDuration Samples
begin

text \<open>
  The pod startup checker (\<^verbatim>\<open>pkg/checker/podstartup/podstartup.go\<close>). A run collects leftovers,
  creates the CSI resources, an optional node pool and a synthetic pod, measures how long the pod
  took to start, and connects to it. The two deferred clean-ups follow every path after the creations
  they belong to: \<open>check_synthetic_pod\<close> is the body after the pod's creation, \<open>check_with_csi\<close>
  the body after the CSI resources' creation, and \<open>PodStartup_check\<close> the whole. The polling is a call of
  the library (\<open>poll_until_context_cancel\<close>) with the condition \<open>poll_attempt\<close>.
\<close>

section \<open>errors.go\<close>

definition ErrCodePodCreationError :: string where "ErrCodePodCreationError = ''PodCreationError''"
definition ErrCodePodCreationTimeout :: string where "ErrCodePodCreationTimeout = ''PodCreationTimeout''"
definition ErrCodePodStartupDurationExceeded :: string where
  "ErrCodePodStartupDurationExceeded = ''PodStartupDurationExceeded''"
definition ErrCodeRequestFailed :: string where "ErrCodeRequestFailed = ''RequestFailed''"
definition ErrCodeRequestTimeout :: string where "ErrCodeRequestTimeout = ''RequestTimeout''"

section \<open>podstartup.go\<close>

definition BuildPodStartupChecker :: "pod_startup_checker builder" where
  "BuildPodStartupChecker config env =
     (case chk_pod_startup config of
        None \<Rightarrow> State_Monad.return Panicked
      | Some cfg \<Rightarrow> do {
          restConfig \<leftarrow> setup_client env ''in-cluster config'';
          case restConfig of
            Some err \<Rightarrow> State_Monad.return (Returned (Inl (Wrapf ''failed to get in-cluster config: %w'' [] (ApiErr err))))
          | None \<Rightarrow> do {
              dynamicClient \<leftarrow> setup_client env ''dynamic client'';
              State_Monad.return (Returned (case dynamicClient of
                Some err \<Rightarrow> Inl (Wrapf ''failed to create dynamic client: %w'' [] (ApiErr err))
              | None \<Rightarrow> Inr \<lparr>psk_name = chk_name config, psk_config = chk_pod_startup config,
                  psk_timeout = chk_timeout config, psk_dialer_timeout = psc_tcp_timeout cfg\<rparr>)) } })"

definition PodStartup_garbageCollect ::
    "env \<Rightarrow> pod_startup_checker \<Rightarrow> pod_startup_config \<Rightarrow> gctx \<Rightarrow> gerror option io" where
  "PodStartup_garbageCollect env c cfg ctx = do {
     e1 \<leftarrow> syntheticPodGarbageCollection env c cfg ctx;
     e2 \<leftarrow> (if psc_node_provisioning cfg then deleteAllKarpenterNodePools env cfg ctx else State_Monad.return None);
     e3 \<leftarrow> persistentVolumeClaimGarbageCollection env c cfg ctx;
     e4 \<leftarrow> storageClassGarbageCollection env c cfg ctx;
     State_Monad.return (errors_join
       (append_wrapped ''failed to garbage collect outdated synthetic pods: %w'' [] e1
        @ append_wrapped ''failed to delete old Karpenter Node Pools: %w'' [] e2
        @ append_wrapped ''failed to garbage collect outdated persistent volume claims: %w'' [] e3
        @ append_wrapped ''failed to garbage collect outdated storage classes: %w'' [] e4)) }"

subsection \<open>The startup duration\<close>

definition pollingInterval :: duration where "pollingInterval = Second"

primrec first_running :: "container_status list \<Rightarrow> time option" where
  "first_running [] = None"
| "first_running (status # statuses) =
     (case cs_running_started_at status of None \<Rightarrow> first_running statuses | Some t \<Rightarrow> Some t)"

text \<open>The condition that is polled: \<open>Some\<close> duration ends the polling, \<open>None\<close> asks for another attempt.\<close>

definition poll_attempt ::
    "env \<Rightarrow> pod_startup_config \<Rightarrow> gctx \<Rightarrow> string \<Rightarrow> duration option io" where
  "poll_attempt env cfg ctx podName = do {
     pod \<leftarrow> pod_get env ctx (psc_namespace cfg) podName;
     State_Monad.return (case pod of
       Inl err \<Rightarrow> None
     | Inr p \<Rightarrow>
         if length (pst_container_statuses (pod_status_of p)) = 0 then None
         else map_option (\<lambda>containerRunningTime. time_sub containerRunningTime (om_created (pod_meta p)))
                (first_running (pst_container_statuses (pod_status_of p)))) }"

definition pollPodCreationToContainerRunningDuration ::
    "env \<Rightarrow> pod_startup_config \<Rightarrow> gctx \<Rightarrow> string \<Rightarrow> (api_error + duration) io" where
  "pollPodCreationToContainerRunningDuration env cfg ctx podName =
     poll_until_context_cancel env ctx pollingInterval (poll_attempt env cfg ctx podName)"

primrec pull_duration_of_events :: "string \<Rightarrow> k8s_event list \<Rightarrow> gerror + duration" where
  "pull_duration_of_events podName [] = Inl (Errorf ''no image pull events found for pod %s'' [ArgStr podName])"
| "pull_duration_of_events podName (event # events) =
     (if contains (ev_message event) ''Successfully pulled image'' then parseImagePullDuration (ev_message event)
      else if contains (ev_message event) ''already present on machine'' then Inr 0
      else pull_duration_of_events podName events)"

definition getImagePullDuration ::
    "env \<Rightarrow> pod_startup_config \<Rightarrow> gctx \<Rightarrow> string \<Rightarrow> (gerror + duration) io" where
  "getImagePullDuration env cfg ctx podName = do {
     events \<leftarrow> event_list env ctx (psc_namespace cfg) (FieldSelector (''involvedObject.name='' @ podName @ '',reason=Pulled''));
     State_Monad.return (case events of
       Inl err \<Rightarrow> Inl (Wrapf ''failed to list events for pod %s: %w'' [ArgStr podName] (ApiErr err))
     | Inr items \<Rightarrow> pull_duration_of_events podName items) }"

subsection \<open>The TCP connection\<close>

text \<open>\<^verbatim>\<open>net.Dialer.DialContext\<close>: a nonzero timeout of the dialer bounds the context.\<close>

definition DialContext :: "env \<Rightarrow> pod_startup_checker \<Rightarrow> gctx \<Rightarrow> string \<Rightarrow> string \<Rightarrow> api_error option io" where
  "DialContext env c ctx network address = do {
     ctx' \<leftarrow> (if psk_dialer_timeout c = 0 then State_Monad.return ctx else with_timeout env ctx (psk_dialer_timeout c));
     dial env ctx' network address }"

definition tcp_address :: "string \<Rightarrow> string" where
  "tcp_address podIP = podIP @ '':'' @ dec_of_int syntheticPodPort"

definition createTCPConnection :: "env \<Rightarrow> pod_startup_checker \<Rightarrow> gctx \<Rightarrow> string \<Rightarrow> gerror option io" where
  "createTCPConnection env c ctx podIP = do {
     err \<leftarrow> DialContext env c ctx ''tcp'' (tcp_address podIP);
     State_Monad.return (wrap_error ''TCP connection failed: %w'' err) }"

subsection \<open>The check\<close>

definition check_synthetic_pod ::
    "env \<Rightarrow> pod_startup_checker \<Rightarrow> pod_startup_config \<Rightarrow> gctx \<Rightarrow> string \<Rightarrow> (gerror + result) io" where
  "check_synthetic_pod env c cfg ctx podName = do {
     polled \<leftarrow> pollPodCreationToContainerRunningDuration env cfg ctx podName;
     case polled of
       Inl err \<Rightarrow>
         if err_deadline err
         then State_Monad.return (Inr (Unhealthy ErrCodePodStartupDurationExceeded (Msg ''pod has no running container'')))
         else State_Monad.return (Inl (Wrapf ''pod has no running container: %w'' [] (ApiErr err)))
     | Inr podCreationToContainerRunningDuration \<Rightarrow> do {
         pulled \<leftarrow> getImagePullDuration env cfg ctx podName;
         case pulled of
           Inl err \<Rightarrow> State_Monad.return (Inl (Wrapf ''failed to get image pull duration: %w'' [] err))
         | Inr imagePullDuration \<Rightarrow>
             if psc_startup_timeout cfg \<le>s Duration_Round (podCreationToContainerRunningDuration - imagePullDuration) Second
             then State_Monad.return (Inr (Unhealthy ErrCodePodStartupDurationExceeded
               (Msg ''pod exceeded the maximum healthy startup duration'')))
             else do {
               ip \<leftarrow> getSyntheticPodIP env c cfg ctx podName;
               case ip of
                 Inl err \<Rightarrow> State_Monad.return (Inl (Wrapf ''failed to get synthetic pod IP: %w'' [] err))
               | Inr podIP \<Rightarrow> do {
                   err \<leftarrow> createTCPConnection env c ctx podIP;
                   case err of
                     Some e \<Rightarrow>
                       if errors_is e DeadlineExceeded
                       then State_Monad.return (Inr (Unhealthy ErrCodeRequestTimeout (Msg ''TCP request to synthetic pod timed out'')))
                       else State_Monad.return (Inr (Unhealthy ErrCodeRequestFailed (MsgErr ''TCP request to synthetic pod failed: %s'' e)))
                   | None \<Rightarrow> State_Monad.return (Inr Healthy) } } } }"

text \<open>The deferred function registered after the pod's creation.\<close>

definition cleanup_pod ::
    "env \<Rightarrow> pod_startup_config \<Rightarrow> gctx \<Rightarrow> string \<Rightarrow> string \<Rightarrow> unit io" where
  "cleanup_pod env cfg ctx podName nodePoolName = do {
     _ \<leftarrow> delete_object env Pods ctx (psc_namespace cfg) podName;
     if psc_node_provisioning cfg then do {
       _ \<leftarrow> deleteKarpenterNodePool env ctx nodePoolName;
       State_Monad.return () }
     else State_Monad.return () }"

text \<open>The node provisioning block: \<open>Some\<close> is its early return.\<close>

definition provision_node_pool ::
    "env \<Rightarrow> pod_startup_config \<Rightarrow> gctx \<Rightarrow> string \<Rightarrow> string \<Rightarrow> (gerror + result) option io" where
  "provision_node_pool env cfg ctx nodePoolName timeStampStr =
     (if psc_node_provisioning cfg then do {
        present \<leftarrow> isKarpenterNodePoolCRDPresent env ctx;
        case present of
          Inl err \<Rightarrow> State_Monad.return (Some (Inl (Wrapf ''failed to check Karpenter NodePool CRD presence: %w'' [] (ApiErr err))))
        | Inr karpenterNodePoolCRDPresent \<Rightarrow>
            if \<not> karpenterNodePoolCRDPresent
            then State_Monad.return (Some (Inr (Skipped (Msg ''Karpenter NodePool CRD was not found, pod startup test was skipped''))))
            else do {
              err \<leftarrow> createKarpenterNodePool env ctx (karpenterNodePool cfg nodePoolName timeStampStr);
              State_Monad.return (case err of
                Some e \<Rightarrow> Some (Inl (Wrapf ''failed to create Karpenter NodePool: %w'' [] (ApiErr e)))
              | None \<Rightarrow> None) } }
      else State_Monad.return None)"

definition check_with_csi ::
    "env \<Rightarrow> pod_startup_checker \<Rightarrow> pod_startup_config \<Rightarrow> gctx \<Rightarrow> string \<Rightarrow> (gerror + result) io" where
  "check_with_csi env c cfg ctx timeStampStr = do {
     pods \<leftarrow> pod_list env ctx (psc_namespace cfg) (SelectorFromSet (syntheticPodLabels c cfg));
     case pods of
       Inl err \<Rightarrow> State_Monad.return (Inl (Wrapf ''failed to list pods: %w'' [] (ApiErr err)))
     | Inr items \<Rightarrow>
         if sint (psc_max_pods cfg) \<le> int (length items)
         then State_Monad.return (Inl (Errorf
           ''maximum number of synthetic pods reached, current: %d, max allowed: %d, delete some pods before running the checker again''
           [ArgInt (int (length items)), ArgInt (sint (psc_max_pods cfg))]))
         else do {
           let nodePoolName = to_lower (psk_name c) @ ''-nodepool-'' @ timeStampStr;
           early \<leftarrow> provision_node_pool env cfg ctx nodePoolName timeStampStr;
           case early of
             Some r \<Rightarrow> State_Monad.return r
           | None \<Rightarrow> do {
               created \<leftarrow> pod_create env ctx (psc_namespace cfg) False (generateSyntheticPod c cfg timeStampStr);
               case created of
                 Inl err \<Rightarrow>
                   if err_deadline err
                   then State_Monad.return (Inr (Unhealthy ErrCodePodCreationTimeout (Msg ''timed out creating synthetic pod'')))
                   else State_Monad.return (Inr (Unhealthy ErrCodePodCreationError (MsgErr ''error creating synthetic pod: %s'' (ApiErr err))))
               | Inr synthPod \<Rightarrow> do {
                   r \<leftarrow> check_synthetic_pod env c cfg ctx (om_name (pod_meta synthPod));
                   _ \<leftarrow> cleanup_pod env cfg ctx (om_name (pod_meta synthPod)) nodePoolName;
                   State_Monad.return r } } } }"

definition PodStartup_check ::
    "env \<Rightarrow> pod_startup_checker \<Rightarrow> pod_startup_config \<Rightarrow> gctx \<Rightarrow> (gerror + result) io" where
  "PodStartup_check env c cfg ctx = do {
     _ \<leftarrow> PodStartup_garbageCollect env c cfg ctx;
     now \<leftarrow> time_now env;
     let timeStampStr = dec_of_int (sint (UnixNano now));
     limit \<leftarrow> checkCSIResourceLimit env c cfg ctx;
     case limit of
       Some err \<Rightarrow> State_Monad.return (Inl (Wrapf ''CSI resource limit check failed: %w'' [] err))
     | None \<Rightarrow> do {
         csi \<leftarrow> createCSIResources env c cfg ctx timeStampStr;
         case csi of
           Some err \<Rightarrow> State_Monad.return (Inl (Wrapf ''failed to create CSI test resources: %w'' [] err))
         | None \<Rightarrow> do {
             r \<leftarrow> check_with_csi env c cfg ctx timeStampStr;
             _ \<leftarrow> deleteCSIResources env c cfg ctx timeStampStr;
             State_Monad.return r } } }"

definition PodStartupChecker_run ::
    "env \<Rightarrow> pod_startup_checker \<Rightarrow> pod_startup_config \<Rightarrow> gctx \<Rightarrow> unit io" where
  "PodStartupChecker_run env c cfg ctx =
     check_and_record CheckTypePodStartup (psk_name c) (PodStartup_check env c cfg ctx)"

definition PodStartupChecker_Run :: "env \<Rightarrow> pod_startup_checker \<Rightarrow> gctx \<Rightarrow> unit may_panic io" where
  "PodStartupChecker_Run env c ctx =
     (case psk_config c of
        None \<Rightarrow> State_Monad.return Panicked
      | Some cfg \<Rightarrow> do { _ \<leftarrow> PodStartupChecker_run env c cfg ctx; State_Monad.return (Returned ()) })"

section \<open>The protocol of the measurement\<close>

text \<open>
  What one answer to the polled read says: the time from the pod's creation to the start of the first
  container, in the order of the statuses, that runs; nothing for a failed read or without such a container.
\<close>

definition observed :: "api_error + pod \<Rightarrow> duration option" where
  "observed answer = (case answer of Inl _ \<Rightarrow> None | Inr p \<Rightarrow>
     (case List.map_filter cs_running_started_at (pst_container_statuses (pod_status_of p)) of
        [] \<Rightarrow> None
      | t # _ \<Rightarrow> Some (time_sub t (om_created (pod_meta p)))))"

lemma first_running_eq:
  "first_running ss = (case List.map_filter cs_running_started_at ss of [] \<Rightarrow> None | t # _ \<Rightarrow> Some t)"
  by (induction ss) (auto simp: List.map_filter_simps split: option.splits)

lemma observed_cases:
  "case observed answer of
     None \<Rightarrow> (case answer of Inl _ \<Rightarrow> True
       | Inr p \<Rightarrow> list_all (\<lambda>s. cs_running_started_at s = None) (pst_container_statuses (pod_status_of p)))
   | Some d \<Rightarrow> \<exists>p pre s post t. answer = Inr p \<and> pst_container_statuses (pod_status_of p) = pre @ s # post
       \<and> list_all (\<lambda>s. cs_running_started_at s = None) pre \<and> cs_running_started_at s = Some t
       \<and> d = time_sub t (om_created (pod_meta p))"
proof -
  have first: "case first_running ss of
      None \<Rightarrow> list_all (\<lambda>s. cs_running_started_at s = None) ss
    | Some t \<Rightarrow> \<exists>pre s post. ss = pre @ s # post \<and> list_all (\<lambda>s. cs_running_started_at s = None) pre
        \<and> cs_running_started_at s = Some t" for ss
  proof (induction ss)
    case (Cons s ss)
    show ?case
    proof (cases "cs_running_started_at s")
      case None
      show ?thesis
      proof (cases "first_running ss")
        case (Some t)
        with Cons.IH obtain pre s' post where "ss = pre @ s' # post" "list_all (\<lambda>s. cs_running_started_at s = None) pre"
          "cs_running_started_at s' = Some t" by auto
        with \<open>cs_running_started_at s = None\<close> Some show ?thesis by (auto intro!: exI [of _ "s # pre"])
      qed (use None Cons.IH in simp)
    next
      case (Some t)
      then show ?thesis by (auto intro: exI [of _ "[]"])
    qed
  qed simp
  show ?thesis
  proof (cases answer)
    case (Inr p)
    show ?thesis using first [of "pst_container_statuses (pod_status_of p)"]
      by (auto simp: Inr observed_def first_running_eq split: list.splits)
  qed (simp add: observed_def)
qed

text \<open>What the listed events say: the first event that is about a pull or a present image decides.\<close>

abbreviation pulled :: "k8s_event \<Rightarrow> bool" where
  "pulled ev \<equiv> sublist ''Successfully pulled image'' (ev_message ev)"

abbreviation present :: "k8s_event \<Rightarrow> bool" where
  "present ev \<equiv> sublist ''already present on machine'' (ev_message ev)"

definition pull_reported :: "string \<Rightarrow> k8s_event list \<Rightarrow> gerror + duration" where
  "pull_reported n evs = (case filter (\<lambda>ev. pulled ev \<or> present ev) evs of
       [] \<Rightarrow> Inl (Errorf ''no image pull events found for pod %s'' [ArgStr n])
     | ev # _ \<Rightarrow> if pulled ev then parseImagePullDuration (ev_message ev) else Inr 0)"

lemma pull_duration_of_events_eq: "pull_duration_of_events n evs = pull_reported n evs"
  by (induction evs) (auto simp: pull_reported_def contains_iff_sublist)

abbreviation pod_read :: "pod_startup_config \<Rightarrow> gctx \<Rightarrow> string \<Rightarrow> api_error + pod \<Rightarrow> event" where
  "pod_read cfg ctx n answer \<equiv> EvGet Pods ctx (psc_namespace cfg) n (map_sum id (Some \<circ> PodObj) answer)"

text \<open>
  Polling with \<open>k\<close> extra attempts: the first answer that shows a running container ends it; without
  one all \<open>k + 1\<close> attempts are made.
\<close>

definition polled :: "nat \<Rightarrow> (api_error + pod) list \<Rightarrow> duration option \<Rightarrow> bool" where
  "polled k answers r \<longleftrightarrow>
     (case r of
        None \<Rightarrow> length answers = Suc k \<and> list_all (\<lambda>a. observed a = None) answers
      | Some d \<Rightarrow> \<exists>pre a. answers = pre @ [a] \<and> length pre \<le> k \<and> list_all (\<lambda>a. observed a = None) pre \<and> observed a = Some d)"

lemma polled_last: "polled k [a] (observed a) \<longleftrightarrow> observed a \<noteq> None \<or> k = 0"
  by (cases "observed a") (auto simp: polled_def)

lemma polled_more: "observed a = None \<Longrightarrow> polled k answers r \<Longrightarrow> polled (Suc k) (a # answers) r"
proof (cases r)
  case (Some d)
  assume none: "observed a = None" and "polled k answers r"
  with Some obtain pre b where "answers = pre @ [b]" "length pre \<le> k" "list_all (\<lambda>a. observed a = None) pre" "observed b = Some d"
    unfolding polled_def by auto
  with none Some show ?thesis unfolding polled_def by (auto intro!: exI [of _ "a # pre"])
qed (simp add: polled_def)

lemma pull_reported_cases:
  "(list_all (\<lambda>ev. (pulled ev \<or> present ev) = False) evs
      \<and> pull_reported n evs = Inl (Errorf ''no image pull events found for pod %s'' [ArgStr n]))
   \<or> (\<exists>pre ev post. evs = pre @ ev # post \<and> list_all (\<lambda>ev. (pulled ev \<or> present ev) = False) pre
      \<and> (pulled ev \<or> present ev) \<and> pull_reported n evs = (if pulled ev then parseImagePullDuration (ev_message ev) else Inr 0))"
proof (cases "filter (\<lambda>ev. pulled ev \<or> present ev) evs")
  case Nil
  then show ?thesis by (auto simp: pull_reported_def filter_empty_conv list_all_iff)
next
  case (Cons ev rest)
  then obtain pre post where "evs = pre @ ev # post" "list_all (\<lambda>ev. (pulled ev \<or> present ev) = False) pre" "pulled ev \<or> present ev"
    by (auto simp: filter_eq_Cons_iff list_all_iff)
  with Cons show ?thesis by (intro disjI2 exI [of _ pre] exI [of _ ev] exI [of _ post]) (simp add: pull_reported_def)
qed

lemma emits_poll_attempt [emits_intros]:
  assumes "\<And>answer. Q (observed answer) [pod_read cfg ctx n answer]"
  shows "emits (poll_attempt env cfg ctx n) Q"
proof -
  have "(case answer of Inl err \<Rightarrow> None
      | Inr p \<Rightarrow> if length (pst_container_statuses (pod_status_of p)) = 0 then None
          else map_option (\<lambda>t. time_sub t (om_created (pod_meta p)))
            (first_running (pst_container_statuses (pod_status_of p)))) = observed answer" for answer
    by (auto simp: observed_def first_running_eq List.map_filter_simps split: sum.splits list.splits)
  then show ?thesis unfolding poll_attempt_def by (intro emits_intros) (simp add: assms)
qed

lemma emits_repeat_poll_attempt:
  "emits (repeat_condition (poll_attempt env cfg ctx n) k) (\<lambda>r es. \<exists>answers. es = map (pod_read cfg ctx n) answers \<and> polled k answers r)"
proof (induction k)
  case 0
  show ?case unfolding repeat_condition.simps
    by (rule emits_poll_attempt) (metis list.simps(8,9) polled_last)
next
  case (Suc k)
  show ?case unfolding repeat_condition.simps
  proof (rule emits_bind, rule emits_poll_attempt, rule emits_case_option)
    fix answer
    assume none: "observed answer = None"
    show "emits (repeat_condition (poll_attempt env cfg ctx n) k) (\<lambda>r es'. \<exists>answers.
        [pod_read cfg ctx n answer] @ es' = map (pod_read cfg ctx n) answers \<and> polled (Suc k) answers r)"
    proof (rule emits_conseq [OF Suc.IH], elim exE conjE)
      fix r es answers
      assume "es = map (pod_read cfg ctx n) answers" "polled k answers r"
      then show "\<exists>answers. [pod_read cfg ctx n answer] @ es = map (pod_read cfg ctx n) answers \<and> polled (Suc k) answers r"
        using polled_more [OF none] by (intro exI [of _ "answer # answers"]) simp
    qed
  next
    fix answer d
    assume "observed answer = Some d"
    then show "emits (State_Monad.return (Some d)) (\<lambda>r es'. \<exists>answers.
        [pod_read cfg ctx n answer] @ es' = map (pod_read cfg ctx n) answers \<and> polled (Suc k) answers r)"
      using polled_last [of "Suc k" answer] by (auto intro!: exI [of _ "[answer]"])
  qed
qed

abbreviation list_pull_events :: "pod_startup_config \<Rightarrow> gctx \<Rightarrow> string \<Rightarrow> api_error + k8s_event list \<Rightarrow> event" where
  "list_pull_events cfg ctx n answer \<equiv> EvList Events ctx (psc_namespace cfg)
     (FieldSelector (''involvedObject.name='' @ n @ '',reason=Pulled'')) (map_sum id (map EventObj) answer)"

lemma emits_getImagePullDuration:
  assumes "\<And>answer. Q (case answer of
      Inl e \<Rightarrow> Inl (Wrapf ''failed to list events for pod %s: %w'' [ArgStr n] (ApiErr e))
    | Inr evs \<Rightarrow> pull_reported n evs) [list_pull_events cfg ctx n answer]"
  shows "emits (getImagePullDuration env cfg ctx n) Q"
  unfolding getImagePullDuration_def pull_duration_of_events_eq by (rule emits_bind, rule emits_event_list) (use assms in simp)

text \<open>The two measurements: polling found a running container, the events gave the pull duration.\<close>

inductive measured :: "pod_startup_config \<Rightarrow> gctx \<Rightarrow> string \<Rightarrow> duration \<Rightarrow> duration \<Rightarrow> history \<Rightarrow> bool" for cfg ctx n where
  "polled k answers (Some running) \<Longrightarrow> pull_reported n evs = Inr pull \<Longrightarrow>
   measured cfg ctx n running pull
     (EvPoll ctx pollingInterval k e # map (pod_read cfg ctx n) answers @ [list_pull_events cfg ctx n (Inr evs)])"

abbreviation startup_duration :: "duration \<Rightarrow> duration \<Rightarrow> duration" where
  "startup_duration running pull \<equiv> Duration_Round (running - pull) Second"

text \<open>Dialling: the clock is read for the dialer's own timeout unless that is zero.\<close>

definition dials :: "pod_startup_checker \<Rightarrow> gctx \<Rightarrow> string \<Rightarrow> api_error option \<Rightarrow> history \<Rightarrow> bool" where
  "dials c ctx ip res es \<longleftrightarrow>
     (if psk_dialer_timeout c = 0 then es = [EvDial ctx ''tcp'' (tcp_address ip) res]
      else \<exists>t. es = [EvNow t, EvDial (deadline_after ctx t (psk_dialer_timeout c)) ''tcp'' (tcp_address ip) res])"

definition tcp_verdict :: "api_error \<Rightarrow> result" where
  "tcp_verdict e = (if err_deadline e then Unhealthy ErrCodeRequestTimeout (Msg ''TCP request to synthetic pod timed out'')
     else Unhealthy ErrCodeRequestFailed
       (MsgErr ''TCP request to synthetic pod failed: %s'' (Wrapf ''TCP connection failed: %w'' [] (ApiErr e))))"

inductive synthetic_pod_path ::
    "pod_startup_checker \<Rightarrow> pod_startup_config \<Rightarrow> gctx \<Rightarrow> string \<Rightarrow> gerror + result \<Rightarrow> history \<Rightarrow> bool"
  for c cfg ctx n
where
  never_running: "polled k answers None \<Longrightarrow>
    synthetic_pod_path c cfg ctx n
      (if err_deadline e then Inr (Unhealthy ErrCodePodStartupDurationExceeded (Msg ''pod has no running container''))
       else Inl (Wrapf ''pod has no running container: %w'' [] (ApiErr e)))
      (EvPoll ctx pollingInterval k e # map (pod_read cfg ctx n) answers)"
| events_unknown: "polled k answers (Some running) \<Longrightarrow>
    synthetic_pod_path c cfg ctx n
      (Inl (Wrapf ''failed to get image pull duration: %w'' [] (Wrapf ''failed to list events for pod %s: %w'' [ArgStr n] (ApiErr e'))))
      (EvPoll ctx pollingInterval k e # map (pod_read cfg ctx n) answers @ [list_pull_events cfg ctx n (Inl e')])"
| pull_unknown: "polled k answers (Some running) \<Longrightarrow> pull_reported n evs = Inl err \<Longrightarrow>
    synthetic_pod_path c cfg ctx n (Inl (Wrapf ''failed to get image pull duration: %w'' [] err))
      (EvPoll ctx pollingInterval k e # map (pod_read cfg ctx n) answers @ [list_pull_events cfg ctx n (Inr evs)])"
| too_slow: "measured cfg ctx n running pull es \<Longrightarrow> psc_startup_timeout cfg \<le>s startup_duration running pull \<Longrightarrow>
    synthetic_pod_path c cfg ctx n
      (Inr (Unhealthy ErrCodePodStartupDurationExceeded (Msg ''pod exceeded the maximum healthy startup duration''))) es"
| pod_unreadable: "measured cfg ctx n running pull es \<Longrightarrow> startup_duration running pull <s psc_startup_timeout cfg \<Longrightarrow>
    synthetic_pod_path c cfg ctx n
      (Inl (Wrapf ''failed to get synthetic pod IP: %w'' [] (Wrapf ''error getting pod %s: %w'' [ArgStr n] (ApiErr e))))
      (es @ [pod_read cfg ctx n (Inl e)])"
| no_address: "measured cfg ctx n running pull es \<Longrightarrow> startup_duration running pull <s psc_startup_timeout cfg \<Longrightarrow>
    pst_pod_ip (pod_status_of p) = [] \<Longrightarrow>
    synthetic_pod_path c cfg ctx n (Inl (Wrapf ''failed to get synthetic pod IP: %w'' [] (Errorf ''pod IP is empty'' [])))
      (es @ [pod_read cfg ctx n (Inr p)])"
| not_reachable: "measured cfg ctx n running pull es \<Longrightarrow> startup_duration running pull <s psc_startup_timeout cfg \<Longrightarrow>
    pst_pod_ip (pod_status_of p) \<noteq> [] \<Longrightarrow> dials c ctx (pst_pod_ip (pod_status_of p)) (Some e) es' \<Longrightarrow>
    synthetic_pod_path c cfg ctx n
      (Inr (tcp_verdict e))
      (es @ pod_read cfg ctx n (Inr p) # es')"
| reachable: "measured cfg ctx n running pull es \<Longrightarrow> startup_duration running pull <s psc_startup_timeout cfg \<Longrightarrow>
    pst_pod_ip (pod_status_of p) \<noteq> [] \<Longrightarrow> dials c ctx (pst_pod_ip (pod_status_of p)) None es' \<Longrightarrow>
    synthetic_pod_path c cfg ctx n (Inr Healthy) (es @ pod_read cfg ctx n (Inr p) # es')"

lemma emits_createTCPConnection [emits_intros]:
  assumes "\<And>res es. dials c ctx ip res es \<Longrightarrow> Q (wrap_error ''TCP connection failed: %w'' res) es"
  shows "emits (createTCPConnection env c ctx ip) Q"
  unfolding createTCPConnection_def DialContext_def
  by (intro emits_intros; (simp, intro emits_intros)?) (auto intro!: assms simp: dials_def)

lemma emits_tcp_verdict:
  assumes "\<And>es. dials c ctx ip None es \<Longrightarrow> Q (Inr Healthy) es"
    and "\<And>e es. dials c ctx ip (Some e) es \<Longrightarrow> Q (Inr (tcp_verdict e)) es"
  shows "emits (do {
     err \<leftarrow> createTCPConnection env c ctx ip;
     case err of
       Some e \<Rightarrow>
         if errors_is e DeadlineExceeded
         then State_Monad.return (Inr (Unhealthy ErrCodeRequestTimeout (Msg ''TCP request to synthetic pod timed out'')))
         else State_Monad.return (Inr (Unhealthy ErrCodeRequestFailed (MsgErr ''TCP request to synthetic pod failed: %s'' e)))
     | None \<Rightarrow> State_Monad.return (Inr Healthy) }) Q"
proof (rule emits_bind, rule emits_createTCPConnection, goal_cases)
  case (1 res es)
  show ?case
  proof (cases res)
    case None
    with 1 assms(1) show ?thesis by (simp add: wrap_error_def)
  next
    case (Some e)
    with 1 assms(2) [of e es] show ?thesis
      by (cases "err_deadline e") (simp_all add: tcp_verdict_def wrap_error_def)
  qed
qed

text \<open>The part after the measurements.\<close>

lemma emits_after_measured:
  assumes m: "measured cfg ctx n running pull es"
  shows "emits
    (if psc_startup_timeout cfg \<le>s startup_duration running pull
     then State_Monad.return (Inr (Unhealthy ErrCodePodStartupDurationExceeded
       (Msg ''pod exceeded the maximum healthy startup duration'')))
     else do {
       ip \<leftarrow> getSyntheticPodIP env c cfg ctx n;
       case ip of
         Inl err \<Rightarrow> State_Monad.return (Inl (Wrapf ''failed to get synthetic pod IP: %w'' [] err))
       | Inr podIP \<Rightarrow> do {
           err \<leftarrow> createTCPConnection env c ctx podIP;
           case err of
             Some e \<Rightarrow>
               if errors_is e DeadlineExceeded
               then State_Monad.return (Inr (Unhealthy ErrCodeRequestTimeout (Msg ''TCP request to synthetic pod timed out'')))
               else State_Monad.return (Inr (Unhealthy ErrCodeRequestFailed (MsgErr ''TCP request to synthetic pod failed: %s'' e)))
           | None \<Rightarrow> State_Monad.return (Inr Healthy) } })
    (\<lambda>r es'. synthetic_pod_path c cfg ctx n r (es @ es'))"
proof (rule emits_if)
  assume "psc_startup_timeout cfg \<le>s startup_duration running pull"
  then show "emits (State_Monad.return (Inr (Unhealthy ErrCodePodStartupDurationExceeded
       (Msg ''pod exceeded the maximum healthy startup duration'')))) (\<lambda>r es'. synthetic_pod_path c cfg ctx n r (es @ es'))"
    using too_slow [OF m] by simp
next
  assume "\<not> psc_startup_timeout cfg \<le>s startup_duration running pull"
  then have fast: "startup_duration running pull <s psc_startup_timeout cfg" by simp
  note paths = pod_unreadable [OF m fast] no_address [OF m fast] reachable [OF m fast] not_reachable [OF m fast]
  show "emits (do {
       ip \<leftarrow> getSyntheticPodIP env c cfg ctx n;
       case ip of
         Inl err \<Rightarrow> State_Monad.return (Inl (Wrapf ''failed to get synthetic pod IP: %w'' [] err))
       | Inr podIP \<Rightarrow> do {
           err \<leftarrow> createTCPConnection env c ctx podIP;
           case err of
             Some e \<Rightarrow>
               if errors_is e DeadlineExceeded
               then State_Monad.return (Inr (Unhealthy ErrCodeRequestTimeout (Msg ''TCP request to synthetic pod timed out'')))
               else State_Monad.return (Inr (Unhealthy ErrCodeRequestFailed (MsgErr ''TCP request to synthetic pod failed: %s'' e)))
           | None \<Rightarrow> State_Monad.return (Inr Healthy) } })
    (\<lambda>r es'. synthetic_pod_path c cfg ctx n r (es @ es'))"
    unfolding getSyntheticPodIP_def
  proof (rule emits_bind, rule emits_bind, rule emits_pod_get, goal_cases)
    case (1 answer)
    consider e where "answer = Inl e" | p where "answer = Inr p" "pst_pod_ip (pod_status_of p) = []"
      | p where "answer = Inr p" "pst_pod_ip (pod_status_of p) \<noteq> []"
      by (cases answer) auto
    then show ?case
    proof cases
      case 1
      then show ?thesis using paths(1) by simp
    next
      case 2
      then show ?thesis using paths(2) by simp
    next
      case (3 p)
      then show ?thesis by simp (rule emits_tcp_verdict; use paths(3,4) [OF 3(2)] in simp)
    qed
  qed
qed

lemma emits_check_synthetic_pod: "emits (check_synthetic_pod env c cfg ctx n) (synthetic_pod_path c cfg ctx n)"
  unfolding check_synthetic_pod_def pollPodCreationToContainerRunningDuration_def poll_until_context_cancel_def
proof (rule emits_bind, rule emits_bind, rule emits_poll_budget, rule emits_bind, rule emits_conseq [OF emits_repeat_poll_attempt],
    elim exE conjE, goal_cases)
  case (1 budget r es answers)
  obtain k e where budget: "budget = (k, e)" by (cases budget)
  show ?case
  proof (cases r)
    case None
    then show ?thesis
      using never_running [of k answers c cfg ctx n e] 1 by (cases "err_deadline e") (simp_all add: budget)
  next
    case (Some running)
    note polled = \<open>polled (fst budget) answers r\<close> [unfolded budget Some fst_conv]
    let ?es = "EvPoll ctx pollingInterval k e # map (pod_read cfg ctx n) answers"
    show ?thesis
      unfolding getImagePullDuration_def pull_duration_of_events_eq
    proof (simp only: Some option.case emits_return sum.case budget 1(1) fst_conv snd_conv, rule emits_bind, rule emits_bind,
        rule emits_event_list, goal_cases)
      case (1 answer)
      consider e' where "answer = Inl e'" | evs err where "answer = Inr evs" "pull_reported n evs = Inl err"
        | evs pull where "answer = Inr evs" "pull_reported n evs = Inr pull"
        by (metis sum.exhaust)
      then show ?case
      proof cases
        case 1
        then show ?thesis using events_unknown [OF polled] by simp
      next
        case 2
        then show ?thesis using pull_unknown [OF polled 2(2)] by simp
      next
        case 3
        then show ?thesis
          using emits_after_measured [OF measured.intros [OF polled 3(2), of cfg ctx e], of env c] by simp
      qed
    qed
  qed
qed

section \<open>The protocol of the whole check\<close>

abbreviation node_pool_name :: "pod_startup_checker \<Rightarrow> string \<Rightarrow> string" where
  "node_pool_name c ts \<equiv> to_lower (psk_name c) @ ''-nodepool-'' @ ts"

abbreviation get_crd :: "gctx \<Rightarrow> api_error option \<Rightarrow> event" where
  "get_crd ctx err \<equiv> EvGet CustomResourceDefinitions ctx [] nodePoolCRDName (got_nothing err)"

text \<open>Every creation of a node pool registers its types in the global scheme again.\<close>

abbreviation register_pool :: event where
  "register_pool \<equiv> EvAddKnownTypes ''karpenter.sh'' ''v1''"

inductive provision_path ::
    "pod_startup_config \<Rightarrow> gctx \<Rightarrow> node_pool \<Rightarrow> (gerror + result) option \<Rightarrow> history \<Rightarrow> bool" for cfg ctx np where
  disabled: "\<not> psc_node_provisioning cfg \<Longrightarrow> provision_path cfg ctx np None []"
| crd_error: "psc_node_provisioning cfg \<Longrightarrow> \<not> err_not_found e \<Longrightarrow>
    provision_path cfg ctx np (Some (Inl (Wrapf ''failed to check Karpenter NodePool CRD presence: %w'' [] (ApiErr e)))) [get_crd ctx (Some e)]"
| crd_missing: "psc_node_provisioning cfg \<Longrightarrow> err_not_found e \<Longrightarrow>
    provision_path cfg ctx np
      (Some (Inr (Skipped (Msg ''Karpenter NodePool CRD was not found, pod startup test was skipped'')))) [get_crd ctx (Some e)]"
| not_convertible: "psc_node_provisioning cfg \<Longrightarrow>
    provision_path cfg ctx np (Some (Inl (Wrapf ''failed to create Karpenter NodePool: %w'' [] (ApiErr e))))
      [get_crd ctx None, register_pool, EvConvert np (Some e)]"
| pool_refused: "psc_node_provisioning cfg \<Longrightarrow>
    provision_path cfg ctx np (Some (Inl (Wrapf ''failed to create Karpenter NodePool: %w'' [] (ApiErr e))))
      [get_crd ctx None, register_pool, EvConvert np None, EvCreate NodePools ctx [] False (NodePoolObj np) (Inl e)]"
| pool_created: "psc_node_provisioning cfg \<Longrightarrow>
    provision_path cfg ctx np None
      [get_crd ctx None, register_pool, EvConvert np None, EvCreate NodePools ctx [] False (NodePoolObj np) (Inr (NodePoolObj np))]"

lemma emits_provision_node_pool:
  "emits (provision_node_pool env cfg ctx n ts) (provision_path cfg ctx (karpenterNodePool cfg n ts))"
proof (cases "psc_node_provisioning cfg")
  case False
  then show ?thesis by (simp add: provision_node_pool_def disabled)
next
  case True
  note paths = crd_error [OF True] crd_missing [OF True] not_convertible [OF True] pool_refused [OF True] pool_created [OF True]
  show ?thesis
    unfolding provision_node_pool_def isKarpenterNodePoolCRDPresent_def
  proof (simp only: True if_True, rule emits_bind, rule emits_bind, rule emits_crd_get, goal_cases)
    case (1 err)
    show ?case
    proof (cases err)
      case None
      then show ?thesis
        by simp (rule emits_bind, rule emits_createKarpenterNodePool; use paths(3-5) in \<open>simp add: created_as_def split: option.splits\<close>)
    next
      case (Some e)
      then show ?thesis using paths(1,2) [of e] by simp
    qed
  qed
qed

text \<open>The clean-up of the pod, and of its node pool if one was made.\<close>

definition cleans_pod :: "pod_startup_config \<Rightarrow> gctx \<Rightarrow> string \<Rightarrow> string \<Rightarrow> history \<Rightarrow> bool" where
  "cleans_pod cfg ctx n np es \<longleftrightarrow> (\<exists>d d'. es = EvDelete Pods ctx (psc_namespace cfg) n d #
     (if psc_node_provisioning cfg then [EvDelete NodePools ctx [] np d'] else []))"

abbreviation list_pods :: "pod_startup_checker \<Rightarrow> pod_startup_config \<Rightarrow> gctx \<Rightarrow> api_error + object list \<Rightarrow> event" where
  "list_pods c cfg ctx \<equiv> EvList Pods ctx (psc_namespace cfg) (SelectorFromSet (syntheticPodLabels c cfg))"

abbreviation create_pod :: "pod_startup_checker \<Rightarrow> pod_startup_config \<Rightarrow> gctx \<Rightarrow> string \<Rightarrow> api_error + object \<Rightarrow> event" where
  "create_pod c cfg ctx ts \<equiv> EvCreate Pods ctx (psc_namespace cfg) False (PodObj (generateSyntheticPod c cfg ts))"

definition creation_verdict :: "api_error \<Rightarrow> result" where
  "creation_verdict e = (if err_deadline e then Unhealthy ErrCodePodCreationTimeout (Msg ''timed out creating synthetic pod'')
     else Unhealthy ErrCodePodCreationError (MsgErr ''error creating synthetic pod: %s'' (ApiErr e)))"

inductive with_csi_path ::
    "pod_startup_checker \<Rightarrow> pod_startup_config \<Rightarrow> gctx \<Rightarrow> string \<Rightarrow> gerror + result \<Rightarrow> history \<Rightarrow> bool" for c cfg ctx ts where
  pods_unlisted: "with_csi_path c cfg ctx ts (Inl (Wrapf ''failed to list pods: %w'' [] (ApiErr e))) [list_pods c cfg ctx (Inl e)]"
| too_many_pods: "sint (psc_max_pods cfg) \<le> int (length obs) \<Longrightarrow>
    with_csi_path c cfg ctx ts (Inl (Errorf
        ''maximum number of synthetic pods reached, current: %d, max allowed: %d, delete some pods before running the checker again''
        [ArgInt (int (length obs)), ArgInt (sint (psc_max_pods cfg))])) [list_pods c cfg ctx (Inr obs)]"
| not_provisioned: "int (length obs) < sint (psc_max_pods cfg) \<Longrightarrow>
    provision_path cfg ctx (karpenterNodePool cfg (node_pool_name c ts) ts) (Some r) es \<Longrightarrow>
    with_csi_path c cfg ctx ts r (list_pods c cfg ctx (Inr obs) # es)"
| pod_refused: "int (length obs) < sint (psc_max_pods cfg) \<Longrightarrow>
    provision_path cfg ctx (karpenterNodePool cfg (node_pool_name c ts) ts) None es \<Longrightarrow>
    with_csi_path c cfg ctx ts (Inr (creation_verdict e))
      (list_pods c cfg ctx (Inr obs) # es @ [create_pod c cfg ctx ts (Inl e)])"
| pod_created: "int (length obs) < sint (psc_max_pods cfg) \<Longrightarrow>
    provision_path cfg ctx (karpenterNodePool cfg (node_pool_name c ts) ts) None es \<Longrightarrow>
    synthetic_pod_path c cfg ctx (om_name (pod_meta p)) r es' \<Longrightarrow>
    cleans_pod cfg ctx (om_name (pod_meta p)) (node_pool_name c ts) es'' \<Longrightarrow>
    with_csi_path c cfg ctx ts r
      (list_pods c cfg ctx (Inr obs) # es @ create_pod c cfg ctx ts (Inr (PodObj p)) # es' @ es'')"

lemma emits_cleanup_pod: "emits (cleanup_pod env cfg ctx n np) (\<lambda>_. cleans_pod cfg ctx n np)"
  unfolding cleanup_pod_def by (intro emits_intros; simp add: cleans_pod_def)

lemma emits_check_with_csi: "emits (check_with_csi env c cfg ctx ts) (with_csi_path c cfg ctx ts)"
  unfolding check_with_csi_def Let_def
proof (rule emits_bind, rule emits_pod_list, goal_cases)
  case (1 answer)
  consider e where "answer = Inl e" | items where "answer = Inr items" "sint (psc_max_pods cfg) \<le> int (length items)"
    | items where "answer = Inr items" "int (length items) < sint (psc_max_pods cfg)"
    by (cases answer) (auto simp: not_le [symmetric])
  then show ?case
  proof cases
    case 1
    then show ?thesis by (simp add: pods_unlisted)
  next
    case (2 items)
    then show ?thesis using too_many_pods [of cfg "map PodObj items" c ctx ts] by simp
  next
    case (3 items)
    then have room: "int (length (map PodObj items)) < sint (psc_max_pods cfg)" "\<not> sint (psc_max_pods cfg) \<le> int (length items)"
      by simp_all
    show ?thesis
    proof (simp only: 3 sum.case map_sum.simps room if_False, rule emits_bind, rule emits_conseq [OF emits_provision_node_pool],
        rule emits_case_option, goal_cases)
      case (1 early es)
      then have prov: "provision_path cfg ctx (karpenterNodePool cfg (node_pool_name c ts) ts) None es" by simp
      show ?case
      proof (rule emits_bind, rule emits_pod_create, rule emits_case_sum, goal_cases)
        case (1 created err)
        then show ?case using pod_refused [OF room(1) prov, of err]
          by (cases "err_deadline err") (simp_all add: creation_verdict_def)
      next
        case (2 created p)
        show ?case
          by (rule emits_bind, rule emits_conseq [OF emits_check_synthetic_pod], rule emits_bind,
              rule emits_conseq [OF emits_cleanup_pod]) (use pod_created [OF room(1) prov] 2 in simp)
      qed
    next
      case (2 early es r)
      then show ?case using not_provisioned [OF room(1)] by simp
    qed
  qed
qed

text \<open>The events of the phases around \<open>check_with_csi\<close>.\<close>

fun collecting :: "event \<Rightarrow> bool" where
  "collecting (EvNow _) \<longleftrightarrow> True"
| "collecting (EvList _ _ _ _ _) \<longleftrightarrow> True"
| "collecting (EvDelete _ _ _ _ _) \<longleftrightarrow> True"
| "collecting _ \<longleftrightarrow> False"

fun storage_listing :: "event \<Rightarrow> bool" where
  "storage_listing (EvList r _ _ _ _) \<longleftrightarrow> r = PersistentVolumeClaims \<or> r = StorageClasses"
| "storage_listing _ \<longleftrightarrow> False"

text \<open>The requests for storage: only the objects of the run's timestamp are sent for creation.\<close>

definition storage_objects :: "pod_startup_checker \<Rightarrow> pod_startup_config \<Rightarrow> string \<Rightarrow> (resource \<times> string \<times> object) list" where
  "storage_objects c cfg ts =
     [(PersistentVolumeClaims, psc_namespace cfg, PVCObj (azureDiskPVC c cfg ts)),
      (PersistentVolumeClaims, psc_namespace cfg, PVCObj (azureFilePVC c cfg ts)),
      (PersistentVolumeClaims, psc_namespace cfg, PVCObj (azureBlobPVC c cfg ts)),
      (StorageClasses, [], StorageClassObj (azureFileStorageClass c cfg ts))]"

fun storage_creation :: "pod_startup_checker \<Rightarrow> pod_startup_config \<Rightarrow> gctx \<Rightarrow> string \<Rightarrow> event \<Rightarrow> bool" where
  "storage_creation c cfg ctx ts (EvCreate r ctx' ns dry ob _) \<longleftrightarrow>
     (r, ns, ob) \<in> set (storage_objects c cfg ts) \<and> ctx' = ctx \<and> \<not> dry"
| "storage_creation c cfg ctx ts _ \<longleftrightarrow> False"

fun storage_deletion :: "pod_startup_config \<Rightarrow> gctx \<Rightarrow> event \<Rightarrow> bool" where
  "storage_deletion cfg ctx (EvDelete r ctx' ns _ _) \<longleftrightarrow>
     (r, ns) \<in> {(PersistentVolumeClaims, psc_namespace cfg), (StorageClasses, [])} \<and> ctx' = ctx"
| "storage_deletion cfg ctx _ \<longleftrightarrow> False"

abbreviation timestamp :: "time \<Rightarrow> string" where
  "timestamp t \<equiv> dec_of_int (sint (UnixNano t))"

inductive pod_startup_path ::
    "pod_startup_checker \<Rightarrow> pod_startup_config \<Rightarrow> gctx \<Rightarrow> gerror + result \<Rightarrow> history \<Rightarrow> bool" for c cfg ctx where
  csi_limit_failed: "csi_limit_path c cfg ctx (Some err) lim \<Longrightarrow>
    pod_startup_path c cfg ctx (Inl (Wrapf ''CSI resource limit check failed: %w'' [] err)) (EvNow t # lim)"
| csi_creation_failed: "csi_limit_path c cfg ctx None lim \<Longrightarrow> list_all (storage_creation c cfg ctx (timestamp t)) es \<Longrightarrow>
    progress (csi_plans (timestamp t) cfg) (creations es) (Some err) \<Longrightarrow>
    pod_startup_path c cfg ctx (Inl (Wrapf ''failed to create CSI test resources: %w'' [] err)) (EvNow t # lim @ es)"
| csi_created: "csi_limit_path c cfg ctx None lim \<Longrightarrow> list_all (storage_creation c cfg ctx (timestamp t)) es \<Longrightarrow>
    progress (csi_plans (timestamp t) cfg) (creations es) (None :: gerror option) \<Longrightarrow>
    with_csi_path c cfg ctx (timestamp t) r es' \<Longrightarrow>
    list_all (storage_deletion cfg ctx) es'' \<Longrightarrow>
    progress (csi_plans (timestamp t) cfg) (deletions es'') (derr :: gerror option) \<Longrightarrow>
    pod_startup_path c cfg ctx r (EvNow t # lim @ es @ es' @ es'')"

text \<open>
  The collection of leftovers: pods, node pools if node provisioning is tested, claims, storage classes,
  each by the report of its collector, and the failures joined.
\<close>

definition startup_collection ::
    "pod_startup_checker \<Rightarrow> pod_startup_config \<Rightarrow> gctx \<Rightarrow> gerror option \<Rightarrow> history \<Rightarrow> bool" where
  "startup_collection c cfg ctx err es \<longleftrightarrow> (\<exists>e1 pods e2 pools e3 pvcs e4 scs. es = pods @ pools @ pvcs @ scs
     \<and> collector_report Pods ctx (psc_namespace cfg) (SelectorFromSet (syntheticPodLabels c cfg)) (\<lambda>_. psc_namespace cfg)
         (psk_timeout c) ''failed to list pods for garbage collection: %w'' ''failed to delete old synthetic pod %s: %w'' e1 pods
     \<and> list_all (only_deletes Pods) pods
     \<and> (if psc_node_provisioning cfg then node_pool_report cfg ctx e2 pools else pools = [] \<and> e2 = None)
     \<and> collector_report PersistentVolumeClaims ctx (psc_namespace cfg) (SelectorFromSet (syntheticPodLabels c cfg))
         (\<lambda>_. psc_namespace cfg) (psk_timeout c) ''failed to list persistent volume claims: %w''
         ''failed to delete outdated persistent volume claim %s: %w'' e3 pvcs
     \<and> list_all (only_deletes PersistentVolumeClaims) pvcs
     \<and> collector_report StorageClasses ctx [] (SelectorFromSet (syntheticPodLabels c cfg)) (\<lambda>_. [])
         (psk_timeout c) ''failed to list storage classes: %w'' ''failed to delete outdated storage class %s: %w'' e4 scs
     \<and> list_all (only_deletes StorageClasses) scs
     \<and> err = errors_join
         (append_wrapped ''failed to garbage collect outdated synthetic pods: %w'' [] e1
          @ append_wrapped ''failed to delete old Karpenter Node Pools: %w'' [] e2
          @ append_wrapped ''failed to garbage collect outdated persistent volume claims: %w'' [] e3
          @ append_wrapped ''failed to garbage collect outdated storage classes: %w'' [] e4))"

lemma emits_PodStartup_garbageCollect: "emits (PodStartup_garbageCollect env c cfg ctx) (startup_collection c cfg ctx)"
proof -
  have pools: "emits (if psc_node_provisioning cfg then deleteAllKarpenterNodePools env cfg ctx else State_Monad.return None)
      (\<lambda>err es. if psc_node_provisioning cfg then node_pool_report cfg ctx err es else es = [] \<and> err = None)"
    by (simp add: emits_deleteAllKarpenterNodePools)
  show ?thesis
    unfolding PodStartup_garbageCollect_def
  proof (rule emits_bind, rule emits_conseq [OF pod_gc.full_report], rule emits_bind, rule emits_conseq [OF pools],
        rule emits_bind, rule emits_conseq [OF pvc_gc.full_report], rule emits_bind, rule emits_conseq [OF sc_gc.full_report],
        goal_cases)
    case (1 e1 pods e2 pools e3 pvcs e4 scs)
    then show ?case
      unfolding emits_return append_Nil2 startup_collection_def
      by - (rule exI [of _ e1], rule exI [of _ pods], rule exI [of _ e2], rule exI [of _ pools], rule exI [of _ e3],
          rule exI [of _ pvcs], rule exI [of _ e4], rule exI [of _ scs], simp only: simp_thms)
  qed
qed

text \<open>The limit check only lists storage objects.\<close>

lemma csi_limit_path_listings: "csi_limit_path c cfg ctx err es \<Longrightarrow> list_all storage_listing es"
proof (induction rule: csi_limit_path.induct)
  case (claims_below_limit obs err es)
  have "sc_limit_path c cfg ctx t err es \<Longrightarrow> list_all storage_listing es" for t err es
    by (induction rule: sc_limit_path.induct) simp_all
  with claims_below_limit(3) have "list_all storage_listing es"
    by (induction rule: until_run.induct) simp_all
  then show ?case by simp
qed simp_all

lemma performs_PodStartup_garbageCollect: "performs collecting (PodStartup_garbageCollect env c cfg ctx)"
proof -
  have "performs collecting m" if "performs (only_deletes r) m" "performs (\<lambda>e. collecting e \<or> \<not> only_deletes r e) m"
    for m :: "gerror option io" and r
    using performs_mono [OF performs_conj [OF that], of collecting] by blast
  show ?thesis
    unfolding PodStartup_garbageCollect_def syntheticPodGarbageCollection_def persistentVolumeClaimGarbageCollection_def
      storageClassGarbageCollection_def delete_if_older_def
    by (intro performs_intros) simp_all
qed

lemma emits_PodStartup_check:
  "emits (PodStartup_check env c cfg ctx)
     (\<lambda>r es. \<exists>gc_err gc path. es = gc @ path \<and> startup_collection c cfg ctx gc_err gc \<and> list_all collecting gc
        \<and> pod_startup_path c cfg ctx r path)"
  unfolding PodStartup_check_def Let_def
proof (rule emits_bind, rule emits_conseq [OF emits_performs [OF emits_PodStartup_garbageCollect performs_PodStartup_garbageCollect]],
    rule emits_conseq [where P = "pod_startup_path c cfg ctx"], rule emits_bind, rule emits_time_now, goal_cases)
  case (1 gc_err gc t)
  have create: "performs (storage_creation c cfg ctx ts) (createCSIResources env c cfg ctx ts)" for ts
    by (intro performs_intros) (simp_all add: storage_objects_def)
  have delete: "performs (storage_deletion cfg ctx) (deleteCSIResources env c cfg ctx ts)" for ts
    by (intro performs_intros) simp_all
  show ?case
  proof (rule emits_bind, rule emits_conseq [OF emits_checkCSIResourceLimit], rule emits_case_option, goal_cases)
    case (1 limit lim)
    show ?case
    proof (rule emits_bind, rule emits_conseq [OF emits_performs [OF emits_createCSIResources create]], rule emits_case_option, goal_cases)
      case (1 csi es1)
      then show ?case
        by (intro emits_bind emits_conseq [OF emits_check_with_csi]
            emits_conseq [OF emits_performs [OF emits_deleteCSIResources delete]])
          (simp, use \<open>csi_limit_path c cfg ctx limit lim\<close> \<open>limit = None\<close> in \<open>blast intro: csi_created\<close>)
    next
      case (2 csi es1 err)
      then show ?case
        using csi_creation_failed \<open>csi_limit_path c cfg ctx limit lim\<close> \<open>limit = None\<close> by simp
    qed
  next
    case (2 limit es err)
    then show ?case using csi_limit_failed by simp
  qed
next
  case (2 gc_err gc r es)
  then show ?case by blast
qed

section \<open>What the phases leave alone\<close>

lemma collecting_quiet:
  assumes "list_all collecting es"
  shows "sent r es = []" "created r es = []" "increments es = []" "creations es = []"
proof -
  have "sent_of r e = [] \<and> created_of r e = [] \<and> inc_of e = [] \<and> creation_of e = []" if "collecting e" for e
    using that by (cases e) auto
  with assms show "sent r es = []" "created r es = []" "increments es = []" "creations es = []"
    by (auto simp: sent_def created_def increments_def creations_def list_all_iff)
qed

lemma storage_phases_quiet:
  "csi_limit_path c cfg ctx err es \<Longrightarrow> sent r es = [] \<and> created r es = [] \<and> deleted r es = [] \<and> creations es = []"
  "list_all (storage_creation c cfg ctx ts) es \<Longrightarrow> r \<noteq> PersistentVolumeClaims \<Longrightarrow> r \<noteq> StorageClasses \<Longrightarrow>
     sent r es = [] \<and> created r es = [] \<and> deleted r es = []"
  "list_all (storage_deletion cfg ctx) es \<Longrightarrow> sent r es = [] \<and> created r es = [] \<and> creations es = []"
  "list_all (storage_deletion cfg ctx) es \<Longrightarrow> r \<noteq> PersistentVolumeClaims \<Longrightarrow> r \<noteq> StorageClasses \<Longrightarrow> deleted r es = []"
proof -
  have "sent_of r e = [] \<and> created_of r e = [] \<and> deleted_of r e = [] \<and> creation_of e = []" if "storage_listing e" for e
    using that by (cases e) auto
  then show "csi_limit_path c cfg ctx err es \<Longrightarrow> sent r es = [] \<and> created r es = [] \<and> deleted r es = [] \<and> creations es = []"
    by (auto simp: sent_def created_def deleted_def creations_def list_all_iff dest!: csi_limit_path_listings)
  have "sent_of r e = [] \<and> created_of r e = [] \<and> deleted_of r e = []"
    if "storage_creation c cfg ctx ts e" "r \<noteq> PersistentVolumeClaims" "r \<noteq> StorageClasses" for e
    using that by (cases e) (auto simp: storage_objects_def split: sum.splits)
  then show "list_all (storage_creation c cfg ctx ts) es \<Longrightarrow> r \<noteq> PersistentVolumeClaims \<Longrightarrow> r \<noteq> StorageClasses \<Longrightarrow>
     sent r es = [] \<and> created r es = [] \<and> deleted r es = []"
    by (simp add: sent_def created_def deleted_def list_all_iff)
  have "sent_of r e = [] \<and> created_of r e = [] \<and> creation_of e = []" if "storage_deletion cfg ctx e" for e
    using that by (cases e) auto
  then show "list_all (storage_deletion cfg ctx) es \<Longrightarrow> sent r es = [] \<and> created r es = [] \<and> creations es = []"
    by (auto simp: sent_def created_def creations_def list_all_iff)
  have "deleted_of r e = []" if "storage_deletion cfg ctx e" "r \<noteq> PersistentVolumeClaims" "r \<noteq> StorageClasses" for e
    using that by (cases e) auto
  then show "list_all (storage_deletion cfg ctx) es \<Longrightarrow> r \<noteq> PersistentVolumeClaims \<Longrightarrow> r \<noteq> StorageClasses \<Longrightarrow> deleted r es = []"
    by (simp add: deleted_def list_all_iff)
qed

lemma dials_quiet: "dials c ctx ip res es \<Longrightarrow>
    sent r es = [] \<and> created r es = [] \<and> deleted r es = [] \<and> creations es = [] \<and> deletions es = []"
  by (auto simp: dials_def split: if_splits)

lemma pod_reads_quiet:
  "sent r (map (pod_read cfg ctx n) as) = []" "created r (map (pod_read cfg ctx n) as) = []"
  "deleted r (map (pod_read cfg ctx n) as) = []" "creations (map (pod_read cfg ctx n) as) = []"
  "deletions (map (pod_read cfg ctx n) as) = []"
  by (induction as) simp_all

lemma measured_quiet: "measured cfg ctx n d p es \<Longrightarrow>
    sent r es = [] \<and> created r es = [] \<and> deleted r es = [] \<and> creations es = [] \<and> deletions es = []"
  by (induction rule: measured.induct) (simp add: pod_reads_quiet)

lemma synthetic_pod_path_quiet: "synthetic_pod_path c cfg ctx n res es \<Longrightarrow>
    sent r es = [] \<and> created r es = [] \<and> deleted r es = [] \<and> creations es = [] \<and> deletions es = []"
  by (induction rule: synthetic_pod_path.induct)
    (auto simp: pod_reads_quiet measured_quiet [where r = r] dials_quiet [where r = r])

lemma provision_path_quiet: "provision_path cfg ctx np res es \<Longrightarrow>
    sent Pods es = [] \<and> created Pods es = [] \<and> deleted r es = [] \<and> deletions es = []
    \<and> (res = None \<longrightarrow> created NodePools es = (if psc_node_provisioning cfg then [om_name (np_meta np)] else []))
    \<and> [x \<leftarrow> creations es. fst (fst x) = PersistentVolumeClaims \<or> fst (fst x) = StorageClasses] = []"
  by (induction rule: provision_path.induct) auto

lemma cleans_pod_quiet: "cleans_pod cfg ctx n np es \<Longrightarrow>
    sent r es = [] \<and> created r es = [] \<and> creations es = []
    \<and> deleted Pods es = [n] \<and> deleted NodePools es = (if psc_node_provisioning cfg then [np] else [])"
  by (auto simp: cleans_pod_def)

section \<open>The checker meets its interfaces\<close>

lemma silent_PodStartup_check: "silent (PodStartup_check env c cfg ctx)"
proof -
  have gc: "performs (\<lambda>e. inc_of e = []) (PodStartup_garbageCollect env c cfg ctx)"
    by (rule performs_mono [OF performs_PodStartup_garbageCollect]) (auto elim: collecting.elims)
  show ?thesis
    unfolding silent_def PodStartup_check_def check_with_csi_def provision_node_pool_def check_synthetic_pod_def
      pollPodCreationToContainerRunningDuration_def poll_attempt_def getImagePullDuration_def getSyntheticPodIP_def createTCPConnection_def
      DialContext_def cleanup_pod_def Let_def
    by (intro performs_intros gc) simp_all
qed

interpretation pod_startup_checker: recording_checker "psk_name c" CheckTypePodStartup "PodStartupChecker_run env c cfg"
  for env c cfg
  unfolding PodStartupChecker_run_def
  by (rule recording_checker_check_and_record) (rule silent_PodStartup_check)

abbreviation pods_guarded :: "pod_startup_checker \<Rightarrow> pod_startup_config \<Rightarrow> history \<Rightarrow> bool" where
  "pods_guarded c cfg \<equiv> guarded Pods (psc_namespace cfg) (syntheticPodLabels c cfg) (sint (psc_max_pods cfg))"

lemma with_csi_path_guarded:
  assumes "with_csi_path c cfg ctx ts r es" "sent Pods pre = []" "sent Pods post = []"
  shows "pods_guarded c cfg (pre @ es @ post)"
  using assms
proof (induction rule: with_csi_path.induct)
  case (pod_refused obs es e)
  then show ?case
    by (intro guardedI [where pre = pre and mid = es and create = "create_pod c cfg ctx ts (Inl e)" and post = post])
      (simp_all add: provision_path_quiet)
next
  case (pod_created obs es p r es' es'')
  then show ?case
    by (intro guardedI [where pre = pre and mid = es and create = "create_pod c cfg ctx ts (Inr (PodObj p))"
          and post = "es' @ es'' @ post"])
      (simp_all add: provision_path_quiet synthetic_pod_path_quiet cleans_pod_quiet)
qed (auto simp: guarded_def provision_path_quiet)

lemma pod_startup_path_guarded:
  assumes "pod_startup_path c cfg ctx r path" "sent Pods gc = []"
  shows "pods_guarded c cfg (gc @ path @ [EvInc CheckerResultCounter ls])"
  using assms
proof (induction rule: pod_startup_path.induct)
  case (csi_created lim t es r es' es'' derr)
  have "sent Pods (gc @ EvNow t # lim @ es) = []" "sent Pods (es'' @ [EvInc CheckerResultCounter ls]) = []"
    using csi_created by (simp_all add: storage_phases_quiet)
  from with_csi_path_guarded [OF csi_created(4) this] show ?case by simp
qed (simp_all add: guarded_def storage_phases_quiet)

interpretation pod_creator: limited_creator "PodStartupChecker_run env c cfg" Pods "psc_namespace cfg"
  "syntheticPodLabels c cfg" "sint (psc_max_pods cfg)" for env c cfg
  unfolding PodStartupChecker_run_def check_and_record_def
  by (unfold_locales, rule emits_bind, rule emits_conseq [OF emits_PodStartup_check], rule emits_RecordResult)
    (elim exE conjE, simp add: pod_startup_path_guarded collecting_quiet)

lemma admits_PodStartupChecker_run:
  assumes "faithful_listing Pods (psc_namespace cfg) (syntheticPodLabels c cfg) (env_pod_list env)"
  shows "admits (shows_live Pods (psc_namespace cfg) (syntheticPodLabels c cfg)) (PodStartupChecker_run env c cfg ctx)"
proof -
  let ?A = "shows_live Pods (psc_namespace cfg) (syntheticPodLabels c cfg)"
  note other = admits_performs [where A = ?A]
  have sc: "performs (\<lambda>e. \<forall>h. ?A h e) (pvc_list env ctx ns opts)" "performs (\<lambda>e. \<forall>h. ?A h e) (sc_list env ctx opts)"
    "performs (\<lambda>e. \<forall>h. ?A h e) (nodepool_list env ctx opts)" "performs (\<lambda>e. \<forall>h. ?A h e) (event_list env ctx ns opts)"
    "performs (\<lambda>e. \<forall>h. ?A h e) (nodepool_convert env np)" "performs (\<lambda>e. \<forall>h. ?A h e) (nodepool_create env ctx np)"
    "performs (\<lambda>e. \<forall>h. ?A h e) (dial env ctx' nw addr)" "performs (\<lambda>e. \<forall>h. ?A h e) (add_known_types nw addr)"
    "performs (\<lambda>e. \<forall>h. ?A h e) (crd_get env ctx n)" "performs (\<lambda>e. \<forall>h. ?A h e) (checkCSIResourceLimit env c cfg ctx)"
    "performs (\<lambda>e. \<forall>h. ?A h e) (createCSIResources env c cfg ctx ts)"
    "performs (\<lambda>e. \<forall>h. ?A h e) (deleteCSIResources env c cfg ctx ts)" for ns opts np nw addr n ts ctx'
    by (intro performs_intros; simp split: sum.splits)+
  show ?thesis
    unfolding PodStartupChecker_run_def check_and_record_def PodStartup_check_def check_with_csi_def provision_node_pool_def
      check_synthetic_pod_def pollPodCreationToContainerRunningDuration_def poll_attempt_def getImagePullDuration_def
      getSyntheticPodIP_def createTCPConnection_def DialContext_def cleanup_pod_def Let_def PodStartup_garbageCollect_def
      syntheticPodGarbageCollection_def persistentVolumeClaimGarbageCollection_def storageClassGarbageCollection_def
      delete_if_older_def deleteAllKarpenterNodePools_def delete_listed_node_pool_def isKarpenterNodePoolCRDPresent_def
      createKarpenterNodePool_def deleteKarpenterNodePool_def
    by (intro admits_intros admits_pod_list assms sc [THEN other])
qed

section \<open>Properties\<close>

text \<open>
  C9: A check of the pod startup checker first collects leftovers, by the reports of its four collectors,
  and then follows its protocol: the timestamp, the limits on storage, the CSI resources, the pod limit,
  the node pool, the pod, the measurement, and the clean-ups in reverse order of the creations, with the
  requests and the result that each path prescribes, whatever the cluster answers. In particular nothing
  is created after a limit check that failed.
\<close>

theorem podstartup_protocol:
  "emits (PodStartup_check env c cfg ctx)
     (\<lambda>r es. \<exists>gc_err gc path. es = gc @ path \<and> startup_collection c cfg ctx gc_err gc \<and> list_all collecting gc
        \<and> pod_startup_path c cfg ctx r path)"
  by (rule emits_PodStartup_check)

text \<open>
  C13: After the pod exists, the check polls until a container runs, subtracts the image pull time,
  compares the rounded startup time with the limit, reads the pod's address and connects to it; it is
  healthy on exactly one path, where every step succeeded and the startup was faster than the limit.
\<close>

theorem podstartup_measurement:
  "emits (check_synthetic_pod env c cfg ctx n) (synthetic_pod_path c cfg ctx n)"
  by (rule emits_check_synthetic_pod)

abbreviation is_storage :: "(resource \<times> string) \<times> bool \<Rightarrow> bool" where
  "is_storage x \<equiv> fst (fst x) = PersistentVolumeClaims \<or> fst (fst x) = StorageClasses"

lemma storage_creations_only: "list_all (storage_creation c cfg ctx ts) es \<Longrightarrow> filter is_storage (creations es) = creations es"
proof -
  have "list_all is_storage (creation_of e)" if "storage_creation c cfg ctx ts e" for e
    using that by (cases e) (auto simp: storage_objects_def)
  then show "list_all (storage_creation c cfg ctx ts) es \<Longrightarrow> filter is_storage (creations es) = creations es"
    by (auto simp: filter_id_conv creations_def list_all_iff)
qed

lemma with_csi_path_cleanup:
  assumes "with_csi_path c cfg ctx ts r es"
  shows "filter is_storage (creations es) = []"
    "created Pods es = [] \<or> (\<exists>n pool pre np. created Pods es = [n]
       \<and> created NodePools es = (if psc_node_provisioning cfg then [pool] else [])
       \<and> es = pre @ np \<and> cleans_pod cfg ctx n pool np)"
    "deleted NodePools es = (if psc_node_provisioning cfg then map (\<lambda>_. node_pool_name c ts) (created Pods es) else [])"
  using assms
proof (induction rule: with_csi_path.induct)
  case (pod_created obs es p r es' es'')
  note quiet = provision_path_quiet [OF pod_created(2)] synthetic_pod_path_quiet [OF pod_created(3)] cleans_pod_quiet [OF pod_created(4)]
  {
    case 1
    show ?case using quiet by simp
  next
    case 2
    have "list_pods c cfg ctx (Inr obs) # es @ create_pod c cfg ctx ts (Inr (PodObj p)) # es' @ es''
      = (list_pods c cfg ctx (Inr obs) # es @ create_pod c cfg ctx ts (Inr (PodObj p)) # es') @ es''" by simp
    then show ?case using quiet pod_created(4)
      by (intro disjI2 exI [of _ "om_name (pod_meta p)"] exI [of _ "node_pool_name c ts"]
          exI [of _ "list_pods c cfg ctx (Inr obs) # es @ create_pod c cfg ctx ts (Inr (PodObj p)) # es'"] exI [of _ es''])
        (simp add: karpenterNodePool_def new_meta_def)
  next
    case 3
    show ?case using quiet by simp
  }
qed (auto simp: provision_path_quiet)

text \<open>
  C1: A check creates at most one pod. If it created one, then it created one node pool when node
  provisioning is tested and none otherwise, and on every path after the pod's creation the last calls of
  the run delete that pod, then the node pool it created, and then work through the names of exactly the
  CSI resources that this run created.
\<close>

theorem podstartup_cleans_up:
  "emits (PodStartup_check env c cfg ctx)
     (\<lambda>_ es. created Pods es = [] \<or>
        (\<exists>n pool pre np csi names err. created Pods es = [n]
           \<and> created NodePools es = (if psc_node_provisioning cfg then [pool] else [])
           \<and> es = pre @ np @ csi \<and> cleans_pod cfg ctx n pool np
           \<and> filter is_storage (creations es) = map (\<lambda>x. (x, True)) names
           \<and> progress (map Some names) (deletions csi) (err :: gerror option)))"
proof (rule emits_conseq [OF emits_PodStartup_check], elim exE conjE)
  fix r es gc_err gc path
  assume es: "es = gc @ path" and gc: "list_all collecting gc" and path: "pod_startup_path c cfg ctx r path"
  from path show "created Pods es = [] \<or>
        (\<exists>n pool pre np csi names err. created Pods es = [n]
           \<and> created NodePools es = (if psc_node_provisioning cfg then [pool] else [])
           \<and> es = pre @ np @ csi \<and> cleans_pod cfg ctx n pool np
           \<and> filter is_storage (creations es) = map (\<lambda>x. (x, True)) names
           \<and> progress (map Some names) (deletions csi) (err :: gerror option))"
  proof cases
    case (csi_created lim t es1 es2 es3 derr)
    obtain names where names: "csi_plans (timestamp t) cfg = map Some names" "creations es1 = map (\<lambda>x. (x, True)) names"
      using csi_created(4) by (rule progress_NoneE)
    have eqs: "created Pods es = created Pods es2" "created NodePools es = created NodePools es2"
      "filter is_storage (creations es) = map (\<lambda>x. (x, True)) names"
      using csi_created gc names storage_creations_only [OF csi_created(3)] with_csi_path_cleanup(1) [OF csi_created(5)]
      by (simp_all add: es collecting_quiet storage_phases_quiet)
    from with_csi_path_cleanup(2) [OF csi_created(5)]
    consider "created Pods es2 = []"
      | n pool pre np where "created Pods es2 = [n]" "created NodePools es2 = (if psc_node_provisioning cfg then [pool] else [])"
        "es2 = pre @ np" "cleans_pod cfg ctx n pool np"
      by blast
    then show ?thesis
    proof cases
      case 2
      then have "es = (gc @ EvNow t # lim @ es1 @ pre) @ np @ es3" by (simp add: es csi_created(1))
      moreover have "created Pods es = [n]" "created NodePools es = (if psc_node_provisioning cfg then [pool] else [])"
        using 2 eqs by simp_all
      moreover have "progress (map Some names) (deletions es3) derr" using csi_created(7) names by simp
      ultimately show ?thesis using 2(4) eqs(3)
        by (intro disjI2 exI [of _ n] exI [of _ pool] exI [of _ "gc @ EvNow t # lim @ es1 @ pre"]
            exI [of _ np] exI [of _ es3] exI [of _ names] exI [of _ derr] conjI)
    qed (simp add: eqs)
  qed (auto simp: es gc collecting_quiet storage_phases_quiet)
qed


text \<open>
  C3: However many times the checker runs, the number of its live synthetic pods never exceeds the
  configured maximum, when a listing by its labels shows at least the pods that the history has created
  and not deleted.
\<close>

theorem podstartup_pod_limit:
  assumes "faithful_listing Pods (psc_namespace cfg) (syntheticPodLabels c cfg) (env_pod_list env)"
    and "int (length (live Pods (psc_namespace cfg) (syntheticPodLabels c cfg) h)) \<le> sint (psc_max_pods cfg)"
  shows "int (length (live Pods (psc_namespace cfg) (syntheticPodLabels c cfg)
           (snd (run_state (run_all (PodStartupChecker_run env c cfg) ctxs) h)))) \<le> sint (psc_max_pods cfg)"
  by (rule pod_creator.runs_within_limit [OF admits_PodStartupChecker_run [OF assms(1)] assms(2)])

text \<open>
  C18: The two readings of the measurement. An attempt of the polling reads the pod once and is the time
  from its creation to the start of the first of its containers, in the order of the statuses, that runs;
  a failed read or a pod without a running container asks for another attempt. The pull time is that of
  the first event of the pod about a pull (parsed) or an image already present (zero); without such an
  event, or without the listing, it is an error.
\<close>

theorem podstartup_readings:
  "emits (poll_attempt env cfg ctx n)
     (\<lambda>r es. \<exists>answer. es = [EvGet Pods ctx (psc_namespace cfg) n (map_sum id (Some \<circ> PodObj) answer)] \<and>
        (case r of
           None \<Rightarrow> (case answer of Inl _ \<Rightarrow> True
             | Inr p \<Rightarrow> list_all (\<lambda>s. cs_running_started_at s = None) (pst_container_statuses (pod_status_of p)))
         | Some d \<Rightarrow> \<exists>p pre s post t. answer = Inr p \<and> pst_container_statuses (pod_status_of p) = pre @ s # post
             \<and> list_all (\<lambda>s. cs_running_started_at s = None) pre \<and> cs_running_started_at s = Some t
             \<and> d = time_sub t (om_created (pod_meta p))))
   \<and> emits (getImagePullDuration env cfg ctx n)
     (\<lambda>r es. \<exists>answer. es = [list_pull_events cfg ctx n answer] \<and>
        (case answer of
           Inl e \<Rightarrow> r = Inl (Wrapf ''failed to list events for pod %s: %w'' [ArgStr n] (ApiErr e))
         | Inr evs \<Rightarrow>
             (list_all (\<lambda>ev. (pulled ev \<or> present ev) = False) evs
                \<and> r = Inl (Errorf ''no image pull events found for pod %s'' [ArgStr n]))
             \<or> (\<exists>pre ev post. evs = pre @ ev # post \<and> list_all (\<lambda>ev. (pulled ev \<or> present ev) = False) pre
                \<and> (pulled ev \<or> present ev) \<and> r = (if pulled ev then parseImagePullDuration (ev_message ev) else Inr 0))))"
proof (rule conjI, goal_cases)
  case 1
  show ?case by (rule emits_poll_attempt, rule exI, rule conjI [OF refl observed_cases])
next
  case 2
  show ?case
  proof (rule emits_getImagePullDuration, rule exI, rule conjI [OF refl], goal_cases)
    case (1 answer)
    show ?case
    proof (cases answer)
      case (Inr evs)
      show ?thesis unfolding Inr sum.case by (rule pull_reported_cases)
    qed simp
  qed
qed

lemma round_half_away_ge:
  fixes x N :: int
  assumes "0 < N"
  shows "N * 1000000000 \<le> round_half_away x 1000000000 \<longleftrightarrow> (2 * N - 1) * 1000000000 \<le> 2 * x"
proof (cases "0 < x")
  case True
  define q where "q = (2 * x + 1000000000) div 2000000000"
  have r: "round_half_away x 1000000000 = q * 1000000000" using True by (simp add: round_half_away_def q_def)
  have q: "q * 2000000000 \<le> 2 * x + 1000000000" "2 * x + 1000000000 < (q + 1) * 2000000000"
    using div_mult_mod_eq [of "2 * x + 1000000000" 2000000000] pos_mod_bound [of 2000000000 "2 * x + 1000000000"]
      pos_mod_sign [of 2000000000 "2 * x + 1000000000"] unfolding q_def [symmetric] by (simp_all add: algebra_simps)
  show ?thesis
  proof (cases "N \<le> q")
    case True
    with q show ?thesis by (simp add: r algebra_simps)
  next
    case False
    with q show ?thesis by (simp add: r algebra_simps)
  qed
next
  case False
  then have "sgn x \<le> 0" "0 \<le> (2 * \<bar>x\<bar> + 1000000000) div 2000000000" by (simp_all add: sgn_if)
  then have "round_half_away x 1000000000 \<le> 0" by (simp add: round_half_away_def mult_nonpos_nonneg)
  then have "\<not> N * 1000000000 \<le> round_half_away x 1000000000" using assms by linarith
  moreover have "\<not> (2 * N - 1) * 1000000000 \<le> 2 * x" using assms False by (simp add: algebra_simps)
  ultimately show ?thesis by blast
qed

text \<open>The measured readings are determined by the trace.\<close>

lemma pod_reads_split:
  assumes "map (pod_read cfg ctx n) xs @ e # es = map (pod_read cfg ctx n) ys @ e' # es'"
    and "\<And>a. e \<noteq> pod_read cfg ctx n a" "\<And>a. e' \<noteq> pod_read cfg ctx n a"
  shows "xs = ys \<and> e = e' \<and> es = es'"
  using assms(1)
proof (induction xs arbitrary: ys)
  case Nil
  then show ?case using assms(2) by (cases ys) (simp_all only: list.map append_Nil append_Cons list.inject, blast)
next
  case (Cons x xs)
  have inj: "map_sum id (Some \<circ> PodObj) a = map_sum id (Some \<circ> PodObj) b \<longleftrightarrow> a = b" for a b :: "api_error + pod"
    by (cases a; cases b) auto
  show ?case
  proof (cases ys)
    case Nil
    with Cons.prems have "e' = pod_read cfg ctx n x" by (simp only: list.map append_Nil append_Cons list.inject)
    with assms(3) show ?thesis by blast
  next
    case (Cons y ys')
    with Cons.prems have "map_sum id (Some \<circ> PodObj) x = map_sum id (Some \<circ> PodObj) y"
      "map (pod_read cfg ctx n) xs @ e # es = map (pod_read cfg ctx n) ys' @ e' # es'"
      by (simp_all only: list.map append_Cons list.inject event.inject)
    with Cons.IH [OF this(2)] inj [of x y] show ?thesis by (simp add: Cons)
  qed
qed

lemma pod_reads_only:
  assumes "map (pod_read cfg ctx n) xs = map (pod_read cfg ctx n) ys @ e # es"
  shows "\<exists>a. e = pod_read cfg ctx n a"
proof -
  from assms have "e \<in> set (map (pod_read cfg ctx n) xs)" by simp
  then show ?thesis by auto
qed

lemma polled_unique: "polled k xs (Some d) \<Longrightarrow> polled k xs (Some d') \<Longrightarrow> d = d'"
  by (auto simp: polled_def)

lemma list_pull_events_inj: "map_sum id (map EventObj) a = map_sum id (map EventObj) b \<longleftrightarrow> a = b"
proof -
  have "inj EventObj" by (auto intro: injI)
  then show ?thesis by (cases a; cases b) (auto simp: inj_map_eq_map)
qed

lemma measured_unique:
  assumes "measured cfg ctx n d p es" "measured cfg ctx n d' p' es'" "es @ xs = es' @ xs'"
  shows "d = d' \<and> p = p' \<and> xs = xs'"
  using assms(1)
proof cases
  case m: (1 k as evs e)
  from assms(2) show ?thesis
  proof cases
    case m': (1 k' as' evs' e')
    from assms(3) have k: "k = k'" and "map (pod_read cfg ctx n) as @ list_pull_events cfg ctx n (Inr evs) # xs
        = map (pod_read cfg ctx n) as' @ list_pull_events cfg ctx n (Inr evs') # xs'"
      by (simp_all add: m(1) m'(1))
    from pod_reads_split [OF this(2)] have "as = as'" "map EventObj evs = map EventObj evs'" "xs = xs'" by simp_all
    with list_pull_events_inj [of "Inr evs" "Inr evs'"] k m m' polled_unique show ?thesis by auto
  qed
qed

lemma measured_verdict:
  assumes "synthetic_pod_path c cfg ctx n r (m @ rest)" "measured cfg ctx n running pull m"
  shows "r = Inr (Unhealthy ErrCodePodStartupDurationExceeded (Msg ''pod exceeded the maximum healthy startup duration''))
      \<longleftrightarrow> psc_startup_timeout cfg \<le>s startup_duration running pull"
    and "rest = [] \<longleftrightarrow> psc_startup_timeout cfg \<le>s startup_duration running pull"
proof -
  obtain k as evs e where m: "m = EvPoll ctx pollingInterval k e # map (pod_read cfg ctx n) as @ [list_pull_events cfg ctx n (Inr evs)]"
    and pull: "pull_reported n evs = Inr pull" using assms(2) by cases
  note verdicts = Unhealthy_def Healthy_def tcp_verdict_def ErrCodePodStartupDurationExceeded_def ErrCodeRequestTimeout_def
    ErrCodeRequestFailed_def
  have "(r = Inr (Unhealthy ErrCodePodStartupDurationExceeded (Msg ''pod exceeded the maximum healthy startup duration''))
      \<longleftrightarrow> psc_startup_timeout cfg \<le>s startup_duration running pull)
    \<and> (rest = [] \<longleftrightarrow> psc_startup_timeout cfg \<le>s startup_duration running pull)"
    using assms(1)
  proof cases
    case (never_running k as' e)
    then have "map (pod_read cfg ctx n) as' = map (pod_read cfg ctx n) as @ list_pull_events cfg ctx n (Inr evs) # rest"
      by (simp add: m)
    from pod_reads_only [OF this] show ?thesis by simp
  next
    case (events_unknown k as' running e' e)
    then show ?thesis
      using pod_reads_split [where xs = as and ys = as' and cfg = cfg and ctx = ctx and n = n and e = "list_pull_events cfg ctx n (Inr evs)"
          and e' = "list_pull_events cfg ctx n (Inl e')" and es = rest and es' = "[]"]
      by (simp add: m)
  next
    case (pull_unknown k as' running evs' err e)
    then have "map EventObj evs = map EventObj evs'"
      using pod_reads_split [where xs = as and ys = as' and cfg = cfg and ctx = ctx and n = n and e = "list_pull_events cfg ctx n (Inr evs)"
          and e' = "list_pull_events cfg ctx n (Inr evs')" and es = rest and es' = "[]"]
      by (simp add: m)
    then show ?thesis using list_pull_events_inj [of "Inr evs" "Inr evs'"] pull pull_unknown by simp
  next
    case (too_slow running' pull')
    then show ?thesis using measured_unique [OF assms(2) too_slow(2), of rest "[]"] by simp
  next
    case (pod_unreadable running' pull' es e)
    then show ?thesis using measured_unique [OF assms(2) pod_unreadable(3), of rest] by (auto simp: word_sless_alt word_sle_eq)
  next
    case (no_address running' pull' es p)
    then show ?thesis using measured_unique [OF assms(2) no_address(3), of rest] by (auto simp: word_sless_alt word_sle_eq)
  next
    case (not_reachable running' pull' es p e es')
    then show ?thesis using measured_unique [OF assms(2) not_reachable(3), of rest]
      by (auto simp: word_sless_alt word_sle_eq verdicts)
  next
    case (reachable running' pull' es p es')
    then show ?thesis using measured_unique [OF assms(2) reachable(3), of rest]
      by (auto simp: word_sless_alt word_sle_eq verdicts)
  qed
  then show "r = Inr (Unhealthy ErrCodePodStartupDurationExceeded (Msg ''pod exceeded the maximum healthy startup duration''))
      \<longleftrightarrow> psc_startup_timeout cfg \<le>s startup_duration running pull"
    and "rest = [] \<longleftrightarrow> psc_startup_timeout cfg \<le>s startup_duration running pull" by simp_all
qed

lemma startup_limit_le:
  assumes "sint (psc_startup_timeout cfg) = N * 1000000000" and "0 < N"
    and "\<bar>t1 - t0\<bar> < 2 ^ 62" and "\<bar>sint pull\<bar> < 2 ^ 61"
  shows "psc_startup_timeout cfg \<le>s startup_duration (time_sub t1 t0) pull
    \<longleftrightarrow> (2 * N - 1) * 1000000000 \<le> 2 * (t1 - t0 - sint pull)"
proof -
  have "sint (time_sub t1 t0) = t1 - t0" using assms(3) by (simp add: time_sub_def sint_clamp64)
  then have d: "sint (time_sub t1 t0 - pull) = t1 - t0 - sint pull"
    using assms(3,4) by (subst sint_sub64) simp_all
  then have "sint (startup_duration (time_sub t1 t0) pull) = round_half_away (t1 - t0 - sint pull) 1000000000"
    using assms(3,4) by (subst sint_Duration_Round) simp_all
  moreover have "N * 1000000000 \<le> round_half_away x 1000000000 \<longleftrightarrow> (2 * N - 1) * 1000000000 \<le> 2 * x" for x :: int
    by (rule round_half_away_ge [OF assms(2)])
  ultimately show ?thesis using assms(1) by (simp add: word_sle_eq)
qed

text \<open>
  C19: With a limit of \<open>N\<close> whole seconds, the check of a pod whose container started \<open>t1 - t0\<close> after
  its creation and whose image took \<open>pull\<close> to pull is unhealthy as too slow exactly when the difference is at
  least \<open>N\<close> seconds less half a second, and then, and only then, it makes no further call: the comparison is
  on the duration rounded to seconds, half up, and a startup of exactly the limit is too slow. (The times
  are within 146 years of each other, so that the subtractions do not saturate or wrap.)
\<close>

theorem startup_limit_seconds:
  assumes "sint (psc_startup_timeout cfg) = N * 1000000000" and "0 < N"
    and "\<bar>t1 - t0\<bar> < 2 ^ 62" and "\<bar>sint pull\<bar> < 2 ^ 61"
    and "measured cfg ctx n (time_sub t1 t0) pull m"
    and "run_state (check_synthetic_pod env c cfg ctx n) h = (r, h @ m @ rest)"
  shows "(r = Inr (Unhealthy ErrCodePodStartupDurationExceeded (Msg ''pod exceeded the maximum healthy startup duration''))
      \<longleftrightarrow> (2 * N - 1) * 1000000000 \<le> 2 * (t1 - t0 - sint pull))
    \<and> (rest = [] \<longleftrightarrow> (2 * N - 1) * 1000000000 \<le> 2 * (t1 - t0 - sint pull))"
proof -
  have "synthetic_pod_path c cfg ctx n r (m @ rest)"
    using emits_run [OF emits_check_synthetic_pod, of c cfg ctx n env h] assms(6) by (simp add: outcome_def appended_def)
  from measured_verdict [OF this assms(5)] show ?thesis
    unfolding startup_limit_le [OF assms(1-4)] by simp
qed

text \<open>
  C23: The collection of a run consists of the pod collection, the node pool collection when node
  provisioning is tested, the claim collection and the storage class collection, in this order. Each of the
  three expiry collections lists once and deletes exactly the listed objects older than the checker's timeout
  at the clock reading made for each, and touches nothing else; the node pool collection lists by the label
  key and deletes every named pool. A failure of one does not stop the next, and the result joins the
  failures of all four.
\<close>

theorem podstartup_garbage_collection:
  "emits (PodStartup_garbageCollect env c cfg ctx) (startup_collection c cfg ctx)"
  by (rule emits_PodStartup_garbageCollect)

section \<open>A run on the sample cluster\<close>

definition sample_pod_config :: pod_startup_config where
  "sample_pod_config = \<lparr>psc_namespace = ''kube-system'', psc_label_key = ''checker'', psc_startup_timeout = 5000000000,
     psc_max_pods = 1, psc_tcp_timeout = 1000000000, psc_node_provisioning = True, psc_enabled_csis = [CSITypeAzureFile]\<rparr>"

definition sample_pod_checker :: pod_startup_checker where
  "sample_pod_checker = \<lparr>psk_name = ''Startup'', psk_config = Some sample_pod_config, psk_timeout = 60000000000,
     psk_dialer_timeout = 1000000000\<rparr>"

theorem podstartup_pod_limit_witness:
  "int (length (live Pods ''kube-system'' (syntheticPodLabels sample_pod_checker sample_pod_config)
     (snd (run_state (run_all (PodStartupChecker_run sample_cluster sample_pod_checker sample_pod_config) [Never, At 9000000000]) [])))) \<le> 1"
  using podstartup_pod_limit [of sample_pod_config sample_pod_checker sample_cluster "[]" "[Never, At 9000000000]",
      OF sample_cluster_lists_live(2)]
  by (simp add: sample_pod_config_def)

text \<open>The sample cluster with containers that start six seconds after the creation of their pod.\<close>

definition slow_cluster :: env where
  "slow_cluster = sample_cluster\<lparr>env_pod_get := (\<lambda>h ctx ns n. Inr ((sample_pod ns [] n)\<lparr>pod_status_of :=
     \<lparr>pst_container_statuses = [\<lparr>cs_running_started_at = Some 6000000000\<rparr>], pst_pod_ip = ''10.0.0.7''\<rparr>\<rparr>))\<rparr>"

definition slow_events :: history where
  "slow_events = EvPoll Never pollingInterval 2 deadline_error
     # map (pod_read sample_pod_config Never ''p'') [env_pod_get slow_cluster [] Never ''kube-system'' ''p'']
     @ [list_pull_events sample_pod_config Never ''p'' (Inr [\<lparr>ev_message = ''Container image already present on machine''\<rparr>])]"

lemma slow_run_measured: "measured sample_pod_config Never ''p'' (time_sub 6000000000 0) 0 slow_events"
  unfolding slow_events_def
proof (rule measured.intros)
  have "observed (env_pod_get slow_cluster [] Never ''kube-system'' ''p'') = Some (time_sub 6000000000 0)" by code_simp
  then show "polled 2 [env_pod_get slow_cluster [] Never ''kube-system'' ''p''] (Some (time_sub 6000000000 0))"
    by (simp add: polled_def)
  have "pull_duration_of_events ''p'' [\<lparr>ev_message = ''Container image already present on machine''\<rparr>] = Inr 0" by code_simp
  then show "pull_reported ''p'' [\<lparr>ev_message = ''Container image already present on machine''\<rparr>] = Inr 0"
    by (simp add: pull_duration_of_events_eq)
qed

theorem startup_limit_seconds_witness:
  "measured sample_pod_config Never ''p'' (time_sub 6000000000 0) 0 slow_events
   \<and> run_state (check_synthetic_pod slow_cluster sample_pod_checker sample_pod_config Never ''p'') []
       = (Inr (Unhealthy ErrCodePodStartupDurationExceeded (Msg ''pod exceeded the maximum healthy startup duration'')), slow_events)"
proof -
  let ?run = "run_state (check_synthetic_pod slow_cluster sample_pod_checker sample_pod_config Never ''p'') []"
  have events: "snd ?run = slow_events" by code_simp
  then have "?run = (fst ?run, [] @ slow_events @ [])" by (simp add: prod_eq_iff)
  from startup_limit_seconds [OF _ _ _ _ slow_run_measured this, of 5]
  have "fst ?run = Inr (Unhealthy ErrCodePodStartupDurationExceeded (Msg ''pod exceeded the maximum healthy startup duration''))"
    by (simp add: sample_pod_config_def)
  with events show ?thesis using slow_run_measured by (simp add: prod_eq_iff)
qed

lemma sample_pod_run:
  "outcome (PodStartup_check sample_cluster sample_pod_checker sample_pod_config Never) [] = Inr Healthy
   \<and> created Pods (snd (run_state (PodStartup_check sample_cluster sample_pod_checker sample_pod_config Never) [])) = [''startup-synthetic-4'']
   \<and> live Pods ''kube-system'' (syntheticPodLabels sample_pod_checker sample_pod_config)
       (snd (run_state (PodStartup_check sample_cluster sample_pod_checker sample_pod_config Never) [])) = []"
  by code_simp

end
