(* ===== verification/Scheduler.thy ===== *)
theory Scheduler
  imports GoErrors "HOL-Library.Sublist"
begin

text \<open>
  The scheduler (\<^verbatim>\<open>pkg/scheduler\<close>) as a transition system. \<^verbatim>\<open>Start\<close> launches one goroutine per
  schedule, a worker; a worker owns a ticker with a channel of one slot and loops over a
  \<^verbatim>\<open>select\<close> between the ticker and the end of the context. The steps of the workers interleave in
  any order; a step is a firing of a ticker, or a step of the loop. Time passes in steps of its own.
  How long a run of a checker takes is not bounded here: \<open>finish\<close> may come at any later time.
\<close>

record 'c checker_schedule =
  cs_interval :: duration
  cs_timeout :: duration
  cs_checker :: 'c

text \<open>
  Where a worker is: not launched yet, in the \<^verbatim>\<open>select\<close>, in a run (started at a time, with a
  context), or returned with the context's error.
\<close>

datatype phase = NotLaunched | Selecting | InRun time gctx | Stopped sentinel

record worker =
  w_phase :: phase
  w_launched :: time
  w_tick :: bool                          \<comment> \<open>a tick waits in the channel\<close>
  w_next :: time                          \<comment> \<open>when the ticker fires next\<close>
  w_fired :: nat
  w_finished :: "(time \<times> time) list"     \<comment> \<open>finished runs, latest first\<close>

record scheduler_state =
  ss_clock :: time
  ss_ended :: "sentinel option"           \<comment> \<open>\<^verbatim>\<open>ctx.Err()\<close> once the context has ended\<close>
  ss_workers :: "worker list"

definition new_worker :: worker where
  "new_worker = \<lparr>w_phase = NotLaunched, w_launched = 0, w_tick = False, w_next = 0, w_fired = 0, w_finished = []\<rparr>"

definition NewScheduler :: "'c checker_schedule list \<Rightarrow> time \<Rightarrow> scheduler_state" where
  "NewScheduler chkSchedules now =
     \<lparr>ss_clock = now, ss_ended = None, ss_workers = replicate (length chkSchedules) new_worker\<rparr>"

section \<open>The steps of a worker\<close>

text \<open>
  \<^verbatim>\<open>time.NewTicker\<close>; a tick (a full channel drops it; the runtime skips the periods that have
  passed); the two branches of the \<^verbatim>\<open>select\<close>; the end of a run.
\<close>

definition launch :: "'c checker_schedule \<Rightarrow> time \<Rightarrow> worker \<Rightarrow> worker" where
  "launch cs now w = w\<lparr>w_phase := Selecting, w_launched := now, w_next := now + sint (cs_interval cs)\<rparr>"

definition fire :: "'c checker_schedule \<Rightarrow> time \<Rightarrow> worker \<Rightarrow> worker" where
  "fire cs now w = w\<lparr>w_tick := True, w_fired := Suc (w_fired w),
     w_next := w_next w + sint (cs_interval cs) * (1 + (now - w_next w) div sint (cs_interval cs))\<rparr>"

definition begin_run :: "'c checker_schedule \<Rightarrow> gctx \<Rightarrow> time \<Rightarrow> worker \<Rightarrow> worker" where
  "begin_run cs ctx now w = w\<lparr>w_tick := False, w_phase := InRun now (deadline_after ctx now (cs_timeout cs))\<rparr>"

definition finish_run :: "time \<Rightarrow> time \<Rightarrow> worker \<Rightarrow> worker" where
  "finish_run started now w = w\<lparr>w_phase := Selecting, w_finished := (started, now) # w_finished w\<rparr>"

inductive worker_step ::
    "'c checker_schedule \<Rightarrow> gctx \<Rightarrow> time \<Rightarrow> sentinel option \<Rightarrow> worker \<Rightarrow> worker \<Rightarrow> bool"
  for cs ctx now ended
where
  step_launch: "w_phase w = NotLaunched \<Longrightarrow> worker_step cs ctx now ended w (launch cs now w)"
| step_fire: "w_phase w \<noteq> NotLaunched \<Longrightarrow> (\<And>e. w_phase w \<noteq> Stopped e) \<Longrightarrow> w_next w \<le> now \<Longrightarrow>
    worker_step cs ctx now ended w (fire cs now w)"
| step_begin: "w_phase w = Selecting \<Longrightarrow> w_tick w \<Longrightarrow> worker_step cs ctx now ended w (begin_run cs ctx now w)"
| step_finish: "w_phase w = InRun started runCtx \<Longrightarrow> worker_step cs ctx now ended w (finish_run started now w)"
| step_stop: "w_phase w = Selecting \<Longrightarrow> ended = Some e \<Longrightarrow> worker_step cs ctx now ended w (w\<lparr>w_phase := Stopped e\<rparr>)"

inductive scheduler_step ::
    "'c checker_schedule list \<Rightarrow> gctx \<Rightarrow> scheduler_state \<Rightarrow> scheduler_state \<Rightarrow> bool"
  for css ctx
where
  pass_time: "ss_clock s \<le> t \<Longrightarrow> scheduler_step css ctx s (s\<lparr>ss_clock := t\<rparr>)"
| end_context: "ss_ended s = None \<Longrightarrow> scheduler_step css ctx s (s\<lparr>ss_ended := Some e\<rparr>)"
| worker_moves: "i < length (ss_workers s) \<Longrightarrow>
    worker_step (css ! i) ctx (ss_clock s) (ss_ended s) (ss_workers s ! i) w' \<Longrightarrow>
    scheduler_step css ctx s (s\<lparr>ss_workers := (ss_workers s)[i := w']\<rparr>)"

inductive reachable :: "'c checker_schedule list \<Rightarrow> gctx \<Rightarrow> time \<Rightarrow> scheduler_state \<Rightarrow> bool" for css ctx t0 where
  reach_start: "reachable css ctx t0 (NewScheduler css t0)"
| reach_step: "reachable css ctx t0 s \<Longrightarrow> scheduler_step css ctx s s' \<Longrightarrow> reachable css ctx t0 s'"

text \<open>
  \<^verbatim>\<open>Start\<close> returns when every worker has (\<^verbatim>\<open>g.Wait\<close>), with the first error: \<open>None\<close> while it
  waits, \<open>Some err\<close> once it returned.
\<close>

definition stop_error :: "worker \<Rightarrow> gerror option" where
  "stop_error w = (case w_phase w of Stopped e \<Rightarrow> Some (Sentinel e) | _ \<Rightarrow> None)"

definition Start_result :: "scheduler_state \<Rightarrow> gerror option option" where
  "Start_result s =
     (if list_all (\<lambda>w. stop_error w \<noteq> None) (ss_workers s)
      then Some (case List.map_filter stop_error (ss_workers s) of [] \<Rightarrow> None | err # _ \<Rightarrow> Some err)
      else None)"

section \<open>Invariants\<close>

definition runs_started :: "worker \<Rightarrow> nat" where
  "runs_started w = length (w_finished w) + (case w_phase w of InRun _ _ \<Rightarrow> 1 | _ \<Rightarrow> 0)"

text \<open>The runs of a worker, latest first; the current run ends no earlier than now.\<close>

definition run_spans :: "time \<Rightarrow> worker \<Rightarrow> (time \<times> time) list" where
  "run_spans now w = (case w_phase w of InRun t _ \<Rightarrow> [(t, now)] | _ \<Rightarrow> []) @ w_finished w"

definition sequential :: "(time \<times> time) list \<Rightarrow> bool" where
  "sequential spans \<longleftrightarrow> list_all (\<lambda>(s, e). s \<le> e) spans \<and> sorted_wrt (\<lambda>(s, _) (_, e'). e' \<le> s) spans"

definition worker_inv :: "'c checker_schedule \<Rightarrow> gctx \<Rightarrow> time \<Rightarrow> worker \<Rightarrow> bool" where
  "worker_inv cs ctx now w \<longleftrightarrow>
     runs_started w + (if w_tick w then 1 else 0) \<le> w_fired w
     \<and> (w_phase w = NotLaunched \<longrightarrow> w_fired w = 0)
     \<and> (w_phase w \<noteq> NotLaunched \<longrightarrow>
          w_launched w \<le> now
          \<and> w_launched w + (int (w_fired w) + 1) * sint (cs_interval cs) \<le> w_next w
          \<and> int (w_fired w) * sint (cs_interval cs) \<le> now - w_launched w)
     \<and> sequential (run_spans now w)
     \<and> list_all (\<lambda>(_, e). e \<le> now) (run_spans now w)
     \<and> (case w_phase w of InRun t c \<Rightarrow> c = deadline_after ctx t (cs_timeout cs) | _ \<Rightarrow> True)"

lemma worker_inv_new: "worker_inv cs ctx now new_worker"
  by (simp add: worker_inv_def new_worker_def runs_started_def run_spans_def sequential_def)

lemma worker_inv_later:
  assumes "worker_inv cs ctx now w" "now \<le> t"
  shows "worker_inv cs ctx t w"
  using assms unfolding worker_inv_def run_spans_def sequential_def
  by (cases "w_phase w") (fastforce simp: list_all_iff)+

lemma fire_next:
  assumes "0 < sint (cs_interval cs)" "w_next w \<le> now"
  shows "w_next w + sint (cs_interval cs) \<le> w_next (fire cs now w)"
proof -
  have "0 \<le> (now - w_next w) div sint (cs_interval cs)" using assms by (simp add: pos_imp_zdiv_nonneg_iff)
  then have "sint (cs_interval cs) * 1 \<le> sint (cs_interval cs) * (1 + (now - w_next w) div sint (cs_interval cs))"
    using assms(1) by (intro mult_left_mono) auto
  then show ?thesis by (simp add: fire_def)
qed

lemma worker_inv_step:
  assumes "worker_step cs ctx now ended w w'" "worker_inv cs ctx now w" "0 < sint (cs_interval cs)"
  shows "worker_inv cs ctx now w'"
  using assms(1)
proof cases
  case step_launch
  then show ?thesis
    using assms(2) by (auto simp: worker_inv_def launch_def runs_started_def run_spans_def)
next
  case step_fire
  have "(int (w_fired w) + 1) * sint (cs_interval cs) \<le> now - w_launched w"
    using assms(2) step_fire unfolding worker_inv_def by linarith
  moreover have "w_launched w + (int (w_fired w) + 2) * sint (cs_interval cs) \<le> w_next (fire cs now w)"
    using assms(2) step_fire fire_next [OF assms(3) step_fire(4)] unfolding worker_inv_def by (simp add: algebra_simps)
  ultimately show ?thesis
    using assms(2) step_fire
    by (auto simp: worker_inv_def fire_def runs_started_def run_spans_def algebra_simps)
next
  case step_begin
  then show ?thesis
    using assms(2)
    by (auto simp: worker_inv_def begin_run_def runs_started_def run_spans_def sequential_def list_all_iff)
next
  case (step_finish started runCtx)
  then show ?thesis
    using assms(2) by (auto simp: worker_inv_def finish_run_def runs_started_def run_spans_def)
next
  case (step_stop e)
  then show ?thesis
    using assms(2) by (auto simp: worker_inv_def runs_started_def run_spans_def)
qed

definition scheduler_inv :: "'c checker_schedule list \<Rightarrow> gctx \<Rightarrow> scheduler_state \<Rightarrow> bool" where
  "scheduler_inv css ctx s \<longleftrightarrow>
     list_all2 (\<lambda>cs w. worker_inv cs ctx (ss_clock s) w) css (ss_workers s)
     \<and> list_all (\<lambda>w. \<forall>e. w_phase w = Stopped e \<longrightarrow> ss_ended s = Some e) (ss_workers s)"

lemma worker_step_stops:
  "worker_step cs ctx now ended w w' \<Longrightarrow> w_phase w' = Stopped e \<Longrightarrow> ended = Some e"
  by (induction rule: worker_step.induct)
    (auto simp: launch_def fire_def begin_run_def finish_run_def)

lemma scheduler_inv_step:
  assumes "scheduler_step css ctx s s'" "scheduler_inv css ctx s" "list_all (\<lambda>cs. 0 < sint (cs_interval cs)) css"
  shows "scheduler_inv css ctx s'"
  using assms(1)
proof cases
  case (pass_time t)
  then show ?thesis
    using assms(2) by (auto simp: scheduler_inv_def list_all2_conv_all_nth intro: worker_inv_later)
next
  case (end_context e)
  then show ?thesis
    using assms(2) by (auto simp: scheduler_inv_def list_all_iff)
next
  case (worker_moves i w')
  note inv = assms(2) [unfolded scheduler_inv_def]
  have len: "length css = length (ss_workers s)" using inv by (auto dest: list_all2_lengthD)
  have "worker_inv (css ! i) ctx (ss_clock s) w'"
    using worker_inv_step [OF worker_moves(3)] inv assms(3) worker_moves(2) len
    by (auto simp: list_all2_conv_all_nth list_all_length)
  then have "list_all2 (\<lambda>cs w. worker_inv cs ctx (ss_clock s) w) css ((ss_workers s)[i := w'])"
    using inv worker_moves(2) len by (auto simp: list_all2_conv_all_nth nth_list_update)
  moreover have "\<forall>e. w_phase w' = Stopped e \<longrightarrow> ss_ended s = Some e"
    using worker_step_stops [OF worker_moves(3)] by blast
  ultimately show ?thesis
    using inv worker_moves(1,2)
    by (auto simp: scheduler_inv_def list_all_length nth_list_update split: if_splits)
qed

lemma reachable_inv:
  assumes "reachable css ctx t0 s" "list_all (\<lambda>cs. 0 < sint (cs_interval cs)) css"
  shows "scheduler_inv css ctx s"
  using assms(1)
proof (induction rule: reachable.induct)
  case reach_start
  show ?case
    by (simp add: scheduler_inv_def NewScheduler_def list_all2_conv_all_nth worker_inv_new list_all_length)
      (simp add: new_worker_def)
next
  case (reach_step s s')
  then show ?case using scheduler_inv_step assms(2) by blast
qed

lemma reachable_worker:
  assumes "reachable css ctx t0 s" "list_all (\<lambda>cs. 0 < sint (cs_interval cs)) css" "i < length css"
  shows "worker_inv (css ! i) ctx (ss_clock s) (ss_workers s ! i)" "i < length (ss_workers s)"
  using reachable_inv [OF assms(1,2)] assms(3)
  by (auto simp: scheduler_inv_def list_all2_conv_all_nth)

section \<open>Start returns\<close>

text \<open>One worker can always be brought to its return once the context has ended.\<close>

lemma steps_trans: "scheduler_step css ctx s s' \<Longrightarrow> (scheduler_step css ctx)\<^sup>*\<^sup>* s' s'' \<Longrightarrow> (scheduler_step css ctx)\<^sup>*\<^sup>* s s''"
  by (rule converse_rtranclp_into_rtranclp)

lemma worker_can_stop:
  assumes "ss_ended s = Some e" "i < length (ss_workers s)"
  shows "\<exists>w'. (\<exists>e'. w_phase w' = Stopped e') \<and>
    (scheduler_step css ctx)\<^sup>*\<^sup>* s (s\<lparr>ss_workers := (ss_workers s)[i := w']\<rparr>)"
proof -
  let ?w = "ss_workers s ! i"
  let ?to = "\<lambda>w. s\<lparr>ss_workers := (ss_workers s)[i := w]\<rparr>"
  have move: "scheduler_step css ctx (?to w) (?to w')"
    if "worker_step (css ! i) ctx (ss_clock s) (ss_ended s) w w'" for w w'
    using worker_moves [of i "?to w" css ctx w'] that assms(2) by simp
  have self: "?to ?w = s" by simp
  have stop: "(scheduler_step css ctx)\<^sup>*\<^sup>* (?to w) (?to (w\<lparr>w_phase := Stopped e\<rparr>))" if "w_phase w = Selecting" for w
    using move [OF step_stop [OF that assms(1)]] by (rule r_into_rtranclp)
  have result: ?thesis if "(scheduler_step css ctx)\<^sup>*\<^sup>* s (?to (w\<lparr>w_phase := Stopped e\<rparr>))" for w
    using that by (intro exI [of _ "w\<lparr>w_phase := Stopped e\<rparr>"]) simp
  show ?thesis
  proof (cases "w_phase ?w")
    case NotLaunched
    have "scheduler_step css ctx s (?to (launch (css ! i) (ss_clock s) ?w))"
      using move [OF step_launch [OF NotLaunched]] by (simp add: self)
    moreover have "w_phase (launch (css ! i) (ss_clock s) ?w) = Selecting" by (simp add: launch_def)
    ultimately show ?thesis using result steps_trans stop by blast
  next
    case Selecting
    then show ?thesis using result [of ?w] stop [of ?w] by (simp add: self)
  next
    case (InRun t c)
    have "scheduler_step css ctx s (?to (finish_run t (ss_clock s) ?w))"
      using move [OF step_finish [OF InRun]] by (simp add: self)
    moreover have "w_phase (finish_run t (ss_clock s) ?w) = Selecting" by (simp add: finish_run_def)
    ultimately show ?thesis using result steps_trans stop by blast
  next
    case (Stopped e')
    then show ?thesis by (intro exI [of _ ?w]) (simp add: self)
  qed
qed

lemma workers_can_stop:
  assumes "ss_ended s = Some e" "n \<le> length (ss_workers s)"
  shows "\<exists>s'. (scheduler_step css ctx)\<^sup>*\<^sup>* s s' \<and> ss_ended s' = Some e \<and> length (ss_workers s') = length (ss_workers s)
    \<and> list_all (\<lambda>w. stop_error w \<noteq> None) (take n (ss_workers s'))"
  using assms(2)
proof (induction n)
  case 0
  then show ?case using assms(1) by auto
next
  case (Suc n)
  then obtain s' where s': "(scheduler_step css ctx)\<^sup>*\<^sup>* s s'" "ss_ended s' = Some e"
    "length (ss_workers s') = length (ss_workers s)" "list_all (\<lambda>w. stop_error w \<noteq> None) (take n (ss_workers s'))"
    by auto
  then have "n < length (ss_workers s')" using Suc.prems by simp
  then obtain w' e' where w': "w_phase w' = Stopped e'"
    "(scheduler_step css ctx)\<^sup>*\<^sup>* s' (s'\<lparr>ss_workers := (ss_workers s')[n := w']\<rparr>)"
    using worker_can_stop [OF s'(2), of n css ctx] by blast
  then have "(scheduler_step css ctx)\<^sup>*\<^sup>* s (s'\<lparr>ss_workers := (ss_workers s')[n := w']\<rparr>)"
    using s'(1) by (blast intro: rtranclp_trans)
  moreover have "list_all (\<lambda>w. stop_error w \<noteq> None) (take (Suc n) ((ss_workers s')[n := w']))"
    using s'(4) \<open>n < length (ss_workers s')\<close> w'(1) by (simp add: take_Suc_conv_app_nth stop_error_def)
  ultimately show ?case
    using s'(2,3) by (intro exI [of _ "s'\<lparr>ss_workers := (ss_workers s')[n := w']\<rparr>"]) simp
qed

section \<open>Properties\<close>

abbreviation positive_intervals :: "'c checker_schedule list \<Rightarrow> bool" where
  "positive_intervals css \<equiv> list_all (\<lambda>cs. 0 < sint (cs_interval cs)) css"

text \<open>A concrete execution: one checker every second; it ran once and the context then ended.\<close>

definition sample_schedules :: "unit checker_schedule list" where
  "sample_schedules = [\<lparr>cs_interval = Second, cs_timeout = Second, cs_checker = ()\<rparr>]"

definition sample_worker :: "phase \<Rightarrow> bool \<Rightarrow> time \<Rightarrow> nat \<Rightarrow> (time \<times> time) list \<Rightarrow> worker" where
  "sample_worker p tick next fired finished =
     \<lparr>w_phase = p, w_launched = 0, w_tick = tick, w_next = next, w_fired = fired, w_finished = finished\<rparr>"

definition sample_state :: "time \<Rightarrow> sentinel option \<Rightarrow> worker \<Rightarrow> scheduler_state" where
  "sample_state now ended w = \<lparr>ss_clock = now, ss_ended = ended, ss_workers = [w]\<rparr>"

lemma sample_worker_step:
  assumes "reachable sample_schedules ctx 0 (sample_state now ended w)"
    and "worker_step (sample_schedules ! 0) ctx now ended w w'"
  shows "reachable sample_schedules ctx 0 (sample_state now ended w')"
proof (rule reach_step [OF assms(1)])
  have "sample_state now ended w' = (sample_state now ended w)\<lparr>ss_workers := (ss_workers (sample_state now ended w))[0 := w']\<rparr>"
    by (simp add: sample_state_def)
  then show "scheduler_step sample_schedules ctx (sample_state now ended w) (sample_state now ended w')"
    using worker_moves [of 0 "sample_state now ended w" sample_schedules ctx w'] assms(2)
    by (simp add: sample_state_def)
qed

lemma sample_running:
  "reachable sample_schedules Never 0 (sample_state 1000000000 None
     (sample_worker (InRun 1000000000 (At 2000000000)) False 2000000000 1 []))"
proof -
  let ?cs = "sample_schedules ! 0"
  let ?reach = "\<lambda>now w. reachable sample_schedules Never 0 (sample_state now None w)"
  have step: "?reach now w'" if "?reach now w" "worker_step ?cs Never now None w w'" for now w w'
    using that by (rule sample_worker_step)
  have "?reach 0 new_worker"
    using reach_start [of sample_schedules Never 0] by (simp add: NewScheduler_def sample_schedules_def sample_state_def)
  then have "?reach 0 (launch ?cs 0 new_worker)"
    by (rule step) (rule step_launch, simp add: new_worker_def)
  moreover have launched: "launch ?cs 0 new_worker = sample_worker Selecting False 1000000000 0 []"
    by (simp add: launch_def new_worker_def sample_worker_def sample_schedules_def)
  ultimately have "?reach 0 (sample_worker Selecting False 1000000000 0 [])" by simp
  then have "?reach 1000000000 (sample_worker Selecting False 1000000000 0 [])"
    by (rule reach_step) (use pass_time [of "sample_state 0 None (sample_worker Selecting False 1000000000 0 [])" 1000000000]
      in \<open>simp add: sample_state_def\<close>)
  then have "?reach 1000000000 (fire ?cs 1000000000 (sample_worker Selecting False 1000000000 0 []))"
    by (rule step) (rule step_fire, simp_all add: sample_worker_def)
  then have "?reach 1000000000 (begin_run ?cs Never 1000000000 (fire ?cs 1000000000 (sample_worker Selecting False 1000000000 0 [])))"
    by (rule step) (rule step_begin, simp_all add: sample_worker_def fire_def)
  then show ?thesis
    by (simp add: begin_run_def fire_def sample_worker_def sample_schedules_def deadline_after_def min_def)
qed

text \<open>
  C11: A checker never runs more often than its interval allows: after a time \<open>d\<close> since its launch at
  most \<open>d\<close> divided by the interval runs have started, and never more runs than ticks were fired.
\<close>

theorem scheduler_rate:
  assumes "reachable css ctx t0 s" and "positive_intervals css" and "i < length css"
    and "w_phase (ss_workers s ! i) \<noteq> NotLaunched"
  shows "runs_started (ss_workers s ! i) \<le> w_fired (ss_workers s ! i)
    \<and> int (runs_started (ss_workers s ! i)) * sint (cs_interval (css ! i)) \<le> ss_clock s - w_launched (ss_workers s ! i)"
proof -
  let ?w = "ss_workers s ! i" and ?n = "sint (cs_interval (css ! i))"
  have inv: "runs_started ?w \<le> w_fired ?w" "int (w_fired ?w) * ?n \<le> ss_clock s - w_launched ?w"
    using reachable_worker(1) [OF assms(1-3)] assms(4) unfolding worker_inv_def by auto
  have "0 < ?n" using assms(2,3) by (simp add: list_all_length)
  then have "int (runs_started ?w) * ?n \<le> int (w_fired ?w) * ?n" using inv(1) by (intro mult_right_mono) auto
  with inv show ?thesis by linarith
qed

theorem scheduler_rate_witness:
  "reachable sample_schedules Never 0 (sample_state 1000000000 None
     (sample_worker (InRun 1000000000 (At 2000000000)) False 2000000000 1 []))
   \<and> int (runs_started (sample_worker (InRun 1000000000 (At 2000000000)) False 2000000000 1 [])) * 1000000000 \<le> 1000000000"
  using scheduler_rate [OF sample_running, of 0] sample_running by (simp add: sample_schedules_def sample_state_def sample_worker_def)

text \<open>
  C4: Runs of one checker never overlap: each run started after the previous one had finished.
\<close>

theorem scheduler_no_overlap:
  assumes "reachable css ctx t0 s" and "positive_intervals css" and "i < length css"
  shows "sequential (run_spans (ss_clock s) (ss_workers s ! i))"
  using reachable_worker(1) [OF assms] by (simp add: worker_inv_def)

theorem scheduler_no_overlap_witness:
  "reachable sample_schedules Never 0 (sample_state 1000000000 None
     (sample_worker (InRun 1000000000 (At 2000000000)) False 2000000000 1 []))
   \<and> sequential (run_spans 1000000000 (sample_worker (InRun 1000000000 (At 2000000000)) False 2000000000 1 []))"
  using scheduler_no_overlap [OF sample_running, of 0] sample_running by (simp add: sample_schedules_def sample_state_def)

text \<open>
  C28: Every run has a context that ends at its start plus the schedule's timeout, or earlier with the
  context of the scheduler.
\<close>

theorem scheduler_run_deadline:
  assumes "reachable css ctx t0 s" and "positive_intervals css" and "i < length css"
    and "w_phase (ss_workers s ! i) = InRun t c"
  shows "c = min ctx (At (t + sint (cs_timeout (css ! i)))) \<and> t \<le> ss_clock s"
  using reachable_worker(1) [OF assms(1-3)] assms(4)
  by (auto simp: worker_inv_def deadline_after_def run_spans_def sequential_def)

theorem scheduler_run_deadline_witness:
  "reachable sample_schedules Never 0 (sample_state 1000000000 None
     (sample_worker (InRun 1000000000 (At 2000000000)) False 2000000000 1 []))
   \<and> At 2000000000 = min Never (At (1000000000 + 1000000000))"
  using scheduler_run_deadline [OF sample_running, of 0 1000000000 "At 2000000000"] sample_running
  by (simp add: sample_schedules_def sample_state_def sample_worker_def)

text \<open>
  C30: Once the context has ended, \<open>Start\<close> can return from every state of the scheduler, whatever the
  workers are doing; it needs only that the runs in progress end.
\<close>

theorem scheduler_start_returns:
  assumes "ss_ended s = Some e"
  shows "\<exists>s'. (scheduler_step css ctx)\<^sup>*\<^sup>* s s' \<and> Start_result s' \<noteq> None"
  using workers_can_stop [OF assms order_refl, of css ctx] by (auto simp: Start_result_def)

theorem scheduler_start_returns_witness:
  "\<exists>s'. (scheduler_step sample_schedules Never)\<^sup>*\<^sup>* (sample_state 0 (Some Canceled) new_worker) s' \<and> Start_result s' \<noteq> None"
  using scheduler_start_returns [of "sample_state 0 (Some Canceled) new_worker" Canceled] by (simp add: sample_state_def)

text \<open>
  C29: When \<open>Start\<close> returns although there are checkers, the context has ended and the returned error is
  the context's: it never reports success and no other error.
\<close>

theorem scheduler_start_error:
  assumes "reachable css ctx t0 s" and "positive_intervals css" and "css \<noteq> []" and "Start_result s = Some r"
  shows "\<exists>e. ss_ended s = Some e \<and> r = Some (Sentinel e)"
proof -
  have inv: "scheduler_inv css ctx s" by (rule reachable_inv [OF assms(1,2)])
  then have "ss_workers s \<noteq> []" using assms(3) by (auto simp: scheduler_inv_def)
  then obtain w ws where ws: "ss_workers s = w # ws" by (cases "ss_workers s") auto
  have "stop_error w \<noteq> None" using assms(4) by (cases "stop_error w") (auto simp: Start_result_def ws)
  then obtain e where e: "w_phase w = Stopped e" by (auto simp: stop_error_def split: phase.splits)
  then have "ss_ended s = Some e" using inv by (auto simp: scheduler_inv_def ws)
  moreover have "stop_error w = Some (Sentinel e)" using e by (simp add: stop_error_def)
  then have "r = Some (Sentinel e)"
    using assms(4) by (auto simp: Start_result_def ws List.map_filter_simps split: if_splits)
  ultimately show ?thesis by blast
qed

lemma sample_stopped:
  "reachable sample_schedules Never 0 (sample_state 0 (Some Canceled) (sample_worker (Stopped Canceled) False 1000000000 0 []))"
proof -
  let ?cs = "sample_schedules ! 0"
  have "reachable sample_schedules Never 0 (sample_state 0 None new_worker)"
    using reach_start [of sample_schedules Never 0] by (simp add: NewScheduler_def sample_schedules_def sample_state_def)
  then have "reachable sample_schedules Never 0 (sample_state 0 (Some Canceled) new_worker)"
    by (rule reach_step) (use end_context [of "sample_state 0 None new_worker"] in \<open>simp add: sample_state_def\<close>)
  then have "reachable sample_schedules Never 0 (sample_state 0 (Some Canceled) (launch ?cs 0 new_worker))"
    by (rule sample_worker_step) (rule step_launch, simp add: new_worker_def)
  then have "reachable sample_schedules Never 0 (sample_state 0 (Some Canceled) ((launch ?cs 0 new_worker)\<lparr>w_phase := Stopped Canceled\<rparr>))"
    by (rule sample_worker_step) (rule step_stop, simp_all add: launch_def)
  then show ?thesis by (simp add: launch_def new_worker_def sample_worker_def sample_schedules_def)
qed

theorem scheduler_start_error_witness:
  "Start_result (sample_state 0 (Some Canceled) (sample_worker (Stopped Canceled) False 1000000000 0 []))
    = Some (Some (Sentinel Canceled))"
proof -
  let ?s = "sample_state 0 (Some Canceled) (sample_worker (Stopped Canceled) False 1000000000 0 [])"
  have "Start_result ?s \<noteq> None" by (simp add: Start_result_def sample_state_def sample_worker_def stop_error_def)
  then obtain r where r: "Start_result ?s = Some r" by blast
  then have "\<exists>e. ss_ended ?s = Some e \<and> r = Some (Sentinel e)"
    using scheduler_start_error [OF sample_stopped _ _ r] by (simp add: sample_schedules_def)
  with r show ?thesis by (simp add: sample_state_def)
qed

end
