(* ===== verification/MonitorMain.thy ===== *)
theory MonitorMain
  imports APIServer DNSCheck MetricsServer AzurePolicy PodStartup Scheduler
begin

text \<open>
  The program (\<^verbatim>\<open>cmd/clusterhealthmonitor/main.go\<close>): the five checkers behind one interface, their
  registration, the schedule built from a configuration, and the ways the process ends.
\<close>

section \<open>The checkers behind their interface\<close>

text \<open>A \<^verbatim>\<open>checker.Checker\<close> value is one of the five types; its methods dispatch on it.\<close>

datatype checker =
    DNSChecker dns_checker
  | PodStartupChecker pod_startup_checker
  | APIServerChecker api_server_checker
  | MetricsServerChecker metrics_server_checker
  | AzurePolicyChecker azure_policy_checker

fun checker_Name :: "checker \<Rightarrow> string" where
  "checker_Name (DNSChecker c) = dc_name c"
| "checker_Name (PodStartupChecker c) = psk_name c"
| "checker_Name (APIServerChecker c) = as_name c"
| "checker_Name (MetricsServerChecker c) = msc_name c"
| "checker_Name (AzurePolicyChecker c) = ap_name c"

fun checker_Type :: "checker \<Rightarrow> checker_type" where
  "checker_Type (DNSChecker _) = CheckTypeDNS"
| "checker_Type (PodStartupChecker _) = CheckTypePodStartup"
| "checker_Type (APIServerChecker _) = CheckTypeAPIServer"
| "checker_Type (MetricsServerChecker _) = CheckTypeMetricsServer"
| "checker_Type (AzurePolicyChecker _) = CheckTypeAzurePolicy"

definition returning :: "unit io \<Rightarrow> unit may_panic io" where
  "returning m = do { _ \<leftarrow> m; State_Monad.return (Returned ()) }"

fun checker_Run :: "env \<Rightarrow> checker \<Rightarrow> gctx \<Rightarrow> unit may_panic io" where
  "checker_Run env (DNSChecker c) ctx = DNSChecker_Run env c ctx"
| "checker_Run env (PodStartupChecker c) ctx = PodStartupChecker_Run env c ctx"
| "checker_Run env (APIServerChecker c) ctx = APIServerChecker_Run env c ctx"
| "checker_Run env (MetricsServerChecker c) ctx = returning (MetricsServerChecker_Run env c ctx)"
| "checker_Run env (AzurePolicyChecker c) ctx = returning (AzurePolicyChecker_Run env c ctx)"

section \<open>Registration\<close>

definition map_built :: "('a \<Rightarrow> checker) \<Rightarrow> 'a builder \<Rightarrow> checker builder" where
  "map_built f b config env = do {
     r \<leftarrow> b config env;
     State_Monad.return (case r of
       Panicked \<Rightarrow> Panicked
     | Returned (Inl err) \<Rightarrow> Returned (Inl err)
     | Returned (Inr chk) \<Rightarrow> Returned (Inr (f chk))) }"

text \<open>\<^verbatim>\<open>registerCheckers\<close>: each package's \<^verbatim>\<open>Register\<close>, in the order of the source.\<close>

definition registerCheckers :: "checker registry \<Rightarrow> checker registry" where
  "registerCheckers registry = fold (\<lambda>(t, b). RegisterChecker t b)
     [(CheckTypeDNS, map_built DNSChecker BuildDNSChecker),
      (CheckTypePodStartup, map_built PodStartupChecker BuildPodStartupChecker),
      (CheckTypeAPIServer, \<lambda>config env. State_Monad.return (Returned (Inr (APIServerChecker (buildAPIServerChecker config))))),
      (CheckTypeMetricsServer, map_built MetricsServerChecker BuildMetricsServerChecker),
      (CheckTypeAzurePolicy, map_built AzurePolicyChecker buildAzurePolicyChecker)] registry"

section \<open>buildCheckerSchedule\<close>

primrec build_schedules ::
    "checker registry \<Rightarrow> env \<Rightarrow> checker checker_schedule list \<Rightarrow> checker_config list
     \<Rightarrow> (gerror + checker checker_schedule list) may_panic io" where
  "build_schedules registry env schedules [] = State_Monad.return (Returned (Inr schedules))"
| "build_schedules registry env schedules (chkCfg # chkCfgs) = do {
     r \<leftarrow> Build registry chkCfg (Some env);
     case r of
       Panicked \<Rightarrow> State_Monad.return Panicked
     | Returned built \<Rightarrow>
         (case built of
            Inl err \<Rightarrow>
              if errors_is err ErrSkipChecker then build_schedules registry env schedules chkCfgs
              else State_Monad.return (Returned (Inl
                (Wrapf ''failed to build checker %q: %w'' [ArgStr (chk_name chkCfg)] err)))
          | Inr chk \<Rightarrow>
              build_schedules registry env
                (schedules @ [\<lparr>cs_interval = chk_interval chkCfg, cs_timeout = chk_timeout chkCfg, cs_checker = chk\<rparr>])
                chkCfgs) }"

definition buildCheckerSchedule ::
    "checker registry \<Rightarrow> config \<Rightarrow> env \<Rightarrow> (gerror + checker checker_schedule list) may_panic io" where
  "buildCheckerSchedule registry cfg env = build_schedules registry env [] (cfg_checkers cfg)"

section \<open>main\<close>

text \<open>
  The start of the program up to the running scheduler: the schedule, or the message it logs before
  exiting with code 1, or a panic.
\<close>

datatype startup = Started "checker checker_schedule list" | ExitedWith gerror string | StartupPanic

definition main_startup ::
    "validators \<Rightarrow> (counter \<Rightarrow> api_error option) \<Rightarrow> (string \<Rightarrow> api_error + string) \<Rightarrow> (string \<Rightarrow> api_error + config)
     \<Rightarrow> env \<Rightarrow> string \<Rightarrow> startup io" where
  "main_startup V register read_file unmarshal env configPath =
     (let registry = registerCheckers Map.empty in
      case NewServer register 9800 of
        Inl err \<Rightarrow> State_Monad.return (ExitedWith err ''Failed to create metrics server'')
      | Inr m \<Rightarrow>
          (case ParseFromFile V read_file unmarshal configPath of
             Inl err \<Rightarrow> State_Monad.return (ExitedWith err ''Failed to parse config'')
           | Inr cfg \<Rightarrow> do {
               k8sConfig \<leftarrow> setup_client env ''in-cluster config'';
               case k8sConfig of
                 Some err \<Rightarrow> State_Monad.return (ExitedWith (ApiErr err) ''Failed to get in-cluster config'')
               | None \<Rightarrow> do {
                   kubeClient \<leftarrow> setup_client env ''kubernetes client'';
                   case kubeClient of
                     Some err \<Rightarrow> State_Monad.return (ExitedWith (ApiErr err) ''Failed to create Kubernetes client'')
                   | None \<Rightarrow> do {
                       cs \<leftarrow> buildCheckerSchedule registry cfg env;
                       State_Monad.return (case cs of
                         Panicked \<Rightarrow> StartupPanic
                       | Returned (Inl err) \<Rightarrow> ExitedWith err ''Failed to build checker schedule''
                       | Returned (Inr schedules) \<Rightarrow> Started schedules) } } }))"

text \<open>
  The end of the process once the scheduler runs. Three goroutines race: the main one returns when
  the context has ended (code 0); the metrics server's and the scheduler's call \<^verbatim>\<open>logErrorAndExit\<close>
  (code 1) when \<^verbatim>\<open>Run\<close> or \<^verbatim>\<open>Start\<close> return an error.
\<close>

inductive exits :: "scheduler_state \<Rightarrow> server_wakeup option \<Rightarrow> nat \<Rightarrow> bool" where
  exit_main: "ss_ended s = Some e \<Longrightarrow> exits s wakeup 0"
| exit_server: "Server_Run w = Some err \<Longrightarrow> exits s (Some w) 1"
| exit_scheduler: "Start_result s = Some (Some err) \<Longrightarrow> exits s wakeup 1"

inductive_simps exits_code: "exits s wakeup code"

section \<open>What the builders make\<close>

text \<open>A checker whose \<open>Run\<close> does not panic: the pointers it dereferences are set.\<close>

fun checker_ready :: "checker \<Rightarrow> bool" where
  "checker_ready (DNSChecker c) \<longleftrightarrow> dc_config c \<noteq> None"
| "checker_ready (PodStartupChecker c) \<longleftrightarrow> psk_config c \<noteq> None"
| "checker_ready (APIServerChecker c) \<longleftrightarrow> as_config c \<noteq> None"
| "checker_ready _ \<longleftrightarrow> True"

lemma registered:
  "registerCheckers Map.empty t =
     (if t = CheckTypeDNS then Some (map_built DNSChecker BuildDNSChecker)
      else if t = CheckTypePodStartup then Some (map_built PodStartupChecker BuildPodStartupChecker)
      else if t = CheckTypeAPIServer
      then Some (\<lambda>config env. State_Monad.return (Returned (Inr (APIServerChecker (buildAPIServerChecker config)))))
      else if t = CheckTypeMetricsServer then Some (map_built MetricsServerChecker BuildMetricsServerChecker)
      else if t = CheckTypeAzurePolicy then Some (map_built AzurePolicyChecker buildAzurePolicyChecker)
      else None)"
proof -
  have "distinct (map fst
     [(CheckTypeDNS, map_built DNSChecker BuildDNSChecker),
      (CheckTypePodStartup, map_built PodStartupChecker BuildPodStartupChecker),
      (CheckTypeAPIServer, \<lambda>config env. State_Monad.return (Returned (Inr (APIServerChecker (buildAPIServerChecker config))))),
      (CheckTypeMetricsServer, map_built MetricsServerChecker BuildMetricsServerChecker),
      (CheckTypeAzurePolicy, map_built AzurePolicyChecker buildAzurePolicyChecker)])"
    by (simp add: checker_types)
  from builders.find_distinct [OF this, of t] show ?thesis
    unfolding registerCheckers_def by (simp add: checker_types)
qed

text \<open>What a builder may answer for a configuration.\<close>

definition built_for :: "checker_config \<Rightarrow> (gerror + checker) may_panic \<Rightarrow> bool" where
  "built_for cfg r \<longleftrightarrow> (case r of
       Panicked \<Rightarrow> chk_type cfg = CheckTypeDNS \<and> chk_dns cfg = None \<or> chk_type cfg = CheckTypePodStartup \<and> chk_pod_startup cfg = None
     | Returned (Inl _) \<Rightarrow> True
     | Returned (Inr chk) \<Rightarrow> checker_Name chk = chk_name cfg \<and> checker_Type chk = chk_type cfg
         \<and> (chk_type cfg = CheckTypeAPIServer \<and> chk_api_server cfg = None \<or> checker_ready chk))"

lemma emits_map_built:
  assumes "emits (b config env) (\<lambda>r es. Q (case r of
       Panicked \<Rightarrow> Panicked | Returned (Inl err) \<Rightarrow> Returned (Inl err) | Returned (Inr chk) \<Rightarrow> Returned (Inr (f chk))) es)"
  shows "emits (map_built f b config env) Q"
  unfolding map_built_def by (rule emits_bind, rule emits_conseq [OF assms]) simp

text \<open>
  The specification of the builders. What they make is determined by the entry; the clients they set up
  on the way, in order, and the error if one cannot be made, by the type.
\<close>

definition new_checker :: "checker_config \<Rightarrow> checker" where
  "new_checker cfg =
     (if chk_type cfg = CheckTypeDNS then DNSChecker \<lparr>dc_name = chk_name cfg, dc_config = chk_dns cfg\<rparr>
      else if chk_type cfg = CheckTypePodStartup
      then PodStartupChecker \<lparr>psk_name = chk_name cfg, psk_config = chk_pod_startup cfg, psk_timeout = chk_timeout cfg,
        psk_dialer_timeout = psc_tcp_timeout (the (chk_pod_startup cfg))\<rparr>
      else if chk_type cfg = CheckTypeAPIServer
      then APIServerChecker \<lparr>as_name = chk_name cfg, as_config = chk_api_server cfg, as_timeout = chk_timeout cfg\<rparr>
      else if chk_type cfg = CheckTypeMetricsServer
      then MetricsServerChecker \<lparr>msc_name = chk_name cfg, msc_timeout = chk_timeout cfg\<rparr>
      else AzurePolicyChecker \<lparr>ap_name = chk_name cfg, ap_timeout = chk_timeout cfg\<rparr>)"

definition client_steps :: "checker_type \<Rightarrow> (string \<times> string) list" where
  "client_steps t =
     (if t = CheckTypePodStartup then
        [(''in-cluster config'', ''failed to get in-cluster config: %w''), (''dynamic client'', ''failed to create dynamic client: %w'')]
      else if t = CheckTypeMetricsServer then
        [(''in-cluster config'', ''failed to get in-cluster config: %w''), (''metrics client'', ''failed to create metrics client: %w'')]
      else if t = CheckTypeAzurePolicy then [(''in-cluster config'', ''failed to get in-cluster config: %w'')]
      else [])"

definition clients_made :: "(string \<times> string) list \<Rightarrow> gerror option \<Rightarrow> history \<Rightarrow> bool" where
  "clients_made steps err es \<longleftrightarrow> (case err of
       None \<Rightarrow> es = map (\<lambda>(what, _). EvSetup what None) steps
     | Some x \<Rightarrow> \<exists>pre what fmt post e. steps = pre @ (what, fmt) # post \<and> x = Wrapf fmt [] (ApiErr e)
         \<and> es = map (\<lambda>(what, _). EvSetup what None) pre @ [EvSetup what (Some e)])"

lemma clients_made_None: "clients_made steps None es \<longleftrightarrow> es = map (\<lambda>(what, _). EvSetup what None) steps"
  by (simp add: clients_made_def)

lemma clients_made_first: "clients_made ((what, fmt) # steps) (Some (Wrapf fmt [] (ApiErr e))) [EvSetup what (Some e)]"
  by (auto simp: clients_made_def intro!: exI [of _ "[]"])

lemma clients_made_second:
  "clients_made (s # (what, fmt) # steps) (Some (Wrapf fmt [] (ApiErr e))) [EvSetup (fst s) None, EvSetup what (Some e)]"
  unfolding clients_made_def option.case by (rule exI [of _ "[s]"]) (simp add: split_beta)

abbreviation local_dns :: "dns_config \<Rightarrow> bool" where
  "local_dns d \<equiv> dns_target d = DNSCheckTargetLocalDNS"

inductive built_path :: "checker_config \<Rightarrow> (gerror + checker) may_panic \<Rightarrow> history \<Rightarrow> bool" for cfg where
  dns_unconfigured: "chk_type cfg = CheckTypeDNS \<Longrightarrow> chk_dns cfg = None \<Longrightarrow> built_path cfg Panicked []"
| pod_unconfigured: "chk_type cfg = CheckTypePodStartup \<Longrightarrow> chk_pod_startup cfg = None \<Longrightarrow> built_path cfg Panicked []"
| dns_built: "chk_type cfg = CheckTypeDNS \<Longrightarrow> chk_dns cfg = Some d \<Longrightarrow> \<not> local_dns d \<Longrightarrow>
    built_path cfg (Returned (Inr (new_checker cfg))) []"
| local_unknown: "chk_type cfg = CheckTypeDNS \<Longrightarrow> chk_dns cfg = Some d \<Longrightarrow> local_dns d \<Longrightarrow>
    built_path cfg (Returned (Inl (Wrapf ''failed to create LocalDNS checker: %w'' []
        (Wrapf ''failed to parse %s: %w'' [ArgStr resolvConfPath] (ApiErr e))))) [EvResolvConf resolvConfPath (Inl e)]"
| local_off: "chk_type cfg = CheckTypeDNS \<Longrightarrow> chk_dns cfg = Some d \<Longrightarrow> local_dns d \<Longrightarrow> localDNSIP \<notin> set servers \<Longrightarrow>
    built_path cfg (Returned (Inl (Sentinel ErrSkipChecker))) [EvResolvConf resolvConfPath (Inr servers)]"
| local_on: "chk_type cfg = CheckTypeDNS \<Longrightarrow> chk_dns cfg = Some d \<Longrightarrow> local_dns d \<Longrightarrow> localDNSIP \<in> set servers \<Longrightarrow>
    built_path cfg (Returned (Inr (new_checker cfg))) [EvResolvConf resolvConfPath (Inr servers)]"
| clients_ready: "chk_type cfg \<in> {CheckTypePodStartup, CheckTypeAPIServer, CheckTypeMetricsServer, CheckTypeAzurePolicy} \<Longrightarrow>
    (chk_type cfg = CheckTypePodStartup \<Longrightarrow> chk_pod_startup cfg \<noteq> None) \<Longrightarrow>
    clients_made (client_steps (chk_type cfg)) None es \<Longrightarrow> built_path cfg (Returned (Inr (new_checker cfg))) es"
| client_failed: "(chk_type cfg = CheckTypePodStartup \<Longrightarrow> chk_pod_startup cfg \<noteq> None) \<Longrightarrow>
    clients_made (client_steps (chk_type cfg)) (Some err) es \<Longrightarrow> built_path cfg (Returned (Inl err)) es"
| type_unknown: "chk_type cfg \<notin> {CheckTypeDNS, CheckTypePodStartup, CheckTypeAPIServer, CheckTypeMetricsServer, CheckTypeAzurePolicy} \<Longrightarrow>
    built_path cfg (Returned (Inl (Errorf ''unrecognized checker type: %q'' [ArgStr (chk_type cfg)]))) []"

lemma emits_built_dns:
  assumes t: "chk_type cfg = CheckTypeDNS"
  shows "emits (map_built DNSChecker BuildDNSChecker cfg env) (built_path cfg)"
proof (rule emits_map_built, cases "chk_dns cfg")
  case None
  then show "emits (BuildDNSChecker cfg env) (\<lambda>r. built_path cfg (case r of
       Panicked \<Rightarrow> Panicked | Returned (Inl err) \<Rightarrow> Returned (Inl err) | Returned (Inr chk) \<Rightarrow> Returned (Inr (DNSChecker chk))))"
    by (simp add: BuildDNSChecker_def dns_unconfigured t)
next
  case (Some d)
  have made: "new_checker cfg = DNSChecker \<lparr>dc_name = chk_name cfg, dc_config = Some d\<rparr>" by (simp add: new_checker_def t Some)
  show "emits (BuildDNSChecker cfg env) (\<lambda>r. built_path cfg (case r of
       Panicked \<Rightarrow> Panicked | Returned (Inl err) \<Rightarrow> Returned (Inl err) | Returned (Inr chk) \<Rightarrow> Returned (Inr (DNSChecker chk))))"
    unfolding BuildDNSChecker_def isLocalDNSEnabled_def
    using dns_built [OF t Some, unfolded made] local_unknown [OF t Some] local_off [OF t Some] local_on [OF t Some, unfolded made]
    by (simp add: Some, intro impI conjI emits_intros) (auto simp: Some list_ex_iff split: sum.splits)
qed

lemma clients_readyI:
  assumes "new_checker cfg = chk" "chk_type cfg \<in> {CheckTypePodStartup, CheckTypeAPIServer, CheckTypeMetricsServer, CheckTypeAzurePolicy}"
    and "chk_type cfg = CheckTypePodStartup \<Longrightarrow> chk_pod_startup cfg \<noteq> None"
    and "es = map (\<lambda>(what, _). EvSetup what None) (client_steps (chk_type cfg))"
  shows "built_path cfg (Returned (Inr chk)) es"
  using clients_ready [OF assms(2,3)] assms(1,4) by (simp add: clients_made_None)

lemma emits_built_clients:
  "chk_type cfg = CheckTypePodStartup \<Longrightarrow> emits (map_built PodStartupChecker BuildPodStartupChecker cfg env) (built_path cfg)"
  "chk_type cfg = CheckTypeMetricsServer \<Longrightarrow> emits (map_built MetricsServerChecker BuildMetricsServerChecker cfg env) (built_path cfg)"
  "chk_type cfg = CheckTypeAzurePolicy \<Longrightarrow> emits (map_built AzurePolicyChecker buildAzurePolicyChecker cfg env) (built_path cfg)"
proof (goal_cases)
  case 1
  then show ?case
    unfolding BuildPodStartupChecker_def
    by (intro emits_map_built emits_intros)
      (auto simp: checker_types pod_unconfigured client_steps_def new_checker_def clients_made_first
          clients_made_second [where s = "(a, b)" for a b, simplified]
        split: option.splits intro!: clients_readyI client_failed)
next
  case 2
  then show ?case
    unfolding BuildMetricsServerChecker_def
    by (intro emits_map_built emits_intros)
      (auto simp: checker_types client_steps_def new_checker_def clients_made_first
          clients_made_second [where s = "(a, b)" for a b, simplified]
        split: option.splits intro!: clients_readyI client_failed)
next
  case 3
  then show ?case
    unfolding buildAzurePolicyChecker_def
    by (intro emits_map_built emits_intros)
      (auto simp: checker_types client_steps_def new_checker_def clients_made_first
        split: option.splits intro!: clients_readyI client_failed)
qed

lemma emits_Build: "emits (Build (registerCheckers Map.empty) cfg (Some env)) (built_path cfg)"
proof -
  have "built_path cfg (Returned (Inr (APIServerChecker (buildAPIServerChecker cfg)))) []" if "chk_type cfg = CheckTypeAPIServer"
    using clients_ready [of cfg "[]"] that
    by (simp add: checker_types client_steps_def clients_made_None new_checker_def buildAPIServerChecker_def)
  then show ?thesis
    unfolding Build_def by (auto simp: registered emits_built_dns emits_built_clients type_unknown)
qed

lemma built_path_for: "built_path cfg r es \<Longrightarrow> built_for cfg r"
  by (induction rule: built_path.induct) (auto simp: built_for_def new_checker_def checker_types)

section \<open>What the schedule holds\<close>

text \<open>The schedule entry that belongs to a configuration entry.\<close>

definition scheduled :: "checker_config \<Rightarrow> checker checker_schedule \<Rightarrow> bool" where
  "scheduled cfg s \<longleftrightarrow> cs_interval s = chk_interval cfg \<and> cs_timeout s = chk_timeout cfg
     \<and> checker_Name (cs_checker s) = chk_name cfg \<and> checker_Type (cs_checker s) = chk_type cfg
     \<and> (chk_type cfg = CheckTypeAPIServer \<and> chk_api_server cfg = None \<or> checker_ready (cs_checker s))"

definition schedule_report ::
    "checker_config list \<Rightarrow> (gerror + checker checker_schedule list) may_panic \<Rightarrow> bool" where
  "schedule_report cfgs r \<longleftrightarrow> (case r of
       Panicked \<Rightarrow> \<exists>cfg \<in> set cfgs. chk_type cfg = CheckTypeDNS \<and> chk_dns cfg = None
         \<or> chk_type cfg = CheckTypePodStartup \<and> chk_pod_startup cfg = None
     | Returned (Inl err) \<Rightarrow> \<exists>cfg \<in> set cfgs. \<exists>e. err = Wrapf ''failed to build checker %q: %w'' [ArgStr (chk_name cfg)] e
         \<and> \<not> errors_is e ErrSkipChecker
     | Returned (Inr ss) \<Rightarrow> \<exists>kept. subseq kept cfgs \<and> list_all2 scheduled kept ss)"

text \<open>
  The specification of the schedule. The entries are built one after the other: a panic or an error other
  than \<open>ErrSkipChecker\<close> ends it at its entry, an entry that answers \<open>ErrSkipChecker\<close>, and no
  other, is left out, and every checker that was built has its place, in order.
\<close>

definition with_entries ::
    "checker checker_schedule list \<Rightarrow> (gerror + checker checker_schedule list) may_panic
     \<Rightarrow> (gerror + checker checker_schedule list) may_panic" where
  "with_entries new r = (case r of Returned (Inr ss) \<Rightarrow> Returned (Inr (new @ ss)) | _ \<Rightarrow> r)"

lemma with_entries_simps [simp]:
  "with_entries new Panicked = Panicked" "with_entries new (Returned (Inl err)) = Returned (Inl err)"
  "with_entries new (Returned (Inr ss)) = Returned (Inr (new @ ss))" "with_entries [] r = r"
  "with_entries new (with_entries new' r) = with_entries (new @ new') r"
  by (auto simp: with_entries_def split: may_panic.splits sum.splits)

inductive schedule_path ::
    "checker_config list \<Rightarrow> (gerror + checker checker_schedule list) may_panic \<Rightarrow> history \<Rightarrow> bool" where
  all_built: "schedule_path [] (Returned (Inr [])) []"
| entry_panics: "built_path cfg Panicked es \<Longrightarrow> schedule_path (cfg # cfgs) Panicked es"
| entry_fails: "built_path cfg (Returned (Inl err)) es \<Longrightarrow> \<not> errors_is err ErrSkipChecker \<Longrightarrow>
    schedule_path (cfg # cfgs) (Returned (Inl (Wrapf ''failed to build checker %q: %w'' [ArgStr (chk_name cfg)] err))) es"
| entry_skipped: "built_path cfg (Returned (Inl err)) es \<Longrightarrow> errors_is err ErrSkipChecker \<Longrightarrow>
    schedule_path cfgs r es' \<Longrightarrow> schedule_path (cfg # cfgs) r (es @ es')"
| entry_built: "built_path cfg (Returned (Inr chk)) es \<Longrightarrow> schedule_path cfgs r es' \<Longrightarrow>
    schedule_path (cfg # cfgs)
      (with_entries [\<lparr>cs_interval = chk_interval cfg, cs_timeout = chk_timeout cfg, cs_checker = chk\<rparr>] r) (es @ es')"

lemma schedule_path_report: "schedule_path cfgs r es \<Longrightarrow> schedule_report cfgs r"
proof (induction rule: schedule_path.induct)
  case (entry_built cfg chk es cfgs r es')
  then have "scheduled cfg \<lparr>cs_interval = chk_interval cfg, cs_timeout = chk_timeout cfg, cs_checker = chk\<rparr>"
    using built_path_for [OF entry_built(1)] by (simp add: built_for_def scheduled_def)
  with entry_built(3) show ?case
    by (auto simp: schedule_report_def with_entries_def split: may_panic.splits sum.splits)
next
  case (entry_panics cfg es cfgs)
  then show ?case using built_path_for [OF entry_panics(1)] by (auto simp: schedule_report_def built_for_def)
qed (auto simp: schedule_report_def split: may_panic.splits sum.splits)

lemma emits_build_schedules:
  "emits (build_schedules (registerCheckers Map.empty) env acc cfgs)
     (\<lambda>r es. \<exists>r'. schedule_path cfgs r' es \<and> r = with_entries acc r')"
proof (induction cfgs arbitrary: acc)
  case Nil
  show ?case using all_built by (auto intro!: exI [of _ "Returned (Inr [])"])
next
  case (Cons cfg cfgs)
  show ?case
    unfolding build_schedules.simps
  proof (rule emits_bind, rule emits_conseq [OF emits_Build], goal_cases)
    case (1 r es)
    consider "r = Panicked" | err where "r = Returned (Inl err)" "errors_is err ErrSkipChecker"
      | err where "r = Returned (Inl err)" "\<not> errors_is err ErrSkipChecker" | chk where "r = Returned (Inr chk)"
      by (metis may_panic.exhaust sum.exhaust)
    then show ?case
    proof cases
      case 1
      then show ?thesis using entry_panics [of cfg es cfgs] \<open>built_path cfg r es\<close> by (auto intro: exI [of _ Panicked])
    next
      case 2
      then show ?thesis using entry_skipped [of cfg _ es cfgs] \<open>built_path cfg r es\<close>
        by simp (rule emits_conseq [OF Cons.IH [of acc]], blast)
    next
      case 3
      then show ?thesis using entry_fails [of cfg _ es cfgs] \<open>built_path cfg r es\<close>
        by (auto intro!: exI [of _ "Returned (Inl _)"])
    next
      case (4 chk)
      let ?s = "\<lparr>cs_interval = chk_interval cfg, cs_timeout = chk_timeout cfg, cs_checker = chk\<rparr>"
      show ?thesis using entry_built [of cfg chk es cfgs] \<open>built_path cfg r es\<close> 4
        by simp (rule emits_conseq [OF Cons.IH [of "acc @ [?s]"]], elim exE conjE,
            rule exI, rule conjI, assumption?, simp_all)
    qed
  qed
qed

lemma emits_buildCheckerSchedule:
  "emits (buildCheckerSchedule (registerCheckers Map.empty) cfg env) (schedule_path (cfg_checkers cfg))"
  unfolding buildCheckerSchedule_def by (rule emits_conseq [OF emits_build_schedules]) auto

text \<open>With a valid configuration nothing is missing.\<close>

lemma subseq_distinct: "subseq xs ys \<Longrightarrow> distinct ys \<Longrightarrow> distinct xs"
  by (induction rule: list_emb.induct) (auto dest: list_emb_set)

definition sound_schedule :: "checker checker_schedule list \<Rightarrow> bool" where
  "sound_schedule ss \<longleftrightarrow> distinct (map (checker_Name \<circ> cs_checker) ss)
     \<and> list_all (\<lambda>s. checker_ready (cs_checker s) \<and> 0 < sint (cs_interval s) \<and> 0 < sint (cs_timeout s)) ss"

lemma scheduled_valid:
  assumes "scheduled cfg s" "valid_checker_config V cfg"
  shows "checker_ready (cs_checker s)" "0 < sint (cs_interval s)" "0 < sint (cs_timeout s)"
  using assms by (auto simp: scheduled_def valid_checker_config_def valid_api_server_config_def checker_types split: option.splits)

lemma schedule_report_valid:
  assumes "schedule_report (cfg_checkers cfg) r" "valid_config V cfg"
  shows "r \<noteq> Panicked" "r = Returned (Inr ss) \<Longrightarrow> sound_schedule ss"
proof -
  have valid: "c \<in> set (cfg_checkers cfg) \<Longrightarrow> valid_checker_config V c" for c
    using assms(2) by (simp add: valid_config_def list_all_iff)
  show "r \<noteq> Panicked"
  proof
    assume "r = Panicked"
    with assms(1) obtain c where "c \<in> set (cfg_checkers cfg)"
      "chk_type c = CheckTypeDNS \<and> chk_dns c = None \<or> chk_type c = CheckTypePodStartup \<and> chk_pod_startup c = None"
      by (auto simp: schedule_report_def)
    then show False
      using valid [of c] by (auto simp: valid_checker_config_def valid_dns_config_def valid_pod_startup_config_def checker_types)
  qed
  assume "r = Returned (Inr ss)"
  with assms(1) obtain kept where kept: "subseq kept (cfg_checkers cfg)" "list_all2 scheduled kept ss"
    by (auto simp: schedule_report_def)
  have names: "map (checker_Name \<circ> cs_checker) ss = map chk_name kept"
    using kept(2) by (induction rule: list_all2_induct) (simp_all add: scheduled_def)
  have "subseq (map chk_name kept) (map chk_name (cfg_checkers cfg))" by (rule subseq_map [OF kept(1)])
  then have "distinct (map chk_name kept)"
    using assms(2) by (auto simp: valid_config_def dest: subseq_distinct)
  moreover have "list_all (\<lambda>s. checker_ready (cs_checker s) \<and> 0 < sint (cs_interval s) \<and> 0 < sint (cs_timeout s)) ss"
  proof -
    have "set kept \<subseteq> set (cfg_checkers cfg)" using kept(1) by (auto dest: list_emb_set)
    with kept(2) show ?thesis
      using valid scheduled_valid
      by (fastforce simp: list_all2_conv_all_nth list_all_length subset_iff in_set_conv_nth)
  qed
  ultimately show "sound_schedule ss" by (simp add: sound_schedule_def names)
qed

lemma ParseFromFile_valid: "ParseFromFile V read_file unmarshal path = Inr cfg \<Longrightarrow> valid_config V cfg"
  unfolding ParseFromFile_def ParseFromYAML_def
  by (auto simp: Config_validate_errors split: sum.splits option.splits)

end
