(* ===== verification/Spec2Isabelle.thy ===== *)
theory Spec2Isabelle
  imports MonitorMain
begin

text \<open>
  A model of the AKS cluster health monitor (Go) and its correctness.

  The program. \<^verbatim>\<open>cmd/clusterhealthmonitor/main.go\<close> registers a builder per checker type, starts
  the metrics server, reads and validates a configuration, builds one checker per entry and hands
  the schedule to the scheduler, which runs each checker at its interval with its timeout. A run
  makes calls to the Kubernetes API, to DNS servers or to a pod, derives a result (healthy, unhealthy
  with a code, skipped) or an error, and increments a Prometheus counter. The five checkers are the API
  server, DNS, metrics server, Azure Policy and pod startup checkers; the last one also creates storage
  resources and Karpenter node pools. The state of the program is the cluster it changes and the
  counters; it keeps no other state between runs.

  The modelling of effects. An operation that calls the outside world has a type \<open>'a io\<close>, the state
  monad over a history of events. Each call asks the environment \<open>env\<close>, a record of functions from
  the history, for its answer and appends an event with the request, the context it was made with and
  the answer. So a trace shows which calls were made, in which order, with which deadline. \<open>emits m Q\<close>
  says that from every history \<open>m\<close> returns a result and appends events for which \<open>Q\<close> holds;
  since \<open>env\<close> is arbitrary, such a theorem holds for every answer of the API server, the DNS servers and
  the clock, and whatever else changes the cluster between two calls. Every loop of the program itself goes
  over a finite list, apart from the loop of the scheduler, which is a step relation. The polling of a pod is
  a call of \<^verbatim>\<open>wait.PollUntilContextCancel\<close> of the apimachinery library with the program's condition
  (\<open>poll_attempt\<close>). That library call is \<open>poll_until_context_cancel\<close> in Client: by its documentation it
  tries the condition at once and then at every interval, until the condition holds or the context has
  ended; how many attempts the context allows is an answer of the environment, any number, and no bound is
  chosen here. Nothing is claimed about when the polling ends: a trace describes a run that returned, and with
  a context that never ends and a pod that never runs there is none. What is proved of the polling itself is
  what each attempt answers. Go's \<^verbatim>\<open>(T, error)\<close> results are sums,
  \<^verbatim>\<open>error\<close> results options; errors keep their format string, arguments and the wrapped error, and
  \<^verbatim>\<open>errors.Is\<close> walks through them. A nil configuration pointer makes an operation \<open>Panicked\<close>.
  Durations and ints are 64-bit words, compared as signed, whose sums wrap; an instant is a number of
  nanoseconds, and the timestamps in names are the int64 values of \<^verbatim>\<open>UnixNano\<close> and \<^verbatim>\<open>Unix\<close>. The types of
  a node pool are registered in the library's global scheme by an event of their own. A deferred call is written
  after the body it belongs to, on each of its paths.

  The theories, with the code they model.
  \<^item> Prelude: the trace logic (\<open>emits\<close>, \<open>performs\<close>, the two loop shapes and their rules), strings and
    decimal numbers.
  \<^item> GoTime: durations, instants, \<^verbatim>\<open>Time.Sub\<close>, \<^verbatim>\<open>Duration.Round\<close>, contexts. GoErrors: errors.
  \<^item> Kubernetes: the objects (the fields the program sets or reads), the events, the environment.
    Client: the calls, one operation each, and the projections of a trace.
  \<^item> Metrics: \<^verbatim>\<open>pkg/metrics\<close>. Config: \<^verbatim>\<open>pkg/config\<close>, with the predicate \<open>valid_config\<close> as
    the specification of validation. Checker: \<^verbatim>\<open>pkg/checker\<close>, with the locales \<open>checker_registry\<close> (a
    map of builders), \<open>checker_iface\<close> (what a run may do to the counters) and \<open>recording_checker\<close> (one
    result per run).
  \<^item> GarbageCollection: the loop that the four expiry collectors share, and the locale
    \<open>expiry_collector\<close>, their contract: one listing by the checker's labels, then the deletion of exactly the
    expired objects in it, with the run's context and in their namespace, and of nothing else.
  \<^item> Quota: live objects of a history and the locale \<open>limited_creator\<close>: a run that creates at most one
    object, after a listing below the limit, keeps the number of live objects within the limit.
  \<^item> APIServer, DNSCheck, MetricsServer, AzurePolicy: the packages of \<^verbatim>\<open>pkg/checker\<close> of these names.
  \<^item> ParseDuration: \<^verbatim>\<open>time.ParseDuration\<close> of Go's library, with its float64 fractions, and the regular
    expression of \<^verbatim>\<open>podstartup.go\<close> that finds the pull duration.
  \<^item> Storage, SyntheticPod, NodePools, PodStartup: \<^verbatim>\<open>pkg/checker/podstartup\<close>, a theory for each of
    \<^verbatim>\<open>storage.go\<close>, \<^verbatim>\<open>pods.go\<close>, \<^verbatim>\<open>nodepools.go\<close> and \<^verbatim>\<open>podstartup.go\<close>.
  \<^item> Scheduler: \<^verbatim>\<open>pkg/scheduler\<close>. MonitorMain: \<^verbatim>\<open>main.go\<close> and the five checkers behind their interface.
  \<^item> Samples: one concrete cluster, on which the model is evaluated and on which the hypotheses of the
    object limits hold.

  The lemmas. For each checker there is an abstract protocol, an inductive predicate on results and
  traces (\<open>api_path\<close>, \<open>core_dns_path\<close>, \<open>per_pod_path\<close>, \<open>azure_policy_path\<close>,
  \<open>synthetic_pod_path\<close>, \<open>csi_limit_path\<close>, \<open>startup_collection\<close>, \<open>pod_startup_path\<close>, and for the start of
  the program \<open>built_path\<close> and \<open>schedule_path\<close>), and a refinement theorem that every run follows it; the
  theorems on clean-up, on health and on counters follow from the protocol. The interfaces are locales,
  interpreted on the model of each provider: \<open>api_gc\<close>, \<open>pod_gc\<close>, \<open>pvc_gc\<close> and \<open>sc_gc\<close> for the
  collectors, \<open>api_creator\<close> and \<open>pod_creator\<close> for the limits, \<open>api_checker\<close>, \<open>dns_checker\<close>,
  \<open>metrics_server_checker\<close>, \<open>azure_policy_checker\<close> and \<open>pod_startup_checker\<close> for the checkers,
  \<open>builders\<close> for the registry. The scheduler's theorems are invariants of its reachable states by
  rule induction. This theory holds the properties of the program as a whole.

  What rests on hypotheses. The object limits assume that a successful listing by a checker's labels
  shows at least the objects that the history has created and not deleted (\<open>faithful_listing\<close>); nothing
  else is assumed of the environment, apart from the documented behaviour of the library's polling above.
  The startup limit in seconds assumes times within the range where 64-bit differences do not saturate.

  What is not modelled. Logging and flag parsing; the cancel functions of contexts (a context is its
  deadline; its end is a step of the scheduler); the HTTP server behind \<^verbatim>\<open>Server.Run\<close>, the resolver, the
  YAML decoder, the name validators of apimachinery and the clients, which are parameters; the mutex of
  the warning handler; \<^verbatim>\<open>strings.ToLower\<close> beyond ASCII; the end-to-end tests, manifests and build files.
  A run is a sequential history: the effects of concurrent runs on the cluster are answers of the
  environment, the interleaving of the runs is in Scheduler.
\<close>

section \<open>Properties\<close>

text \<open>
  C32: A run of any checker increments only counters that carry its own type and name, with a value for
  every label, and panics exactly when the configuration pointer it dereferences is missing.
\<close>

theorem run_touches_own_counters:
  "emits (checker_Run env c ctx)
     (\<lambda>r es. list_all (owned (checker_Type c) (checker_Name c)) (increments es) \<and> (r = Panicked \<longleftrightarrow> \<not> checker_ready c))"
proof -
  have run: "emits (returning m) (\<lambda>r es. list_all (owned ty nm) (increments es) \<and> r = Returned ())"
    if "emits m (\<lambda>_ es. list_all (owned ty nm) (increments es))" for m ty nm
    unfolding returning_def by (rule emits_bind, rule emits_conseq [OF that]) simp
  show ?thesis
    by (cases c)
      (auto simp: DNSChecker_Run_def PodStartupChecker_Run_def APIServerChecker_Run_def returning_def [symmetric]
        intro!: emits_conseq [OF run [OF dns_checker.run_owned]] emits_conseq [OF run [OF pod_startup_checker.run_owned]]
          emits_conseq [OF run [OF api_checker.run_owned]] emits_conseq [OF run [OF metrics_server_checker.run_owned]]
          emits_conseq [OF run [OF azure_policy_checker.run_owned]] split: option.splits)
qed

text \<open>
  C33: The schedule is built by asking the registered builder for each entry of the configuration in order,
  with exactly the answers and calls that the type and the settings of the entry prescribe. An entry is
  left out if and only if its builder answers \<open>ErrSkipChecker\<close> (LocalDNS that the node does not use); the
  first other error aborts with the name of its entry, only a missing DNS or pod startup configuration
  panics, and otherwise every checker built has its place, in order, with its entry's interval and timeout.
\<close>

theorem schedule_built:
  "emits (buildCheckerSchedule (registerCheckers Map.empty) cfg env)
     (\<lambda>r es. schedule_path (cfg_checkers cfg) r es \<and> schedule_report (cfg_checkers cfg) r)"
  by (rule emits_conseq [OF emits_buildCheckerSchedule]) (simp add: schedule_path_report)

text \<open>
  C5: The start of the program never panics, whatever the configuration file holds: when the scheduler
  starts, the names of its checkers are distinct, every interval and timeout is positive, and no run of a
  checker can panic.
\<close>

theorem startup_sound:
  "emits (main_startup V register read_file unmarshal env configPath)
     (\<lambda>r es. case r of StartupPanic \<Rightarrow> False | ExitedWith _ _ \<Rightarrow> True | Started ss \<Rightarrow> sound_schedule ss)"
proof -
  have "emits (do {
      cs \<leftarrow> buildCheckerSchedule (registerCheckers Map.empty) cfg env;
      State_Monad.return (case cs of
        Panicked \<Rightarrow> StartupPanic
      | Returned (Inl err) \<Rightarrow> ExitedWith err ''Failed to build checker schedule''
      | Returned (Inr schedules) \<Rightarrow> Started schedules) })
    (\<lambda>r es. case r of StartupPanic \<Rightarrow> False | ExitedWith _ _ \<Rightarrow> True | Started ss \<Rightarrow> sound_schedule ss)"
    if "valid_config V cfg" for cfg
  proof (rule emits_bind, rule emits_conseq [OF emits_buildCheckerSchedule])
    fix r es
    assume "schedule_path (cfg_checkers cfg) r es"
    from schedule_report_valid [OF schedule_path_report [OF this] that]
    show "emits (State_Monad.return (case r of
        Panicked \<Rightarrow> StartupPanic
      | Returned (Inl err) \<Rightarrow> ExitedWith err ''Failed to build checker schedule''
      | Returned (Inr schedules) \<Rightarrow> Started schedules))
      (\<lambda>r es. case r of StartupPanic \<Rightarrow> False | ExitedWith _ _ \<Rightarrow> True | Started ss \<Rightarrow> sound_schedule ss)"
      by (auto split: may_panic.splits sum.splits)
  qed
  note build = this [OF ParseFromFile_valid]
  show ?thesis
    unfolding main_startup_def Let_def
    by (auto split: sum.split intro!: emits_intros build)
qed

text \<open>
  C31: After the context has ended the process may still exit with code 1 instead of 0: the scheduler
  reports the end of the context as an error, and the goroutine that receives it races with the main one.
\<close>

theorem shutdown_may_exit_1:
  assumes "reachable css ctx t0 s" and "positive_intervals css" and "css \<noteq> []" and "ss_ended s = Some e"
  shows "\<exists>s'. (scheduler_step css ctx)\<^sup>*\<^sup>* s s' \<and> exits s' wakeup 0 \<and> exits s' wakeup 1"
proof -
  obtain s' where s': "(scheduler_step css ctx)\<^sup>*\<^sup>* s s'" "ss_ended s' = Some e" "length (ss_workers s') = length (ss_workers s)"
    "list_all (\<lambda>w. stop_error w \<noteq> None) (take (length (ss_workers s)) (ss_workers s'))"
    using workers_can_stop [OF assms(4) order_refl] by blast
  then obtain r where r: "Start_result s' = Some r" by (auto simp: Start_result_def)
  have reach: "reachable css ctx t0 s'"
    using s'(1) assms(1) by (induction rule: rtranclp_induct) (auto intro: reach_step)
  have "scheduler_inv css ctx s'" by (rule reachable_inv [OF reach assms(2)])
  then have "length (ss_workers s') = length css" by (auto simp: scheduler_inv_def dest: list_all2_lengthD)
  then obtain w ws where ws: "ss_workers s' = w # ws" using assms(3) by (cases "ss_workers s'") auto
  have "stop_error w \<noteq> None" using s'(3,4) by (simp add: ws)
  then obtain err where "stop_error w = Some err" by blast
  then have "Start_result s' = Some (Some err)" using r by (auto simp: Start_result_def ws List.map_filter_simps split: if_splits)
  then have "exits s' wakeup 1" by (rule exit_scheduler)
  moreover have "exits s' wakeup 0" by (rule exit_main [OF s'(2)])
  ultimately show ?thesis using s'(1) by blast
qed

theorem shutdown_may_exit_1_witness:
  "\<exists>s'. (scheduler_step sample_schedules Never)\<^sup>*\<^sup>*
      (sample_state 0 (Some Canceled) (sample_worker (Stopped Canceled) False 1000000000 0 [])) s'
    \<and> exits s' None 0 \<and> exits s' None 1"
  using shutdown_may_exit_1 [OF sample_stopped, of Canceled None] by (simp add: sample_schedules_def sample_state_def)

end
